(* ===== verification/Prelude.thy ===== *)
theory Prelude
  imports Main
begin

text \<open>
  Shared vocabulary of the development. The backend identifies every document by its
  MongoDB ObjectId and compares ids through \<open>toString()\<close>, so an id is modelled by its
  string; a Socket.IO connection is identified by its socket id, and a room by its name.
  The list helpers below are the two array idioms the Mongoose models repeat
  (\<open>if (!xs.includes(x)) xs.push(x)\<close> and \<open>xs = xs.filter(y => y.toString() !== x)\<close>);
  the association-list operations are a JavaScript \<open>Map\<close>, which keeps its keys in
  insertion order and overwrites a key in place.
\<close>

type_synonym oid = string
type_synonym sock_id = string
type_synonym room = string
type_synonym millis = nat

named_theorems model_defs \<open>definitions of the model that component proofs unfold\<close>
named_theorems inv_intros \<open>facts that an operation preserves a component invariant\<close>

section \<open>Array idioms of the models\<close>

definition push_unique :: "'a \<Rightarrow> 'a list \<Rightarrow> 'a list" where
  "push_unique x xs = (if x \<in> set xs then xs else xs @ [x])"

definition pull_all :: "'a \<Rightarrow> 'a list \<Rightarrow> 'a list" where
  "pull_all x xs = filter (\<lambda>y. y \<noteq> x) xs"

section \<open>A JavaScript Map as an association list\<close>

text \<open>\<open>m.set(k, v)\<close> overwrites an existing key where it stands and appends a new one;
  \<open>m.delete(k)\<close> removes it; iteration follows the list.\<close>

fun jsmap_set :: "'k \<Rightarrow> 'v \<Rightarrow> ('k \<times> 'v) list \<Rightarrow> ('k \<times> 'v) list" where
  "jsmap_set k v [] = [(k, v)]"
| "jsmap_set k v ((k', v') # m) =
     (if k' = k then (k, v) # m else (k', v') # jsmap_set k v m)"

definition jsmap_delete :: "'k \<Rightarrow> ('k \<times> 'v) list \<Rightarrow> ('k \<times> 'v) list" where
  "jsmap_delete k m = filter (\<lambda>e. fst e \<noteq> k) m"

section \<open>Lemmas on the idioms\<close>

lemma set_push_unique [simp]: "set (push_unique x xs) = insert x (set xs)"
  by (auto simp: push_unique_def)

lemma distinct_push_unique [simp]: "distinct (push_unique x xs) = distinct xs"
  by (auto simp: push_unique_def)

lemma push_unique_member [simp]: "x \<in> set xs \<Longrightarrow> push_unique x xs = xs"
  by (simp add: push_unique_def)

lemma length_push_unique:
  "length (push_unique x xs) = (if x \<in> set xs then length xs else Suc (length xs))"
  by (simp add: push_unique_def)

lemma set_pull_all [simp]: "set (pull_all x xs) = set xs - {x}"
  by (auto simp: pull_all_def)

lemma distinct_pull_all [simp]: "distinct xs \<Longrightarrow> distinct (pull_all x xs)"
  by (simp add: pull_all_def)

lemma pull_all_absent [simp]: "x \<notin> set xs \<Longrightarrow> pull_all x xs = xs"
  by (auto simp: pull_all_def filter_id_conv)

lemma length_pull_all_le: "length (pull_all x xs) \<le> length xs"
  by (simp add: pull_all_def)

lemma pull_push_unique: "x \<notin> set xs \<Longrightarrow> pull_all x (push_unique x xs) = xs"
  by (auto simp: push_unique_def pull_all_def filter_id_conv)

lemma length_push_unique_distinct:
  "distinct xs \<Longrightarrow> length (push_unique x xs) = card (insert x (set xs))"
  by (simp add: length_push_unique distinct_card card_insert_if)

lemma distinct_map_sort_key [simp]: "distinct (map g (sort_key f xs)) = distinct (map g xs)"
  by (simp add: distinct_map)

lemma distinct_filter_eq_length:
  "distinct xs \<Longrightarrow> x \<in> set xs \<Longrightarrow> length (filter (\<lambda>y. y = x) xs) = 1"
  by (induction xs) (auto simp: filter_empty_conv)

lemma jsmap_set_new: "k \<notin> fst ` set m \<Longrightarrow> jsmap_set k v m = m @ [(k, v)]"
  by (induction m) auto

lemma map_fst_jsmap_set:
  "map fst (jsmap_set k v m) = (if k \<in> fst ` set m then map fst m else map fst m @ [k])"
  by (induction m) (auto simp: rev_image_eqI)

lemma keys_jsmap_set [simp]: "fst ` set (jsmap_set k v m) = insert k (fst ` set m)"
proof -
  have "map fst (jsmap_set k v m) = (if k \<in> fst ` set m then map fst m else map fst m @ [k])"
    by (rule map_fst_jsmap_set)
  then have "set (map fst (jsmap_set k v m)) = insert k (set (map fst m))"
    by (auto split: if_splits)
  then show ?thesis by simp
qed

lemma distinct_keys_jsmap_set [simp]:
  "distinct (map fst (jsmap_set k v m)) = distinct (map fst m)"
  by (simp add: map_fst_jsmap_set)

lemma distinct_keys_jsmap_delete [simp]:
  "distinct (map fst m) \<Longrightarrow> distinct (map fst (jsmap_delete k m))"
  by (induction m) (auto simp: jsmap_delete_def)

lemma keys_jsmap_delete [simp]: "fst ` set (jsmap_delete k m) = fst ` set m - {k}"
  by (auto simp: jsmap_delete_def)

lemma filter_key_jsmap_set:
  "distinct (map fst m) \<Longrightarrow> filter (\<lambda>e. fst e = k) (jsmap_set k v m) = [(k, v)]"
proof (induction m)
  case Nil
  then show ?case by simp
next
  case (Cons e m)
  then show ?case
    by (cases e) (auto simp: filter_empty_conv image_iff)
qed

lemma set_jsmap_set_sub: "set (jsmap_set k v m) \<subseteq> insert (k, v) (set m)"
  by (induction m) (auto split: if_splits)

lemma map_of_jsmap_set [simp]: "map_of (jsmap_set k v m) = (map_of m)(k \<mapsto> v)"
  by (induction m) (auto simp: fun_eq_iff)

lemma map_of_jsmap_delete [simp]: "map_of (jsmap_delete k m) = (map_of m)(k := None)"
  by (induction m) (auto simp: jsmap_delete_def fun_eq_iff)

lemma set_jsmap_delete [simp]: "set (jsmap_delete k m) = {e \<in> set m. fst e \<noteq> k}"
  by (auto simp: jsmap_delete_def)

lemma insort_key_order_cong:
  "(\<And>x y. f x \<le> f y \<longleftrightarrow> g x \<le> g y) \<Longrightarrow> insort_key f x ys = insort_key g x ys"
  by (induction ys) simp_all

lemma sort_key_order_cong:
  assumes "\<And>x y. f x \<le> f y \<longleftrightarrow> g x \<le> g y"
  shows "sort_key f xs = sort_key g xs"
  by (induction xs) (simp_all add: insort_key_order_cong [of f g, OF assms])


lemma insort_key_map: "insort_key g (f x) (map f xs) = map f (insort_key (g \<circ> f) x xs)"
  by (induction xs) auto

lemma sort_key_map: "sort_key g (map f xs) = map f (sort_key (g \<circ> f) xs)"
  by (induction xs) (simp_all add: insort_key_map comp_def)

lemma take_enumerate: "take n (enumerate k xs) = enumerate k (take n xs)"
  by (induction xs arbitrary: n k) (auto simp: take_Cons split: nat.split)

lemma enumerate_map: "enumerate k (map f xs) = map (\<lambda>(i, x). (i, f x)) (enumerate k xs)"
  by (simp add: enumerate_eq_zip zip_map2)

end
