(* ===== verification/JsCore.thy ===== *)
theory JsCore
  imports Prelude
begin

text \<open>
  The JavaScript semantics the handlers depend on: the values a Socket.IO payload field
  can hold, their truthiness (the guards \<open>if (!x)\<close>), \<open>String.prototype.trim\<close>,
  \<open>String.prototype.split\<close>, \<open>parseInt\<close> and the printing of a number into a template
  literal. Numbers are integers here (no fractions and no NaN as a value; a failed
  \<open>parseInt\<close> is \<open>None\<close>). Strings are byte strings, so \<open>trim\<close> removes the ASCII white
  space and line terminators (TAB, LF, VT, FF, CR, SPACE).
\<close>

datatype jsval =
    JUndef
  | JNull
  | JBool bool
  | JNum int
  | JStr string
  | JArr "jsval list"
  | JObj

datatype js_exn =
    TypeError string
  | CastError string
  | ValidationError string
  | MongoError string
  | JsError string

fun js_truthy :: "jsval \<Rightarrow> bool" where
  "js_truthy JUndef = False"
| "js_truthy JNull = False"
| "js_truthy (JBool b) = b"
| "js_truthy (JNum n) = (n \<noteq> 0)"
| "js_truthy (JStr s) = (s \<noteq> [])"
| "js_truthy (JArr _) = True"
| "js_truthy JObj = True"

text \<open>\<open>x.length\<close>: strings and arrays have one; on any other value it is \<open>undefined\<close>.\<close>

fun js_length :: "jsval \<Rightarrow> nat option" where
  "js_length (JStr s) = Some (length s)"
| "js_length (JArr xs) = Some (length xs)"
| "js_length _ = None"

definition js_space :: "char \<Rightarrow> bool" where
  "js_space c = (c \<in> set [CHR 0x09, CHR 0x0A, CHR 0x0B, CHR 0x0C, CHR 0x0D, CHR 0x20])"

definition js_trim :: "string \<Rightarrow> string" where
  "js_trim s = rev (dropWhile js_space (rev (dropWhile js_space s)))"

text \<open>\<open>x.trim()\<close> on a value: a string is trimmed, anything else has no \<open>trim\<close> method.\<close>

fun js_trim_val :: "jsval \<Rightarrow> js_exn + string" where
  "js_trim_val (JStr s) = Inr (js_trim s)"
| "js_trim_val _ = Inl (TypeError ''x.trim is not a function'')"

subsection \<open>split, parseInt and number printing\<close>

fun js_split :: "char \<Rightarrow> string \<Rightarrow> string list" where
  "js_split d [] = [[]]"
| "js_split d (c # cs) =
     (if c = d then [] # js_split d cs
      else (case js_split d cs of p # ps \<Rightarrow> (c # p) # ps | [] \<Rightarrow> [[c]]))"

definition is_digit :: "char \<Rightarrow> bool" where
  "is_digit c = (48 \<le> (of_char c :: nat) \<and> (of_char c :: nat) \<le> 57)"

definition digit_val :: "char \<Rightarrow> nat" where
  "digit_val c = of_char c - 48"

fun digits_value :: "nat \<Rightarrow> string \<Rightarrow> nat" where
  "digits_value acc [] = acc"
| "digits_value acc (c # cs) = digits_value (10 * acc + digit_val c) cs"

text \<open>\<open>parseInt(s)\<close> (radix 10): leading white space, an optional sign, then the longest
  run of digits; no digit gives NaN, here \<open>None\<close>. \<open>parseInt(undefined)\<close> reads the
  string \<open>"undefined"\<close> and so is NaN as well.\<close>

definition parse_int :: "string \<Rightarrow> int option" where
  "parse_int s =
     (let t = dropWhile js_space s;
          (neg, u) = (case t of
                        c # r \<Rightarrow> if c = CHR ''-'' then (True, r)
                                 else if c = CHR ''+'' then (False, r) else (False, t)
                      | [] \<Rightarrow> (False, t));
          ds = takeWhile is_digit u
      in if ds = [] then None
         else Some ((if neg then -1 else 1) * int (digits_value 0 ds)))"

fun nat_digits :: "nat \<Rightarrow> string" where
  "nat_digits n =
     (if n < 10 then [char_of (48 + n)] else nat_digits (n div 10) @ [char_of (48 + n mod 10)])"

declare nat_digits.simps [simp del]

text \<open>A number in a template literal: its decimal digits, a minus sign, or \<open>"NaN"\<close>.\<close>

definition int_to_js_string :: "int \<Rightarrow> string" where
  "int_to_js_string i = (if i < 0 then CHR ''-'' # nat_digits (nat (- i)) else nat_digits (nat i))"

definition num_to_js_string :: "int option \<Rightarrow> string" where
  "num_to_js_string x = (case x of None \<Rightarrow> ''NaN'' | Some i \<Rightarrow> int_to_js_string i)"

subsection \<open>Member calls on values\<close>

text \<open>\<open>String(v)\<close>; an array joins its elements with commas, \<open>null\<close> and
  \<open>undefined\<close> elements giving the empty string.\<close>

fun js_join :: "string list \<Rightarrow> string" where
  "js_join [] = []"
| "js_join [x] = x"
| "js_join (x # xs) = x @ CHR '','' # js_join xs"

fun js_str :: "jsval \<Rightarrow> string" where
  "js_str JUndef = ''undefined''"
| "js_str JNull = ''null''"
| "js_str (JBool b) = (if b then ''true'' else ''false'')"
| "js_str (JNum n) = int_to_js_string n"
| "js_str (JStr s) = s"
| "js_str (JArr xs) =
     js_join (map (\<lambda>x. if x = JUndef \<or> x = JNull then [] else js_str x) xs)"
| "js_str JObj = ''[object Object]''"

text \<open>\<open>v.m(...)\<close> on \<open>undefined\<close> or \<open>null\<close> throws a TypeError before the call.\<close>

definition js_member_error :: "js_exn" where
  "js_member_error = TypeError ''Cannot read properties of undefined''"

definition js_to_string :: "jsval \<Rightarrow> js_exn + string" where
  "js_to_string v = (if v = JUndef \<or> v = JNull then Inl js_member_error else Inr (js_str v))"

text \<open>\<open>String.prototype.toLowerCase\<close> on the ASCII letters.\<close>

definition str_lower :: "string \<Rightarrow> string" where
  "str_lower s = map (\<lambda>c. if (65::nat) \<le> of_char c \<and> of_char c \<le> (90::nat)
                          then char_of (of_char c + (32::nat)) else c) s"

definition js_to_lower :: "jsval \<Rightarrow> js_exn + string" where
  "js_to_lower v =
     (case v of
        JStr s \<Rightarrow> Inr (str_lower s)
      | JUndef \<Rightarrow> Inl js_member_error
      | JNull \<Rightarrow> Inl js_member_error
      | _ \<Rightarrow> Inl (TypeError ''toLowerCase is not a function''))"

text \<open>\<open>a.includes(x)\<close> and \<open>a.some(p => p.toString() === x)\<close> on an array.\<close>

definition js_includes :: "jsval \<Rightarrow> jsval \<Rightarrow> js_exn + bool" where
  "js_includes a x =
     (case a of
        JArr xs \<Rightarrow> Inr (x \<in> set xs)
      | JStr s \<Rightarrow> Inr (\<exists>i \<le> length s. take (length (js_str x)) (drop i s) = js_str x)
      | JUndef \<Rightarrow> Inl js_member_error
      | JNull \<Rightarrow> Inl js_member_error
      | _ \<Rightarrow> Inl (TypeError ''includes is not a function''))"

definition js_some_str_eq :: "jsval \<Rightarrow> string \<Rightarrow> js_exn + bool" where
  "js_some_str_eq a x =
     (case a of
        JArr xs \<Rightarrow> if list_ex (\<lambda>p. p = JUndef \<or> p = JNull) (takeWhile (\<lambda>p. js_str p \<noteq> x) xs)
                   then Inl js_member_error else Inr (list_ex (\<lambda>p. js_str p = x) xs)
      | JUndef \<Rightarrow> Inl js_member_error
      | JNull \<Rightarrow> Inl js_member_error
      | _ \<Rightarrow> Inl (TypeError ''some is not a function''))"

section \<open>Lemmas\<close>

lemma all_dropWhile_iff: "(\<forall>x \<in> set (dropWhile P s). P x) = (\<forall>x \<in> set s. P x)"
  by (induction s) auto

lemma js_trim_empty_iff: "js_trim s = [] \<longleftrightarrow> (\<forall>c \<in> set s. js_space c)"
  by (simp add: js_trim_def dropWhile_eq_Nil_conv all_dropWhile_iff)

lemma set_js_trim: "set (js_trim s) \<subseteq> set s"
  by (auto simp: js_trim_def dest!: set_dropWhileD)

lemma nat_digits_nonempty [simp]: "nat_digits n \<noteq> []"
  by (subst nat_digits.simps) simp

lemma is_digit_char_of: "(d::nat) < 10 \<Longrightarrow> is_digit (char_of (48 + d))"
  by (simp add: is_digit_def of_char_of)

lemma digit_val_char_of [simp]: "(d::nat) < 10 \<Longrightarrow> digit_val (char_of (48 + d)) = d"
  by (simp add: digit_val_def of_char_of)

lemma nat_digits_all_digits: "\<forall>c \<in> set (nat_digits n). is_digit c"
proof (induction n rule: nat_digits.induct)
  case (1 n)
  show ?case
  proof (cases "n < 10")
    case True
    then show ?thesis by (subst nat_digits.simps) (simp add: is_digit_char_of)
  next
    case False
    with "1.IH" show ?thesis by (subst nat_digits.simps) (simp add: is_digit_char_of)
  qed
qed

lemma digits_value_append:
  "digits_value acc (xs @ ys) = digits_value (digits_value acc xs) ys"
  by (induction xs arbitrary: acc) auto

lemma digits_value_nat_digits: "digits_value 0 (nat_digits n) = n"
proof (induction n rule: nat_digits.induct)
  case (1 n)
  show ?case
  proof (cases "n < 10")
    case True
    then show ?thesis by (subst nat_digits.simps) simp
  next
    case False
    then have "digits_value 0 (nat_digits n) =
               10 * digits_value 0 (nat_digits (n div 10)) + n mod 10"
      by (subst nat_digits.simps) (simp add: digits_value_append)
    with "1.IH" False show ?thesis by simp
  qed
qed

end
