(* ===== verification/Documents.thy ===== *)
theory Documents
  imports JsCore
begin

text \<open>
  The Mongoose documents the real-time layer reads and writes, with their instance
  methods, from \<open>models/stream.model.js\<close> and \<open>models/codeSession.model.js\<close>. A method that
  ends in \<open>this.save()\<close> is a function from the document to the saved document; the save
  itself is the store's business (theory \<open>Store\<close>). \<open>new Date()\<close> is the clock value the
  caller passes in.
\<close>

section \<open>Stream (models/stream.model.js)\<close>

datatype stream_status = Scheduled | Live | Ended

record stream_doc =
  st_user :: oid
  st_title :: string
  st_description :: string
  st_status :: stream_status
  st_startedAt :: "millis option"
  st_endedAt :: "millis option"
  st_recordingUrl :: "string option"
  st_viewers :: "oid list"
  st_comments :: "oid list"
  st_tags :: "string list"
  st_polls :: "oid list"
  st_codeSessions :: "oid list"

definition viewerCount :: "stream_doc \<Rightarrow> nat" where
  "viewerCount s = length (st_viewers s)"

definition startStream :: "millis \<Rightarrow> stream_doc \<Rightarrow> stream_doc" where
  "startStream now s = s\<lparr>st_status := Live, st_startedAt := Some now\<rparr>"

definition endStream :: "millis \<Rightarrow> stream_doc \<Rightarrow> stream_doc" where
  "endStream now s = s\<lparr>st_status := Ended, st_endedAt := Some now\<rparr>"

definition addViewer :: "oid \<Rightarrow> stream_doc \<Rightarrow> stream_doc" where
  "addViewer u s = s\<lparr>st_viewers := push_unique u (st_viewers s)\<rparr>"

definition removeViewer :: "oid \<Rightarrow> stream_doc \<Rightarrow> stream_doc" where
  "removeViewer u s = s\<lparr>st_viewers := pull_all u (st_viewers s)\<rparr>"

definition stream_addComment :: "oid \<Rightarrow> stream_doc \<Rightarrow> stream_doc" where
  "stream_addComment c s = s\<lparr>st_comments := st_comments s @ [c]\<rparr>"

definition addPoll :: "oid \<Rightarrow> stream_doc \<Rightarrow> stream_doc" where
  "addPoll p s = s\<lparr>st_polls := st_polls s @ [p]\<rparr>"

definition addCodeSession :: "oid \<Rightarrow> stream_doc \<Rightarrow> stream_doc" where
  "addCodeSession c s = s\<lparr>st_codeSessions := st_codeSessions s @ [c]\<rparr>"

definition stream_addTag :: "string \<Rightarrow> stream_doc \<Rightarrow> stream_doc" where
  "stream_addTag t s = s\<lparr>st_tags := push_unique t (st_tags s)\<rparr>"

text \<open>The schema's defaults for a stream created with only its required fields.\<close>

definition new_stream :: "oid \<Rightarrow> string \<Rightarrow> stream_doc" where
  "new_stream u t = \<lparr>st_user = u, st_title = t, st_description = [], st_status = Scheduled,
     st_startedAt = None, st_endedAt = None, st_recordingUrl = None, st_viewers = [],
     st_comments = [], st_tags = [], st_polls = [], st_codeSessions = []\<rparr>"

section \<open>CodeSession (models/codeSession.model.js)\<close>

record version_entry =
  ve_version :: string
  ve_codeContent :: string
  ve_timestamp :: millis
  ve_user :: oid

record code_session_doc =
  cs_stream :: "oid option"
  cs_title :: string
  cs_language :: string
  cs_codeContent :: string
  cs_owner :: oid
  cs_collaborators :: "oid list"
  cs_suggestions :: "oid list"
  cs_isPublic :: bool
  cs_version :: string
  cs_versionHistory :: "version_entry list"

definition addCollaborator :: "oid \<Rightarrow> code_session_doc \<Rightarrow> code_session_doc" where
  "addCollaborator u c = c\<lparr>cs_collaborators := push_unique u (cs_collaborators c)\<rparr>"

definition removeCollaborator :: "oid \<Rightarrow> code_session_doc \<Rightarrow> code_session_doc" where
  "removeCollaborator u c = c\<lparr>cs_collaborators := pull_all u (cs_collaborators c)\<rparr>"

definition addSuggestion :: "oid \<Rightarrow> code_session_doc \<Rightarrow> code_session_doc" where
  "addSuggestion x c = c\<lparr>cs_suggestions := cs_suggestions c @ [x]\<rparr>"

text \<open>
  \<open>updateCode\<close>: the current version and content go to the history, then the version
  string is split at \<open>'.'\<close>, its second part read by \<open>parseInt\<close> and incremented, and the
  version rebuilt from the first part and that number. A missing second part is
  \<open>undefined\<close>, which \<open>parseInt\<close> reads as NaN, printed \<open>"NaN"\<close>.
\<close>

definition bump_version :: "string \<Rightarrow> string" where
  "bump_version v =
     (let parts = js_split CHR ''.'' v;
          minor = map_option (\<lambda>i. i + 1)
                    (parse_int (if 1 < length parts then parts ! 1 else ''undefined''))
      in hd parts @ CHR ''.'' # num_to_js_string minor)"

definition updateCode :: "string \<Rightarrow> oid \<Rightarrow> millis \<Rightarrow> code_session_doc \<Rightarrow> code_session_doc" where
  "updateCode newCode u now c =
     c\<lparr>cs_versionHistory := cs_versionHistory c @
          [\<lparr>ve_version = cs_version c, ve_codeContent = cs_codeContent c,
            ve_timestamp = now, ve_user = u\<rparr>],
       cs_version := bump_version (cs_version c),
       cs_codeContent := newCode\<rparr>"

text \<open>The authorisation test of the \<open>code:change\<close> handler (socket.service.js, 152-154).\<close>

definition may_edit :: "oid \<Rightarrow> code_session_doc \<Rightarrow> bool" where
  "may_edit u c = (cs_owner c = u \<or> list_ex (\<lambda>i. i = u) (cs_collaborators c))"

section \<open>User (models/user.model.js)\<close>

text \<open>The fields of a user document other than the password hash, which the
  authentication middleware drops with \<open>select('-password')\<close>.\<close>

record user_doc =
  u_username :: string
  u_email :: string
  u_password :: string
  u_fullName :: string
  u_bio :: string
  u_avatar :: "string option"
  u_skills :: "string list"
  u_points :: int
  u_followers :: "oid list"
  u_following :: "oid list"
  u_badges :: "oid list"
  u_isActive :: bool

text \<open>A stored CodeSession as the controllers read it: a property the schema declares
  has its value (an ObjectId as its hexadecimal string), and any other property is
  \<open>undefined\<close>, because a strict schema drops unknown paths on write.\<close>

definition cs_field :: "code_session_doc \<Rightarrow> string \<Rightarrow> jsval" where
  "cs_field c f =
     (if f = ''stream'' then (case cs_stream c of None \<Rightarrow> JNull | Some s \<Rightarrow> JStr s)
      else if f = ''title'' then JStr (cs_title c)
      else if f = ''language'' then JStr (cs_language c)
      else if f = ''codeContent'' then JStr (cs_codeContent c)
      else if f = ''owner'' then JStr (cs_owner c)
      else if f = ''collaborators'' then JArr (map JStr (cs_collaborators c))
      else if f = ''suggestions'' then JArr (map JStr (cs_suggestions c))
      else if f = ''isPublic'' then JBool (cs_isPublic c)
      else if f = ''version'' then JStr (cs_version c)
      else if f = ''versionHistory'' then JArr (map (\<lambda>_. JObj) (cs_versionHistory c))
      else JUndef)"

text \<open>Well-formedness of a stream document: no viewer twice, and a start (end)
  time whenever the status says it started (ended).\<close>

definition stream_wf :: "stream_doc \<Rightarrow> bool" where
  "stream_wf s = (distinct (st_viewers s)
     \<and> (st_status s = Live \<longrightarrow> st_startedAt s \<noteq> None)
     \<and> (st_status s = Ended \<longrightarrow> st_endedAt s \<noteq> None))"

section \<open>Lemmas\<close>

lemmas stream_method_defs [model_defs] =
  startStream_def endStream_def addViewer_def removeViewer_def stream_addComment_def
  addPoll_def addCodeSession_def stream_addTag_def

lemmas code_session_method_defs [model_defs] =
  addCollaborator_def removeCollaborator_def addSuggestion_def updateCode_def

lemma js_split_nonempty [simp]: "js_split d s \<noteq> []"
  by (induction s) (auto split: list.splits)

lemma js_split_no_delim: "d \<notin> set s \<Longrightarrow> js_split d s = [s]"
  by (induction s) auto

lemma js_split_append_delim:
  "d \<notin> set a \<Longrightarrow> js_split d (a @ d # b) = a # js_split d b"
proof (induction a)
  case Nil
  then show ?case by simp
next
  case (Cons c a)
  then have "js_split d (a @ d # b) = a # js_split d b" and "c \<noteq> d" by auto
  then show ?case by simp
qed

lemma takeWhile_digits_nat_digits: "takeWhile is_digit (nat_digits n) = nat_digits n"
  using nat_digits_all_digits by (simp add: takeWhile_eq_all_conv)

lemma nat_digits_hd_not_sign:
  "hd (nat_digits n) \<noteq> CHR ''-'' \<and> hd (nat_digits n) \<noteq> CHR ''+'' \<and> \<not> js_space (hd (nat_digits n))"
proof -
  have "is_digit (hd (nat_digits n))"
    using nat_digits_all_digits nat_digits_nonempty by (metis list.set_sel(1))
  then show ?thesis by (auto simp: is_digit_def js_space_def)
qed

lemma parse_int_nat_digits [simp]: "parse_int (nat_digits n) = Some (int n)"
proof -
  obtain c r where cr: "nat_digits n = c # r"
    by (cases "nat_digits n") auto
  with nat_digits_hd_not_sign [of n]
  have "c \<noteq> CHR ''-''" "c \<noteq> CHR ''+''" "\<not> js_space c" by auto
  then show ?thesis
    using cr takeWhile_digits_nat_digits [of n] digits_value_nat_digits [of n]
    by (simp add: parse_int_def)
qed

lemma stream_wf_new [simp]: "stream_wf (new_stream u t)"
  by (simp add: stream_wf_def new_stream_def)

lemma stream_wf_addViewer [inv_intros]: "stream_wf s \<Longrightarrow> stream_wf (addViewer u s)"
  by (simp add: stream_wf_def addViewer_def)

lemma stream_wf_removeViewer [inv_intros]: "stream_wf s \<Longrightarrow> stream_wf (removeViewer u s)"
  by (simp add: stream_wf_def removeViewer_def)

lemma stream_wf_startStream [inv_intros]: "stream_wf s \<Longrightarrow> stream_wf (startStream now s)"
  by (simp add: stream_wf_def startStream_def)

lemma stream_wf_endStream [inv_intros]: "stream_wf s \<Longrightarrow> stream_wf (endStream now s)"
  by (simp add: stream_wf_def endStream_def)

lemma stream_wf_addTag [inv_intros]: "stream_wf s \<Longrightarrow> stream_wf (stream_addTag t s)"
  by (simp add: stream_wf_def stream_addTag_def)

lemma st_user_methods [simp]:
  "st_user (addViewer u s) = st_user s" "st_user (removeViewer u s) = st_user s"
  "st_user (startStream now s) = st_user s" "st_user (endStream now s) = st_user s"
  by (simp_all add: model_defs)

end
