(* ===== verification/Store.thy ===== *)
theory Store
  imports Documents
begin

text \<open>
  The document store as the real-time layer sees it: three collections keyed by ObjectId,
  and \<open>Model.findById(id)\<close>. Mongoose casts the id before it queries; a string that is not
  24 hexadecimal digits is rejected with a \<open>CastError\<close>, which the handlers' \<open>catch\<close>
  blocks turn into their generic error. The cast accepts upper- and lower-case hexadecimal
  digits and the ObjectId it makes prints in lower case, so a query and a write go to the
  key \<open>oid_key i\<close>, the lower-case form of the id. A well-formed id that names no
  document gives \<open>null\<close>, here \<open>None\<close>. The socket layer's writes are assumed to
  succeed; the controllers' writes run the schema validators (theory \<open>Http\<close>).
\<close>

record store =
  db_streams :: "oid \<rightharpoonup> stream_doc"
  db_sessions :: "oid \<rightharpoonup> code_session_doc"
  db_users :: "oid \<rightharpoonup> user_doc"

definition is_hex :: "char \<Rightarrow> bool" where
  "is_hex c = (c \<in> set ''0123456789abcdefABCDEF'')"

definition valid_object_id :: "string \<Rightarrow> bool" where
  "valid_object_id s = (length s = 24 \<and> list_all is_hex s)"

definition hex_lower :: "char \<Rightarrow> char" where
  "hex_lower c = (case map_of (zip ''ABCDEF'' ''abcdef'') c of None \<Rightarrow> c | Some d \<Rightarrow> d)"

definition oid_key :: "string \<Rightarrow> oid" where
  "oid_key i = map hex_lower i"

definition find_by_id :: "(oid \<rightharpoonup> 'a) \<Rightarrow> string \<Rightarrow> js_exn + 'a option" where
  "find_by_id coll i =
     (if valid_object_id i then Inr (coll (oid_key i))
      else Inl (CastError ''Cast to ObjectId failed''))"

definition save_stream :: "oid \<Rightarrow> stream_doc \<Rightarrow> store \<Rightarrow> store" where
  "save_stream i s db = db\<lparr>db_streams := (db_streams db)(oid_key i \<mapsto> s)\<rparr>"

definition save_session :: "oid \<Rightarrow> code_session_doc \<Rightarrow> store \<Rightarrow> store" where
  "save_session i c db = db\<lparr>db_sessions := (db_sessions db)(oid_key i \<mapsto> c)\<rparr>"

text \<open>Every stored stream is well-formed (theory \<open>Documents\<close>).\<close>

definition db_wf :: "store \<Rightarrow> bool" where
  "db_wf db = (\<forall>i st. db_streams db i = Some st \<longrightarrow> stream_wf st)"

lemma oid_key_lower [simp]: "list_all (\<lambda>c. c \<notin> set ''ABCDEF'') i \<Longrightarrow> oid_key i = i"
  by (induction i) (auto simp: oid_key_def hex_lower_def map_of_eq_None_iff)

lemma oid_key_idem [simp]: "oid_key (oid_key i) = oid_key i"
  by (induction i) (auto simp: oid_key_def hex_lower_def split: option.splits dest!: map_of_SomeD)

lemma is_hex_hex_lower [simp]: "is_hex (hex_lower c) = is_hex c"
  by (auto simp: hex_lower_def is_hex_def split: option.splits dest!: map_of_SomeD)

lemma valid_oid_key [simp]: "valid_object_id (oid_key i) = valid_object_id i"
  by (simp add: valid_object_id_def oid_key_def list_all_iff)

lemma find_by_id_Inr: "find_by_id coll i = Inr r \<longleftrightarrow> valid_object_id i \<and> r = coll (oid_key i)"
  by (auto simp: find_by_id_def)

lemma find_by_id_found:
  "find_by_id coll i = Inr (Some d) \<Longrightarrow> coll (oid_key i) = Some d"
  by (auto simp: find_by_id_def split: if_splits)

lemma colon_not_hex: "\<not> is_hex CHR '':''"
  unfolding is_hex_def by simp

lemma valid_object_id_no_colon: "valid_object_id i \<Longrightarrow> CHR '':'' \<notin> set i"
  using colon_not_hex unfolding valid_object_id_def list_all_iff by blast

lemma dom_save_stream [simp]: "dom (db_streams (save_stream i s db)) = insert (oid_key i) (dom (db_streams db))"
  by (simp add: save_stream_def)

lemma db_sessions_save_stream [simp]: "db_sessions (save_stream i s db) = db_sessions db"
  by (simp add: save_stream_def)

lemma db_streams_save_session [simp]: "db_streams (save_session i c db) = db_streams db"
  by (simp add: save_session_def)


text \<open>The definitions that decide whether a literal is an ObjectId and give its key.\<close>

lemmas oid_eval = valid_object_id_def is_hex_def oid_key_def hex_lower_def

end
