(* ===== verification/Rooms.thy ===== *)
theory Rooms
  imports Store
begin

text \<open>
  Room membership and delivery, as the Socket.IO server provides them to the services.
  The library is not part of the repository; its behaviour is taken from its
  documentation: every socket is put in a room named by its own id when it connects;
  \<open>socket.join(r)\<close> and \<open>socket.leave(r)\<close> change its rooms; a disconnected socket leaves
  every room; \<open>io.to(r).emit(e)\<close> reaches every socket in \<open>r\<close>,
  \<open>socket.to(r).emit(e)\<close> every socket in \<open>r\<close> but the sender, \<open>socket.emit(e)\<close> the
  sender alone. A delivery is recorded with the set of sockets it reaches at the moment
  of the emit. The attached identity \<open>socket.user\<close> is the user's id and document.
\<close>

section \<open>The events the server emits (socket.service.js, webrtc.service.js)\<close>

record poll_option =
  po_id :: nat
  po_text :: jsval
  po_votes :: nat

record poll =
  poll_id :: string
  poll_question :: jsval
  poll_options :: "poll_option list"
  poll_createdBy :: oid
  poll_createdAt :: millis
  poll_endsAt :: "int option"

datatype out_event =
    EvError string
  | EvViewerJoin oid string
  | EvViewerCount nat
  | EvViewerLeave oid string
  | EvChatMessage oid string string millis
  | EvCodeChange oid string string jsval
  | EvCodeSuggestion oid string string jsval jsval millis
  | EvCodeVote jsval oid string string millis
  | EvPollCreated poll
  | EvPollEnded string
  | EvPollVote jsval jsval oid string millis
  | EvBroadcastStarted string oid
  | EvViewerJoined string oid sock_id
  | EvSignal jsval jsval sock_id oid
  | EvBroadcastEnded string

type_synonym delivery = "sock_id set \<times> out_event"

section \<open>Room names (the template literals of the services)\<close>

definition user_room :: "oid \<Rightarrow> room" where
  "user_room u = ''user:'' @ u"

definition stream_room :: "string \<Rightarrow> room" where
  "stream_room s = ''stream:'' @ s"

definition broadcast_room :: "string \<Rightarrow> room" where
  "broadcast_room s = ''stream:'' @ s @ '':broadcast''"

definition code_room :: "string \<Rightarrow> room" where
  "code_room s = ''code:'' @ s"

section \<open>The transport state\<close>

record io_state =
  io_conns :: "sock_id \<rightharpoonup> oid \<times> user_doc"
  io_rooms :: "room \<Rightarrow> sock_id set"
  io_outbox :: "delivery list"

definition io_init :: io_state where
  "io_init = \<lparr>io_conns = Map.empty, io_rooms = (\<lambda>_. {}), io_outbox = []\<rparr>"

definition io_join :: "sock_id \<Rightarrow> room \<Rightarrow> io_state \<Rightarrow> io_state" where
  "io_join c r t = t\<lparr>io_rooms := (io_rooms t)(r := insert c (io_rooms t r))\<rparr>"

definition io_leave :: "sock_id \<Rightarrow> room \<Rightarrow> io_state \<Rightarrow> io_state" where
  "io_leave c r t = t\<lparr>io_rooms := (io_rooms t)(r := io_rooms t r - {c})\<rparr>"

definition io_emit_room :: "room \<Rightarrow> out_event \<Rightarrow> io_state \<Rightarrow> io_state" where
  "io_emit_room r e t = t\<lparr>io_outbox := io_outbox t @ [(io_rooms t r, e)]\<rparr>"

definition io_emit_others :: "sock_id \<Rightarrow> room \<Rightarrow> out_event \<Rightarrow> io_state \<Rightarrow> io_state" where
  "io_emit_others c r e t = t\<lparr>io_outbox := io_outbox t @ [(io_rooms t r - {c}, e)]\<rparr>"

definition io_emit_self :: "sock_id \<Rightarrow> out_event \<Rightarrow> io_state \<Rightarrow> io_state" where
  "io_emit_self c e t = t\<lparr>io_outbox := io_outbox t @ [({c}, e)]\<rparr>"

definition io_connect :: "sock_id \<Rightarrow> oid \<times> user_doc \<Rightarrow> io_state \<Rightarrow> io_state" where
  "io_connect c u t = io_join c c (t\<lparr>io_conns := (io_conns t)(c \<mapsto> u)\<rparr>)"

definition io_disconnect :: "sock_id \<Rightarrow> io_state \<Rightarrow> io_state" where
  "io_disconnect c t = t\<lparr>io_conns := (io_conns t)(c := None),
                         io_rooms := (\<lambda>r. io_rooms t r - {c})\<rparr>"

text \<open>The sockets a sequence of deliveries reached with a given event.\<close>

definition delivered :: "delivery list \<Rightarrow> sock_id \<Rightarrow> out_event \<Rightarrow> bool" where
  "delivered ds c e = (\<exists>d \<in> set ds. c \<in> fst d \<and> snd d = e)"

text \<open>Membership stays within the live connections: the transport invariant.\<close>

definition io_wf :: "io_state \<Rightarrow> bool" where
  "io_wf t = (\<forall>r. io_rooms t r \<subseteq> dom (io_conns t))"

section \<open>Lemmas\<close>

lemmas io_ops_defs [model_defs] =
  io_join_def io_leave_def io_emit_room_def io_emit_others_def io_emit_self_def
  io_connect_def io_disconnect_def

lemma io_emit_simps [simp]:
  "io_conns (io_emit_room r e t) = io_conns t" "io_rooms (io_emit_room r e t) = io_rooms t"
  "io_conns (io_emit_others c r e t) = io_conns t" "io_rooms (io_emit_others c r e t) = io_rooms t"
  "io_conns (io_emit_self c e t) = io_conns t" "io_rooms (io_emit_self c e t) = io_rooms t"
  "io_outbox (io_emit_room r e t) = io_outbox t @ [(io_rooms t r, e)]"
  "io_outbox (io_emit_others c r e t) = io_outbox t @ [(io_rooms t r - {c}, e)]"
  "io_outbox (io_emit_self c e t) = io_outbox t @ [({c}, e)]"
  by (simp_all add: io_ops_defs)

lemma io_join_simps [simp]:
  "io_conns (io_join c r t) = io_conns t"
  "io_rooms (io_join c r t) = (io_rooms t)(r := insert c (io_rooms t r))"
  "io_outbox (io_join c r t) = io_outbox t"
  "io_conns (io_leave c r t) = io_conns t"
  "io_rooms (io_leave c r t) = (io_rooms t)(r := io_rooms t r - {c})"
  "io_outbox (io_leave c r t) = io_outbox t"
  by (simp_all add: io_ops_defs)

lemma io_connect_simps [simp]:
  "io_conns (io_connect c u t) = (io_conns t)(c \<mapsto> u)"
  "io_rooms (io_connect c u t) = (io_rooms t)(c := insert c (io_rooms t c))"
  "io_outbox (io_connect c u t) = io_outbox t"
  "io_conns (io_disconnect c t) = (io_conns t)(c := None)"
  "io_rooms (io_disconnect c t) = (\<lambda>r. io_rooms t r - {c})"
  "io_outbox (io_disconnect c t) = io_outbox t"
  by (simp_all add: io_ops_defs)

lemma delivered_append [simp]:
  "delivered (ds @ ds') c e = (delivered ds c e \<or> delivered ds' c e)"
  by (auto simp: delivered_def)

lemma delivered_single [simp]: "delivered [(S, e')] c e = (c \<in> S \<and> e' = e)"
  by (auto simp: delivered_def)

lemma delivered_Nil [simp]: "\<not> delivered [] c e"
  by (simp add: delivered_def)

lemma io_wf_init [simp]: "io_wf io_init"
  by (simp add: io_wf_def io_init_def)

lemma io_wf_join [inv_intros]: "io_wf t \<Longrightarrow> c \<in> dom (io_conns t) \<Longrightarrow> io_wf (io_join c r t)"
  by (auto simp: io_wf_def)

lemma io_wf_leave [inv_intros]: "io_wf t \<Longrightarrow> io_wf (io_leave c r t)"
  by (auto simp: io_wf_def)

lemma io_wf_emit [inv_intros]:
  "io_wf t \<Longrightarrow> io_wf (io_emit_room r e t)"
  "io_wf t \<Longrightarrow> io_wf (io_emit_others c r e t)"
  "io_wf t \<Longrightarrow> io_wf (io_emit_self c e t)"
  by (simp_all add: io_wf_def)

lemma io_wf_connect [inv_intros]: "io_wf t \<Longrightarrow> io_wf (io_connect c u t)"
  by (auto simp: io_wf_def)

lemma io_wf_disconnect [inv_intros]: "io_wf t \<Longrightarrow> io_wf (io_disconnect c t)"
  by (auto simp: io_wf_def)

lemma room_prefixes_distinct:
  "stream_room a \<noteq> code_room b" "stream_room a \<noteq> user_room b" "code_room a \<noteq> user_room b"
  "broadcast_room a \<noteq> code_room b" "broadcast_room a \<noteq> user_room b"
  by (simp_all add: stream_room_def code_room_def user_room_def broadcast_room_def)

lemma stream_room_inj [simp]: "stream_room a = stream_room b \<longleftrightarrow> a = b"
  by (simp add: stream_room_def)

lemma code_room_inj [simp]: "code_room a = code_room b \<longleftrightarrow> a = b"
  by (simp add: code_room_def)

lemma broadcast_room_inj [simp]: "broadcast_room a = broadcast_room b \<longleftrightarrow> a = b"
  by (simp add: broadcast_room_def)

text \<open>A stream room is never the broadcaster room of a stream whose id has no colon
  (every well-formed ObjectId): the two template literals do not collide.\<close>

lemma stream_room_ne_broadcast_room:
  assumes "CHR '':'' \<notin> set a"
  shows "stream_room a \<noteq> broadcast_room b"
proof
  assume "stream_room a = broadcast_room b"
  then have "a = b @ '':broadcast''" by (simp add: stream_room_def broadcast_room_def)
  with assms show False by simp
qed

end
