(* ===== verification/Registry.thy ===== *)
theory Registry
  imports Prelude
begin

text \<open>
  The session registry of \<open>WebRTCService\<close> (webrtc.service.js): the \<open>Map\<close>
  \<open>this.streams\<close> from a stream id to the broadcaster's user id and socket id. The map
  is an association list in insertion order (theory \<open>Prelude\<close>); its abstract
  specification is a partial function from stream ids to entries, which is what the
  spec's \<open>registerBroadcaster\<close>, \<open>lookupBroadcaster\<close> and \<open>removeBroadcaster\<close>
  describe. The refinement lemmas below say that the list implements that map, and the
  invariant is the spec's "at most one entry per stream".
\<close>

record bcast_info =
  bi_broadcasterId :: oid
  bi_socketId :: sock_id

type_synonym registry = "(string \<times> bcast_info) list"

definition register_broadcaster :: "string \<Rightarrow> oid \<Rightarrow> sock_id \<Rightarrow> registry \<Rightarrow> registry" where
  "register_broadcaster k u c reg =
     jsmap_set k \<lparr>bi_broadcasterId = u, bi_socketId = c\<rparr> reg"

definition lookup_broadcaster :: "string \<Rightarrow> registry \<Rightarrow> bcast_info option" where
  "lookup_broadcaster k reg = map_of reg k"

definition remove_broadcaster :: "string \<Rightarrow> registry \<Rightarrow> registry" where
  "remove_broadcaster k reg = jsmap_delete k reg"

text \<open>The streams the disconnect handler visits for a socket, in iteration order.\<close>

definition streams_of_socket :: "sock_id \<Rightarrow> registry \<Rightarrow> string list" where
  "streams_of_socket c reg = map fst (filter (\<lambda>e. bi_socketId (snd e) = c) reg)"

definition registry_wf :: "registry \<Rightarrow> bool" where
  "registry_wf reg = distinct (map fst reg)"

subsection \<open>Abstract specification\<close>

type_synonym registry_spec = "string \<rightharpoonup> bcast_info"

definition reg_abs :: "registry \<Rightarrow> registry_spec" where
  "reg_abs reg = map_of reg"

definition spec_register :: "string \<Rightarrow> oid \<Rightarrow> sock_id \<Rightarrow> registry_spec \<Rightarrow> registry_spec" where
  "spec_register k u c m = m(k \<mapsto> \<lparr>bi_broadcasterId = u, bi_socketId = c\<rparr>)"

definition spec_remove :: "string \<Rightarrow> registry_spec \<Rightarrow> registry_spec" where
  "spec_remove k m = m(k := None)"

text \<open>A run of the registry: the operations of \<open>this.streams\<close> as data, executed on the
  association list and on the abstract map.\<close>

datatype reg_op = OpRegister string oid sock_id | OpRemove string

primrec reg_step :: "reg_op \<Rightarrow> registry \<Rightarrow> registry" where
  "reg_step (OpRegister k u c) reg = register_broadcaster k u c reg"
| "reg_step (OpRemove k) reg = remove_broadcaster k reg"

primrec spec_step :: "reg_op \<Rightarrow> registry_spec \<Rightarrow> registry_spec" where
  "spec_step (OpRegister k u c) m = spec_register k u c m"
| "spec_step (OpRemove k) m = spec_remove k m"

subsection \<open>Lemmas\<close>

lemma registry_wf_Nil [simp]: "registry_wf []"
  by (simp add: registry_wf_def)

lemma registry_wf_register [inv_intros]:
  "registry_wf reg \<Longrightarrow> registry_wf (register_broadcaster k u c reg)"
  by (simp add: registry_wf_def register_broadcaster_def)

lemma registry_wf_remove [inv_intros]:
  "registry_wf reg \<Longrightarrow> registry_wf (remove_broadcaster k reg)"
  by (simp add: registry_wf_def remove_broadcaster_def)

lemma reg_abs_register [simp]:
  "reg_abs (register_broadcaster k u c reg) = spec_register k u c (reg_abs reg)"
  by (simp add: reg_abs_def register_broadcaster_def spec_register_def)

lemma reg_abs_remove [simp]:
  "reg_abs (remove_broadcaster k reg) = spec_remove k (reg_abs reg)"
  by (simp add: reg_abs_def remove_broadcaster_def spec_remove_def)

lemma lookup_reg_abs: "lookup_broadcaster k reg = reg_abs reg k"
  by (simp add: lookup_broadcaster_def reg_abs_def)

lemma keys_register [simp]:
  "fst ` set (register_broadcaster k u c reg) = insert k (fst ` set reg)"
  by (simp add: register_broadcaster_def)

lemma keys_remove [simp]:
  "fst ` set (remove_broadcaster k reg) = fst ` set reg - {k}"
  by (simp add: remove_broadcaster_def del: set_jsmap_delete)

lemma entries_per_key_le_one:
  "registry_wf reg \<Longrightarrow> length (filter (\<lambda>e. fst e = k) reg) \<le> 1"
proof (induction reg)
  case Nil
  then show ?case by simp
next
  case (Cons e reg)
  then have "registry_wf reg" and "fst e \<notin> fst ` set reg"
    by (auto simp: registry_wf_def)
  then show ?case
    using Cons.IH by (auto simp: filter_empty_conv image_iff)
qed

lemma set_remove_broadcaster [simp]:
  "set (remove_broadcaster k reg) = {e \<in> set reg. fst e \<noteq> k}"
  by (simp add: remove_broadcaster_def)

lemma map_of_SomeD_wf: "registry_wf reg \<Longrightarrow> (k, i) \<in> set reg \<Longrightarrow> map_of reg k = Some i"
  by (simp add: registry_wf_def)

lemma reg_abs_step [simp]: "reg_abs (reg_step op reg) = spec_step op (reg_abs reg)"
  by (cases op) simp_all

lemma registry_wf_step: "registry_wf reg \<Longrightarrow> registry_wf (reg_step op reg)"
  by (cases op) (simp_all add: registry_wf_register registry_wf_remove)



end
