(* ===== verification/AuthGate.thy ===== *)
theory AuthGate
  imports Store
begin

text \<open>
  The authentication middleware of socket.service.js (lines 10-34), run by Socket.IO
  on every connection attempt before any event handler. The token is
  \<open>socket.handshake.auth.token\<close>; \<open>jwt.verify\<close> belongs to the \<open>jsonwebtoken\<close> library
  and the server's secret, so it is a parameter: a function from the token to the
  decoded claims, \<open>None\<close> when the signature or the expiry check fails. The claims'
  \<open>user\<close> field may be missing (then \<open>decoded.user.id\<close> throws a TypeError), present
  without an \<open>id\<close> (then \<open>User.findById(undefined)\<close> finds nothing), or carry an id.
  Every exception inside the \<open>try\<close> is reported as an invalid token.
\<close>

datatype claims_user = NoUserClaim | UserClaimNoId | UserClaim string

type_synonym verifier = "string \<Rightarrow> claims_user option"

definition auth_gate :: "verifier \<Rightarrow> store \<Rightarrow> string option \<Rightarrow> string + (oid \<times> user_doc)" where
  "auth_gate verify db token =
     (case token of
        None \<Rightarrow> Inl ''Authentication error: Token not provided''
      | Some tok \<Rightarrow>
          if tok = [] then Inl ''Authentication error: Token not provided''
          else (case verify tok of
                  None \<Rightarrow> Inl ''Authentication error: Invalid token''
                | Some NoUserClaim \<Rightarrow> Inl ''Authentication error: Invalid token''
                | Some UserClaimNoId \<Rightarrow> Inl ''Authentication error: User not found''
                | Some (UserClaim i) \<Rightarrow>
                    (case find_by_id (db_users db) i of
                       Inl _ \<Rightarrow> Inl ''Authentication error: Invalid token''
                     | Inr None \<Rightarrow> Inl ''Authentication error: User not found''
                     | Inr (Some ud) \<Rightarrow> Inr (i, ud))))"

lemma auth_gate_Inr:
  "auth_gate verify db token = Inr (i, ud) \<longleftrightarrow>
     (\<exists>tok. token = Some tok \<and> tok \<noteq> [] \<and> verify tok = Some (UserClaim i)
        \<and> valid_object_id i \<and> db_users db (oid_key i) = Some ud)"
  by (auto simp: auth_gate_def find_by_id_def
           split: option.splits claims_user.splits if_splits sum.splits)

end
