(* ===== verification/Server.thy ===== *)
theory Server
  imports Rooms Registry AuthGate
begin

text \<open>
  The state the two socket services share in one Node process, and the shape of a
  handler. A handler body returns either the new state or a failure: \<open>Reject m\<close> is an
  early \<open>socket.emit('error', {message: m}); return;\<close>, \<open>Thrown e\<close> an exception, which
  the handler's \<open>catch\<close> block turns into its own generic error message (or only logs,
  for the handlers whose \<open>catch\<close> emits nothing). Every throw of the handlers happens
  before their first effect, so a failure carries no partial state.
  Pending \<open>setTimeout\<close> callbacks are kept with their due time; Node clamps a delay
  outside \<open>[1, 2^31 - 1]\<close> milliseconds to 1.
\<close>

record timer =
  tm_due :: millis
  tm_room :: room
  tm_event :: out_event

record sys =
  sys_db :: store
  sys_io :: io_state
  sys_reg :: registry
  sys_timers :: "timer list"
  sys_clock :: millis

datatype failure = Reject string | Thrown js_exn

definition init_sys :: "store \<Rightarrow> millis \<Rightarrow> sys" where
  "init_sys db t = \<lparr>sys_db = db, sys_io = io_init, sys_reg = [], sys_timers = [], sys_clock = t\<rparr>"

section \<open>Effects lifted to the server state\<close>

definition emit_room :: "room \<Rightarrow> out_event \<Rightarrow> sys \<Rightarrow> sys" where
  "emit_room r e s = s\<lparr>sys_io := io_emit_room r e (sys_io s)\<rparr>"

definition emit_others :: "sock_id \<Rightarrow> room \<Rightarrow> out_event \<Rightarrow> sys \<Rightarrow> sys" where
  "emit_others c r e s = s\<lparr>sys_io := io_emit_others c r e (sys_io s)\<rparr>"

definition emit_self :: "sock_id \<Rightarrow> out_event \<Rightarrow> sys \<Rightarrow> sys" where
  "emit_self c e s = s\<lparr>sys_io := io_emit_self c e (sys_io s)\<rparr>"

definition join :: "sock_id \<Rightarrow> room \<Rightarrow> sys \<Rightarrow> sys" where
  "join c r s = s\<lparr>sys_io := io_join c r (sys_io s)\<rparr>"

definition leave :: "sock_id \<Rightarrow> room \<Rightarrow> sys \<Rightarrow> sys" where
  "leave c r s = s\<lparr>sys_io := io_leave c r (sys_io s)\<rparr>"

definition put_stream :: "oid \<Rightarrow> stream_doc \<Rightarrow> sys \<Rightarrow> sys" where
  "put_stream i st s = s\<lparr>sys_db := save_stream i st (sys_db s)\<rparr>"

definition put_session :: "oid \<Rightarrow> code_session_doc \<Rightarrow> sys \<Rightarrow> sys" where
  "put_session i c s = s\<lparr>sys_db := save_session i c (sys_db s)\<rparr>"

section \<open>try/catch\<close>

text \<open>\<open>catch_msg = None\<close> is a \<open>catch\<close> block that only logs.\<close>

definition run_guarded :: "sock_id \<Rightarrow> string option \<Rightarrow> (sys \<Rightarrow> failure + sys) \<Rightarrow> sys \<Rightarrow> sys" where
  "run_guarded c catch_msg body s =
     (case body s of
        Inr s' \<Rightarrow> s'
      | Inl (Reject m) \<Rightarrow> emit_self c (EvError m) s
      | Inl (Thrown _) \<Rightarrow>
          (case catch_msg of None \<Rightarrow> s | Some m \<Rightarrow> emit_self c (EvError m) s))"

section \<open>Timers (Node's setTimeout)\<close>

definition timeout_max :: int where
  "timeout_max = 2 ^ 31 - 1"

definition node_delay :: "int \<Rightarrow> millis" where
  "node_delay d = (if 1 \<le> d \<and> d \<le> timeout_max then nat d else 1)"

definition set_timeout :: "int \<Rightarrow> room \<Rightarrow> out_event \<Rightarrow> sys \<Rightarrow> sys" where
  "set_timeout d r e s =
     s\<lparr>sys_timers := sys_timers s @ [\<lparr>tm_due = sys_clock s + node_delay d, tm_room = r, tm_event = e\<rparr>]\<rparr>"

text \<open>Firing the due timers in order of due time, ties in order of creation (the sort is
  stable); each callback emits to its room as the room is when it fires.\<close>

definition fire_timers :: "timer list \<Rightarrow> sys \<Rightarrow> sys" where
  "fire_timers ts s = fold (\<lambda>t. emit_room (tm_room t) (tm_event t)) ts s"

definition advance_clock :: "nat \<Rightarrow> sys \<Rightarrow> sys" where
  "advance_clock d s =
     (let now = sys_clock s + d;
          due = sort_key tm_due (filter (\<lambda>t. tm_due t \<le> now) (sys_timers s));
          rest = filter (\<lambda>t. \<not> tm_due t \<le> now) (sys_timers s)
      in fire_timers due (s\<lparr>sys_clock := now, sys_timers := rest\<rparr>))"

section \<open>Lemmas\<close>

lemmas sys_effect_defs [model_defs] =
  emit_room_def emit_others_def emit_self_def join_def leave_def put_stream_def put_session_def

lemma sys_effect_simps [simp]:
  "sys_db (emit_room r e s) = sys_db s" "sys_reg (emit_room r e s) = sys_reg s"
  "sys_timers (emit_room r e s) = sys_timers s" "sys_clock (emit_room r e s) = sys_clock s"
  "sys_io (emit_room r e s) = io_emit_room r e (sys_io s)"
  "sys_db (emit_others c r e s) = sys_db s" "sys_reg (emit_others c r e s) = sys_reg s"
  "sys_timers (emit_others c r e s) = sys_timers s" "sys_clock (emit_others c r e s) = sys_clock s"
  "sys_io (emit_others c r e s) = io_emit_others c r e (sys_io s)"
  "sys_db (emit_self c e s) = sys_db s" "sys_reg (emit_self c e s) = sys_reg s"
  "sys_timers (emit_self c e s) = sys_timers s" "sys_clock (emit_self c e s) = sys_clock s"
  "sys_io (emit_self c e s) = io_emit_self c e (sys_io s)"
  by (simp_all add: sys_effect_defs)

lemma sys_room_simps [simp]:
  "sys_db (join c r s) = sys_db s" "sys_reg (join c r s) = sys_reg s"
  "sys_timers (join c r s) = sys_timers s" "sys_clock (join c r s) = sys_clock s"
  "sys_io (join c r s) = io_join c r (sys_io s)"
  "sys_db (leave c r s) = sys_db s" "sys_reg (leave c r s) = sys_reg s"
  "sys_timers (leave c r s) = sys_timers s" "sys_clock (leave c r s) = sys_clock s"
  "sys_io (leave c r s) = io_leave c r (sys_io s)"
  "sys_db (put_stream i st s) = save_stream i st (sys_db s)" "sys_io (put_stream i st s) = sys_io s"
  "sys_reg (put_stream i st s) = sys_reg s" "sys_timers (put_stream i st s) = sys_timers s"
  "sys_clock (put_stream i st s) = sys_clock s"
  "sys_db (put_session i cs s) = save_session i cs (sys_db s)" "sys_io (put_session i cs s) = sys_io s"
  "sys_reg (put_session i cs s) = sys_reg s" "sys_timers (put_session i cs s) = sys_timers s"
  "sys_clock (put_session i cs s) = sys_clock s"
  by (simp_all add: sys_effect_defs)

lemma run_guarded_Reject:
  "body s = Inl (Reject m) \<Longrightarrow> run_guarded c cm body s = emit_self c (EvError m) s"
  by (simp add: run_guarded_def)

lemma run_guarded_ok: "body s = Inr s' \<Longrightarrow> run_guarded c cm body s = s'"
  by (simp add: run_guarded_def)

lemma run_guarded_Thrown:
  "body s = Inl (Thrown x) \<Longrightarrow>
     run_guarded c cm body s = (case cm of None \<Rightarrow> s | Some m \<Rightarrow> emit_self c (EvError m) s)"
  by (simp add: run_guarded_def)

lemma node_delay_pos: "1 \<le> node_delay d"
  by (simp add: node_delay_def) linarith

lemma node_delay_bound: "node_delay d \<le> 2 ^ 31 - 1"
  by (auto simp: node_delay_def timeout_max_def nat_le_iff)

lemma fire_timers_state [simp]:
  "sys_db (fire_timers ts s) = sys_db s" "sys_reg (fire_timers ts s) = sys_reg s"
  "sys_clock (fire_timers ts s) = sys_clock s" "sys_timers (fire_timers ts s) = sys_timers s"
  "io_conns (sys_io (fire_timers ts s)) = io_conns (sys_io s)"
  "io_rooms (sys_io (fire_timers ts s)) = io_rooms (sys_io s)"
  by (induction ts arbitrary: s) (simp_all add: fire_timers_def)

lemma fire_timers_outbox:
  "io_outbox (sys_io (fire_timers ts s)) =
     io_outbox (sys_io s) @ map (\<lambda>t. (io_rooms (sys_io s) (tm_room t), tm_event t)) ts"
proof (induction ts arbitrary: s)
  case Nil
  then show ?case by (simp add: fire_timers_def)
next
  case (Cons t ts)
  have "fire_timers (t # ts) s = fire_timers ts (emit_room (tm_room t) (tm_event t) s)"
    by (simp add: fire_timers_def)
  with Cons.IH [of "emit_room (tm_room t) (tm_event t) s"] show ?case
    by (simp add: fire_timers_state)
qed

end
