(* ===== verification/Http.thy ===== *)
theory Http
  imports Store "HOL-Library.Char_ord" "HOL-Library.List_Lexorder" "HOL-Library.Product_Lexorder"
begin

text \<open>
  The shape shared by the Express controllers under controllers/: a controller reads the
  request, the store, and the clock, and answers with a status code and a JSON body,
  writing documents on the way. Three bodies occur: \<open>{message}\<close>, the
  \<open>{errors}\<close> array of express-validator, and the data itself. Every controller
  wraps its work in \<open>try/catch\<close>: an error whose \<open>kind\<close> is \<open>'ObjectId'\<close> (a
  malformed id) becomes a 404 with the controller's not-found message, anything else a
  500 \<open>'Server error'\<close>. \<open>doc.save()\<close> runs the schema's validators first and rejects
  an invalid document with a ValidationError; a string field declared \<open>trim\<close> is
  trimmed when it is assigned. \<open>populate\<close> only shapes the JSON of the answer and is
  not modelled. The authenticated user \<open>req.user\<close> is the payload the auth middleware
  (required by the routes as middleware/auth.middleware.js, which the repository does
  not contain) decoded from the token.
\<close>

datatype 'd body = Msg string | Errs "string list" | Data 'd

type_synonym 'd reply = "nat \<times> 'd body"

record req_user =
  ru_id :: oid
  ru_username :: string

definition server_error :: "'d reply" where
  "server_error = (500, Msg ''Server error'')"

definition catch_reply :: "string \<Rightarrow> js_exn \<Rightarrow> 'd reply" where
  "catch_reply nf e = (case e of CastError _ \<Rightarrow> (404, Msg nf) | _ \<Rightarrow> server_error)"

text \<open>\<open>if (!errors.isEmpty()) return res.status(400).json({ errors: errors.array() })\<close>\<close>

definition validation_failed :: "string list \<Rightarrow> 'd reply" where
  "validation_failed errs = (400, Errs errs)"

text \<open>A JavaScript string in a boolean context.\<close>

definition str_truthy :: "string option \<Rightarrow> bool" where
  "str_truthy s = (case s of None \<Rightarrow> False | Some x \<Rightarrow> x \<noteq> [])"

definition or_default :: "string option \<Rightarrow> string \<Rightarrow> string" where
  "or_default s d = (if str_truthy s then the s else d)"

section \<open>Schema validation on save\<close>

text \<open>StreamSchema: \<open>title\<close> required, at most 100 characters; \<open>description\<close> at most
  2000. A required string fails on the empty string.\<close>

definition stream_valid :: "stream_doc \<Rightarrow> bool" where
  "stream_valid st = (st_title st \<noteq> [] \<and> length (st_title st) \<le> 100 \<and> length (st_description st) \<le> 2000)"

text \<open>CodeSessionSchema: \<open>title\<close> required, at most 100 characters; \<open>language\<close>
  and \<open>owner\<close> required (an owner that was never set is the empty string here).\<close>

definition session_valid :: "code_session_doc \<Rightarrow> bool" where
  "session_valid c = (cs_title c \<noteq> [] \<and> length (cs_title c) \<le> 100 \<and> cs_language c \<noteq> [] \<and> cs_owner c \<noteq> [])"

definition validated_save_stream :: "oid \<Rightarrow> stream_doc \<Rightarrow> store \<Rightarrow> js_exn + store" where
  "validated_save_stream i st db =
     (if stream_valid st then Inr (save_stream i st db)
      else Inl (ValidationError ''Stream validation failed''))"

definition validated_save_session :: "oid \<Rightarrow> code_session_doc \<Rightarrow> store \<Rightarrow> js_exn + store" where
  "validated_save_session i c db =
     (if session_valid c then Inr (save_session i c db)
      else Inl (ValidationError ''CodeSession validation failed''))"

section \<open>Queries\<close>

text \<open>\<open>Model.find(filter)\<close> in natural order, which for ObjectIds generated by one
  server is the order of their hexadecimal strings.\<close>

definition find_where :: "(oid \<rightharpoonup> 'a) \<Rightarrow> ('a \<Rightarrow> bool) \<Rightarrow> (oid \<times> 'a) list" where
  "find_where coll P =
     filter (\<lambda>(i, d). P d) (map (\<lambda>i. (i, the (coll i))) (sorted_list_of_set (dom coll)))"

text \<open>\<open>.sort({ field: -1 })\<close> on an optional date: later dates first, \<open>null\<close> last.\<close>

fun date_desc_key :: "millis option \<Rightarrow> int" where
  "date_desc_key None = 1"
| "date_desc_key (Some t) = - int t"

section \<open>Lemmas\<close>

lemma validated_save_stream_Inr:
  "validated_save_stream i st db = Inr db' \<longleftrightarrow> stream_valid st \<and> db' = save_stream i st db"
  by (auto simp: validated_save_stream_def)

lemma validated_save_session_Inr:
  "validated_save_session i c db = Inr db' \<longleftrightarrow> session_valid c \<and> db' = save_session i c db"
  by (auto simp: validated_save_session_def)

lemma set_find_where:
  "finite (dom coll) \<Longrightarrow> set (find_where coll P) = {(i, d). coll i = Some d \<and> P d}"
  by (auto simp: find_where_def)

lemma distinct_find_where: "distinct (map fst (find_where coll P))"
  by (simp add: find_where_def distinct_map_filter comp_def case_prod_beta)

lemma in_find_where: "x \<in> set (find_where coll P) \<Longrightarrow> coll (fst x) = Some (snd x) \<and> P (snd x)"
  by (cases "finite (dom coll)") (auto simp: find_where_def)

lemma date_desc_key_mono: "t \<le> t' \<Longrightarrow> date_desc_key (Some t') \<le> date_desc_key (Some t)"
  by simp

end
