(* ===== verification/Fixtures.thy ===== *)
theory Fixtures
  imports Server Http
begin

text \<open>
  Concrete ids and documents for the witnesses of the development: one live stream
  owned by Alice, two users, two socket ids. They are abbreviations, so they add no
  constant to the model.
\<close>

abbreviation fx_sid :: string where "fx_sid \<equiv> ''65a1b2c3d4e5f60718293a4b''"
abbreviation fx_sess :: string where "fx_sess \<equiv> ''65a1b2c3d4e5f60718293a4c''"
abbreviation fx_alice :: oid where "fx_alice \<equiv> ''65a1b2c3d4e5f60718293a01''"
abbreviation fx_bob :: oid where "fx_bob \<equiv> ''65a1b2c3d4e5f60718293a02''"
abbreviation fx_c1 :: sock_id where "fx_c1 \<equiv> ''AAAAAAAAAAAAAAAAAAA1''"
abbreviation fx_c2 :: sock_id where "fx_c2 \<equiv> ''BBBBBBBBBBBBBBBBBBB2''"

abbreviation fx_user :: "string \<Rightarrow> user_doc" where
  "fx_user n \<equiv> \<lparr>u_username = n, u_email = n, u_password = n, u_fullName = n, u_bio = [],
     u_avatar = None, u_skills = [], u_points = 0, u_followers = [], u_following = [],
     u_badges = [], u_isActive = True\<rparr>"

abbreviation fx_stream :: stream_doc where
  "fx_stream \<equiv> (new_stream fx_alice ''Live coding'')\<lparr>st_status := Live, st_startedAt := Some 0\<rparr>"

abbreviation fx_session :: code_session_doc where
  "fx_session \<equiv> \<lparr>cs_stream = Some fx_sid, cs_title = ''Demo'', cs_language = ''javascript'',
     cs_codeContent = [], cs_owner = fx_alice, cs_collaborators = [], cs_suggestions = [],
     cs_isPublic = True, cs_version = ''1.0'', cs_versionHistory = []\<rparr>"

abbreviation fx_db :: store where
  "fx_db \<equiv> \<lparr>db_streams = [fx_sid \<mapsto> fx_stream], db_sessions = [fx_sess \<mapsto> fx_session],
     db_users = [fx_alice \<mapsto> fx_user ''alice'', fx_bob \<mapsto> fx_user ''bob'']\<rparr>"

abbreviation fx_sys :: sys where
  "fx_sys \<equiv> init_sys fx_db 1000"

text \<open>The draws of \<open>Math.floor(Math.random() * 1000)\<close> in the scenarios.\<close>

abbreviation fx_rnd :: "nat \<Rightarrow> nat" where
  "fx_rnd \<equiv> (\<lambda>_. 7)"

text \<open>The authenticated users of the REST requests.\<close>

abbreviation fx_ralice :: req_user where "fx_ralice \<equiv> \<lparr>ru_id = fx_alice, ru_username = ''alice''\<rparr>"
abbreviation fx_rbob :: req_user where "fx_rbob \<equiv> \<lparr>ru_id = fx_bob, ru_username = ''bob''\<rparr>"

text \<open>Two live streams with a tag, the second started later.\<close>

abbreviation fx_sid2 :: string where "fx_sid2 \<equiv> ''65a1b2c3d4e5f60718293a4d''"

abbreviation fx_tagged_db :: store where
  "fx_tagged_db \<equiv> \<lparr>db_streams = [fx_sid \<mapsto> fx_stream\<lparr>st_tags := [''rust'']\<rparr>,
                                  fx_sid2 \<mapsto> fx_stream\<lparr>st_startedAt := Some 5, st_tags := [''rust'']\<rparr>],
                    db_sessions = Map.empty, db_users = Map.empty\<rparr>"

end
