(* ===== verification/SocketService.thy ===== *)
theory SocketService
  imports Fixtures
begin

text \<open>
  The handlers that socket.service.js registers on every authenticated socket
  (lines 37-331). Each is a body over the server state that fails with a value of
  \<open>failure\<close>, wrapped by \<open>run_guarded\<close> with the handler's \<open>catch\<close> message. The
  sender is the socket \<open>c\<close> with identity \<open>(u, ud)\<close> (\<open>socket.user.id\<close>,
  \<open>socket.user\<close>); \<open>new Date()\<close> and \<open>Date.now()\<close> read the server clock; the
  \<open>k\<close>-th call of \<open>Math.floor(Math.random() * 1000)\<close> in a handler is \<open>rnd k\<close>.
\<close>

section \<open>Stream rooms\<close>

definition stream_join_body :: "sock_id \<Rightarrow> oid \<Rightarrow> user_doc \<Rightarrow> string \<Rightarrow> sys \<Rightarrow> failure + sys" where
  "stream_join_body c u ud sid s =
     (case find_by_id (db_streams (sys_db s)) sid of
        Inl e \<Rightarrow> Inl (Thrown e)
      | Inr None \<Rightarrow> Inl (Reject ''Stream not found'')
      | Inr (Some st) \<Rightarrow>
          (let st' = addViewer u st;
               s1 = put_stream sid st' (join c (stream_room sid) s);
               s2 = emit_others c (stream_room sid) (EvViewerJoin u (u_username ud)) s1
           in Inr (emit_room (stream_room sid) (EvViewerCount (viewerCount st')) s2)))"

definition on_stream_join :: "sock_id \<Rightarrow> oid \<Rightarrow> user_doc \<Rightarrow> string \<Rightarrow> sys \<Rightarrow> sys" where
  "on_stream_join c u ud sid =
     run_guarded c (Some ''Error joining stream'') (stream_join_body c u ud sid)"

definition stream_leave_body :: "sock_id \<Rightarrow> oid \<Rightarrow> user_doc \<Rightarrow> string \<Rightarrow> sys \<Rightarrow> failure + sys" where
  "stream_leave_body c u ud sid s =
     (case find_by_id (db_streams (sys_db s)) sid of
        Inl e \<Rightarrow> Inl (Thrown e)
      | Inr None \<Rightarrow> Inr (leave c (stream_room sid) s)
      | Inr (Some st) \<Rightarrow>
          (let st' = removeViewer u st;
               s1 = put_stream sid st' s;
               s2 = emit_others c (stream_room sid) (EvViewerLeave u (u_username ud)) s1;
               s3 = emit_room (stream_room sid) (EvViewerCount (viewerCount st')) s2
           in Inr (leave c (stream_room sid) s3)))"

definition on_stream_leave :: "sock_id \<Rightarrow> oid \<Rightarrow> user_doc \<Rightarrow> string \<Rightarrow> sys \<Rightarrow> sys" where
  "on_stream_leave c u ud sid = run_guarded c None (stream_leave_body c u ud sid)"

section \<open>Chat\<close>

text \<open>\<open>if (!message || !message.trim())\<close>: a falsy message is rejected; otherwise
  \<open>trim\<close> is called, which throws on anything but a string.\<close>

definition nonempty_text :: "string \<Rightarrow> jsval \<Rightarrow> failure + string" where
  "nonempty_text m v =
     (if \<not> js_truthy v then Inl (Reject m)
      else (case js_trim_val v of
              Inl e \<Rightarrow> Inl (Thrown e)
            | Inr t \<Rightarrow> if t = [] then Inl (Reject m) else Inr t))"

definition chat_message_body :: "sock_id \<Rightarrow> oid \<Rightarrow> user_doc \<Rightarrow> string \<Rightarrow> jsval \<Rightarrow> sys \<Rightarrow> failure + sys" where
  "chat_message_body c u ud sid msg s =
     (case nonempty_text ''Message cannot be empty'' msg of
        Inl f \<Rightarrow> Inl f
      | Inr t \<Rightarrow> Inr (emit_room (stream_room sid)
                        (EvChatMessage u (u_username ud) t (sys_clock s)) s))"

definition on_chat_message :: "sock_id \<Rightarrow> oid \<Rightarrow> user_doc \<Rightarrow> string \<Rightarrow> jsval \<Rightarrow> sys \<Rightarrow> sys" where
  "on_chat_message c u ud sid msg =
     run_guarded c (Some ''Error sending message'') (chat_message_body c u ud sid msg)"

section \<open>Collaborative code sessions\<close>

definition code_change_body ::
  "sock_id \<Rightarrow> oid \<Rightarrow> user_doc \<Rightarrow> string \<Rightarrow> string \<Rightarrow> jsval \<Rightarrow> jsval \<Rightarrow> sys \<Rightarrow> failure + sys" where
  "code_change_body c u ud sess code pos save s =
     (case find_by_id (db_sessions (sys_db s)) sess of
        Inl e \<Rightarrow> Inl (Thrown e)
      | Inr None \<Rightarrow> Inl (Reject ''Code session not found'')
      | Inr (Some cs) \<Rightarrow>
          if \<not> may_edit u cs then Inl (Reject ''Not authorized to edit this code session'')
          else
            (let s1 = emit_others c (code_room sess) (EvCodeChange u (u_username ud) code pos) s
             in Inr (if js_truthy save
                     then put_session sess (updateCode code u (sys_clock s) cs) s1 else s1)))"

definition on_code_change ::
  "sock_id \<Rightarrow> oid \<Rightarrow> user_doc \<Rightarrow> string \<Rightarrow> string \<Rightarrow> jsval \<Rightarrow> jsval \<Rightarrow> sys \<Rightarrow> sys" where
  "on_code_change c u ud sess code pos save =
     run_guarded c (Some ''Error updating code'') (code_change_body c u ud sess code pos save)"

definition code_suggestion_body ::
  "sock_id \<Rightarrow> oid \<Rightarrow> user_doc \<Rightarrow> string \<Rightarrow> jsval \<Rightarrow> jsval \<Rightarrow> jsval \<Rightarrow> sys \<Rightarrow> failure + sys" where
  "code_suggestion_body c u ud sess sug ls le s =
     (case nonempty_text ''Suggestion cannot be empty'' sug of
        Inl f \<Rightarrow> Inl f
      | Inr t \<Rightarrow> Inr (emit_room (code_room sess)
                        (EvCodeSuggestion u (u_username ud) t ls le (sys_clock s)) s))"

definition on_code_suggestion ::
  "sock_id \<Rightarrow> oid \<Rightarrow> user_doc \<Rightarrow> string \<Rightarrow> jsval \<Rightarrow> jsval \<Rightarrow> jsval \<Rightarrow> sys \<Rightarrow> sys" where
  "on_code_suggestion c u ud sess sug ls le =
     run_guarded c (Some ''Error sending suggestion'') (code_suggestion_body c u ud sess sug ls le)"

definition code_vote_body ::
  "sock_id \<Rightarrow> oid \<Rightarrow> user_doc \<Rightarrow> string \<Rightarrow> jsval \<Rightarrow> jsval \<Rightarrow> sys \<Rightarrow> failure + sys" where
  "code_vote_body c u ud sess sugId vt s =
     (if vt \<noteq> JStr ''up'' \<and> vt \<noteq> JStr ''down'' then Inl (Reject ''Invalid vote type'')
      else (case vt of
              JStr v \<Rightarrow> Inr (emit_room (code_room sess)
                                 (EvCodeVote sugId u (u_username ud) v (sys_clock s)) s)
            | _ \<Rightarrow> Inl (Reject ''Invalid vote type'')))"

definition on_code_vote :: "sock_id \<Rightarrow> oid \<Rightarrow> user_doc \<Rightarrow> string \<Rightarrow> jsval \<Rightarrow> jsval \<Rightarrow> sys \<Rightarrow> sys" where
  "on_code_vote c u ud sess sugId vt =
     run_guarded c (Some ''Error processing vote'') (code_vote_body c u ud sess sugId vt)"

section \<open>Polls\<close>

text \<open>\<open>options.map(...)\<close> exists on arrays only; each option draws its own random
  offset added to \<open>Date.now()\<close>.\<close>

definition poll_option_list :: "(nat \<Rightarrow> nat) \<Rightarrow> millis \<Rightarrow> jsval \<Rightarrow> js_exn + poll_option list" where
  "poll_option_list rnd now opts =
     (case opts of
        JArr xs \<Rightarrow> Inr (map (\<lambda>(k, x). \<lparr>po_id = now + rnd k, po_text = x, po_votes = 0\<rparr>)
                          (zip [0..<length xs] xs))
      | _ \<Rightarrow> Inl (TypeError ''options.map is not a function''))"

definition poll_data_invalid :: "jsval \<Rightarrow> jsval \<Rightarrow> bool" where
  "poll_data_invalid q opts =
     (\<not> js_truthy q \<or> \<not> js_truthy opts \<or> (case js_length opts of None \<Rightarrow> True | Some n \<Rightarrow> n = 0))"

definition duration_truthy :: "int option \<Rightarrow> bool" where
  "duration_truthy d = (case d of None \<Rightarrow> False | Some n \<Rightarrow> n \<noteq> 0)"

definition poll_create_body ::
  "(nat \<Rightarrow> nat) \<Rightarrow> sock_id \<Rightarrow> oid \<Rightarrow> user_doc \<Rightarrow> string \<Rightarrow> jsval \<Rightarrow> jsval \<Rightarrow> int option
     \<Rightarrow> sys \<Rightarrow> failure + sys" where
  "poll_create_body rnd c u ud sid q opts dur s =
     (if poll_data_invalid q opts then Inl (Reject ''Invalid poll data'')
      else (case find_by_id (db_streams (sys_db s)) sid of
        Inl e \<Rightarrow> Inl (Thrown e)
      | Inr None \<Rightarrow> Inl (Reject ''Stream not found'')
      | Inr (Some st) \<Rightarrow>
          if st_user st \<noteq> u then Inl (Reject ''Only stream owner can create polls'')
          else (case poll_option_list rnd (sys_clock s) opts of
            Inl e \<Rightarrow> Inl (Thrown e)
          | Inr os \<Rightarrow>
              (let now = sys_clock s;
                   p = \<lparr>poll_id = nat_digits now, poll_question = q, poll_options = os,
                        poll_createdBy = u, poll_createdAt = now,
                        poll_endsAt = (if duration_truthy dur
                                       then Some (int now + the dur * 1000) else None)\<rparr>;
                   s1 = emit_room (stream_room sid) (EvPollCreated p) s
               in Inr (if duration_truthy dur
                       then set_timeout (the dur * 1000) (stream_room sid) (EvPollEnded (poll_id p)) s1
                       else s1)))))"

definition on_poll_create ::
  "(nat \<Rightarrow> nat) \<Rightarrow> sock_id \<Rightarrow> oid \<Rightarrow> user_doc \<Rightarrow> string \<Rightarrow> jsval \<Rightarrow> jsval \<Rightarrow> int option \<Rightarrow> sys \<Rightarrow> sys" where
  "on_poll_create rnd c u ud sid q opts dur =
     run_guarded c (Some ''Error creating poll'') (poll_create_body rnd c u ud sid q opts dur)"

definition on_poll_vote :: "sock_id \<Rightarrow> oid \<Rightarrow> user_doc \<Rightarrow> string \<Rightarrow> jsval \<Rightarrow> jsval \<Rightarrow> sys \<Rightarrow> sys" where
  "on_poll_vote c u ud sid pid oid s =
     emit_room (stream_room sid) (EvPollVote pid oid u (u_username ud) (sys_clock s)) s"

section \<open>Connection and disconnection\<close>

text \<open>On connection the socket joins its user's private room (line 41); the disconnect
  handler of this service only logs (lines 325-330).\<close>

definition on_connection :: "sock_id \<Rightarrow> oid \<Rightarrow> sys \<Rightarrow> sys" where
  "on_connection c u s = join c (user_room u) s"

definition socket_service_disconnect :: "sock_id \<Rightarrow> sys \<Rightarrow> sys" where
  "socket_service_disconnect c s = s"

section \<open>Lemmas\<close>

lemma poll_options_ok: "poll_option_list rnd now (JArr xs) = Inr (map (\<lambda>(k, x). \<lparr>po_id = now + rnd k, po_text = x, po_votes = 0\<rparr>) (zip [0..<length xs] xs))"
  by (simp add: poll_option_list_def)

lemma poll_create_timer:
  assumes "find_by_id (db_streams (sys_db s)) sid = Inr (Some st)" and "st_user st = u"
    and "js_truthy q" and "xs \<noteq> []" and "d \<noteq> 0"
  shows "sys_timers (on_poll_create rnd c u ud sid q (JArr xs) (Some d) s) =
           sys_timers s @ [\<lparr>tm_due = sys_clock s + node_delay (d * 1000), tm_room = stream_room sid,
                           tm_event = EvPollEnded (nat_digits (sys_clock s))\<rparr>]
         \<and> sys_clock (on_poll_create rnd c u ud sid q (JArr xs) (Some d) s) = sys_clock s"
  using assms
  by (simp add: on_poll_create_def poll_create_body_def run_guarded_def poll_data_invalid_def
                duration_truthy_def poll_options_ok set_timeout_def Let_def)

section \<open>Properties\<close>

text \<open>A blank chat message is never relayed: a message that is empty or made only of
  white space is answered with \<open>'Message cannot be empty'\<close> to the sender alone, and
  nothing is emitted to the stream room (spec section 8, third property).\<close>

theorem chat_blank_rejected:
  assumes "list_all js_space m"
  shows "on_chat_message c u ud sid (JStr m) s = emit_self c (EvError ''Message cannot be empty'') s"
  using assms
  by (simp add: on_chat_message_def chat_message_body_def nonempty_text_def run_guarded_def
                js_trim_empty_iff list_all_iff)

theorem chat_blank_rejected_witness:
  "list_all js_space '' \<newline> ''
   \<and> on_chat_message fx_c1 fx_alice (fx_user ''alice'') fx_sid (JStr '' \<newline> '') fx_sys
       = emit_self fx_c1 (EvError ''Message cannot be empty'') fx_sys"
proof -
  have b: "list_all js_space '' \<newline> ''" by (simp add: js_space_def)
  show ?thesis using chat_blank_rejected [OF b] b by simp
qed

text \<open>C8. A code change from a user who neither owns the session nor collaborates on it
  is answered with \<open>'Not authorized to edit this code session'\<close> to the sender alone:
  it is neither relayed to the session room nor saved (spec section 8, fourth
  property).\<close>

theorem code_change_unauthorized:
  assumes "find_by_id (db_sessions (sys_db s)) sess = Inr (Some cs)"
    and "cs_owner cs \<noteq> u" and "u \<notin> set (cs_collaborators cs)"
  shows "on_code_change c u ud sess code pos save s =
           emit_self c (EvError ''Not authorized to edit this code session'') s"
  using assms
  by (auto simp: on_code_change_def code_change_body_def run_guarded_def may_edit_def list_ex_iff)

theorem code_change_unauthorized_witness:
  "find_by_id (db_sessions (sys_db fx_sys)) fx_sess = Inr (Some fx_session)
   \<and> cs_owner fx_session \<noteq> fx_bob \<and> fx_bob \<notin> set (cs_collaborators fx_session)
   \<and> on_code_change fx_c2 fx_bob (fx_user ''bob'') fx_sess ''x'' JNull (JBool True) fx_sys =
        emit_self fx_c2 (EvError ''Not authorized to edit this code session'') fx_sys"
proof -
  have f: "find_by_id (db_sessions (sys_db fx_sys)) fx_sess = Inr (Some fx_session)"
    by (simp add: init_sys_def find_by_id_def valid_object_id_def is_hex_def)
  have o: "cs_owner fx_session \<noteq> fx_bob" by simp
  have n: "fx_bob \<notin> set (cs_collaborators fx_session)" by simp
  show ?thesis using code_change_unauthorized [OF f o n] f o n by simp
qed

text \<open>C10. The poll timer's delay is clamped by Node: a poll created with a duration of
  \<open>d\<close> seconds schedules its \<open>stream:poll_ended\<close> after \<open>d * 1000\<close> milliseconds when
  that lies in \<open>[1, 2^31 - 1]\<close>, and after 1 millisecond otherwise, so a poll longer than
  about 24.8 days, or with a negative duration, ends at once although its announced
  \<open>endsAt\<close> lies later (socket.service.js line 292).\<close>

theorem poll_timer_delay_clamped:
  assumes "find_by_id (db_streams (sys_db s)) sid = Inr (Some st)" and "st_user st = u"
    and "js_truthy q" and "xs \<noteq> []" and "d \<noteq> 0"
  shows "sys_timers (on_poll_create rnd c u ud sid q (JArr xs) (Some d) s) =
           sys_timers s @ [\<lparr>tm_due = sys_clock s +
                               (if 1 \<le> d * 1000 \<and> d * 1000 \<le> 2 ^ 31 - 1 then nat (d * 1000) else 1),
                            tm_room = stream_room sid,
                            tm_event = EvPollEnded (nat_digits (sys_clock s))\<rparr>]"
  using poll_create_timer [OF assms] by (simp add: node_delay_def timeout_max_def)

theorem poll_timer_delay_clamped_witness:
  "find_by_id (db_streams (sys_db fx_sys)) fx_sid = Inr (Some fx_stream) \<and> st_user fx_stream = fx_alice
   \<and> js_truthy (JStr ''Which editor?'') \<and> [JStr ''vim''] \<noteq> [] \<and> (2592000::int) \<noteq> 0
   \<and> sys_timers (on_poll_create fx_rnd fx_c1 fx_alice (fx_user ''alice'') fx_sid (JStr ''Which editor?'')
          (JArr [JStr ''vim'']) (Some 2592000) fx_sys) =
        [\<lparr>tm_due = 1001, tm_room = stream_room fx_sid, tm_event = EvPollEnded (nat_digits 1000)\<rparr>]"
proof -
  have f: "find_by_id (db_streams (sys_db fx_sys)) fx_sid = Inr (Some fx_stream)"
    by (simp add: init_sys_def find_by_id_def valid_object_id_def is_hex_def)
  have o: "st_user fx_stream = fx_alice" by (simp add: new_stream_def)
  have q: "js_truthy (JStr ''Which editor?'')" by simp
  show ?thesis
    using poll_timer_delay_clamped [OF f o q, of "[JStr ''vim'']" 2592000 fx_rnd fx_c1 "fx_user ''alice''"] f o
    by (simp add: init_sys_def)
qed

end
