(* ===== verification/WebRTCService.thy ===== *)
theory WebRTCService
  imports Fixtures
begin

text \<open>
  The handlers of \<open>WebRTCService.initSocketHandlers\<close> (webrtc.service.js, lines 15-192):
  starting, joining and ending a broadcast, relaying signalling messages, and the
  broadcaster clean-up on disconnect. They read and write the session registry
  \<open>sys_reg\<close> (\<open>this.streams\<close>). The registry and the stream documents are keyed by
  the \<open>streamId\<close> of the payload.
\<close>

definition start_broadcast_body :: "sock_id \<Rightarrow> oid \<Rightarrow> string \<Rightarrow> sys \<Rightarrow> failure + sys" where
  "start_broadcast_body c u sid s =
     (case find_by_id (db_streams (sys_db s)) sid of
        Inl e \<Rightarrow> Inl (Thrown e)
      | Inr None \<Rightarrow> Inl (Reject ''Stream not found'')
      | Inr (Some st) \<Rightarrow>
          if st_user st \<noteq> u then Inl (Reject ''Only stream owner can broadcast'')
          else
            (let s1 = s\<lparr>sys_reg := register_broadcaster sid u c (sys_reg s)\<rparr>;
                 s2 = join c (broadcast_room sid) s1
             in Inr (emit_room (stream_room sid) (EvBroadcastStarted sid u) s2)))"

definition on_start_broadcast :: "sock_id \<Rightarrow> oid \<Rightarrow> string \<Rightarrow> sys \<Rightarrow> sys" where
  "on_start_broadcast c u sid =
     run_guarded c (Some ''Error starting broadcast'') (start_broadcast_body c u sid)"

definition join_stream_body :: "sock_id \<Rightarrow> oid \<Rightarrow> string \<Rightarrow> sys \<Rightarrow> failure + sys" where
  "join_stream_body c u sid s =
     (case find_by_id (db_streams (sys_db s)) sid of
        Inl e \<Rightarrow> Inl (Thrown e)
      | Inr None \<Rightarrow> Inl (Reject ''Stream not found'')
      | Inr (Some st) \<Rightarrow>
          if st_status st \<noteq> Live then Inl (Reject ''Stream is not live'')
          else (case lookup_broadcaster sid (sys_reg s) of
            None \<Rightarrow> Inl (Reject ''No active broadcaster for this stream'')
          | Some _ \<Rightarrow>
              (let s1 = join c (stream_room sid) s;
                   s2 = put_stream sid (addViewer u st) s1
               in Inr (emit_room (broadcast_room sid) (EvViewerJoined sid u c) s2))))"

definition on_join_stream :: "sock_id \<Rightarrow> oid \<Rightarrow> string \<Rightarrow> sys \<Rightarrow> sys" where
  "on_join_stream c u sid =
     run_guarded c (Some ''Error joining stream'') (join_stream_body c u sid)"

text \<open>\<open>this.io.to(targetId).emit(...)\<close>: the target is a room name, and a socket id
  names the room that holds that socket alone.\<close>

definition on_signal :: "sock_id \<Rightarrow> oid \<Rightarrow> jsval \<Rightarrow> jsval \<Rightarrow> room \<Rightarrow> sys \<Rightarrow> sys" where
  "on_signal c u sidv sig target s = emit_room target (EvSignal sidv sig c u) s"

definition end_broadcast_body :: "sock_id \<Rightarrow> oid \<Rightarrow> string \<Rightarrow> sys \<Rightarrow> failure + sys" where
  "end_broadcast_body c u sid s =
     (case find_by_id (db_streams (sys_db s)) sid of
        Inl e \<Rightarrow> Inl (Thrown e)
      | Inr None \<Rightarrow> Inl (Reject ''Stream not found'')
      | Inr (Some st) \<Rightarrow>
          if st_user st \<noteq> u then Inl (Reject ''Only stream owner can end broadcast'')
          else
            (let s1 = s\<lparr>sys_reg := remove_broadcaster sid (sys_reg s)\<rparr>;
                 s2 = put_stream sid (endStream (sys_clock s) st) s1
             in Inr (emit_room (stream_room sid) (EvBroadcastEnded sid) s2)))"

definition on_end_broadcast :: "sock_id \<Rightarrow> oid \<Rightarrow> string \<Rightarrow> sys \<Rightarrow> sys" where
  "on_end_broadcast c u sid =
     run_guarded c (Some ''Error ending broadcast'') (end_broadcast_body c u sid)"

text \<open>
  The disconnect handler iterates over the registry's entries. An entry of this socket
  whose stream document is found ends that stream, notifies its room and is deleted;
  an entry whose stream is not found is left in place. An exception leaves the loop,
  and the \<open>catch\<close> block only logs. Only the entry being visited is ever deleted, so
  iterating the entries as they were when the loop began visits the same entries as
  the live iterator.
\<close>

fun disconnect_loop :: "sock_id \<Rightarrow> registry \<Rightarrow> sys \<Rightarrow> sys" where
  "disconnect_loop c [] s = s"
| "disconnect_loop c ((k, i) # es) s =
     (if bi_socketId i \<noteq> c then disconnect_loop c es s
      else (case find_by_id (db_streams (sys_db s)) k of
              Inl _ \<Rightarrow> s
            | Inr None \<Rightarrow> disconnect_loop c es s
            | Inr (Some st) \<Rightarrow>
                (let s1 = put_stream k (endStream (sys_clock s) st) s;
                     s2 = emit_room (stream_room k) (EvBroadcastEnded k) s1
                 in disconnect_loop c es (s2\<lparr>sys_reg := remove_broadcaster k (sys_reg s2)\<rparr>))))"

definition webrtc_disconnect :: "sock_id \<Rightarrow> sys \<Rightarrow> sys" where
  "webrtc_disconnect c s = disconnect_loop c (sys_reg s) s"

section \<open>Properties\<close>

lemma start_broadcast_success:
  assumes "find_by_id (db_streams (sys_db s)) sid = Inr (Some st)" and "st_user st = u"
  shows "on_start_broadcast c u sid s =
           emit_room (stream_room sid) (EvBroadcastStarted sid u)
             (join c (broadcast_room sid) (s\<lparr>sys_reg := register_broadcaster sid u c (sys_reg s)\<rparr>))"
  using assms by (simp add: on_start_broadcast_def start_broadcast_body_def run_guarded_def)

text \<open>C2. Last start wins: when the owner starts broadcasting a stream from one socket
  and then from another, the registry holds exactly one entry for the stream, and it
  names the second socket (spec section 8, first property; section 4.3).\<close>

theorem start_broadcast_last_wins:
  assumes "find_by_id (db_streams (sys_db s)) sid = Inr (Some st)" and "st_user st = u"
    and "registry_wf (sys_reg s)"
  shows "filter (\<lambda>e. fst e = sid) (sys_reg (on_start_broadcast c2 u sid (on_start_broadcast c1 u sid s)))
           = [(sid, \<lparr>bi_broadcasterId = u, bi_socketId = c2\<rparr>)]"
proof -
  let ?s1 = "on_start_broadcast c1 u sid s"
  have s1: "?s1 = emit_room (stream_room sid) (EvBroadcastStarted sid u)
             (join c1 (broadcast_room sid) (s\<lparr>sys_reg := register_broadcaster sid u c1 (sys_reg s)\<rparr>))"
    using assms(1,2) by (rule start_broadcast_success)
  then have "sys_db ?s1 = sys_db s" and reg1: "sys_reg ?s1 = register_broadcaster sid u c1 (sys_reg s)"
    by simp_all
  then have "on_start_broadcast c2 u sid ?s1 = emit_room (stream_room sid) (EvBroadcastStarted sid u)
             (join c2 (broadcast_room sid) (?s1\<lparr>sys_reg := register_broadcaster sid u c2 (sys_reg ?s1)\<rparr>))"
    using assms(1,2) by (intro start_broadcast_success) simp_all
  moreover have "registry_wf (sys_reg ?s1)"
    using reg1 assms(3) by (simp add: registry_wf_register)
  ultimately show ?thesis
    by (simp add: register_broadcaster_def registry_wf_def filter_key_jsmap_set)
qed

theorem start_broadcast_last_wins_witness:
  "find_by_id (db_streams (sys_db fx_sys)) fx_sid = Inr (Some fx_stream) \<and> st_user fx_stream = fx_alice
   \<and> registry_wf (sys_reg fx_sys)
   \<and> filter (\<lambda>e. fst e = fx_sid)
        (sys_reg (on_start_broadcast fx_c2 fx_alice fx_sid (on_start_broadcast fx_c1 fx_alice fx_sid fx_sys)))
      = [(fx_sid, \<lparr>bi_broadcasterId = fx_alice, bi_socketId = fx_c2\<rparr>)]"
proof -
  have h: "find_by_id (db_streams (sys_db fx_sys)) fx_sid = Inr (Some fx_stream)"
    by (simp add: init_sys_def find_by_id_def valid_object_id_def is_hex_def)
  have r: "registry_wf (sys_reg fx_sys)" by (simp add: init_sys_def)
  show ?thesis
    using h r start_broadcast_last_wins [OF h _ r, of fx_alice fx_c2 fx_c1]
    by (simp add: new_stream_def)
qed

text \<open>C7. A viewer's join of a stream that has no registered broadcaster fails with a
  not-found class error sent to the joining socket alone, and changes nothing else:
  the socket joins no room and the stream document is not written (spec section 8,
  second property).\<close>

theorem join_stream_needs_broadcaster:
  assumes "lookup_broadcaster sid (sys_reg s) = None"
  shows "\<exists>m \<in> {''Stream not found'', ''Stream is not live'', ''No active broadcaster for this stream'',
                ''Error joining stream''}.
           on_join_stream c u sid s = emit_self c (EvError m) s"
  using assms
  by (auto simp: on_join_stream_def join_stream_body_def run_guarded_def
           split: sum.splits option.splits if_splits)

theorem join_stream_needs_broadcaster_witness:
  "lookup_broadcaster fx_sid (sys_reg fx_sys) = None
   \<and> (\<exists>m \<in> {''Stream not found'', ''Stream is not live'', ''No active broadcaster for this stream'',
              ''Error joining stream''}.
        on_join_stream fx_c2 fx_bob fx_sid fx_sys = emit_self fx_c2 (EvError m) fx_sys)"
proof -
  have n: "lookup_broadcaster fx_sid (sys_reg fx_sys) = None"
    by (simp add: init_sys_def lookup_broadcaster_def)
  show ?thesis using join_stream_needs_broadcaster [OF n, of fx_c2 fx_bob] n by simp
qed

text \<open>One stream, two registry entries: the registry is keyed by the \<open>streamId\<close>
  string of the payload, while \<open>Stream.findById\<close> accepts the id in any letter case.
  When the owner starts a broadcast of a stream that has no entry yet under two spellings
  of its id that differ only in case, both starts succeed and the registry holds two
  entries for the one stream document (spec section 8 asks for at most one entry per
  stream).\<close>

theorem start_broadcast_case_variants:
  assumes "find_by_id (db_streams (sys_db s)) sid1 = Inr (Some st)"
    and "find_by_id (db_streams (sys_db s)) sid2 = Inr (Some st)" and "st_user st = u"
    and "sid1 \<noteq> sid2" and "oid_key sid2 = oid_key sid1"
    and "\<forall>e \<in> set (sys_reg s). oid_key (fst e) \<noteq> oid_key sid1"
  shows "length (filter (\<lambda>e. oid_key (fst e) = oid_key sid1)
            (sys_reg (on_start_broadcast c2 u sid2 (on_start_broadcast c1 u sid1 s)))) = 2"
proof -
  let ?s1 = "on_start_broadcast c1 u sid1 s"
  have s1: "?s1 = emit_room (stream_room sid1) (EvBroadcastStarted sid1 u)
             (join c1 (broadcast_room sid1) (s\<lparr>sys_reg := register_broadcaster sid1 u c1 (sys_reg s)\<rparr>))"
    using assms(1,3) by (rule start_broadcast_success)
  then have "sys_db ?s1 = sys_db s" and reg1: "sys_reg ?s1 = register_broadcaster sid1 u c1 (sys_reg s)"
    by simp_all
  then have "on_start_broadcast c2 u sid2 ?s1 = emit_room (stream_room sid2) (EvBroadcastStarted sid2 u)
             (join c2 (broadcast_room sid2) (?s1\<lparr>sys_reg := register_broadcaster sid2 u c2 (sys_reg ?s1)\<rparr>))"
    using assms(2,3) by (intro start_broadcast_success) simp_all
  moreover have "sid1 \<notin> fst ` set (sys_reg s)" and "sid2 \<notin> insert sid1 (fst ` set (sys_reg s))"
    using assms(4-6) by (force, force)
  ultimately show ?thesis
    using reg1 assms(4-6) by (simp add: register_broadcaster_def jsmap_set_new filter_empty_conv)
qed

theorem start_broadcast_case_variants_witness:
  "find_by_id (db_streams (sys_db fx_sys)) fx_sid = Inr (Some fx_stream)
   \<and> find_by_id (db_streams (sys_db fx_sys)) ''65A1B2C3D4E5F60718293A4B'' = Inr (Some fx_stream)
   \<and> st_user fx_stream = fx_alice \<and> fx_sid \<noteq> ''65A1B2C3D4E5F60718293A4B'' \<and> oid_key ''65A1B2C3D4E5F60718293A4B'' = oid_key fx_sid
   \<and> list_all (\<lambda>e. oid_key (fst e) \<noteq> oid_key fx_sid) (sys_reg fx_sys)
   \<and> length (filter (\<lambda>e. oid_key (fst e) = oid_key fx_sid)
        (sys_reg (on_start_broadcast fx_c2 fx_alice ''65A1B2C3D4E5F60718293A4B'' (on_start_broadcast fx_c1 fx_alice fx_sid fx_sys)))) = 2"
proof -
  have k: "oid_key ''65A1B2C3D4E5F60718293A4B'' = oid_key fx_sid" by (simp add: oid_key_def hex_lower_def)
  have f1: "find_by_id (db_streams (sys_db fx_sys)) fx_sid = Inr (Some fx_stream)"
    by (simp add: init_sys_def find_by_id_def valid_object_id_def is_hex_def)
  have f2: "find_by_id (db_streams (sys_db fx_sys)) ''65A1B2C3D4E5F60718293A4B'' = Inr (Some fx_stream)"
    using k by (simp add: init_sys_def find_by_id_def valid_object_id_def is_hex_def)
  have o: "st_user fx_stream = fx_alice" by (simp add: new_stream_def)
  have n: "fx_sid \<noteq> ''65A1B2C3D4E5F60718293A4B''" by simp
  have e: "\<forall>e \<in> set (sys_reg fx_sys). oid_key (fst e) \<noteq> oid_key fx_sid" by (simp add: init_sys_def)
  show ?thesis
    using start_broadcast_case_variants [OF f1 f2 o n k e, of fx_c2 fx_c1] f1 f2 o n k e by (simp add: init_sys_def)
qed

end
