(* ===== verification/Router.thy ===== *)
theory Router
  imports SocketService WebRTCService
begin

text \<open>
  How events reach the handlers. Both services register their handlers on the same
  Socket.IO server, whose middleware (\<open>auth_gate\<close>) runs before a connection is
  accepted; an accepted socket gets an id, joins the room of that id, and the
  \<open>connection\<close> handler of socket.service.js puts it in its user's room. Every named
  event of a live socket then runs the handler registered for that name; \<open>disconnect\<close>
  runs the handlers of both services, after Socket.IO has removed the socket from all
  its rooms. The whole server is a step relation: a connection attempt, one event of a
  live socket, or the passing of time, which fires the due poll timers. A handler runs
  as one step (see the root theory for what this leaves out).
\<close>

datatype inbound =
    InStreamJoin string
  | InStreamLeave string
  | InChatMessage string jsval
  | InCodeChange string string jsval jsval
  | InCodeSuggestion string jsval jsval jsval
  | InCodeVote string jsval jsval
  | InPollCreate string jsval jsval "int option"
  | InPollVote string jsval jsval
  | InStartBroadcast string
  | InJoinStream string
  | InSignal jsval jsval room
  | InEndBroadcast string
  | InDisconnect

text \<open>Socket.IO's socket ids: 20 characters of the URL-safe base64 alphabet.\<close>

definition sock_id_ok :: "sock_id \<Rightarrow> bool" where
  "sock_id_ok c = (length c = 20 \<and>
     list_all (\<lambda>ch. ch \<in> set (''ABCDEFGHIJKLMNOPQRSTUVWXYZabcdefghijklmnopqrstuvwxyz0123456789-_'')) c)"

definition connect_socket :: "verifier \<Rightarrow> string option \<Rightarrow> sock_id \<Rightarrow> sys \<Rightarrow> string + sys" where
  "connect_socket verify tok c s =
     (case auth_gate verify (sys_db s) tok of
        Inl m \<Rightarrow> Inl m
      | Inr (u, ud) \<Rightarrow> Inr (on_connection c u (s\<lparr>sys_io := io_connect c (u, ud) (sys_io s)\<rparr>)))"

definition dispatch :: "(nat \<Rightarrow> nat) \<Rightarrow> sock_id \<Rightarrow> inbound \<Rightarrow> sys \<Rightarrow> sys" where
  "dispatch rnd c ev s =
     (case io_conns (sys_io s) c of
        None \<Rightarrow> s
      | Some (u, ud) \<Rightarrow>
          (case ev of
             InStreamJoin sid \<Rightarrow> on_stream_join c u ud sid s
           | InStreamLeave sid \<Rightarrow> on_stream_leave c u ud sid s
           | InChatMessage sid m \<Rightarrow> on_chat_message c u ud sid m s
           | InCodeChange sess code pos save \<Rightarrow> on_code_change c u ud sess code pos save s
           | InCodeSuggestion sess sug ls le \<Rightarrow> on_code_suggestion c u ud sess sug ls le s
           | InCodeVote sess sugId vt \<Rightarrow> on_code_vote c u ud sess sugId vt s
           | InPollCreate sid q opts dur \<Rightarrow> on_poll_create rnd c u ud sid q opts dur s
           | InPollVote sid pid opt \<Rightarrow> on_poll_vote c u ud sid pid opt s
           | InStartBroadcast sid \<Rightarrow> on_start_broadcast c u sid s
           | InJoinStream sid \<Rightarrow> on_join_stream c u sid s
           | InSignal sidv sig target \<Rightarrow> on_signal c u sidv sig target s
           | InEndBroadcast sid \<Rightarrow> on_end_broadcast c u sid s
           | InDisconnect \<Rightarrow>
               webrtc_disconnect c
                 (socket_service_disconnect c (s\<lparr>sys_io := io_disconnect c (sys_io s)\<rparr>))))"

inductive server_step :: "verifier \<Rightarrow> sys \<Rightarrow> sys \<Rightarrow> bool" for verify where
  connect: "c \<notin> dom (io_conns (sys_io s)) \<Longrightarrow> sock_id_ok c \<Longrightarrow>
     connect_socket verify tok c s = Inr s' \<Longrightarrow> server_step verify s s'"
| event: "c \<in> dom (io_conns (sys_io s)) \<Longrightarrow> \<forall>k. rnd k < 1000 \<Longrightarrow>
     server_step verify s (dispatch rnd c ev s)"
| tick: "server_step verify s (advance_clock d s)"

inductive reachable :: "verifier \<Rightarrow> store \<Rightarrow> millis \<Rightarrow> sys \<Rightarrow> bool" for verify db0 t0 where
  init: "reachable verify db0 t0 (init_sys db0 t0)"
| step: "reachable verify db0 t0 s \<Longrightarrow> server_step verify s s' \<Longrightarrow> reachable verify db0 t0 s'"

inductive_cases server_stepE: "server_step verify s s'"

end
