(* ===== verification/Invariants.thy ===== *)
theory Invariants
  imports Router
begin

text \<open>
  The invariant of the server's reachable states, and its proof by rule induction over
  \<open>reachable\<close>: one preservation lemma per primitive effect (emit, join, leave, store
  write, registry update), one per handler built from them, then one per step.
\<close>

section \<open>The invariant\<close>

definition sys_inv :: "sys \<Rightarrow> bool" where
  "sys_inv s =
     (io_wf (sys_io s)
      \<and> (\<forall>c \<in> dom (io_conns (sys_io s)). sock_id_ok c \<and> c \<in> io_rooms (sys_io s) c)
      \<and> (\<forall>r. sock_id_ok r \<longrightarrow> io_rooms (sys_io s) r \<subseteq> {r})
      \<and> (\<forall>x. io_rooms (sys_io s) (code_room x) = {})
      \<and> registry_wf (sys_reg s)
      \<and> (\<forall>(k, i) \<in> set (sys_reg s). valid_object_id k \<and> oid_key k \<in> dom (db_streams (sys_db s))
                                   \<and> bi_socketId i \<in> dom (io_conns (sys_io s)))
      \<and> db_wf (sys_db s))"

section \<open>Room names\<close>

lemma colon_not_sock_char:
  "CHR '':'' \<notin> set ''ABCDEFGHIJKLMNOPQRSTUVWXYZabcdefghijklmnopqrstuvwxyz0123456789-_''"
  by simp

lemma sock_id_no_colon: "sock_id_ok c \<Longrightarrow> CHR '':'' \<notin> set c"
  using colon_not_sock_char unfolding sock_id_ok_def list_all_iff by blast

lemma named_rooms_not_sock_id [simp]:
  "\<not> sock_id_ok (stream_room x)" "\<not> sock_id_ok (broadcast_room x)"
  "\<not> sock_id_ok (user_room x)" "\<not> sock_id_ok (code_room x)"
  by (auto dest!: sock_id_no_colon simp: stream_room_def broadcast_room_def user_room_def code_room_def)

lemma named_rooms_not_code_room [simp]:
  "stream_room a \<noteq> code_room b" "broadcast_room a \<noteq> code_room b" "user_room a \<noteq> code_room b"
  "sock_id_ok c \<Longrightarrow> c \<noteq> code_room b"
  by (auto simp: stream_room_def broadcast_room_def user_room_def code_room_def
           dest!: sock_id_no_colon)

section \<open>Primitive effects\<close>

lemma sys_inv_emit [inv_intros]:
  "sys_inv s \<Longrightarrow> sys_inv (emit_room r e s)"
  "sys_inv s \<Longrightarrow> sys_inv (emit_others c r e s)"
  "sys_inv s \<Longrightarrow> sys_inv (emit_self c e s)"
  by (simp_all add: sys_inv_def io_wf_def)

lemma sys_inv_join [inv_intros]:
  assumes "sys_inv s" "c \<in> dom (io_conns (sys_io s))" "\<not> sock_id_ok r" "\<forall>x. r \<noteq> code_room x"
  shows "sys_inv (join c r s)"
  using assms by (auto simp: sys_inv_def io_wf_def)

lemma sys_inv_leave [inv_intros]:
  assumes "sys_inv s" "\<not> sock_id_ok r"
  shows "sys_inv (leave c r s)"
  using assms by (auto simp: sys_inv_def io_wf_def)

lemma sys_inv_put_stream [inv_intros]:
  assumes "sys_inv s" "stream_wf st"
  shows "sys_inv (put_stream i st s)"
  using assms by (auto simp: sys_inv_def db_wf_def save_stream_def)

lemma sys_inv_put_session [inv_intros]:
  "sys_inv s \<Longrightarrow> sys_inv (put_session i cs s)"
  by (simp add: sys_inv_def db_wf_def)

lemma sys_inv_register [inv_intros]:
  assumes "sys_inv s" "valid_object_id k" "oid_key k \<in> dom (db_streams (sys_db s))"
    "c \<in> dom (io_conns (sys_io s))"
  shows "sys_inv (s\<lparr>sys_reg := register_broadcaster k u c (sys_reg s)\<rparr>)"
proof -
  have "registry_wf (sys_reg s)" using assms(1) by (simp add: sys_inv_def)
  then have "set (register_broadcaster k u c (sys_reg s))
               \<subseteq> insert (k, \<lparr>bi_broadcasterId = u, bi_socketId = c\<rparr>) (set (sys_reg s))"
    by (auto simp: register_broadcaster_def registry_wf_def set_jsmap_set_sub)
  with assms show ?thesis
    by (auto simp: sys_inv_def registry_wf_register)
qed

lemma sys_inv_remove [inv_intros]:
  "sys_inv s \<Longrightarrow> sys_inv (s\<lparr>sys_reg := remove_broadcaster k (sys_reg s)\<rparr>)"
  by (auto simp: sys_inv_def registry_wf_remove)

lemma sys_inv_set_timeout [inv_intros]:
  "sys_inv s \<Longrightarrow> sys_inv (set_timeout d r e s)"
  by (simp add: sys_inv_def set_timeout_def)

lemma sys_inv_run_guarded:
  assumes "sys_inv s" and "\<And>s'. body s = Inr s' \<Longrightarrow> sys_inv s'"
  shows "sys_inv (run_guarded c cm body s)"
  using assms
  by (auto simp: run_guarded_def sys_inv_emit split: sum.splits failure.splits option.splits)

lemma db_wf_found:
  "sys_inv s \<Longrightarrow> find_by_id (db_streams (sys_db s)) i = Inr (Some st) \<Longrightarrow> stream_wf st"
  by (auto simp: sys_inv_def db_wf_def dest: find_by_id_found)

section \<open>Handlers\<close>

lemma sys_inv_stream_join_body:
  assumes "sys_inv s" "c \<in> dom (io_conns (sys_io s))" "stream_join_body c u ud sid s = Inr s'"
  shows "sys_inv s'"
proof -
  obtain st where f: "find_by_id (db_streams (sys_db s)) sid = Inr (Some st)"
    and s': "s' = emit_room (stream_room sid) (EvViewerCount (viewerCount (addViewer u st)))
               (emit_others c (stream_room sid) (EvViewerJoin u (u_username ud))
                 (put_stream sid (addViewer u st) (join c (stream_room sid) s)))"
    using assms(3) by (auto simp: stream_join_body_def Let_def split: sum.splits option.splits)
  have "stream_wf st"
    using assms(1) f by (rule db_wf_found)
  with assms(1,2) show ?thesis
    unfolding s' by (intro inv_intros) simp_all
qed

lemma sys_inv_stream_leave_body:
  assumes "sys_inv s" "stream_leave_body c u ud sid s = Inr s'"
  shows "sys_inv s'"
proof (cases "find_by_id (db_streams (sys_db s)) sid")
  case (Inl e)
  with assms(2) show ?thesis by (simp add: stream_leave_body_def)
next
  case (Inr r)
  show ?thesis
  proof (cases r)
    case None
    with Inr assms show ?thesis
      by (auto simp: stream_leave_body_def intro!: inv_intros)
  next
    case (Some st)
    have "stream_wf (removeViewer u st)"
      using db_wf_found [OF assms(1)] Inr Some by (blast intro: stream_wf_removeViewer)
    with Inr Some assms show ?thesis
      by (auto simp: stream_leave_body_def Let_def intro!: inv_intros)
  qed
qed

lemma sys_inv_chat_message_body:
  "sys_inv s \<Longrightarrow> chat_message_body c u ud sid m s = Inr s' \<Longrightarrow> sys_inv s'"
  by (auto simp: chat_message_body_def split: sum.splits intro!: inv_intros)

lemma sys_inv_code_change_body:
  "sys_inv s \<Longrightarrow> code_change_body c u ud sess code pos save s = Inr s' \<Longrightarrow> sys_inv s'"
  by (auto simp: code_change_body_def Let_def split: sum.splits option.splits if_splits
           intro!: inv_intros)

lemma sys_inv_code_suggestion_body:
  "sys_inv s \<Longrightarrow> code_suggestion_body c u ud sess sug ls le s = Inr s' \<Longrightarrow> sys_inv s'"
  by (auto simp: code_suggestion_body_def split: sum.splits intro!: inv_intros)

lemma sys_inv_code_vote_body:
  "sys_inv s \<Longrightarrow> code_vote_body c u ud sess sugId vt s = Inr s' \<Longrightarrow> sys_inv s'"
  by (auto simp: code_vote_body_def split: if_splits jsval.splits intro!: inv_intros)

lemma sys_inv_poll_create_body:
  "sys_inv s \<Longrightarrow> poll_create_body rnd c u ud sid q opts dur s = Inr s' \<Longrightarrow> sys_inv s'"
  by (auto simp: poll_create_body_def Let_def split: if_splits sum.splits option.splits
           intro!: inv_intros)

lemma sys_inv_start_broadcast_body:
  assumes "sys_inv s" "c \<in> dom (io_conns (sys_io s))" "start_broadcast_body c u sid s = Inr s'"
  shows "sys_inv s'"
proof -
  obtain st where f: "find_by_id (db_streams (sys_db s)) sid = Inr (Some st)"
    and s': "s' = emit_room (stream_room sid) (EvBroadcastStarted sid u)
               (join c (broadcast_room sid) (s\<lparr>sys_reg := register_broadcaster sid u c (sys_reg s)\<rparr>))"
    using assms(3) by (auto simp: start_broadcast_body_def Let_def split: sum.splits option.splits if_splits)
  from f have "valid_object_id sid" "oid_key sid \<in> dom (db_streams (sys_db s))"
    by (auto simp: find_by_id_def split: if_splits)
  with assms(1,2) show ?thesis
    unfolding s' by (intro inv_intros) simp_all
qed

lemma sys_inv_join_stream_body:
  assumes "sys_inv s" "c \<in> dom (io_conns (sys_io s))" "join_stream_body c u sid s = Inr s'"
  shows "sys_inv s'"
proof -
  obtain st where f: "find_by_id (db_streams (sys_db s)) sid = Inr (Some st)"
    and s': "s' = emit_room (broadcast_room sid) (EvViewerJoined sid u c)
               (put_stream sid (addViewer u st) (join c (stream_room sid) s))"
    using assms(3)
    by (auto simp: join_stream_body_def Let_def split: sum.splits option.splits if_splits)
  have "stream_wf st"
    using assms(1) f by (rule db_wf_found)
  with assms(1,2) show ?thesis
    unfolding s' by (intro inv_intros) simp_all
qed

lemma sys_inv_end_broadcast_body:
  assumes "sys_inv s" "end_broadcast_body c u sid s = Inr s'"
  shows "sys_inv s'"
proof -
  obtain st where f: "find_by_id (db_streams (sys_db s)) sid = Inr (Some st)"
    and s': "s' = emit_room (stream_room sid) (EvBroadcastEnded sid)
               (put_stream sid (endStream (sys_clock s) st)
                 (s\<lparr>sys_reg := remove_broadcaster sid (sys_reg s)\<rparr>))"
    using assms(2) by (auto simp: end_broadcast_body_def Let_def split: sum.splits option.splits if_splits)
  have "stream_wf st"
    using assms(1) f by (rule db_wf_found)
  with assms(1) show ?thesis
    unfolding s' by (intro inv_intros) simp_all
qed

section \<open>The disconnect loop\<close>

lemma disconnect_loop_frame_all:
  "io_conns (sys_io (disconnect_loop c es s)) = io_conns (sys_io s)
   \<and> io_rooms (sys_io (disconnect_loop c es s)) = io_rooms (sys_io s)
   \<and> dom (db_streams (sys_db (disconnect_loop c es s))) = dom (db_streams (sys_db s))
   \<and> sys_timers (disconnect_loop c es s) = sys_timers s
   \<and> sys_clock (disconnect_loop c es s) = sys_clock s"
proof (induction es arbitrary: s)
  case Nil
  then show ?case by simp
next
  case (Cons e es)
  obtain k i where e: "e = (k, i)" by (cases e)
  show ?case
  proof (cases "bi_socketId i = c \<and> (\<exists>st. find_by_id (db_streams (sys_db s)) k = Inr (Some st))")
    case True
    then obtain st where f: "find_by_id (db_streams (sys_db s)) k = Inr (Some st)" by blast
    then have "oid_key k \<in> dom (db_streams (sys_db s))" by (auto dest: find_by_id_found)
    with True e f Cons.IH show ?thesis by (auto simp: Let_def)
  next
    case False
    with Cons e show ?thesis
      by (cases "find_by_id (db_streams (sys_db s)) k") (auto split: option.splits)
  qed
qed

lemmas disconnect_loop_frame = disconnect_loop_frame_all [THEN conjunct1]
  disconnect_loop_frame_all [THEN conjunct2, THEN conjunct1]
  disconnect_loop_frame_all [THEN conjunct2, THEN conjunct2, THEN conjunct1]
  disconnect_loop_frame_all [THEN conjunct2, THEN conjunct2, THEN conjunct2, THEN conjunct1]
  disconnect_loop_frame_all [THEN conjunct2, THEN conjunct2, THEN conjunct2, THEN conjunct2]

lemma disconnect_loop_db_wf:
  "db_wf (sys_db s) \<Longrightarrow> db_wf (sys_db (disconnect_loop c es s))"
proof (induction es arbitrary: s)
  case Nil
  then show ?case by simp
next
  case (Cons e es)
  obtain k i where e: "e = (k, i)" by (cases e)
  show ?case
  proof (cases "bi_socketId i = c \<and> (\<exists>st. find_by_id (db_streams (sys_db s)) k = Inr (Some st))")
    case True
    then obtain st where f: "find_by_id (db_streams (sys_db s)) k = Inr (Some st)" by blast
    have "stream_wf st"
      using Cons.prems f by (auto simp: db_wf_def dest: find_by_id_found)
    then have "db_wf (save_stream k (endStream (sys_clock s) st) (sys_db s))"
      using Cons.prems by (auto simp: db_wf_def save_stream_def intro: stream_wf_endStream)
    with True e f Cons.IH show ?thesis by (simp add: Let_def)
  next
    case False
    with Cons e show ?thesis
      by (cases "find_by_id (db_streams (sys_db s)) k") (auto split: option.splits)
  qed
qed

definition loop_ready :: "sock_id \<Rightarrow> registry \<Rightarrow> sys \<Rightarrow> bool" where
  "loop_ready c es s =
     (\<forall>k \<in> set (streams_of_socket c es). valid_object_id k \<and> oid_key k \<in> dom (db_streams (sys_db s)))"

lemma loop_ready_Cons:
  "loop_ready c ((k, i) # es) s =
     ((bi_socketId i = c \<longrightarrow> valid_object_id k \<and> oid_key k \<in> dom (db_streams (sys_db s)))
      \<and> loop_ready c es s)"
  by (auto simp: loop_ready_def streams_of_socket_def)

lemma loop_ready_found:
  "valid_object_id k \<Longrightarrow> oid_key k \<in> dom (db_streams (sys_db s)) \<Longrightarrow>
     \<exists>st. find_by_id (db_streams (sys_db s)) k = Inr (Some st)"
  by (auto simp: find_by_id_def)

lemma loop_ready_cong:
  "dom (db_streams (sys_db s')) = dom (db_streams (sys_db s)) \<Longrightarrow>
     loop_ready c es s' = loop_ready c es s"
  by (simp add: loop_ready_def)


lemma streams_of_socket_Cons:
  "streams_of_socket c ((k, i) # es) =
     (if bi_socketId i = c then k # streams_of_socket c es else streams_of_socket c es)"
  by (simp add: streams_of_socket_def)

lemma filter_remove_broadcaster:
  "filter (\<lambda>e. fst e \<notin> set ks) (remove_broadcaster k r) = filter (\<lambda>e. fst e \<notin> set (k # ks)) r"
  by (simp add: remove_broadcaster_def jsmap_delete_def filter_filter conj_commute del: set_jsmap_delete)

lemma disconnect_loop_step:
  assumes "bi_socketId i = c" "find_by_id (db_streams (sys_db s)) k = Inr (Some st)"
  shows "disconnect_loop c ((k, i) # es) s =
           disconnect_loop c es
             ((emit_room (stream_room k) (EvBroadcastEnded k) (put_stream k (endStream (sys_clock s) st) s))
               \<lparr>sys_reg := remove_broadcaster k (sys_reg s)\<rparr>)"
  using assms by (simp add: Let_def)



lemma disconnect_loop_reg_outbox:
  assumes "loop_ready c es s"
  shows "sys_reg (disconnect_loop c es s) =
           filter (\<lambda>e. fst e \<notin> set (streams_of_socket c es)) (sys_reg s)
         \<and> io_outbox (sys_io (disconnect_loop c es s)) =
           io_outbox (sys_io s) @
             map (\<lambda>k. (io_rooms (sys_io s) (stream_room k), EvBroadcastEnded k)) (streams_of_socket c es)"
  using assms
proof (induction es arbitrary: s)
  case Nil
  then show ?case by (simp add: streams_of_socket_def)
next
  case (Cons e es)
  obtain k i where e: "e = (k, i)" by (cases e)
  show ?case
  proof (cases "bi_socketId i = c")
    case False
    then have "loop_ready c es s" using Cons.prems e by (simp add: loop_ready_Cons)
    then have IH: "sys_reg (disconnect_loop c es s) =
           filter (\<lambda>e. fst e \<notin> set (streams_of_socket c es)) (sys_reg s)
         \<and> io_outbox (sys_io (disconnect_loop c es s)) =
           io_outbox (sys_io s) @
             map (\<lambda>k. (io_rooms (sys_io s) (stream_room k), EvBroadcastEnded k)) (streams_of_socket c es)"
      by (rule Cons.IH)
    have eq1: "disconnect_loop c (e # es) s = disconnect_loop c es s"
      using False e by simp
    have eq2: "streams_of_socket c (e # es) = streams_of_socket c es"
      using False e by (simp add: streams_of_socket_Cons)
    show ?thesis unfolding eq1 eq2 by (rule IH)
  next
    case True
    with Cons.prems e obtain st where f: "find_by_id (db_streams (sys_db s)) k = Inr (Some st)"
      by (auto simp: loop_ready_Cons dest: loop_ready_found)
    define s3 where "s3 = (emit_room (stream_room k) (EvBroadcastEnded k)
                            (put_stream k (endStream (sys_clock s) st) s))
                          \<lparr>sys_reg := remove_broadcaster k (sys_reg s)\<rparr>"
    have dom3: "dom (db_streams (sys_db s3)) = dom (db_streams (sys_db s))"
      using f by (auto simp: s3_def dest: find_by_id_found)
    have "loop_ready c es s"
      using Cons.prems e by (simp add: loop_ready_Cons)
    then have "loop_ready c es s3"
      using loop_ready_cong [OF dom3] by simp
    then have IH: "sys_reg (disconnect_loop c es s3) =
           filter (\<lambda>e. fst e \<notin> set (streams_of_socket c es)) (sys_reg s3)
         \<and> io_outbox (sys_io (disconnect_loop c es s3)) =
           io_outbox (sys_io s3) @
             map (\<lambda>k. (io_rooms (sys_io s3) (stream_room k), EvBroadcastEnded k)) (streams_of_socket c es)"
      by (rule Cons.IH)
    have step: "disconnect_loop c (e # es) s = disconnect_loop c es s3"
      unfolding e s3_def using True f by (rule disconnect_loop_step)
    have r3: "sys_reg s3 = remove_broadcaster k (sys_reg s)"
      and o3: "io_outbox (sys_io s3) = io_outbox (sys_io s) @ [(io_rooms (sys_io s) (stream_room k), EvBroadcastEnded k)]"
      and m3: "io_rooms (sys_io s3) = io_rooms (sys_io s)"
      by (simp_all add: s3_def)
    have "streams_of_socket c (e # es) = k # streams_of_socket c es"
      using True e by (simp add: streams_of_socket_Cons)
    with IH step r3 o3 m3 show ?thesis
      by (simp add: filter_remove_broadcaster)
  qed
qed


lemma sys_inv_webrtc_disconnect:
  assumes inv: "sys_inv s"
  shows "sys_inv (webrtc_disconnect c (socket_service_disconnect c (s\<lparr>sys_io := io_disconnect c (sys_io s)\<rparr>)))"
proof -
  define s1 where "s1 = s\<lparr>sys_io := io_disconnect c (sys_io s)\<rparr>"
  define s2 where "s2 = disconnect_loop c (sys_reg s1) s1"
  have ready: "loop_ready c (sys_reg s1) s1"
    using inv by (auto simp: s1_def loop_ready_def sys_inv_def streams_of_socket_def)
  have reg2: "sys_reg s2 = filter (\<lambda>e. fst e \<notin> set (streams_of_socket c (sys_reg s))) (sys_reg s)"
    using disconnect_loop_reg_outbox [OF ready] by (simp add: s2_def s1_def)
  have fr: "io_conns (sys_io s2) = (io_conns (sys_io s))(c := None)"
    "io_rooms (sys_io s2) = (\<lambda>r. io_rooms (sys_io s) r - {c})"
    "dom (db_streams (sys_db s2)) = dom (db_streams (sys_db s))"
    by (simp_all add: s2_def s1_def disconnect_loop_frame)
  have wf2: "db_wf (sys_db s2)"
    using inv by (simp add: s2_def s1_def sys_inv_def disconnect_loop_db_wf)
  have rwf: "registry_wf (sys_reg s)" using inv by (simp add: sys_inv_def)
  have entries: "\<forall>(k, i) \<in> set (sys_reg s2). valid_object_id k \<and> oid_key k \<in> dom (db_streams (sys_db s2))
                    \<and> bi_socketId i \<in> dom (io_conns (sys_io s2))"
  proof (intro ballI, clarify)
    fix k i assume ki: "(k, i) \<in> set (sys_reg s2)"
    then have old: "(k, i) \<in> set (sys_reg s)" and nk: "k \<notin> set (streams_of_socket c (sys_reg s))"
      by (simp_all add: reg2)
    then have "bi_socketId i \<noteq> c"
      by (force simp: streams_of_socket_def)
    with old inv fr show "valid_object_id k \<and> oid_key k \<in> dom (db_streams (sys_db s2))
                    \<and> bi_socketId i \<in> dom (io_conns (sys_io s2))"
      by (auto simp: sys_inv_def)
  qed
  have "registry_wf (sys_reg s2)"
    using rwf by (simp add: reg2 registry_wf_def distinct_map_filter)
  with inv fr wf2 entries have "sys_inv s2"
    by (auto simp: sys_inv_def io_wf_def)
  then show ?thesis
    by (simp add: s2_def s1_def webrtc_disconnect_def socket_service_disconnect_def)
qed


lemma dispatch_disconnect:
  assumes "sys_inv s" "io_conns (sys_io s) c = Some (u, ud)"
  shows "sys_reg (dispatch rnd c InDisconnect s) =
           filter (\<lambda>e. fst e \<notin> set (streams_of_socket c (sys_reg s))) (sys_reg s)
         \<and> io_outbox (sys_io (dispatch rnd c InDisconnect s)) =
           io_outbox (sys_io s) @
             map (\<lambda>k. (io_rooms (sys_io s) (stream_room k) - {c}, EvBroadcastEnded k))
               (streams_of_socket c (sys_reg s))"
proof -
  define s1 where "s1 = s\<lparr>sys_io := io_disconnect c (sys_io s)\<rparr>"
  have ready: "loop_ready c (sys_reg s1) s1"
    using assms(1) by (auto simp: s1_def loop_ready_def sys_inv_def streams_of_socket_def)
  have "dispatch rnd c InDisconnect s = disconnect_loop c (sys_reg s1) s1"
    using assms(2) by (simp add: dispatch_def s1_def webrtc_disconnect_def socket_service_disconnect_def)
  with disconnect_loop_reg_outbox [OF ready] show ?thesis
    by (simp add: s1_def)
qed

section \<open>Steps\<close>

lemma sys_inv_dispatch:
  assumes "sys_inv s" "c \<in> dom (io_conns (sys_io s))"
  shows "sys_inv (dispatch rnd c ev s)"
proof -
  obtain u ud where cu: "io_conns (sys_io s) c = Some (u, ud)"
    using assms(2) by auto
  show ?thesis
  proof (cases ev)
    case InDisconnect
    with cu assms(1) show ?thesis
      by (simp add: dispatch_def sys_inv_webrtc_disconnect)
  qed (use cu assms in \<open>auto simp: dispatch_def on_stream_join_def on_stream_leave_def
        on_chat_message_def on_code_change_def on_code_suggestion_def on_code_vote_def
        on_poll_create_def on_poll_vote_def on_start_broadcast_def on_join_stream_def
        on_signal_def on_end_broadcast_def
        intro!: sys_inv_run_guarded inv_intros
        intro: sys_inv_stream_join_body sys_inv_stream_leave_body sys_inv_chat_message_body
          sys_inv_code_change_body sys_inv_code_suggestion_body sys_inv_code_vote_body
          sys_inv_poll_create_body sys_inv_start_broadcast_body sys_inv_join_stream_body
          sys_inv_end_broadcast_body\<close>)
qed

lemma sys_inv_io_connect:
  assumes "sys_inv s" "c \<notin> dom (io_conns (sys_io s))" "sock_id_ok c"
  shows "sys_inv (s\<lparr>sys_io := io_connect c ud (sys_io s)\<rparr>)"
  using assms by (auto simp: sys_inv_def io_wf_def)

lemma sys_inv_connect:
  assumes "sys_inv s" "c \<notin> dom (io_conns (sys_io s))" "sock_id_ok c"
    and "connect_socket verify tok c s = Inr s'"
  shows "sys_inv s'"
proof -
  obtain u ud where a: "auth_gate verify (sys_db s) tok = Inr (u, ud)"
    and s': "s' = on_connection c u (s\<lparr>sys_io := io_connect c (u, ud) (sys_io s)\<rparr>)"
    using assms(4) by (auto simp: connect_socket_def split: sum.splits)
  have "sys_inv (s\<lparr>sys_io := io_connect c (u, ud) (sys_io s)\<rparr>)"
    using assms(1-3) by (rule sys_inv_io_connect)
  then show ?thesis
    unfolding s' on_connection_def by (intro inv_intros) simp_all
qed

lemma sys_inv_fire_timers: "sys_inv (fire_timers ts s) = sys_inv s"
  by (simp add: sys_inv_def io_wf_def)

lemma sys_inv_advance_clock: "sys_inv s \<Longrightarrow> sys_inv (advance_clock d s)"
  by (simp add: advance_clock_def Let_def sys_inv_fire_timers) (simp add: sys_inv_def)

lemma sys_inv_init: "db_wf db0 \<Longrightarrow> sys_inv (init_sys db0 t0)"
  by (simp add: sys_inv_def init_sys_def io_init_def io_wf_def)

lemma reachable_sys_inv:
  assumes "db_wf db0" and "reachable verify db0 t0 s"
  shows "sys_inv s"
  using assms(2)
proof (induction rule: reachable.induct)
  case init
  show ?case using assms(1) by (rule sys_inv_init)
next
  case (step s s')
  from step.hyps(2) step.IH show ?case
    by (cases rule: server_step.cases)
       (auto intro: sys_inv_connect sys_inv_dispatch sys_inv_advance_clock)
qed

end
