(* ===== verification/Scenarios.thy ===== *)
theory Scenarios
  imports Invariants
begin

text \<open>
  Concrete runs of the server used by the witnesses: Alice connects on socket
  \<open>fx_c1\<close> and starts broadcasting her live stream; Bob connects on \<open>fx_c2\<close>.
  Each lemma shows the state reachable, rule by rule.
\<close>

abbreviation fx_verify :: verifier where
  "fx_verify \<equiv> (\<lambda>t. if t = ''token-alice'' then Some (UserClaim fx_alice)
                   else if t = ''token-bob'' then Some (UserClaim fx_bob) else None)"

abbreviation fx_S1 :: sys where
  "fx_S1 \<equiv> on_connection fx_c1 fx_alice
             (fx_sys\<lparr>sys_io := io_connect fx_c1 (fx_alice, fx_user ''alice'') (sys_io fx_sys)\<rparr>)"

abbreviation fx_S2 :: sys where
  "fx_S2 \<equiv> dispatch fx_rnd fx_c1 (InStartBroadcast fx_sid) fx_S1"

abbreviation fx_S3 :: sys where
  "fx_S3 \<equiv> on_connection fx_c2 fx_bob
             (fx_S2\<lparr>sys_io := io_connect fx_c2 (fx_bob, fx_user ''bob'') (sys_io fx_S2)\<rparr>)"

lemma fx_db_wf: "db_wf fx_db"
  by (simp add: db_wf_def stream_wf_def new_stream_def)

lemma fx_sock_ids: "sock_id_ok fx_c1" "sock_id_ok fx_c2"
  by (simp_all add: sock_id_ok_def)

lemma fx_find_alice: "find_by_id (db_users fx_db) fx_alice = Inr (Some (fx_user ''alice''))"
  by (simp add: find_by_id_def valid_object_id_def is_hex_def)

lemma fx_find_bob: "find_by_id (db_users fx_db) fx_bob = Inr (Some (fx_user ''bob''))"
  by (simp add: find_by_id_def valid_object_id_def is_hex_def)

lemma fx_find_stream: "find_by_id [fx_sid \<mapsto> fx_stream] fx_sid = Inr (Some fx_stream)"
  by (simp add: find_by_id_def valid_object_id_def is_hex_def)

lemmas fx_eval = find_by_id_def valid_object_id_def is_hex_def init_sys_def io_init_def
  dispatch_def on_connection_def on_start_broadcast_def start_broadcast_body_def run_guarded_def
  Let_def register_broadcaster_def new_stream_def connect_socket_def auth_gate_def

lemma fx_reach_S1: "reachable fx_verify fx_db 1000 fx_S1"
proof (rule reachable.step [OF reachable.init])
  have "connect_socket fx_verify (Some ''token-alice'') fx_c1 fx_sys = Inr fx_S1"
    using fx_find_alice by (simp add: connect_socket_def auth_gate_def init_sys_def)
  then show "server_step fx_verify (init_sys fx_db 1000) fx_S1"
    by (rule server_step.connect [rotated 2])
       (simp_all add: init_sys_def io_init_def fx_sock_ids)
qed

lemma fx_reach_S2: "reachable fx_verify fx_db 1000 fx_S2"
  by (rule reachable.step [OF fx_reach_S1], rule server_step.event)
     (simp_all add: init_sys_def on_connection_def)

lemma fx_reach_S3: "reachable fx_verify fx_db 1000 fx_S3"
proof (rule reachable.step [OF fx_reach_S2])
  have "connect_socket fx_verify (Some ''token-bob'') fx_c2 fx_S2 = Inr fx_S3"
    using fx_find_bob
    by (simp add: fx_find_stream connect_socket_def auth_gate_def init_sys_def dispatch_def on_connection_def
                  on_start_broadcast_def start_broadcast_body_def run_guarded_def Let_def)
  then show "server_step fx_verify fx_S2 fx_S3"
    by (rule server_step.connect [rotated 2])
       (simp_all add: fx_sock_ids fx_find_stream init_sys_def io_init_def dispatch_def
          on_connection_def on_start_broadcast_def start_broadcast_body_def run_guarded_def Let_def)
qed

lemma fx_S2_reg: "sys_reg fx_S2 = [(fx_sid, \<lparr>bi_broadcasterId = fx_alice, bi_socketId = fx_c1\<rparr>)]"
  by (simp add: fx_eval)

lemma fx_S2_conns: "io_conns (sys_io fx_S2) fx_c1 = Some (fx_alice, fx_user ''alice'')"
  by (simp add: fx_eval)

lemma fx_S2_db: "sys_db fx_S2 = fx_db"
  by (simp add: fx_eval)

lemma fx_S3_conns: "io_conns (sys_io fx_S3) fx_c2 = Some (fx_bob, fx_user ''bob'')"
  by (simp add: fx_eval)

lemma fx_S3_db: "sys_db fx_S3 = fx_db"
  by (simp add: fx_eval)

lemma fx_S3_reg: "sys_reg fx_S3 = [(fx_sid, \<lparr>bi_broadcasterId = fx_alice, bi_socketId = fx_c1\<rparr>)]"
  by (simp add: fx_eval)

end
