(* ===== verification/Timers.thy ===== *)
theory Timers
  imports Invariants
begin

text \<open>
  Pending poll timers across events. No handler cancels a timer and none but
  \<open>stream:poll_create\<close> schedules one; no event moves the clock. So a timer scheduled
  by a poll stays pending through any sequence of events, the disconnect of its
  creator included, until time passes beyond its due time, and then fires to the
  members its room has at that moment.
\<close>

definition timers_grow :: "sys \<Rightarrow> sys \<Rightarrow> bool" where
  "timers_grow s s' = (sys_clock s' = sys_clock s \<and> (\<exists>ts. sys_timers s' = sys_timers s @ ts))"

definition run_events :: "((nat \<Rightarrow> nat) \<times> sock_id \<times> inbound) list \<Rightarrow> sys \<Rightarrow> sys" where
  "run_events evs s = fold (\<lambda>(rnd, c, ev). dispatch rnd c ev) evs s"

lemma timers_grow_refl [iff]: "timers_grow s s"
  by (simp add: timers_grow_def)

lemma timers_grow_trans: "timers_grow s1 s2 \<Longrightarrow> timers_grow s2 s3 \<Longrightarrow> timers_grow s1 s3"
  by (auto simp: timers_grow_def)

lemma timers_grow_same: "sys_clock s' = sys_clock s \<Longrightarrow> sys_timers s' = sys_timers s \<Longrightarrow> timers_grow s s'"
  by (simp add: timers_grow_def)

lemma timers_grow_run_guarded:
  "(\<And>s'. body s = Inr s' \<Longrightarrow> timers_grow s s') \<Longrightarrow> timers_grow s (run_guarded c cm body s)"
  by (auto simp: run_guarded_def timers_grow_def split: sum.splits failure.splits option.splits)

lemma timers_grow_poll_create: "timers_grow s (on_poll_create rnd c u ud sid q opts dur s)"
  unfolding on_poll_create_def
  by (rule timers_grow_run_guarded)
     (auto simp: poll_create_body_def set_timeout_def timers_grow_def Let_def
           split: if_splits sum.splits option.splits)

lemma timers_grow_bodies:
  "stream_join_body c u ud sid s = Inr s' \<Longrightarrow> timers_grow s s'"
  "stream_leave_body c u ud sid s = Inr s' \<Longrightarrow> timers_grow s s'"
  "chat_message_body c u ud sid m s = Inr s' \<Longrightarrow> timers_grow s s'"
  "code_change_body c u ud sess code pos save s = Inr s' \<Longrightarrow> timers_grow s s'"
  "code_suggestion_body c u ud sess sug ls le s = Inr s' \<Longrightarrow> timers_grow s s'"
  "code_vote_body c u ud sess sugId vt s = Inr s' \<Longrightarrow> timers_grow s s'"
  "start_broadcast_body c u sid s = Inr s' \<Longrightarrow> timers_grow s s'"
  "join_stream_body c u sid s = Inr s' \<Longrightarrow> timers_grow s s'"
  "end_broadcast_body c u sid s = Inr s' \<Longrightarrow> timers_grow s s'"
  by (auto simp: stream_join_body_def stream_leave_body_def chat_message_body_def
                 code_change_body_def code_suggestion_body_def code_vote_body_def
                 start_broadcast_body_def join_stream_body_def end_broadcast_body_def
                 timers_grow_def Let_def
           split: sum.splits option.splits if_splits jsval.splits)

lemma timers_grow_handlers:
  "timers_grow s (on_stream_join c u ud sid s)"
  "timers_grow s (on_stream_leave c u ud sid s)"
  "timers_grow s (on_chat_message c u ud sid m s)"
  "timers_grow s (on_code_change c u ud sess code pos save s)"
  "timers_grow s (on_code_suggestion c u ud sess sug ls le s)"
  "timers_grow s (on_code_vote c u ud sess sugId vt s)"
  "timers_grow s (on_start_broadcast c u sid s)"
  "timers_grow s (on_join_stream c u sid s)"
  "timers_grow s (on_end_broadcast c u sid s)"
  "timers_grow s (on_poll_vote c u ud sid pid oid s)"
  "timers_grow s (on_signal c u sidv sig target s)"
  unfolding on_stream_join_def on_stream_leave_def on_chat_message_def on_code_change_def
    on_code_suggestion_def on_code_vote_def on_start_broadcast_def on_join_stream_def
    on_end_broadcast_def
  by (rule timers_grow_run_guarded, erule timers_grow_bodies)+
     (simp_all add: on_poll_vote_def on_signal_def timers_grow_def)

lemma timers_grow_disconnect:
  "timers_grow s (webrtc_disconnect c (socket_service_disconnect c (s\<lparr>sys_io := t\<rparr>)))"
  by (simp add: timers_grow_def webrtc_disconnect_def socket_service_disconnect_def
                disconnect_loop_frame)

lemma timers_grow_dispatch: "timers_grow s (dispatch rnd c ev s)"
  by (auto simp: dispatch_def timers_grow_handlers timers_grow_poll_create timers_grow_disconnect
           split: option.splits inbound.splits)

lemma timers_grow_run_events: "timers_grow s (run_events evs s)"
proof (induction evs arbitrary: s)
  case Nil
  then show ?case by (simp add: run_events_def)
next
  case (Cons e evs)
  obtain rnd c ev where e: "e = (rnd, c, ev)" by (cases e)
  have "run_events (e # evs) s = run_events evs (dispatch rnd c ev s)"
    by (simp add: run_events_def e)
  then show ?case
    using timers_grow_trans [OF timers_grow_dispatch Cons.IH] by simp
qed

lemma timer_pending:
  "timers_grow s s' \<Longrightarrow> t \<in> set (sys_timers s) \<Longrightarrow> t \<in> set (sys_timers s') \<and> sys_clock s' = sys_clock s"
  by (auto simp: timers_grow_def)

lemma advance_clock_fires:
  assumes "t \<in> set (sys_timers s)" and "tm_due t \<le> sys_clock s + d"
  shows "(io_rooms (sys_io s) (tm_room t), tm_event t) \<in> set (io_outbox (sys_io (advance_clock d s)))"
proof -
  have "t \<in> set (sort_key tm_due (filter (\<lambda>t. tm_due t \<le> sys_clock s + d) (sys_timers s)))"
    using assms by simp
  then show ?thesis
    by (auto simp: advance_clock_def Let_def fire_timers_outbox)
qed

end
