(* ===== verification/Routes.thy ===== *)
theory Routes
  imports Http
begin

text \<open>
  The Express routers under routes/. A router is its list of routes in registration
  order; a route has a method, a path pattern of literal segments and \<open>:param\<close>
  segments, its middleware chain, and the name of the handler it ends in. Express tries
  the routes in order and runs the first whose method matches and whose pattern matches
  the path: same number of segments, literals compared case-insensitively (the router's
  default), a parameter matching any non-empty segment. A trailing slash is ignored, so
  paths are given as segment lists. The middleware \<open>auth\<close>, \<open>admin\<close> and the named
  export \<open>protect\<close> come from middleware files the repository does not contain; they are
  kept as distinct names. The \<open>check(field, message)\<close> chains of express-validator are
  data: which field, which test, whether \<open>optional()\<close>; \<open>validation_errors\<close> computes
  what \<open>validationResult(req)\<close> reports. \<open>isEmail\<close> is the validator library's and is a
  parameter.
\<close>

datatype http_method = GET | POST | PUT | DELETE

datatype seg = Lit string | Param string

datatype vrule = NotEmpty | LenMax nat | LenMin nat | LenRange nat nat | IsEmail | IsIn "string list" | Exists

record vcheck =
  vc_field :: string
  vc_msg :: string
  vc_optional :: bool
  vc_rule :: vrule

datatype mw = MwAuth | MwAdmin | MwProtect | MwChecks "vcheck list"

record route =
  rt_method :: http_method
  rt_path :: "seg list"
  rt_chain :: "mw list"
  rt_handler :: string

text \<open>\<open>check(field, message).rule\<close> and \<open>check(field, message).optional().rule\<close>.\<close>

definition chk :: "string \<Rightarrow> string \<Rightarrow> vrule \<Rightarrow> vcheck" where
  "chk f m r = \<lparr>vc_field = f, vc_msg = m, vc_optional = False, vc_rule = r\<rparr>"

definition opt_chk :: "string \<Rightarrow> string \<Rightarrow> vrule \<Rightarrow> vcheck" where
  "opt_chk f m r = \<lparr>vc_field = f, vc_msg = m, vc_optional = True, vc_rule = r\<rparr>"

definition rt :: "http_method \<Rightarrow> seg list \<Rightarrow> mw list \<Rightarrow> string \<Rightarrow> route" where
  "rt m p c h = \<lparr>rt_method = m, rt_path = p, rt_chain = c, rt_handler = h\<rparr>"

section \<open>Validation\<close>

text \<open>A missing field is validated as the empty string, except by \<open>exists()\<close> and
  under \<open>optional()\<close>, which skips the chain.\<close>

fun rule_fails :: "(string \<Rightarrow> bool) \<Rightarrow> vrule \<Rightarrow> string option \<Rightarrow> bool" where
  "rule_fails is_email NotEmpty v = (case v of None \<Rightarrow> True | Some s \<Rightarrow> s = [])"
| "rule_fails is_email (LenMax n) v = (case v of None \<Rightarrow> False | Some s \<Rightarrow> n < length s)"
| "rule_fails is_email (LenMin n) v = (case v of None \<Rightarrow> 0 < n | Some s \<Rightarrow> length s < n)"
| "rule_fails is_email (LenRange a b) v =
     (case v of None \<Rightarrow> 0 < a | Some s \<Rightarrow> length s < a \<or> b < length s)"
| "rule_fails is_email IsEmail v = (case v of None \<Rightarrow> \<not> is_email [] | Some s \<Rightarrow> \<not> is_email s)"
| "rule_fails is_email (IsIn xs) v = (case v of None \<Rightarrow> [] \<notin> set xs | Some s \<Rightarrow> s \<notin> set xs)"
| "rule_fails is_email Exists v = (v = None)"

definition check_fails :: "(string \<Rightarrow> bool) \<Rightarrow> (string \<rightharpoonup> string) \<Rightarrow> vcheck \<Rightarrow> bool" where
  "check_fails is_email body c =
     (if vc_optional c \<and> body (vc_field c) = None then False
      else rule_fails is_email (vc_rule c) (body (vc_field c)))"

definition validation_errors :: "(string \<Rightarrow> bool) \<Rightarrow> (string \<rightharpoonup> string) \<Rightarrow> mw list \<Rightarrow> string list" where
  "validation_errors is_email body chain =
     concat (map (\<lambda>m. case m of MwChecks cs \<Rightarrow> map vc_msg (filter (check_fails is_email body) cs) | _ \<Rightarrow> [])
                 chain)"

section \<open>Matching\<close>

definition ascii_lower :: "char \<Rightarrow> char" where
  "ascii_lower c = (if (65::nat) \<le> of_char c \<and> of_char c \<le> (90::nat) then char_of (of_char c + (32::nat)) else c)"

fun seg_match :: "seg \<Rightarrow> string \<Rightarrow> bool" where
  "seg_match (Lit l) x = (map ascii_lower l = map ascii_lower x)"
| "seg_match (Param p) x = (x \<noteq> [])"

definition route_matches :: "route \<Rightarrow> http_method \<Rightarrow> string list \<Rightarrow> bool" where
  "route_matches r m path = (rt_method r = m \<and> list_all2 seg_match (rt_path r) path)"

fun route_params :: "seg list \<Rightarrow> string list \<Rightarrow> (string \<times> string) list" where
  "route_params (Param p # ps) (x # xs) = (p, x) # route_params ps xs"
| "route_params (Lit l # ps) (x # xs) = route_params ps xs"
| "route_params _ _ = []"

text \<open>The index of the route Express runs, with \<open>req.params\<close>.\<close>

definition select_route :: "route list \<Rightarrow> http_method \<Rightarrow> string list \<Rightarrow> (nat \<times> (string \<times> string) list) option" where
  "select_route rs m path =
     map_option (\<lambda>(j, r). (j, route_params (rt_path r) path))
       (find (\<lambda>(j, r). route_matches r m path) (zip [0..<length rs] rs))"

section \<open>The routers\<close>

definition stream_routes :: "route list" where
  "stream_routes = [
     rt POST [] [MwAuth, MwChecks [chk ''title'' ''Title is required'' NotEmpty,
                                   chk ''title'' ''Title cannot exceed 100 characters'' (LenMax 100)]]
       ''streamController.createStream'',
     rt GET [Lit ''active''] [] ''streamController.getActiveStreams'',
     rt GET [Lit ''tag'', Param ''tag''] [] ''streamController.getStreamsByTag'',
     rt GET [Param ''id''] [] ''streamController.getStreamById'',
     rt PUT [Param ''id''] [MwAuth, MwChecks [chk ''title'' ''Title cannot exceed 100 characters'' (LenMax 100)]]
       ''streamController.updateStream'',
     rt PUT [Param ''id'', Lit ''start''] [MwAuth] ''streamController.startStream'',
     rt PUT [Param ''id'', Lit ''end''] [MwAuth] ''streamController.endStream'',
     rt POST [Param ''id'', Lit ''code''] [MwAuth, MwChecks [chk ''title'' ''Title is required'' NotEmpty,
                                                         chk ''language'' ''Language is required'' NotEmpty]]
       ''streamController.createCodeSession'',
     rt POST [Param ''id'', Lit ''signal''] [MwAuth] ''streamController.handleSignaling'']"

definition code_routes :: "route list" where
  "code_routes = [
     rt GET [Lit ''sessions''] [] ''codeController.getAllSessions'',
     rt GET [Lit ''sessions'', Param ''id''] [] ''codeController.getSessionById'',
     rt POST [Lit ''sessions''] [MwProtect] ''codeController.createSession'',
     rt PUT [Lit ''sessions'', Param ''id''] [MwProtect] ''codeController.updateSession'',
     rt DELETE [Lit ''sessions'', Param ''id''] [MwProtect] ''codeController.deleteSession'',
     rt POST [Lit ''sessions'', Param ''id'', Lit ''join''] [MwProtect] ''codeController.joinSession'',
     rt POST [Lit ''sessions'', Param ''id'', Lit ''leave''] [MwProtect] ''codeController.leaveSession'',
     rt POST [Lit ''sessions'', Param ''id'', Lit ''save''] [MwProtect] ''codeController.saveCode'',
     rt POST [Lit ''execute''] [MwProtect] ''codeController.executeCode'',
     rt GET [Lit ''templates''] [] ''codeController.getTemplates'']"

definition auth_routes :: "route list" where
  "auth_routes = [
     rt POST [Lit ''register''] [MwChecks [
         chk ''username'' ''Username is required'' NotEmpty,
         chk ''username'' ''Username must be between 3 and 50 characters'' (LenRange 3 50),
         chk ''email'' ''Please include a valid email'' IsEmail,
         chk ''password'' ''Password must be at least 6 characters'' (LenMin 6),
         chk ''fullName'' ''Full name is required'' NotEmpty]]
       ''authController.register'',
     rt POST [Lit ''login''] [MwChecks [chk ''email'' ''Please include a valid email'' IsEmail,
                                      chk ''password'' ''Password is required'' Exists]]
       ''authController.login'',
     rt GET [Lit ''me''] [MwAuth] ''authController.getCurrentUser'',
     rt POST [Lit ''logout''] [] ''authController.logout'']"

definition user_routes :: "route list" where
  "user_routes = [
     rt GET [Param ''id''] [] ''userController.getUserProfile'',
     rt PUT [Lit ''profile''] [MwAuth, MwChecks [
         opt_chk ''fullName'' ''Full name cannot exceed 100 characters'' (LenMax 100),
         opt_chk ''bio'' ''Bio cannot exceed 500 characters'' (LenMax 500)]]
       ''userController.updateProfile'',
     rt PUT [Param ''id'', Lit ''follow''] [MwAuth] ''userController.followUser'',
     rt PUT [Param ''id'', Lit ''unfollow''] [MwAuth] ''userController.unfollowUser'',
     rt GET [Param ''id'', Lit ''followers''] [] ''userController.getFollowers'',
     rt GET [Param ''id'', Lit ''following''] [] ''userController.getFollowing'',
     rt GET [Lit ''search''] [] ''userController.searchUsers'']"

definition badge_categories :: "string list" where
  "badge_categories = [''content'', ''social'', ''coding'', ''streaming'', ''general'']"

definition badge_routes :: "route list" where
  "badge_routes = [
     rt POST [] [MwAuth, MwAdmin, MwChecks [
         chk ''name'' ''Name is required'' NotEmpty,
         chk ''description'' ''Description is required'' NotEmpty,
         chk ''icon'' ''Icon is required'' NotEmpty,
         chk ''category'' ''Category is required'' (IsIn badge_categories),
         chk ''requirements'' ''Requirements is required'' NotEmpty]]
       ''badgeController.createBadge'',
     rt GET [] [] ''badgeController.getBadges'',
     rt GET [Param ''id''] [] ''badgeController.getBadgeById'',
     rt PUT [Param ''id''] [MwAuth, MwAdmin, MwChecks [
         opt_chk ''name'' ''Name cannot be empty'' NotEmpty,
         opt_chk ''description'' ''Description cannot be empty'' NotEmpty,
         opt_chk ''icon'' ''Icon cannot be empty'' NotEmpty,
         opt_chk ''category'' ''Category must be valid'' (IsIn badge_categories)]]
       ''badgeController.updateBadge'',
     rt DELETE [Param ''id''] [MwAuth, MwAdmin] ''badgeController.deleteBadge'',
     rt GET [Param ''id'', Lit ''check''] [MwAuth] ''badgeController.checkBadgeQualification'',
     rt POST [Param ''id'', Lit ''award'', Param ''userId''] [MwAuth, MwAdmin] ''badgeController.awardBadge'',
     rt GET [Lit ''check-all''] [MwAuth] ''badgeController.checkAllBadges'']"

definition comment_routes :: "route list" where
  "comment_routes = [
     rt POST [] [MwAuth, MwChecks [
         chk ''content'' ''Content is required'' NotEmpty,
         chk ''content'' ''Content cannot exceed 500 characters'' (LenMax 500),
         chk ''contentType'' ''Content type is required'' (IsIn [''post'', ''video'', ''stream'', ''code'']),
         chk ''contentId'' ''Content ID is required'' NotEmpty]]
       ''commentController.createComment'',
     rt GET [Param ''contentType'', Param ''contentId''] [] ''commentController.getComments'',
     rt GET [Param ''commentId'', Lit ''replies''] [] ''commentController.getReplies'',
     rt PUT [Param ''id''] [MwAuth, MwChecks [
         chk ''content'' ''Content is required'' NotEmpty,
         chk ''content'' ''Content cannot exceed 500 characters'' (LenMax 500)]]
       ''commentController.updateComment'',
     rt DELETE [Param ''id''] [MwAuth] ''commentController.deleteComment'',
     rt PUT [Param ''id'', Lit ''like''] [MwAuth] ''commentController.likeComment'',
     rt PUT [Param ''id'', Lit ''unlike''] [MwAuth] ''commentController.unlikeComment'']"

definition leaderboard_routes :: "route list" where
  "leaderboard_routes = [
     rt GET [Param ''type'', Param ''timeframe''] [] ''leaderboardController.getLeaderboard'',
     rt POST [Lit ''update-all''] [MwAuth, MwAdmin] ''leaderboardController.updateAllLeaderboards'',
     rt GET [Lit ''user'', Param ''userId''] [] ''leaderboardController.getUserRanks'']"

definition notification_routes :: "route list" where
  "notification_routes = [
     rt GET [] [MwAuth] ''notificationController.getNotifications'',
     rt PUT [Param ''id'', Lit ''read''] [MwAuth] ''notificationController.markAsRead'',
     rt PUT [Lit ''read-all''] [MwAuth] ''notificationController.markAllAsRead'',
     rt DELETE [Param ''id''] [MwAuth] ''notificationController.deleteNotification'',
     rt GET [Lit ''unread-count''] [MwAuth] ''notificationController.getUnreadCount'']"

definition post_routes :: "route list" where
  "post_routes = [
     rt POST [] [MwAuth, MwChecks [chk ''content'' ''Content is required'' NotEmpty,
                                   chk ''content'' ''Content cannot exceed 1000 characters'' (LenMax 1000)]]
       ''postController.createPost'',
     rt GET [] [] ''postController.getPosts'',
     rt GET [Lit ''tag'', Param ''tag''] [] ''postController.getPostsByTag'',
     rt GET [Lit ''trending''] [] ''postController.getTrendingPosts'',
     rt GET [Lit ''feed''] [MwAuth] ''postController.getFeed'',
     rt GET [Param ''id''] [] ''postController.getPostById'',
     rt PUT [Param ''id''] [MwAuth, MwChecks [chk ''content'' ''Content cannot exceed 1000 characters'' (LenMax 1000)]]
       ''postController.updatePost'',
     rt DELETE [Param ''id''] [MwAuth] ''postController.deletePost'',
     rt PUT [Param ''id'', Lit ''like''] [MwAuth] ''postController.likePost'',
     rt PUT [Param ''id'', Lit ''unlike''] [MwAuth] ''postController.unlikePost'']"

definition share_routes :: "route list" where
  "share_routes = [
     rt GET [Param ''contentType'', Param ''contentId''] [] ''sharingService.generateSharingLinks'',
     rt POST [Param ''contentType'', Param ''contentId'', Param ''platform''] [MwAuth] ''sharingService.recordShare'']"

definition video_routes :: "route list" where
  "video_routes = [
     rt GET [] [] ''videoController.getAllVideos'',
     rt GET [Param ''id''] [] ''videoController.getVideoById'',
     rt POST [] [MwProtect] ''videoController.createVideo'',
     rt PUT [Param ''id''] [MwProtect] ''videoController.updateVideo'',
     rt DELETE [Param ''id''] [MwProtect] ''videoController.deleteVideo'',
     rt POST [Param ''id'', Lit ''like''] [MwProtect] ''videoController.likeVideo'',
     rt POST [Param ''id'', Lit ''unlike''] [MwProtect] ''videoController.unlikeVideo'',
     rt POST [Param ''id'', Lit ''comment''] [MwProtect] ''videoController.addComment'',
     rt GET [Param ''id'', Lit ''comments''] [] ''videoController.getVideoComments'',
     rt GET [Lit ''trending''] [] ''videoController.getTrendingVideos'',
     rt GET [Lit ''recommended''] [MwProtect] ''videoController.getRecommendedVideos'']"

text \<open>The mount points, as the routes' comments give them (\<open>@route GET /api/streams/...\<close>);
  the entry point that calls \<open>app.use\<close> is not in the repository. The prefixes differ in
  their second segment, so a request reaches at most one router.\<close>

definition api_mounts :: "(string \<times> route list) list" where
  "api_mounts = [(''streams'', stream_routes), (''code'', code_routes), (''auth'', auth_routes),
     (''users'', user_routes), (''badges'', badge_routes), (''comments'', comment_routes),
     (''leaderboards'', leaderboard_routes), (''notifications'', notification_routes),
     (''posts'', post_routes), (''share'', share_routes), (''videos'', video_routes)]"

text \<open>The router a request path \<open>/api/<prefix>/...\<close> reaches, and the route selected in it.\<close>

definition api_select :: "http_method \<Rightarrow> string list \<Rightarrow> (string \<times> nat \<times> (string \<times> string) list) option" where
  "api_select m path =
     (case path of
        a # p # rest \<Rightarrow>
          if map ascii_lower a = ''api'' then
            (case map_of api_mounts (map ascii_lower p) of
               None \<Rightarrow> None
             | Some rs \<Rightarrow> map_option (\<lambda>(k, ps). (map ascii_lower p, k, ps)) (select_route rs m rest))
          else None
      | _ \<Rightarrow> None)"

section \<open>Shadowing\<close>

text \<open>A route covers a later one when it matches every path the later one matches:
  same method, and segment by segment a parameter or an equal literal. A route can be
  selected at all only when no earlier route covers it.\<close>

fun seg_covers :: "seg \<Rightarrow> seg \<Rightarrow> bool" where
  "seg_covers (Param p) (Param q) = True"
| "seg_covers (Param p) (Lit l) = (l \<noteq> [])"
| "seg_covers (Lit l) (Lit l') = (map ascii_lower l = map ascii_lower l')"
| "seg_covers (Lit l) (Param p) = False"

definition route_covers :: "route \<Rightarrow> route \<Rightarrow> bool" where
  "route_covers r1 r2 = (rt_method r1 = rt_method r2 \<and> list_all2 seg_covers (rt_path r1) (rt_path r2))"

definition shadowed :: "route list \<Rightarrow> nat \<Rightarrow> bool" where
  "shadowed rs j = list_ex (\<lambda>i. route_covers (rs ! i) (rs ! j)) [0..<j]"

definition selectable :: "route list \<Rightarrow> nat \<Rightarrow> bool" where
  "selectable rs j = (\<exists>m path ps. select_route rs m path = Some (j, ps))"

text \<open>A path that only the patterns covering a route match: each parameter becomes a
  segment longer than every literal of the router.\<close>

fun lit_len :: "seg \<Rightarrow> nat" where
  "lit_len (Lit l) = length l"
| "lit_len (Param p) = 0"

definition lit_bound :: "route list \<Rightarrow> nat" where
  "lit_bound rs = Suc (sum_list (map lit_len (concat (map rt_path rs))))"

fun inst_seg :: "nat \<Rightarrow> seg \<Rightarrow> string" where
  "inst_seg n (Lit l) = l"
| "inst_seg n (Param p) = replicate n CHR ''x''"

section \<open>Lemmas\<close>

lemma select_route_Some:
  "select_route rs m path = Some (j, ps) \<longleftrightarrow>
     j < length rs \<and> route_matches (rs ! j) m path
     \<and> (\<forall>i < j. \<not> route_matches (rs ! i) m path) \<and> ps = route_params (rt_path (rs ! j)) path"
proof
  assume "select_route rs m path = Some (j, ps)"
  then show "j < length rs \<and> route_matches (rs ! j) m path
     \<and> (\<forall>i < j. \<not> route_matches (rs ! i) m path) \<and> ps = route_params (rt_path (rs ! j)) path"
    by (auto simp: select_route_def find_Some_iff case_prod_beta)
next
  assume a: "j < length rs \<and> route_matches (rs ! j) m path
     \<and> (\<forall>i < j. \<not> route_matches (rs ! i) m path) \<and> ps = route_params (rt_path (rs ! j)) path"
  then have "find (\<lambda>(j, r). route_matches r m path) (zip [0..<length rs] rs) = Some (j, rs ! j)"
    by (auto simp: find_Some_iff)
  with a show "select_route rs m path = Some (j, ps)"
    by (simp add: select_route_def)
qed

lemma seg_covers_match: "seg_covers a b \<Longrightarrow> seg_match b x \<Longrightarrow> seg_match a x"
  by (cases a; cases b) auto

lemma route_covers_matches:
  "route_covers r1 r2 \<Longrightarrow> route_matches r2 m path \<Longrightarrow> route_matches r1 m path"
  unfolding route_covers_def route_matches_def
  by (auto elim: list_all2_trans [rotated] intro: seg_covers_match)

lemma inst_matches:
  "0 < n \<Longrightarrow> list_all2 seg_match ps (map (inst_seg n) ps)"
proof (induction ps)
  case (Cons p ps)
  then show ?case by (cases p) auto
qed simp

lemma inst_match_covers:
  "lit_len a < n \<Longrightarrow> seg_match a (inst_seg n b) \<Longrightarrow> seg_covers a b"
proof (cases a; cases b)
  fix l p assume "a = Lit l" "b = Param p" "lit_len a < n" "seg_match a (inst_seg n b)"
  then have "length (map ascii_lower l) = length (map ascii_lower (replicate n CHR ''x''))" by simp
  with \<open>lit_len a < n\<close> \<open>a = Lit l\<close> show "seg_covers a b" by simp
qed auto

lemma lit_len_bound:
  "r \<in> set rs \<Longrightarrow> a \<in> set (rt_path r) \<Longrightarrow> lit_len a < lit_bound rs"
proof -
  assume "r \<in> set rs" "a \<in> set (rt_path r)"
  then have "lit_len a \<in> set (map lit_len (concat (map rt_path rs)))" by auto
  then have "lit_len a \<le> sum_list (map lit_len (concat (map rt_path rs)))"
    by (intro member_le_sum_list) auto
  then show ?thesis by (simp add: lit_bound_def)
qed

lemma inst_path_covers:
  assumes "r \<in> set rs" and "route_matches r (rt_method r2) (map (inst_seg (lit_bound rs)) (rt_path r2))"
  shows "route_covers r r2"
proof -
  have "list_all2 seg_match (rt_path r) (map (inst_seg (lit_bound rs)) (rt_path r2))"
    using assms(2) by (simp add: route_matches_def)
  then have len: "length (rt_path r) = length (rt_path r2)"
    and all: "\<forall>i < length (rt_path r2). seg_match (rt_path r ! i) (inst_seg (lit_bound rs) (rt_path r2 ! i))"
    by (auto simp: list_all2_conv_all_nth)
  have "seg_covers (rt_path r ! i) (rt_path r2 ! i)" if "i < length (rt_path r2)" for i
  proof (rule inst_match_covers)
    show "lit_len (rt_path r ! i) < lit_bound rs"
      using len that by (intro lit_len_bound [OF assms(1)]) simp
    show "seg_match (rt_path r ! i) (inst_seg (lit_bound rs) (rt_path r2 ! i))"
      using all that by blast
  qed
  then have "list_all2 seg_covers (rt_path r) (rt_path r2)"
    using len by (simp add: list_all2_conv_all_nth)
  with assms(2) show ?thesis by (simp add: route_covers_def route_matches_def)
qed

lemma selectable_iff: "selectable rs j \<longleftrightarrow> j < length rs \<and> \<not> shadowed rs j"
proof
  assume "selectable rs j"
  then obtain m path ps where sel: "select_route rs m path = Some (j, ps)"
    by (auto simp: selectable_def)
  then have j: "j < length rs" and mj: "route_matches (rs ! j) m path"
    and none: "\<forall>i < j. \<not> route_matches (rs ! i) m path"
    by (simp_all add: select_route_Some)
  have "\<not> route_covers (rs ! i) (rs ! j)" if "i < j" for i
    using none that route_covers_matches [OF _ mj] by blast
  with j show "j < length rs \<and> \<not> shadowed rs j"
    by (auto simp: shadowed_def list_ex_iff)
next
  assume a: "j < length rs \<and> \<not> shadowed rs j"
  let ?path = "map (inst_seg (lit_bound rs)) (rt_path (rs ! j))"
  have "route_matches (rs ! j) (rt_method (rs ! j)) ?path"
    by (simp add: route_matches_def inst_matches lit_bound_def)
  moreover have "\<not> route_matches (rs ! i) (rt_method (rs ! j)) ?path" if "i < j" for i
  proof
    assume "route_matches (rs ! i) (rt_method (rs ! j)) ?path"
    then have "route_covers (rs ! i) (rs ! j)"
      using a that by (intro inst_path_covers) simp_all
    with a that show False by (auto simp: shadowed_def list_ex_iff)
  qed
  ultimately show "selectable rs j"
    using a unfolding selectable_def by (blast intro: select_route_Some [THEN iffD2])
qed

lemmas route_table_defs = api_mounts_def stream_routes_def code_routes_def auth_routes_def
  user_routes_def badge_routes_def comment_routes_def leaderboard_routes_def notification_routes_def
  post_routes_def share_routes_def video_routes_def rt_def

section \<open>Properties\<close>


end
