(* ===== verification/StreamController.thy ===== *)
theory StreamController
  imports Fixtures
begin

text \<open>
  The REST controller of streams, controllers/stream.controller.js, one definition per
  exported function. The request body's fields are strings, string arrays or absent
  (\<open>None\<close>); \<open>errs\<close> is what \<open>validationResult(req)\<close> collected from the route's checks
  (theory \<open>Routes\<close>); \<open>fresh\<close> is the ObjectId Mongoose gives a new document; \<open>now\<close> is
  \<open>new Date()\<close>. Each controller returns the store after its writes and its reply.
\<close>

record stream_form =
  sf_title :: "string option"
  sf_description :: "string option"
  sf_tags :: "string list option"
  sf_scheduledFor :: "string option"

definition createStream ::
  "string list \<Rightarrow> oid \<Rightarrow> millis \<Rightarrow> req_user \<Rightarrow> stream_form \<Rightarrow> store \<Rightarrow> store \<times> (oid \<times> stream_doc) reply" where
  "createStream errs fresh now user f db =
     (if errs \<noteq> [] then (db, validation_failed errs)
      else
        (let sched = str_truthy (sf_scheduledFor f);
             st = \<lparr>st_user = ru_id user, st_title = js_trim (case sf_title f of None \<Rightarrow> [] | Some t \<Rightarrow> t),
                   st_description = (case sf_description f of None \<Rightarrow> [] | Some d \<Rightarrow> d),
                   st_status = (if sched then Scheduled else Live),
                   st_startedAt = (if sched then None else Some now), st_endedAt = None,
                   st_recordingUrl = None, st_viewers = [], st_comments = [],
                   st_tags = map js_trim (case sf_tags f of None \<Rightarrow> [] | Some ts \<Rightarrow> ts),
                   st_polls = [], st_codeSessions = []\<rparr>
         in (case validated_save_stream fresh st db of
               Inl e \<Rightarrow> (db, server_error)
             | Inr db' \<Rightarrow> (db', (201, Data (fresh, st))))))"

definition getActiveStreams :: "store \<Rightarrow> (oid \<times> stream_doc) list reply" where
  "getActiveStreams db =
     (200, Data (sort_key (\<lambda>(i, st). date_desc_key (st_startedAt st))
                  (find_where (db_streams db) (\<lambda>st. st_status st = Live))))"

text \<open>\<open>.sort({ status: 1, startedAt: -1 })\<close> sorts the status strings, so
  \<open>'live'\<close> comes before \<open>'scheduled'\<close>.\<close>

fun status_string :: "stream_status \<Rightarrow> string" where
  "status_string Scheduled = ''scheduled''"
| "status_string Live = ''live''"
| "status_string Ended = ''ended''"

definition getStreamsByTag :: "string \<Rightarrow> store \<Rightarrow> (oid \<times> stream_doc) list reply" where
  "getStreamsByTag tag db =
     (200, Data (sort_key (\<lambda>(i, st). (status_string (st_status st), date_desc_key (st_startedAt st)))
                  (find_where (db_streams db)
                     (\<lambda>st. tag \<in> set (st_tags st) \<and> st_status st \<in> {Scheduled, Live}))))"

definition getStreamById :: "string \<Rightarrow> store \<Rightarrow> (oid \<times> stream_doc) reply" where
  "getStreamById i db =
     (case find_by_id (db_streams db) i of
        Inl e \<Rightarrow> catch_reply ''Stream not found'' e
      | Inr None \<Rightarrow> (404, Msg ''Stream not found'')
      | Inr (Some st) \<Rightarrow> (200, Data (i, st)))"

text \<open>The owner check shared by the controllers that change a stream.\<close>

definition find_own_stream :: "req_user \<Rightarrow> string \<Rightarrow> store \<Rightarrow> 'd reply + stream_doc" where
  "find_own_stream user i db =
     (case find_by_id (db_streams db) i of
        Inl e \<Rightarrow> Inl (catch_reply ''Stream not found'' e)
      | Inr None \<Rightarrow> Inl (404, Msg ''Stream not found'')
      | Inr (Some st) \<Rightarrow>
          if st_user st \<noteq> ru_id user then Inl (401, Msg ''User not authorized'') else Inr st)"

definition save_reply :: "string \<Rightarrow> stream_doc \<Rightarrow> store \<Rightarrow> store \<times> (oid \<times> stream_doc) reply" where
  "save_reply i st db =
     (case validated_save_stream i st db of
        Inl e \<Rightarrow> (db, catch_reply ''Stream not found'' e)
      | Inr db' \<Rightarrow> (db', (200, Data (i, st))))"

definition updateStream ::
  "string list \<Rightarrow> req_user \<Rightarrow> string \<Rightarrow> stream_form \<Rightarrow> store \<Rightarrow> store \<times> (oid \<times> stream_doc) reply" where
  "updateStream errs user i f db =
     (if errs \<noteq> [] then (db, validation_failed errs)
      else (case find_own_stream user i db of
        Inl r \<Rightarrow> (db, r)
      | Inr st \<Rightarrow>
          save_reply i
            (st\<lparr>st_title := js_trim (or_default (sf_title f) (st_title st)),
                st_description := or_default (sf_description f) (st_description st),
                st_tags := (case sf_tags f of None \<Rightarrow> st_tags st | Some ts \<Rightarrow> map js_trim ts)\<rparr>) db))"

definition startStream_ctl :: "millis \<Rightarrow> req_user \<Rightarrow> string \<Rightarrow> store \<Rightarrow> store \<times> (oid \<times> stream_doc) reply" where
  "startStream_ctl now user i db =
     (case find_own_stream user i db of
        Inl r \<Rightarrow> (db, r)
      | Inr st \<Rightarrow>
          if st_status st = Live then (db, (400, Msg ''Stream is already live''))
          else save_reply i (startStream now st) db)"

definition endStream_ctl ::
  "millis \<Rightarrow> req_user \<Rightarrow> string \<Rightarrow> string option \<Rightarrow> store \<Rightarrow> store \<times> (oid \<times> stream_doc) reply" where
  "endStream_ctl now user i url db =
     (case find_own_stream user i db of
        Inl r \<Rightarrow> (db, r)
      | Inr st \<Rightarrow>
          if st_status st \<noteq> Live then (db, (400, Msg ''Stream is not live''))
          else (case validated_save_stream i (endStream now st) db of
                  Inl e \<Rightarrow> (db, catch_reply ''Stream not found'' e)
                | Inr db1 \<Rightarrow>
                    if str_truthy url
                    then save_reply i ((endStream now st)\<lparr>st_recordingUrl := url\<rparr>) db1
                    else (db1, (200, Data (i, endStream now st)))))"

record session_form =
  sess_title :: "string option"
  sess_language :: "string option"
  sess_initialCode :: "string option"

definition createCodeSession ::
  "string list \<Rightarrow> oid \<Rightarrow> req_user \<Rightarrow> string \<Rightarrow> session_form \<Rightarrow> store
     \<Rightarrow> store \<times> (oid \<times> code_session_doc) reply" where
  "createCodeSession errs fresh user i f db =
     (if errs \<noteq> [] then (db, validation_failed errs)
      else (case find_own_stream user i db of
        Inl r \<Rightarrow> (db, r)
      | Inr st \<Rightarrow>
          (let cs = \<lparr>cs_stream = Some i,
                     cs_title = js_trim (case sess_title f of None \<Rightarrow> [] | Some t \<Rightarrow> t),
                     cs_language = js_trim (case sess_language f of None \<Rightarrow> [] | Some l \<Rightarrow> l),
                     cs_codeContent = or_default (sess_initialCode f) [],
                     cs_owner = ru_id user, cs_collaborators = [], cs_suggestions = [],
                     cs_isPublic = True, cs_version = ''1.0'', cs_versionHistory = []\<rparr>
           in (case validated_save_session fresh cs db of
                 Inl e \<Rightarrow> (db, catch_reply ''Stream not found'' e)
               | Inr db1 \<Rightarrow>
                   (case validated_save_stream i (addCodeSession fresh st) db1 of
                      Inl e \<Rightarrow> (db1, catch_reply ''Stream not found'' e)
                    | Inr db2 \<Rightarrow> (db2, (201, Data (fresh, cs))))))))"

record signal_data =
  sd_signal :: jsval
  sd_from :: oid
  sd_fromUsername :: string
  sd_to :: "string option"
  sd_streamId :: oid
  sd_timestamp :: millis

definition handleSignaling ::
  "millis \<Rightarrow> req_user \<Rightarrow> string \<Rightarrow> jsval \<Rightarrow> string option \<Rightarrow> store \<Rightarrow> signal_data reply" where
  "handleSignaling now user i sig target db =
     (if \<not> js_truthy sig then (400, Msg ''Signal data is required'')
      else (case find_by_id (db_streams db) i of
        Inl e \<Rightarrow> catch_reply ''Stream not found'' e
      | Inr None \<Rightarrow> (404, Msg ''Stream not found'')
      | Inr (Some st) \<Rightarrow>
          if st_status st \<noteq> Live then (400, Msg ''Stream is not live'')
          else (200, Data \<lparr>sd_signal = sig, sd_from = ru_id user, sd_fromUsername = ru_username user,
                           sd_to = target, sd_streamId = i, sd_timestamp = now\<rparr>)))"

section \<open>Lemmas\<close>

lemmas stream_controller_defs =
  createStream_def updateStream_def startStream_ctl_def endStream_ctl_def createCodeSession_def
  save_reply_def

lemma find_own_stream_Inr:
  "find_own_stream user i db = Inr st \<longleftrightarrow>
     valid_object_id i \<and> db_streams db (oid_key i) = Some st \<and> st_user st = ru_id user"
  by (auto simp: find_own_stream_def find_by_id_def split: option.splits)

lemma find_own_stream_not_owner:
  "valid_object_id i \<Longrightarrow> db_streams db (oid_key i) = Some st \<Longrightarrow> st_user st \<noteq> ru_id user \<Longrightarrow>
     find_own_stream user i db = Inl (401, Msg ''User not authorized'')"
  by (simp add: find_own_stream_def find_by_id_def)

lemma find_own_stream_owner:
  "valid_object_id i \<Longrightarrow> db_streams db (oid_key i) = Some st \<Longrightarrow> st_user st = ru_id user \<Longrightarrow>
     find_own_stream user i db = Inr st"
  by (simp add: find_own_stream_Inr)

lemma find_own_stream_Inl:
  "find_own_stream user i db = Inl r \<Longrightarrow> fst r \<in> {401, 404, 500}"
  by (auto simp: find_own_stream_def catch_reply_def server_error_def split: sum.splits option.splits if_splits js_exn.splits)

lemma db_wf_save_stream:
  "db_wf db \<Longrightarrow> stream_wf st \<Longrightarrow> db_wf (save_stream i st db)"
  by (simp add: db_wf_def save_stream_def)

lemma db_wf_save_session [simp]: "db_wf (save_session i c db) = db_wf db"
  by (simp add: db_wf_def)

lemma db_wf_validated_save:
  "validated_save_stream i st db = Inr db' \<Longrightarrow> db_wf db \<Longrightarrow> stream_wf st \<Longrightarrow> db_wf db'"
  by (auto simp: validated_save_stream_Inr db_wf_save_stream)

lemma db_wf_own_stream:
  "find_own_stream user i db = Inr st \<Longrightarrow> db_wf db \<Longrightarrow> stream_wf st"
  by (auto simp: find_own_stream_Inr db_wf_def)

lemma db_wf_save_reply:
  "db_wf db \<Longrightarrow> stream_wf st \<Longrightarrow> db_wf (fst (save_reply i st db))"
  by (auto simp: save_reply_def db_wf_validated_save split: sum.splits)

lemma stream_wf_update_fields:
  "stream_wf st \<Longrightarrow> stream_wf (st\<lparr>st_title := a, st_description := b, st_tags := c\<rparr>)"
  "stream_wf st \<Longrightarrow> stream_wf ((endStream now st)\<lparr>st_recordingUrl := u\<rparr>)"
  by (simp_all add: stream_wf_def endStream_def)

lemma date_desc_key_le:
  "a \<noteq> None \<Longrightarrow> b \<noteq> None \<Longrightarrow> date_desc_key a \<le> date_desc_key b \<Longrightarrow> the b \<le> the a"
  by (cases a; cases b) auto

lemma sorted_desc_key_Some:
  assumes "sorted (map (\<lambda>(i, st). date_desc_key (st_startedAt st)) xs)"
    and "\<forall>x \<in> set xs. st_startedAt (snd x) \<noteq> None"
  shows "sorted_wrt (\<lambda>a b. the (st_startedAt (snd b)) \<le> the (st_startedAt (snd a))) xs"
proof -
  have "sorted_wrt (\<lambda>a b. date_desc_key (st_startedAt (snd a)) \<le> date_desc_key (st_startedAt (snd b))) xs"
    using assms(1) by (simp add: sorted_map case_prod_beta)
  then show ?thesis
    by (rule sorted_wrt_mono_rel [rotated]) (use assms(2) date_desc_key_le in blast)
qed

lemma db_wf_createStream: "db_wf db \<Longrightarrow> db_wf (fst (createStream errs fresh now user f db))"
  by (auto simp: createStream_def Let_def stream_wf_def db_wf_validated_save split: sum.splits)

lemma db_wf_updateStream: "db_wf db \<Longrightarrow> db_wf (fst (updateStream errs user i f db))"
  by (auto simp: updateStream_def db_wf_save_reply stream_wf_update_fields db_wf_own_stream
           split: sum.splits)

lemma db_wf_startStream_ctl: "db_wf db \<Longrightarrow> db_wf (fst (startStream_ctl now user i db))"
  by (auto simp: startStream_ctl_def db_wf_save_reply db_wf_own_stream stream_wf_startStream
           split: sum.splits)

lemma db_wf_endStream_ctl: "db_wf db \<Longrightarrow> db_wf (fst (endStream_ctl now user i url db))"
  by (auto simp: endStream_ctl_def db_wf_save_reply db_wf_own_stream stream_wf_endStream
                 stream_wf_update_fields db_wf_validated_save
           split: sum.splits)

lemma stream_wf_addCodeSession [simp]: "stream_wf (addCodeSession c st) = stream_wf st"
  by (simp add: stream_wf_def addCodeSession_def)

lemma db_wf_createCodeSession:
  assumes "db_wf db"
  shows "db_wf (fst (createCodeSession errs fresh user i g db))"
proof -
  have step: "db_wf db2"
    if "find_own_stream user i db = Inr st"
      and "validated_save_stream i (addCodeSession fresh st) (save_session fresh c db) = Inr db2"
    for st c db2
    using db_wf_validated_save [OF that(2)] db_wf_own_stream [OF that(1) assms] assms by simp
  show ?thesis
    by (auto simp: createCodeSession_def Let_def validated_save_session_Inr assms intro: step
             split: sum.splits)
qed

lemma owner_writes:
  "fst (updateStream errs u i f db) \<noteq> db \<Longrightarrow> \<exists>st. db_streams db (oid_key i) = Some st \<and> st_user st = ru_id u"
  "fst (startStream_ctl now u i db) \<noteq> db \<Longrightarrow> \<exists>st. db_streams db (oid_key i) = Some st \<and> st_user st = ru_id u"
  "fst (endStream_ctl now u i url db) \<noteq> db \<Longrightarrow> \<exists>st. db_streams db (oid_key i) = Some st \<and> st_user st = ru_id u"
  "fst (createCodeSession errs fresh u i g db) \<noteq> db \<Longrightarrow> \<exists>st. db_streams db (oid_key i) = Some st \<and> st_user st = ru_id u"
  by (auto simp: stream_controller_defs find_own_stream_Inr Let_def split: sum.splits if_splits)

section \<open>Properties\<close>

text \<open>C11. The stream controllers keep every stored stream well-formed: creating,
  updating, starting and ending a stream and attaching a code session never store a
  stream that is live without a start time or ended without an end time, or that lists a
  viewer twice.\<close>

theorem stream_controller_keeps_db_wf:
  assumes "db_wf db"
  shows "db_wf (fst (createStream errs fresh now user f db))
       \<and> db_wf (fst (updateStream errs user i f db))
       \<and> db_wf (fst (startStream_ctl now user i db))
       \<and> db_wf (fst (endStream_ctl now user i url db))
       \<and> db_wf (fst (createCodeSession errs fresh user i g db))"
  using assms
  by (simp add: db_wf_createStream db_wf_updateStream db_wf_startStream_ctl db_wf_endStream_ctl
                db_wf_createCodeSession)

theorem stream_controller_keeps_db_wf_witness:
  "db_wf fx_db
   \<and> db_wf (fst (createStream [] fx_sess 5 fx_ralice
          \<lparr>sf_title = Some ''Pairing'', sf_description = None, sf_tags = None, sf_scheduledFor = None\<rparr> fx_db))
   \<and> db_wf (fst (updateStream [] fx_ralice fx_sid
          \<lparr>sf_title = Some ''Pairing'', sf_description = None, sf_tags = None, sf_scheduledFor = None\<rparr> fx_db))
   \<and> db_wf (fst (startStream_ctl 5 fx_ralice fx_sid fx_db))
   \<and> db_wf (fst (endStream_ctl 5 fx_ralice fx_sid None fx_db))
   \<and> db_wf (fst (createCodeSession [] fx_sess fx_ralice fx_sid
          \<lparr>sess_title = Some ''Demo'', sess_language = Some ''js'', sess_initialCode = None\<rparr> fx_db))"
proof -
  have w: "db_wf fx_db" by (simp add: db_wf_def stream_wf_def new_stream_def)
  show ?thesis using stream_controller_keeps_db_wf [OF w] w by simp
qed

text \<open>C12. Only the owner changes a stream over REST: when the stream exists and the
  authenticated user is not its owner, updating, starting and ending it and attaching a
  code session all answer 401 \<open>'User not authorized'\<close> and write nothing.\<close>

theorem stream_controller_owner_only:
  assumes "valid_object_id i" and "db_streams db (oid_key i) = Some st" and "st_user st \<noteq> ru_id user"
  shows "updateStream [] user i f db = (db, (401, Msg ''User not authorized''))
       \<and> startStream_ctl now user i db = (db, (401, Msg ''User not authorized''))
       \<and> endStream_ctl now user i url db = (db, (401, Msg ''User not authorized''))
       \<and> createCodeSession [] fresh user i g db = (db, (401, Msg ''User not authorized''))"
  by (simp add: stream_controller_defs find_own_stream_not_owner [OF assms])

theorem stream_controller_owner_only_witness:
  "valid_object_id fx_sid \<and> db_streams fx_db (oid_key fx_sid) = Some fx_stream \<and> st_user fx_stream \<noteq> ru_id fx_rbob
   \<and> updateStream [] fx_rbob fx_sid
          \<lparr>sf_title = Some ''Mine'', sf_description = None, sf_tags = None, sf_scheduledFor = None\<rparr> fx_db
        = (fx_db, (401, Msg ''User not authorized''))
   \<and> startStream_ctl 5 fx_rbob fx_sid fx_db = (fx_db, (401, Msg ''User not authorized''))
   \<and> endStream_ctl 5 fx_rbob fx_sid None fx_db = (fx_db, (401, Msg ''User not authorized''))
   \<and> createCodeSession [] fx_sess fx_rbob fx_sid
          \<lparr>sess_title = Some ''Demo'', sess_language = Some ''js'', sess_initialCode = None\<rparr> fx_db
        = (fx_db, (401, Msg ''User not authorized''))"
proof -
  have v: "valid_object_id fx_sid" by (simp add: valid_object_id_def is_hex_def)
  have d: "db_streams fx_db (oid_key fx_sid) = Some fx_stream" by simp
  have o: "st_user fx_stream \<noteq> ru_id fx_rbob" by (simp add: new_stream_def)
  show ?thesis using stream_controller_owner_only [OF v d o] v o by simp
qed

text \<open>\<open>GET /api/streams/active\<close> lists exactly the live streams, each once, the
  most recently started first.\<close>

theorem active_streams_listing:
  assumes "db_wf db" and "finite (dom (db_streams db))"
    and "getActiveStreams db = (200, Data xs)"
  shows "set xs = {(i, st). db_streams db i = Some st \<and> st_status st = Live}
       \<and> distinct (map fst xs)
       \<and> sorted_wrt (\<lambda>a b. the (st_startedAt (snd b)) \<le> the (st_startedAt (snd a))) xs"
proof -
  let ?ys = "find_where (db_streams db) (\<lambda>st. st_status st = Live)"
  have xs: "xs = sort_key (\<lambda>(i, st). date_desc_key (st_startedAt st)) ?ys"
    using assms(3) by (simp add: getActiveStreams_def)
  have set_ys: "set ?ys = {(i, st). db_streams db i = Some st \<and> st_status st = Live}"
    using assms(2) by (rule set_find_where)
  have nn: "\<forall>x \<in> set xs. st_startedAt (snd x) \<noteq> None"
    using assms(1) set_ys by (auto simp: xs db_wf_def stream_wf_def)
  have srt: "sorted (map (\<lambda>(i, st). date_desc_key (st_startedAt st)) xs)"
    by (simp add: xs)
  have "sorted_wrt (\<lambda>a b. the (st_startedAt (snd b)) \<le> the (st_startedAt (snd a))) xs"
    using srt nn by (rule sorted_desc_key_Some)
  moreover have "distinct (map fst xs)"
    using distinct_find_where [of "db_streams db"] by (simp add: xs)
  moreover have "set xs = {(i, st). db_streams db i = Some st \<and> st_status st = Live}"
    using set_ys by (simp add: xs)
  ultimately show ?thesis by blast
qed

theorem active_streams_listing_witness:
  "db_wf fx_db \<and> finite (dom (db_streams fx_db))
   \<and> getActiveStreams fx_db = (200, Data [(fx_sid, fx_stream)])
   \<and> set [(fx_sid, fx_stream)] = {(i, st). db_streams fx_db i = Some st \<and> st_status st = Live}
   \<and> distinct (map fst [(fx_sid, fx_stream)])
   \<and> sorted_wrt (\<lambda>a b. the (st_startedAt (snd b)) \<le> the (st_startedAt (snd a))) [(fx_sid, fx_stream)]"
proof -
  have w: "db_wf fx_db" by (simp add: db_wf_def stream_wf_def new_stream_def)
  have f: "finite (dom (db_streams fx_db))" by simp
  have g: "getActiveStreams fx_db = (200, Data [(fx_sid, fx_stream)])"
    by (simp add: getActiveStreams_def find_where_def new_stream_def)
  show ?thesis using active_streams_listing [OF w f g] w f g by simp
qed

text \<open>\<open>GET /api/streams/tag/:tag\<close> lists the live streams before the scheduled
  ones: the sort on the status strings puts \<open>'live'\<close> before \<open>'scheduled'\<close>.\<close>

theorem streams_by_tag_live_first:
  assumes "getStreamsByTag tag db = (200, Data xs)"
    and "j < k" and "k < length xs" and "st_status (snd (xs ! k)) = Live"
  shows "st_status (snd (xs ! j)) = Live"
proof -
  let ?key = "\<lambda>(i, st). (status_string (st_status st), date_desc_key (st_startedAt st))"
  let ?ys = "find_where (db_streams db) (\<lambda>st. tag \<in> set (st_tags st) \<and> st_status st \<in> {Scheduled, Live})"
  have xs: "xs = sort_key ?key ?ys"
    using assms(1) by (simp add: getStreamsByTag_def)
  have "sorted (map ?key xs)" by (simp add: xs)
  then have "?key (xs ! j) \<le> ?key (xs ! k)"
    using assms(2,3) by (auto dest: sorted_nth_mono [of _ j k])
  then have le: "status_string (st_status (snd (xs ! j))) \<le> ''live''"
    using assms(4) by (auto simp: case_prod_beta less_eq_prod_def)
  have "xs ! j \<in> set xs"
    using assms(2,3) by simp
  then have "xs ! j \<in> set ?ys"
    by (simp add: xs)
  then have "st_status (snd (xs ! j)) \<in> {Scheduled, Live}"
    by (auto simp: find_where_def)
  with le show ?thesis by auto
qed

theorem streams_by_tag_live_first_witness:
  "getStreamsByTag ''rust'' fx_tagged_db =
     (200, Data [(fx_sid2, fx_stream\<lparr>st_startedAt := Some 5, st_tags := [''rust'']\<rparr>),
                 (fx_sid, fx_stream\<lparr>st_tags := [''rust'']\<rparr>)])
   \<and> (0::nat) < 1 \<and> (1::nat) < length [(fx_sid2, fx_stream\<lparr>st_startedAt := Some 5, st_tags := [''rust'']\<rparr>),
                                      (fx_sid, fx_stream\<lparr>st_tags := [''rust'']\<rparr>)]
   \<and> st_status (snd ([(fx_sid2, fx_stream\<lparr>st_startedAt := Some 5, st_tags := [''rust'']\<rparr>),
                       (fx_sid, fx_stream\<lparr>st_tags := [''rust'']\<rparr>)] ! 1)) = Live
   \<and> st_status (snd ([(fx_sid2, fx_stream\<lparr>st_startedAt := Some 5, st_tags := [''rust'']\<rparr>),
                       (fx_sid, fx_stream\<lparr>st_tags := [''rust'']\<rparr>)] ! 0)) = Live"
proof -
  have g: "getStreamsByTag ''rust'' fx_tagged_db =
     (200, Data [(fx_sid2, fx_stream\<lparr>st_startedAt := Some 5, st_tags := [''rust'']\<rparr>),
                 (fx_sid, fx_stream\<lparr>st_tags := [''rust'']\<rparr>)])"
    by (simp add: getStreamsByTag_def find_where_def new_stream_def)
  show ?thesis
    using streams_by_tag_live_first [OF g, of 0 1] g by (simp add: new_stream_def)
qed

text \<open>An ended stream can be started again: \<open>PUT /api/streams/:id/start\<close> only
  refuses a stream that is already live, so the owner restarts an ended stream, which
  becomes live again and keeps the end time of its previous run.\<close>

theorem ended_stream_restarts:
  assumes "valid_object_id i" and "db_streams db (oid_key i) = Some st" and "st_user st = ru_id user"
    and "st_status st = Ended" and "stream_valid st"
  shows "startStream_ctl now user i db = (save_stream i (startStream now st) db, (200, Data (i, startStream now st)))
       \<and> st_status (startStream now st) = Live \<and> st_endedAt (startStream now st) = st_endedAt st"
proof -
  have "stream_valid (startStream now st)"
    using assms(5) by (simp add: stream_valid_def startStream_def)
  then show ?thesis
    using assms(4)
    by (simp add: startStream_ctl_def save_reply_def validated_save_stream_def startStream_def
                  find_own_stream_owner [OF assms(1-3)])
qed

theorem ended_stream_restarts_witness:
  "valid_object_id fx_sid
   \<and> db_streams (save_stream fx_sid (endStream 7 fx_stream) fx_db) (oid_key fx_sid) = Some (endStream 7 fx_stream)
   \<and> st_user (endStream 7 fx_stream) = ru_id fx_ralice
   \<and> st_status (endStream 7 fx_stream) = Ended \<and> stream_valid (endStream 7 fx_stream)
   \<and> startStream_ctl 9 fx_ralice fx_sid (save_stream fx_sid (endStream 7 fx_stream) fx_db) =
        (save_stream fx_sid (startStream 9 (endStream 7 fx_stream)) (save_stream fx_sid (endStream 7 fx_stream) fx_db),
         (200, Data (fx_sid, startStream 9 (endStream 7 fx_stream))))
   \<and> st_status (startStream 9 (endStream 7 fx_stream)) = Live
   \<and> st_endedAt (startStream 9 (endStream 7 fx_stream)) = Some 7"
proof -
  have v: "valid_object_id fx_sid" by (simp add: valid_object_id_def is_hex_def)
  have d: "db_streams (save_stream fx_sid (endStream 7 fx_stream) fx_db) (oid_key fx_sid) = Some (endStream 7 fx_stream)"
    by (simp add: save_stream_def)
  have o: "st_user (endStream 7 fx_stream) = ru_id fx_ralice" by (simp add: endStream_def new_stream_def)
  have e: "st_status (endStream 7 fx_stream) = Ended" by (simp add: endStream_def)
  have sv: "stream_valid (endStream 7 fx_stream)"
    by (simp add: stream_valid_def endStream_def new_stream_def)
  show ?thesis
    using ended_stream_restarts [OF v d o e sv, of 9] v d o e sv
    by (simp add: endStream_def)
qed

text \<open>A title of white space passes the route's check but not the schema: the
  route only requires a non-empty title, Mongoose trims it to the empty string, the
  schema's \<open>required\<close> rejects it on save, and the controller answers 500
  \<open>'Server error'\<close> instead of a 400 validation error, storing nothing.\<close>

theorem create_stream_blank_title:
  assumes "sf_title f = Some t" and "list_all js_space t"
  shows "createStream [] fresh now user f db = (db, (500, Msg ''Server error''))"
  using assms
  by (simp add: createStream_def Let_def validated_save_stream_def stream_valid_def server_error_def
                js_trim_empty_iff list_all_iff)

theorem create_stream_blank_title_witness:
  "sf_title \<lparr>sf_title = Some ''   '', sf_description = None, sf_tags = None, sf_scheduledFor = None\<rparr> = Some ''   ''
   \<and> list_all js_space ''   ''
   \<and> createStream [] fx_sid2 5 fx_ralice
        \<lparr>sf_title = Some ''   '', sf_description = None, sf_tags = None, sf_scheduledFor = None\<rparr> fx_db
      = (fx_db, (500, Msg ''Server error''))"
proof -
  have b: "list_all js_space ''   ''" by (simp add: js_space_def)
  show ?thesis using create_stream_blank_title [OF _ b] b by simp
qed



end
