(* ===== verification/StreamApi.thy ===== *)
theory StreamApi
  imports Routes StreamController
begin

text \<open>
  A request to \<open>/api/streams\<close> end to end: the router of routes/stream.routes.js picks
  the route, the \<open>auth\<close> middleware lets it through only with an authenticated user
  (it answers by itself otherwise; its reply is not in the repository, so it is the
  outcome \<open>AuthRequired\<close>), the express-validator chains compute the errors, and the
  controller the route names runs with \<open>req.params\<close>, \<open>req.body\<close> and \<open>req.user\<close>. The
  body's string fields are \<open>rq_body\<close>; \<open>tags\<close> (an array) and \<open>signal\<close> (an object)
  have fields of their own.
\<close>

record api_request =
  rq_method :: http_method
  rq_path :: "string list"
  rq_body :: "string \<rightharpoonup> string"
  rq_tags :: "string list option"
  rq_signal :: jsval
  rq_user :: "req_user option"

datatype stream_api_data =
    AStream oid stream_doc
  | AStreams "(oid \<times> stream_doc) list"
  | ASession oid code_session_doc
  | ASignal signal_data

datatype api_outcome = NoRoute | AuthRequired | Replied "stream_api_data reply"

definition lift_reply :: "('a \<Rightarrow> stream_api_data) \<Rightarrow> 'a reply \<Rightarrow> api_outcome" where
  "lift_reply f r = Replied (fst r, map_body f (snd r))"

definition lift_write :: "('a \<Rightarrow> stream_api_data) \<Rightarrow> store \<times> 'a reply \<Rightarrow> store \<times> api_outcome" where
  "lift_write f r = (fst r, lift_reply f (snd r))"

definition param :: "(string \<times> string) list \<Rightarrow> string \<Rightarrow> string" where
  "param ps n = (case map_of ps n of None \<Rightarrow> [] | Some x \<Rightarrow> x)"

definition stream_handler ::
  "string \<Rightarrow> string list \<Rightarrow> millis \<Rightarrow> oid \<Rightarrow> (string \<times> string) list \<Rightarrow> api_request \<Rightarrow> req_user \<Rightarrow> store
     \<Rightarrow> store \<times> api_outcome" where
  "stream_handler h errs now fresh ps rq u db =
     (let b = rq_body rq; i = param ps ''id'';
          f = \<lparr>sf_title = b ''title'', sf_description = b ''description'', sf_tags = rq_tags rq,
               sf_scheduledFor = b ''scheduledFor''\<rparr>
      in if h = ''streamController.createStream'' then
           lift_write (\<lambda>(k, st). AStream k st) (createStream errs fresh now u f db)
         else if h = ''streamController.getActiveStreams'' then
           (db, lift_reply AStreams (getActiveStreams db))
         else if h = ''streamController.getStreamsByTag'' then
           (db, lift_reply AStreams (getStreamsByTag (param ps ''tag'') db))
         else if h = ''streamController.getStreamById'' then
           (db, lift_reply (\<lambda>(k, st). AStream k st) (getStreamById i db))
         else if h = ''streamController.updateStream'' then
           lift_write (\<lambda>(k, st). AStream k st) (updateStream errs u i f db)
         else if h = ''streamController.startStream'' then
           lift_write (\<lambda>(k, st). AStream k st) (startStream_ctl now u i db)
         else if h = ''streamController.endStream'' then
           lift_write (\<lambda>(k, st). AStream k st) (endStream_ctl now u i (b ''recordingUrl'') db)
         else if h = ''streamController.createCodeSession'' then
           lift_write (\<lambda>(k, c). ASession k c)
             (createCodeSession errs fresh u i
                \<lparr>sess_title = b ''title'', sess_language = b ''language'', sess_initialCode = b ''initialCode''\<rparr> db)
         else if h = ''streamController.handleSignaling'' then
           (db, lift_reply ASignal (handleSignaling now u i (rq_signal rq) (b ''targetUserId'') db))
         else (db, NoRoute))"

definition stream_api :: "(string \<Rightarrow> bool) \<Rightarrow> millis \<Rightarrow> oid \<Rightarrow> api_request \<Rightarrow> store \<Rightarrow> store \<times> api_outcome" where
  "stream_api is_email now fresh rq db =
     (case select_route stream_routes (rq_method rq) (rq_path rq) of
        None \<Rightarrow> (db, NoRoute)
      | Some (j, ps) \<Rightarrow>
          (let r = stream_routes ! j
           in if MwAuth \<in> set (rt_chain r) \<and> rq_user rq = None then (db, AuthRequired)
              else stream_handler (rt_handler r) (validation_errors is_email (rq_body rq) (rt_chain r))
                     now fresh ps rq (the (rq_user rq)) db))"

section \<open>Lemmas\<close>

definition read_handlers :: "string set" where
  "read_handlers = {''streamController.getActiveStreams'', ''streamController.getStreamsByTag'',
                    ''streamController.getStreamById'', ''streamController.handleSignaling''}"

definition id_write_handlers :: "string set" where
  "id_write_handlers = {''streamController.updateStream'', ''streamController.startStream'',
                        ''streamController.endStream'', ''streamController.createCodeSession''}"

lemma stream_routes_shape:
  "list_all (\<lambda>r. (MwAuth \<notin> set (rt_chain r) \<longrightarrow> rt_handler r \<in> read_handlers)
             \<and> (rt_handler r = ''streamController.createStream'' \<longrightarrow> rt_path r = [])
             \<and> (rt_handler r \<in> id_write_handlers \<longrightarrow> (\<exists>rest. rt_path r = Param ''id'' # rest))
             \<and> rt_handler r \<in> read_handlers \<union> id_write_handlers \<union> {''streamController.createStream''})
     stream_routes"
  by (simp add: stream_routes_def rt_def read_handlers_def id_write_handlers_def)

lemma read_handler_no_write: "h \<in> read_handlers \<Longrightarrow> fst (stream_handler h errs now fresh ps rq u db) = db"
  by (auto simp: read_handlers_def stream_handler_def Let_def)

lemma id_write_handler_owner:
  "h \<in> id_write_handlers \<Longrightarrow> fst (stream_handler h errs now fresh ps rq u db) \<noteq> db \<Longrightarrow>
     \<exists>st. db_streams db (oid_key (param ps ''id'')) = Some st \<and> st_user st = ru_id u"
  by (auto simp: id_write_handlers_def stream_handler_def Let_def lift_write_def intro: owner_writes)

lemma param_first:
  "list_all2 seg_match (Param p # rest) path \<Longrightarrow> param (route_params (Param p # rest) path) p = hd path"
  by (cases path) (auto simp: param_def)

section \<open>Properties\<close>

text \<open>C15. Only an authenticated owner writes through \<open>/api/streams\<close>: a request that
  changes the store carries an authenticated user, and it either creates a stream
  (\<open>POST /api/streams\<close>) or names in its path a stream that user owns. Routing, the
  \<open>auth\<close> middleware and the controllers' owner checks together give this.\<close>

theorem stream_api_write_authority:
  assumes "fst (stream_api is_email now fresh rq db) \<noteq> db"
  shows "\<exists>u. rq_user rq = Some u
            \<and> (rq_path rq = [] \<or> (\<exists>st. db_streams db (oid_key (hd (rq_path rq))) = Some st \<and> st_user st = ru_id u))"
proof -
  obtain j ps where sel: "select_route stream_routes (rq_method rq) (rq_path rq) = Some (j, ps)"
    using assms by (auto simp: stream_api_def split: option.splits)
  let ?r = "stream_routes ! j"
  have j: "j < length stream_routes" and m: "list_all2 seg_match (rt_path ?r) (rq_path rq)"
    and ps: "ps = route_params (rt_path ?r) (rq_path rq)"
    using sel by (simp_all add: select_route_Some route_matches_def)
  have shape: "(MwAuth \<notin> set (rt_chain ?r) \<longrightarrow> rt_handler ?r \<in> read_handlers)
             \<and> (rt_handler ?r = ''streamController.createStream'' \<longrightarrow> rt_path ?r = [])
             \<and> (rt_handler ?r \<in> id_write_handlers \<longrightarrow> (\<exists>rest. rt_path ?r = Param ''id'' # rest))
             \<and> rt_handler ?r \<in> read_handlers \<union> id_write_handlers \<union> {''streamController.createStream''}"
    using stream_routes_shape j by (simp add: list_all_length)
  have w: "fst (stream_handler (rt_handler ?r) (validation_errors is_email (rq_body rq) (rt_chain ?r))
                 now fresh ps rq (the (rq_user rq)) db) \<noteq> db"
   and auth: "MwAuth \<in> set (rt_chain ?r) \<longrightarrow> rq_user rq \<noteq> None"
    using assms sel by (auto simp: stream_api_def Let_def split: if_splits)
  have "rt_handler ?r \<notin> read_handlers"
    using w read_handler_no_write by blast
  then obtain u where u: "rq_user rq = Some u"
    using shape auth by auto
  show ?thesis
  proof (cases "rt_handler ?r = ''streamController.createStream''")
    case True
    then have "rq_path rq = []" using shape m by simp
    with u show ?thesis by simp
  next
    case False
    with \<open>rt_handler ?r \<notin> read_handlers\<close> shape obtain rest where
      h: "rt_handler ?r \<in> id_write_handlers" and p: "rt_path ?r = Param ''id'' # rest"
      by auto
    have "param ps ''id'' = hd (rq_path rq)"
      using m p ps param_first by simp
    then show ?thesis
      using id_write_handler_owner [OF h w] u by auto
  qed
qed

theorem stream_api_write_authority_witness:
  "fst (stream_api (\<lambda>_. True) 5 fx_sid2 \<lparr>rq_method = POST, rq_path = [], rq_body = [''title'' \<mapsto> ''Pairing''], rq_tags = None,
          rq_signal = JNull, rq_user = Some fx_ralice\<rparr> fx_db) \<noteq> fx_db
   \<and> (\<exists>u. rq_user \<lparr>rq_method = POST, rq_path = [], rq_body = [''title'' \<mapsto> ''Pairing''], rq_tags = None,
          rq_signal = JNull, rq_user = Some fx_ralice\<rparr> = Some u
         \<and> (rq_path \<lparr>rq_method = POST, rq_path = [], rq_body = [''title'' \<mapsto> ''Pairing''], rq_tags = None,
          rq_signal = JNull, rq_user = Some fx_ralice\<rparr> = [] \<or> (\<exists>st. db_streams fx_db (hd (rq_path \<lparr>rq_method = POST, rq_path = [], rq_body = [''title'' \<mapsto> ''Pairing''], rq_tags = None,
          rq_signal = JNull, rq_user = Some fx_ralice\<rparr>)) = Some st \<and> st_user st = ru_id u)))"
proof -
  have "db_streams (fst (stream_api (\<lambda>_. True) 5 fx_sid2 \<lparr>rq_method = POST, rq_path = [], rq_body = [''title'' \<mapsto> ''Pairing''], rq_tags = None,
          rq_signal = JNull, rq_user = Some fx_ralice\<rparr> fx_db)) fx_sid2 \<noteq> None"
    by (simp add: stream_api_def select_route_def stream_routes_def rt_def route_matches_def
                  validation_errors_def check_fails_def chk_def stream_handler_def createStream_def
                  validated_save_stream_def stream_valid_def js_trim_def js_space_def lift_write_def
                  str_truthy_def save_stream_def Let_def)
  then have ne: "fst (stream_api (\<lambda>_. True) 5 fx_sid2 \<lparr>rq_method = POST, rq_path = [], rq_body = [''title'' \<mapsto> ''Pairing''], rq_tags = None,
          rq_signal = JNull, rq_user = Some fx_ralice\<rparr> fx_db) \<noteq> fx_db" by auto
  show ?thesis using stream_api_write_authority [OF ne] ne by simp
qed

end
