(* ===== verification/CodeController.thy ===== *)
theory CodeController
  imports Fixtures
begin

text \<open>
  controllers/code.controller.js. This controller was written against a different
  CodeSession schema: it reads and writes \<open>creator\<close>, \<open>participants\<close>,
  \<open>invitedUsers\<close>, \<open>description\<close> and \<open>code\<close>, which models/codeSession.model.js does
  not declare (it has \<open>owner\<close>, \<open>collaborators\<close>, \<open>codeContent\<close>). The model reads a
  stored session through \<open>cs_field\<close>, where such a property is \<open>undefined\<close>, and drops
  writes to undeclared paths, as a strict Mongoose schema does; the member calls on
  \<open>undefined\<close> then throw where JavaScript throws. \<open>User.findByIdAndUpdate\<close> with
  \<open>$push\<close>/\<open>$pull\<close> on \<open>codeSessions\<close>, which the User schema does not declare either,
  leaves the users unchanged. \<open>createdAt\<close> of the \<open>timestamps\<close> option follows creation
  order, the order of the ObjectIds. \<open>executeCode\<close> works on the file system, kept as the
  set of temporary directories, and runs the command through \<open>run\<close>, a parameter
  giving \<open>exec\<close>'s error, stdout and stderr. \<open>getTemplates\<close> answers a constant and is
  not modelled.
\<close>

section \<open>Listing and reading\<close>

text \<open>\<open>parseInt(x) || d\<close>: NaN and 0 give the default.\<close>

definition or_int :: "int option \<Rightarrow> int \<Rightarrow> int" where
  "or_int x d = (case x of None \<Rightarrow> d | Some n \<Rightarrow> if n = 0 then d else n)"

record session_page =
  pg_sessions :: "(oid \<times> code_session_doc) list"
  pg_totalPages :: int
  pg_currentPage :: int

text \<open>\<open>.skip(n)\<close> with a negative \<open>n\<close> is rejected by the server; \<open>.limit(n)\<close> with a
  negative \<open>n\<close> returns at most \<open>|n|\<close> documents. \<open>Math.ceil(total / limit)\<close> is
  \<open>-((-total) div limit)\<close> on integers.\<close>

definition getAllSessions :: "string option \<Rightarrow> string option \<Rightarrow> store \<Rightarrow> session_page reply" where
  "getAllSessions pq lq db =
     (let page = or_int (Option.bind pq parse_int) 1;
          limit = or_int (Option.bind lq parse_int) 10;
          skip = (page - 1) * limit;
          sorted = rev (find_where (db_sessions db) (\<lambda>_. True));
          total = int (length sorted)
      in if skip < 0 then server_error
         else (200, Data \<lparr>pg_sessions = take (nat \<bar>limit\<bar>) (drop (nat skip) sorted),
                          pg_totalPages = - ((- total) div limit), pg_currentPage = page\<rparr>))"

definition getSessionById :: "string \<Rightarrow> store \<Rightarrow> (oid \<times> code_session_doc) reply" where
  "getSessionById i db =
     (case find_by_id (db_sessions db) i of
        Inl e \<Rightarrow> server_error
      | Inr None \<Rightarrow> (404, Msg ''Code session not found'')
      | Inr (Some c) \<Rightarrow> (200, Data (i, c)))"

section \<open>Writing\<close>

record code_form =
  cf_title :: "string option"
  cf_description :: "string option"
  cf_language :: "string option"
  cf_code :: "string option"
  cf_isPublic :: "bool option"

text \<open>\<open>new CodeSession({title, description, language, code, isPublic, creator,
  participants})\<close>: only \<open>title\<close>, \<open>language\<close> and \<open>isPublic\<close> are schema paths;
  \<open>owner\<close>, which the schema requires, is never set.\<close>

definition createSession :: "oid \<Rightarrow> req_user \<Rightarrow> code_form \<Rightarrow> store \<Rightarrow> store \<times> (oid \<times> code_session_doc) reply" where
  "createSession fresh u f db =
     (let c = \<lparr>cs_stream = None, cs_title = js_trim (case cf_title f of None \<Rightarrow> [] | Some t \<Rightarrow> t),
               cs_language = js_trim (case cf_language f of None \<Rightarrow> [] | Some l \<Rightarrow> l),
               cs_codeContent = [], cs_owner = [], cs_collaborators = [], cs_suggestions = [],
               cs_isPublic = (case cf_isPublic f of None \<Rightarrow> True | Some b \<Rightarrow> b),
               cs_version = ''1.0'', cs_versionHistory = []\<rparr>
      in (case validated_save_session fresh c db of
            Inl e \<Rightarrow> (db, server_error)
          | Inr db' \<Rightarrow> (db', (201, Data (fresh, c)))))"

text \<open>The session lookup every per-session controller starts with; its \<open>catch\<close>
  answers 500 whatever the error.\<close>

definition find_session :: "string \<Rightarrow> store \<Rightarrow> 'd reply + code_session_doc" where
  "find_session i db =
     (case find_by_id (db_sessions db) i of
        Inl e \<Rightarrow> Inl server_error
      | Inr None \<Rightarrow> Inl (404, Msg ''Code session not found'')
      | Inr (Some c) \<Rightarrow> Inr c)"

text \<open>\<open>findByIdAndUpdate(id, {$set: updatedSession})\<close>: \<open>description\<close> and \<open>code\<close>
  are not schema paths and are dropped; no validators run.\<close>

definition apply_update :: "code_form \<Rightarrow> code_session_doc \<Rightarrow> code_session_doc" where
  "apply_update f c =
     c\<lparr>cs_title := js_trim (or_default (cf_title f) (cs_title c)),
       cs_language := js_trim (or_default (cf_language f) (cs_language c)),
       cs_isPublic := (case cf_isPublic f of None \<Rightarrow> cs_isPublic c | Some b \<Rightarrow> b)\<rparr>"

definition updateSession :: "req_user \<Rightarrow> string \<Rightarrow> code_form \<Rightarrow> store \<Rightarrow> store \<times> (oid \<times> code_session_doc) reply" where
  "updateSession u i f db =
     (case find_session i db of
        Inl r \<Rightarrow> (db, r)
      | Inr c \<Rightarrow>
          (let upd = (save_session i (apply_update f c) db, (200, Data (i, apply_update f c)))
           in case js_to_string (cs_field c ''creator'') of
                Inl e \<Rightarrow> (db, server_error)
              | Inr cr \<Rightarrow>
                  if cr \<noteq> ru_id u then
                    (case js_includes (cs_field c ''participants'') (JStr (ru_id u)) of
                       Inl e \<Rightarrow> (db, server_error)
                     | Inr False \<Rightarrow> (db, (401, Msg ''Not authorized to update this session''))
                     | Inr True \<Rightarrow> upd)
                  else upd))"

definition remove_session :: "oid \<Rightarrow> store \<Rightarrow> store" where
  "remove_session i db = db\<lparr>db_sessions := (db_sessions db)(i := None)\<rparr>"

text \<open>After \<open>session.remove()\<close> the loop \<open>for (const participantId of
  session.participants)\<close> throws when \<open>participants\<close> is not an array.\<close>

definition deleteSession :: "req_user \<Rightarrow> string \<Rightarrow> store \<Rightarrow> store \<times> unit reply" where
  "deleteSession u i db =
     (case find_session i db of
        Inl r \<Rightarrow> (db, r)
      | Inr c \<Rightarrow>
          (case js_to_string (cs_field c ''creator'') of
             Inl e \<Rightarrow> (db, server_error)
           | Inr cr \<Rightarrow>
               if cr \<noteq> ru_id u then (db, (401, Msg ''Not authorized to delete this session''))
               else (case cs_field c ''participants'' of
                       JArr ps \<Rightarrow> (remove_session i db, (200, Msg ''Code session removed''))
                     | _ \<Rightarrow> (remove_session i db, server_error))))"

definition save_or_fail :: "oid \<Rightarrow> code_session_doc \<Rightarrow> store \<Rightarrow> 'd reply \<Rightarrow> store \<times> 'd reply" where
  "save_or_fail i c db r =
     (case validated_save_session i c db of Inl e \<Rightarrow> (db, server_error) | Inr db' \<Rightarrow> (db', r))"

definition joinSession :: "req_user \<Rightarrow> string \<Rightarrow> store \<Rightarrow> store \<times> (oid \<times> code_session_doc) reply" where
  "joinSession u i db =
     (case find_session i db of
        Inl r \<Rightarrow> (db, r)
      | Inr c \<Rightarrow>
          (let cont =
             (case js_some_str_eq (cs_field c ''participants'') (ru_id u) of
                Inl e \<Rightarrow> (db, server_error)
              | Inr True \<Rightarrow> (db, (400, Msg ''Already a participant in this session''))
              | Inr False \<Rightarrow> save_or_fail i c db (200, Data (i, c)))
           in if \<not> js_truthy (cs_field c ''isPublic'') then
                (case js_includes (cs_field c ''invitedUsers'') (JStr (ru_id u)) of
                   Inl e \<Rightarrow> (db, server_error)
                 | Inr False \<Rightarrow> (db, (401, Msg ''Not authorized to join this private session''))
                 | Inr True \<Rightarrow> cont)
              else cont))"

definition leaveSession :: "req_user \<Rightarrow> string \<Rightarrow> store \<Rightarrow> store \<times> unit reply" where
  "leaveSession u i db =
     (case find_session i db of
        Inl r \<Rightarrow> (db, r)
      | Inr c \<Rightarrow>
          (case js_some_str_eq (cs_field c ''participants'') (ru_id u) of
             Inl e \<Rightarrow> (db, server_error)
           | Inr False \<Rightarrow> (db, (400, Msg ''Not a participant in this session''))
           | Inr True \<Rightarrow>
               (case js_to_string (cs_field c ''creator'') of
                  Inl e \<Rightarrow> (db, server_error)
                | Inr cr \<Rightarrow>
                    if cr = ru_id u
                    then (db, (400, Msg ''Creator cannot leave the session, please delete it instead''))
                    else save_or_fail i c db (200, Msg ''Left the code session successfully''))))"

definition saveCode :: "req_user \<Rightarrow> string \<Rightarrow> store \<Rightarrow> store \<times> (oid \<times> code_session_doc) reply" where
  "saveCode u i db =
     (case find_session i db of
        Inl r \<Rightarrow> (db, r)
      | Inr c \<Rightarrow>
          (case js_some_str_eq (cs_field c ''participants'') (ru_id u) of
             Inl e \<Rightarrow> (db, server_error)
           | Inr False \<Rightarrow> (db, (401, Msg ''Not authorized to save code for this session''))
           | Inr True \<Rightarrow> save_or_fail i c db (200, Data (i, c))))"

section \<open>Running code\<close>

record exec_output =
  ex_success :: bool
  ex_output :: string

text \<open>\<open>run dir command source\<close> is \<open>exec\<close>'s callback arguments: the error's message
  when it failed, stdout and stderr.\<close>

type_synonym runner = "string \<Rightarrow> string \<Rightarrow> string \<Rightarrow> string option \<times> string \<times> string"

definition exec_reply :: "string option \<times> string \<times> string \<Rightarrow> exec_output" where
  "exec_reply r =
     (case r of
        (None, out, err) \<Rightarrow> \<lparr>ex_success = True, ex_output = out\<rparr>
      | (Some msg, out, err) \<Rightarrow> \<lparr>ex_success = False, ex_output = (if err \<noteq> [] then err else msg)\<rparr>)"

definition language_command :: "string \<Rightarrow> (string \<times> string) option" where
  "language_command l =
     (if l = ''javascript'' then Some (''code.js'', ''node code.js'')
      else if l = ''python'' then Some (''code.py'', ''python code.py'')
      else if l = ''java'' then Some (''Main.java'', ''javac Main.java && java Main'')
      else None)"

definition executeCode ::
  "runner \<Rightarrow> string \<Rightarrow> string set \<Rightarrow> jsval \<Rightarrow> jsval \<Rightarrow> string set \<times> exec_output reply" where
  "executeCode run uuid dirs code lang =
     (let dir = ''temp/'' @ uuid; dirs1 = insert dir dirs
      in case js_to_lower lang of
           Inl e \<Rightarrow> (dirs1, server_error)
         | Inr l \<Rightarrow>
             (case language_command l of
                None \<Rightarrow> (dirs1, (400, Msg ''Unsupported language''))
              | Some (file, cmd) \<Rightarrow>
                  (case code of
                     JStr src \<Rightarrow> (dirs1 - {dir}, (200, Data (exec_reply (run dir cmd src))))
                   | _ \<Rightarrow> (dirs1, server_error))))"

section \<open>Lemmas\<close>

lemma cs_field_undeclared [simp]:
  "cs_field c ''creator'' = JUndef" "cs_field c ''participants'' = JUndef"
  "cs_field c ''invitedUsers'' = JUndef" "cs_field c ''isPublic'' = JBool (cs_isPublic c)"
  by (simp_all add: cs_field_def)

lemma find_session_found:
  "valid_object_id i \<Longrightarrow> db_sessions db (oid_key i) = Some c \<Longrightarrow> find_session i db = Inr c"
  by (simp add: find_session_def find_by_id_def)

lemma js_calls_on_undefined [simp]:
  "js_to_string JUndef = Inl js_member_error"
  "js_includes JUndef x = Inl js_member_error"
  "js_some_str_eq JUndef y = Inl js_member_error"
  by (simp_all add: js_to_string_def js_includes_def js_some_str_eq_def)

lemma session_page_list:
  "getAllSessions pq lq db = (200, Data p) \<Longrightarrow>
     \<exists>k n. pg_sessions p = take n (drop k (rev (find_where (db_sessions db) (\<lambda>_. True))))
           \<and> n = nat \<bar>or_int (Option.bind lq parse_int) 10\<bar>"
  by (auto simp: getAllSessions_def Let_def server_error_def split: if_splits)

section \<open>Properties\<close>

text \<open>C16. The code-session REST API cannot work with the CodeSession schema: creating
  a session always answers 500 (the schema requires \<open>owner\<close>, which the controller
  never sets), and for every stored session, updating, deleting, joining, leaving and
  saving answer 500 \<open>'Server error'\<close> and write nothing, because they call methods of
  \<open>creator\<close>, \<open>participants\<close> or \<open>invitedUsers\<close>, which are \<open>undefined\<close>.\<close>

theorem code_session_endpoints_fail:
  assumes "valid_object_id i" and "db_sessions db (oid_key i) = Some c"
  shows "createSession fresh u f db = (db, (500, Msg ''Server error''))
       \<and> updateSession u i f db = (db, (500, Msg ''Server error''))
       \<and> deleteSession u i db = (db, (500, Msg ''Server error''))
       \<and> joinSession u i db = (db, (500, Msg ''Server error''))
       \<and> leaveSession u i db = (db, (500, Msg ''Server error''))
       \<and> saveCode u i db = (db, (500, Msg ''Server error''))"
  by (simp add: find_session_found [OF assms] createSession_def updateSession_def deleteSession_def joinSession_def leaveSession_def
                saveCode_def validated_save_session_def session_valid_def server_error_def Let_def)

theorem code_session_endpoints_fail_witness:
  "valid_object_id fx_sess \<and> db_sessions fx_db (oid_key fx_sess) = Some fx_session
   \<and> createSession fx_sid2 fx_ralice
        \<lparr>cf_title = Some ''Kata'', cf_description = None, cf_language = Some ''js'', cf_code = None,
         cf_isPublic = None\<rparr> fx_db = (fx_db, (500, Msg ''Server error''))
   \<and> updateSession fx_ralice fx_sess
        \<lparr>cf_title = Some ''Kata'', cf_description = None, cf_language = None, cf_code = None,
         cf_isPublic = None\<rparr> fx_db = (fx_db, (500, Msg ''Server error''))
   \<and> deleteSession fx_ralice fx_sess fx_db = (fx_db, (500, Msg ''Server error''))
   \<and> joinSession fx_rbob fx_sess fx_db = (fx_db, (500, Msg ''Server error''))
   \<and> leaveSession fx_rbob fx_sess fx_db = (fx_db, (500, Msg ''Server error''))
   \<and> saveCode fx_ralice fx_sess fx_db = (fx_db, (500, Msg ''Server error''))"
proof -
  have v: "valid_object_id fx_sess" by (simp add: valid_object_id_def is_hex_def)
  have d: "db_sessions fx_db (oid_key fx_sess) = Some fx_session" by simp
  show ?thesis using code_session_endpoints_fail [OF v d] v d by simp
qed

text \<open>C17. \<open>executeCode\<close> leaks its temporary directory: the directory is created
  before the language is checked and removed only in \<open>exec\<close>'s callback, so it stays
  behind exactly when the command is not run (a missing or unsupported language, or a
  \<open>code\<close> that is not a string); no other directory is touched.\<close>

theorem execute_code_temp_dir:
  "(''temp/'' @ uuid \<in> fst (executeCode run uuid dirs code lang)) =
     (\<not> (\<exists>l src. js_to_lower lang = Inr l \<and> language_command l \<noteq> None \<and> code = JStr src))
   \<and> fst (executeCode run uuid dirs code lang) - {''temp/'' @ uuid} = dirs - {''temp/'' @ uuid}"
  by (auto simp: executeCode_def Let_def split: sum.splits option.splits jsval.splits)

text \<open>A page of \<open>GET /api/code/sessions\<close> holds at most \<open>|limit|\<close> sessions
  (10 without a \<open>limit\<close>), each a stored session, each once.\<close>

theorem session_page_bounds:
  assumes "getAllSessions pq lq db = (200, Data p)" and "finite (dom (db_sessions db))"
  shows "length (pg_sessions p) \<le> nat \<bar>or_int (Option.bind lq parse_int) 10\<bar>
       \<and> distinct (map fst (pg_sessions p))
       \<and> set (pg_sessions p) \<subseteq> {(i, c). db_sessions db i = Some c}"
proof -
  obtain k n where p: "pg_sessions p = take n (drop k (rev (find_where (db_sessions db) (\<lambda>_. True))))"
    and n: "n = nat \<bar>or_int (Option.bind lq parse_int) 10\<bar>"
    using session_page_list [OF assms(1)] by blast
  have "distinct (map fst (rev (find_where (db_sessions db) (\<lambda>_. True))))"
    using distinct_find_where [of "db_sessions db"] by (simp add: rev_map [symmetric])
  then have "distinct (map fst (pg_sessions p))"
    by (simp add: p take_map [symmetric] drop_map [symmetric] distinct_take distinct_drop)
  moreover have "set (pg_sessions p) \<subseteq> set (find_where (db_sessions db) (\<lambda>_. True))"
    unfolding p by (metis set_rev set_take_subset set_drop_subset subset_trans)
  ultimately show ?thesis
    using set_find_where [OF assms(2)] by (simp add: p n)
qed

theorem session_page_bounds_witness:
  "getAllSessions None None fx_db = (200, Data \<lparr>pg_sessions = [(fx_sess, fx_session)], pg_totalPages = 1, pg_currentPage = 1\<rparr>) \<and> finite (dom (db_sessions fx_db))
   \<and> length (pg_sessions \<lparr>pg_sessions = [(fx_sess, fx_session)], pg_totalPages = 1, pg_currentPage = 1\<rparr>) \<le> nat \<bar>or_int (Option.bind None parse_int) 10\<bar>
   \<and> distinct (map fst (pg_sessions \<lparr>pg_sessions = [(fx_sess, fx_session)], pg_totalPages = 1, pg_currentPage = 1\<rparr>))
   \<and> set (pg_sessions \<lparr>pg_sessions = [(fx_sess, fx_session)], pg_totalPages = 1, pg_currentPage = 1\<rparr>) \<subseteq> {(i, c). db_sessions fx_db i = Some c}"
proof -
  have g: "getAllSessions None None fx_db = (200, Data \<lparr>pg_sessions = [(fx_sess, fx_session)], pg_totalPages = 1, pg_currentPage = 1\<rparr>)"
    by (simp add: getAllSessions_def find_where_def or_int_def)
  have f: "finite (dom (db_sessions fx_db))" by simp
  show ?thesis using session_page_bounds [OF g f] g f by simp
qed

text \<open>A negative page number is not caught: \<open>parseInt(page) || 1\<close> keeps it, the
  skip \<open>(page - 1) * limit\<close> is negative for a positive limit, the query fails, and the
  answer is 500 \<open>'Server error'\<close> rather than a 400 or the first page.\<close>

theorem negative_page_server_error:
  assumes "Option.bind pq parse_int = Some n" and "n < 0"
    and "0 < or_int (Option.bind lq parse_int) 10"
  shows "getAllSessions pq lq db = (500, Msg ''Server error'')"
proof -
  have "(or_int (Option.bind pq parse_int) 1 - 1) * or_int (Option.bind lq parse_int) 10 < 0"
    using assms by (simp add: or_int_def mult_neg_pos)
  then show ?thesis by (simp add: getAllSessions_def Let_def server_error_def)
qed

theorem negative_page_server_error_witness:
  "Option.bind (Some ''-1'') parse_int = Some (-1) \<and> (-1::int) < 0
   \<and> 0 < or_int (Option.bind None parse_int) 10
   \<and> getAllSessions (Some ''-1'') None fx_db = (500, Msg ''Server error'')"
proof -
  have p: "Option.bind (Some ''-1'') parse_int = Some (-1)"
    by (simp add: parse_int_def js_space_def is_digit_def digit_val_def)
  have l: "0 < or_int (Option.bind None parse_int) (10::int)" by (simp add: or_int_def)
  show ?thesis using negative_page_server_error [OF p _ l] p l by simp
qed

end
