(* ===== verification/Users.thy ===== *)
theory Users
  imports Fixtures
begin

text \<open>
  The methods of models/user.model.js and the controller controllers/user.controller.js.
  A user document is loaded by \<open>findById\<close>, changed by a method, and saved; Mongoose's
  \<open>save()\<close> writes only the paths that changed, so two copies of one document loaded
  separately and saved in turn both keep their changes (\<open>save_following\<close>,
  \<open>save_followers\<close>). Mongoose arrays cast their argument in \<open>includes\<close> and
  \<open>push\<close>, so \<open>follow\<close> and \<open>addFollower\<close> compare and store the canonical id
  (\<open>oid_key\<close>), while \<open>isFollowing\<close> and the filters of \<open>unfollow\<close> and
  \<open>removeFollower\<close> compare the strings as given. \<open>select('-password')\<close> blanks the
  password hash of an answer; \<open>populate\<close> of an array keeps the documents that exist,
  with the selected fields. The regular-expression match of \<open>searchUsers\<close> is the
  parameter \<open>matches\<close>.
\<close>

section \<open>User methods\<close>

definition followerCount :: "user_doc \<Rightarrow> nat" where
  "followerCount u = length (u_followers u)"

definition followingCount :: "user_doc \<Rightarrow> nat" where
  "followingCount u = length (u_following u)"

definition isFollowing :: "string \<Rightarrow> user_doc \<Rightarrow> bool" where
  "isFollowing x u = list_ex (\<lambda>f. f = x) (u_following u)"

definition addFollower :: "string \<Rightarrow> user_doc \<Rightarrow> user_doc" where
  "addFollower x u = u\<lparr>u_followers := push_unique (oid_key x) (u_followers u)\<rparr>"

definition removeFollower :: "string \<Rightarrow> user_doc \<Rightarrow> user_doc" where
  "removeFollower x u = u\<lparr>u_followers := pull_all x (u_followers u)\<rparr>"

definition follow :: "string \<Rightarrow> user_doc \<Rightarrow> user_doc" where
  "follow x u = u\<lparr>u_following := push_unique (oid_key x) (u_following u)\<rparr>"

definition unfollow :: "string \<Rightarrow> user_doc \<Rightarrow> user_doc" where
  "unfollow x u = u\<lparr>u_following := pull_all x (u_following u)\<rparr>"

definition addPoints :: "int \<Rightarrow> user_doc \<Rightarrow> user_doc" where
  "addPoints n u = u\<lparr>u_points := u_points u + n\<rparr>"

definition addBadge :: "string \<Rightarrow> user_doc \<Rightarrow> user_doc" where
  "addBadge b u = u\<lparr>u_badges := push_unique (oid_key b) (u_badges u)\<rparr>"

text \<open>UserSchema's validators: \<open>username\<close> 3 to 50 characters, \<open>email\<close>,
  \<open>password\<close> (at least 6) and \<open>fullName\<close> (at most 100) required, \<open>bio\<close> at most 500.\<close>

definition user_valid :: "user_doc \<Rightarrow> bool" where
  "user_valid u = (3 \<le> length (u_username u) \<and> length (u_username u) \<le> 50 \<and> u_email u \<noteq> []
     \<and> 6 \<le> length (u_password u) \<and> u_fullName u \<noteq> [] \<and> length (u_fullName u) \<le> 100
     \<and> length (u_bio u) \<le> 500)"

section \<open>Writes of single paths\<close>

definition save_following :: "string \<Rightarrow> oid list \<Rightarrow> store \<Rightarrow> store" where
  "save_following i xs db =
     db\<lparr>db_users := (db_users db)(oid_key i := map_option (\<lambda>u. u\<lparr>u_following := xs\<rparr>) (db_users db (oid_key i)))\<rparr>"

definition save_followers :: "string \<Rightarrow> oid list \<Rightarrow> store \<Rightarrow> store" where
  "save_followers i xs db =
     db\<lparr>db_users := (db_users db)(oid_key i := map_option (\<lambda>u. u\<lparr>u_followers := xs\<rparr>) (db_users db (oid_key i)))\<rparr>"

definition save_user :: "string \<Rightarrow> user_doc \<Rightarrow> 'z store_scheme \<Rightarrow> js_exn + 'z store_scheme" where
  "save_user i u db =
     (if user_valid u then Inr (db\<lparr>db_users := (db_users db)(oid_key i \<mapsto> u)\<rparr>)
      else Inl (ValidationError ''User validation failed''))"

section \<open>The controller\<close>

record user_summary =
  us_username :: string
  us_fullName :: string
  us_avatar :: "string option"
  us_bio :: string

definition summary :: "user_doc \<Rightarrow> user_summary" where
  "summary u = \<lparr>us_username = u_username u, us_fullName = u_fullName u, us_avatar = u_avatar u,
                us_bio = u_bio u\<rparr>"

definition without_password :: "user_doc \<Rightarrow> user_doc" where
  "without_password u = u\<lparr>u_password := []\<rparr>"

record follow_lists =
  fl_following :: "oid list"
  fl_followers :: "oid list"

definition followUser :: "req_user \<Rightarrow> string \<Rightarrow> store \<Rightarrow> store \<times> follow_lists reply" where
  "followUser me i db =
     (case find_by_id (db_users db) i of
        Inl e \<Rightarrow> (db, catch_reply ''User not found'' e)
      | Inr None \<Rightarrow> (db, (404, Msg ''User not found''))
      | Inr (Some target) \<Rightarrow>
          if i = ru_id me then (db, (400, Msg ''You cannot follow yourself''))
          else (case find_by_id (db_users db) (ru_id me) of
            Inl e \<Rightarrow> (db, catch_reply ''User not found'' e)
          | Inr None \<Rightarrow> (db, server_error)
          | Inr (Some cur) \<Rightarrow>
              if isFollowing i cur then (db, (400, Msg ''You are already following this user''))
              else
                (let cur' = follow i cur; target' = addFollower (ru_id me) target;
                     db1 = save_following (ru_id me) (u_following cur') db;
                     db2 = save_followers i (u_followers target') db1
                 in (db2, (200, Data \<lparr>fl_following = u_following cur', fl_followers = u_followers target'\<rparr>)))))"

definition unfollowUser :: "req_user \<Rightarrow> string \<Rightarrow> store \<Rightarrow> store \<times> follow_lists reply" where
  "unfollowUser me i db =
     (case find_by_id (db_users db) i of
        Inl e \<Rightarrow> (db, catch_reply ''User not found'' e)
      | Inr None \<Rightarrow> (db, (404, Msg ''User not found''))
      | Inr (Some target) \<Rightarrow>
          if i = ru_id me then (db, (400, Msg ''You cannot unfollow yourself''))
          else (case find_by_id (db_users db) (ru_id me) of
            Inl e \<Rightarrow> (db, catch_reply ''User not found'' e)
          | Inr None \<Rightarrow> (db, server_error)
          | Inr (Some cur) \<Rightarrow>
              if \<not> isFollowing i cur then (db, (400, Msg ''You are not following this user''))
              else
                (let cur' = unfollow i cur; target' = removeFollower (ru_id me) target;
                     db1 = save_following (ru_id me) (u_following cur') db;
                     db2 = save_followers i (u_followers target') db1
                 in (db2, (200, Data \<lparr>fl_following = u_following cur', fl_followers = u_followers target'\<rparr>)))))"

definition populate_users :: "store \<Rightarrow> oid list \<Rightarrow> (oid \<times> user_summary) list" where
  "populate_users db xs = List.map_filter (\<lambda>f. map_option (\<lambda>v. (f, summary v)) (db_users db f)) xs"

definition getFollowers :: "string \<Rightarrow> store \<Rightarrow> (oid \<times> user_summary) list reply" where
  "getFollowers i db =
     (case find_by_id (db_users db) i of
        Inl e \<Rightarrow> catch_reply ''User not found'' e
      | Inr None \<Rightarrow> (404, Msg ''User not found'')
      | Inr (Some u) \<Rightarrow> (200, Data (populate_users db (u_followers u))))"

definition getFollowing :: "string \<Rightarrow> store \<Rightarrow> (oid \<times> user_summary) list reply" where
  "getFollowing i db =
     (case find_by_id (db_users db) i of
        Inl e \<Rightarrow> catch_reply ''User not found'' e
      | Inr None \<Rightarrow> (404, Msg ''User not found'')
      | Inr (Some u) \<Rightarrow> (200, Data (populate_users db (u_following u))))"

definition getUserProfile :: "string \<Rightarrow> store \<Rightarrow> user_doc reply" where
  "getUserProfile i db =
     (case find_by_id (db_users db) i of
        Inl e \<Rightarrow> catch_reply ''User not found'' e
      | Inr None \<Rightarrow> (404, Msg ''User not found'')
      | Inr (Some u) \<Rightarrow> (200, Data (without_password u)))"

record profile_form =
  pf_fullName :: "string option"
  pf_bio :: "string option"
  pf_skills :: "string list option"
  pf_avatar :: "string option"

text \<open>The answer is the document as loaded, password hash included.\<close>

definition updateProfile :: "string list \<Rightarrow> req_user \<Rightarrow> profile_form \<Rightarrow> store \<Rightarrow> store \<times> user_doc reply" where
  "updateProfile errs me f db =
     (if errs \<noteq> [] then (db, validation_failed errs)
      else (case find_by_id (db_users db) (ru_id me) of
        Inl e \<Rightarrow> (db, server_error)
      | Inr None \<Rightarrow> (db, (404, Msg ''User not found''))
      | Inr (Some u) \<Rightarrow>
          (let u' = u\<lparr>u_fullName := (if str_truthy (pf_fullName f) then js_trim (the (pf_fullName f)) else u_fullName u),
                      u_bio := (case pf_bio f of None \<Rightarrow> u_bio u | Some b \<Rightarrow> b),
                      u_skills := (case pf_skills f of None \<Rightarrow> u_skills u | Some ss \<Rightarrow> ss),
                      u_avatar := (if str_truthy (pf_avatar f) then pf_avatar f else u_avatar u)\<rparr>
           in (case save_user (ru_id me) u' db of
                 Inl e \<Rightarrow> (db, server_error)
               | Inr db' \<Rightarrow> (db', (200, Data u'))))))"

definition searchUsers :: "(string \<Rightarrow> string \<Rightarrow> bool) \<Rightarrow> string option \<Rightarrow> store \<Rightarrow> (oid \<times> user_summary) list reply" where
  "searchUsers matches q db =
     (if \<not> str_truthy q then (400, Msg ''Search query is required'')
      else (200, Data (take 10 (map (\<lambda>(i, u). (i, summary u))
                 (find_where (db_users db)
                    (\<lambda>u. matches (the q) (u_username u) \<or> matches (the q) (u_fullName u)))))))"

section \<open>The follow relation\<close>

text \<open>Who follows whom, read from the \<open>following\<close> arrays and from the
  \<open>followers\<close> arrays; the store is consistent when both agree and every id is canonical.\<close>

definition rel_following :: "store \<Rightarrow> (oid \<times> oid) set" where
  "rel_following db = {(a, b). \<exists>u. db_users db a = Some u \<and> b \<in> set (u_following u)}"

definition rel_followers :: "store \<Rightarrow> (oid \<times> oid) set" where
  "rel_followers db = {(a, b). \<exists>u. db_users db b = Some u \<and> a \<in> set (u_followers u)}"

definition users_wf :: "store \<Rightarrow> bool" where
  "users_wf db = ((\<forall>k \<in> dom (db_users db). oid_key k = k)
     \<and> (\<forall>u \<in> ran (db_users db). \<forall>x \<in> set (u_following u) \<union> set (u_followers u). oid_key x = x)
     \<and> rel_following db = rel_followers db)"

section \<open>Properties\<close>

lemma save_user_Inr:
  "save_user i u db = Inr db' \<longleftrightarrow> user_valid u \<and> db' = db\<lparr>db_users := (db_users db)(oid_key i \<mapsto> u)\<rparr>"
  by (auto simp: save_user_def)

lemma rel_following_save_following:
  "db_users db (oid_key k) = Some u \<Longrightarrow>
   rel_following (save_following k xs db) = {p \<in> rel_following db. fst p \<noteq> oid_key k} \<union> {(oid_key k, b) | b. b \<in> set xs}"
  by (auto simp: rel_following_def save_following_def split: if_splits)

lemma rel_followers_save_following:
  "db_users db (oid_key k) = Some u \<Longrightarrow> rel_followers (save_following k xs db) = rel_followers db"
  by (auto simp: rel_followers_def save_following_def split: if_splits)

lemma rel_followers_save_followers:
  "db_users db (oid_key k) = Some u \<Longrightarrow>
   rel_followers (save_followers k xs db) = {p \<in> rel_followers db. snd p \<noteq> oid_key k} \<union> {(a, oid_key k) | a. a \<in> set xs}"
  by (auto simp: rel_followers_def save_followers_def split: if_splits)

lemma rel_following_save_followers:
  "db_users db (oid_key k) = Some u \<Longrightarrow> rel_following (save_followers k xs db) = rel_following db"
  by (auto simp: rel_following_def save_followers_def split: if_splits)

lemma users_wf_update:
  assumes wf: "users_wf db" and cur: "db_users db m = Some cur" and tgt: "db_users db t = Some target"
    and m: "oid_key m' = m" and t: "oid_key i = t"
    and fol: "\<And>b. b \<in> set fol' \<longleftrightarrow> (b \<in> set (u_following cur) \<and> b \<noteq> t) \<or> (b = t \<and> P)"
    and fs: "\<And>a. a \<in> set fs' \<longleftrightarrow> (a \<in> set (u_followers target) \<and> a \<noteq> m) \<or> (a = m \<and> P)"
  shows "users_wf (save_followers i fs' (save_following m' fol' db))"
proof -
  let ?db1 = "save_following m' fol' db"
  have k: "\<forall>k \<in> dom (db_users db). oid_key k = k"
   and e: "\<forall>u \<in> ran (db_users db). \<forall>x \<in> set (u_following u) \<union> set (u_followers u). oid_key x = x"
   and r: "rel_following db = rel_followers db"
    using wf by (simp_all add: users_wf_def)
  have mm: "oid_key m = m" using k cur by blast
  have tt: "oid_key t = t" using k tgt by blast
  have c1: "db_users db (oid_key m') = Some cur" using cur m by simp
  have t1: "db_users ?db1 (oid_key i) = Some (if t = m then cur\<lparr>u_following := fol'\<rparr> else target)"
    using cur tgt m t by (auto simp: save_following_def)
  have tf: "u_followers (if t = m then cur\<lparr>u_following := fol'\<rparr> else target) = u_followers target"
    using cur tgt by auto
  have Rm: "(m, b) \<in> rel_following db \<longleftrightarrow> b \<in> set (u_following cur)" for b
    using cur by (simp add: rel_following_def)
  have Ft: "(a, t) \<in> rel_followers db \<longleftrightarrow> a \<in> set (u_followers target)" for a
    using tgt by (simp add: rel_followers_def)
  have R2: "rel_following (save_followers i fs' ?db1) =
      {p \<in> rel_following db. fst p \<noteq> m} \<union> {(m, b) | b. b \<in> set fol'}"
    using rel_following_save_followers [OF t1] rel_following_save_following [OF c1] m by simp
  have F2: "rel_followers (save_followers i fs' ?db1) =
      {p \<in> rel_followers db. snd p \<noteq> t} \<union> {(a, t) | a. a \<in> set fs'}"
    using rel_followers_save_followers [OF t1] rel_followers_save_following [OF c1] t tf by simp
  have "rel_following (save_followers i fs' ?db1) = rel_followers (save_followers i fs' ?db1)"
    unfolding R2 F2 using r Rm Ft fol fs by auto
  moreover have "\<forall>k \<in> dom (db_users (save_followers i fs' ?db1)). oid_key k = k"
    using k cur tgt m t by (auto simp: save_followers_def save_following_def split: if_splits)
  moreover have "\<forall>u \<in> ran (db_users (save_followers i fs' ?db1)).
      \<forall>x \<in> set (u_following u) \<union> set (u_followers u). oid_key x = x"
  proof -
    have "oid_key x = x" if "x \<in> set fol'" for x
      using that fol e cur tt by (auto simp: ran_def)
    moreover have "oid_key x = x" if "x \<in> set fs'" for x
      using that fs e tgt mm by (auto simp: ran_def)
    ultimately show ?thesis
      using e by (auto simp: save_followers_def save_following_def ran_def split: if_splits)
  qed
  ultimately show ?thesis by (simp add: users_wf_def)
qed

lemma followUser_users_wf_step:
  assumes "users_wf db"
  shows "users_wf (fst (followUser me i db))"
proof (cases "find_by_id (db_users db) i")
  case (Inr r)
  show ?thesis
  proof (cases "\<exists>target cur. r = Some target \<and> i \<noteq> ru_id me
      \<and> find_by_id (db_users db) (ru_id me) = Inr (Some cur) \<and> \<not> isFollowing i cur")
    case True
    then obtain target cur where r: "r = Some target" and ne: "i \<noteq> ru_id me"
      and c: "find_by_id (db_users db) (ru_id me) = Inr (Some cur)" and nf: "\<not> isFollowing i cur"
      by blast
    have "users_wf (save_followers i (push_unique (oid_key (ru_id me)) (u_followers target))
        (save_following (ru_id me) (push_unique (oid_key i) (u_following cur)) db))"
      by (rule users_wf_update [OF assms find_by_id_found [OF c] find_by_id_found [OF Inr [unfolded r]]])
         auto
    then show ?thesis
      using Inr r ne c nf by (simp add: followUser_def follow_def addFollower_def Let_def)
  next
    case False
    then show ?thesis
      using Inr assms by (auto simp: followUser_def split: option.splits sum.splits)
  qed
qed (simp add: followUser_def assms)

lemma unfollowUser_users_wf_step:
  assumes wf: "users_wf db" and me: "oid_key (ru_id me) = ru_id me"
  shows "users_wf (fst (unfollowUser me i db))"
proof (cases "find_by_id (db_users db) i")
  case (Inr r)
  show ?thesis
  proof (cases "\<exists>target cur. r = Some target \<and> i \<noteq> ru_id me
      \<and> find_by_id (db_users db) (ru_id me) = Inr (Some cur) \<and> isFollowing i cur")
    case True
    then obtain target cur where r: "r = Some target" and ne: "i \<noteq> ru_id me"
      and c: "find_by_id (db_users db) (ru_id me) = Inr (Some cur)" and f: "isFollowing i cur"
      by blast
    have cu: "db_users db (ru_id me) = Some cur" using find_by_id_found [OF c] me by simp
    have "i \<in> set (u_following cur)" using f by (simp add: isFollowing_def list_ex_iff)
    then have ii: "oid_key i = i"
      using wf cu by (auto simp: users_wf_def ran_def)
    have "users_wf (save_followers i (pull_all (ru_id me) (u_followers target))
        (save_following (ru_id me) (pull_all i (u_following cur)) db))"
      by (rule users_wf_update [where P=False, OF wf find_by_id_found [OF c] find_by_id_found [OF Inr [unfolded r]]])
         (auto simp: me ii)
    then show ?thesis
      using Inr r ne c f by (simp add: unfollowUser_def unfollow_def removeFollower_def Let_def)
  next
    case False
    then show ?thesis
      using Inr wf by (auto simp: unfollowUser_def split: option.splits sum.splits)
  qed
qed (simp add: unfollowUser_def wf)

text \<open>C18. Following and unfollowing keep the follow relation symmetric: after followUser or unfollowUser, a user lists b in following exactly when b lists that user in followers, and every stored id stays canonical.\<close>

theorem follow_symmetry_preserved:
  "users_wf db \<Longrightarrow> oid_key (ru_id me) = ru_id me \<Longrightarrow>
     users_wf (fst (followUser me i db)) \<and> users_wf (fst (unfollowUser me i db))"
  by (simp add: followUser_users_wf_step unfollowUser_users_wf_step)

theorem follow_symmetry_preserved_witness:
  "users_wf (fst (followUser fx_ralice fx_bob fx_db)) \<and> users_wf (fst (unfollowUser fx_ralice fx_bob fx_db))"
  using follow_symmetry_preserved [of fx_db fx_ralice fx_bob]
  by (simp add: users_wf_def rel_following_def rel_followers_def)

text \<open>C19. The self-follow guard of followUser compares the id strings: an id that differs from the caller's own only in the case of its hex digits passes the guard, and the caller ends up following itself and listed among its own followers.\<close>

theorem followUser_self_by_case_variant:
  assumes v: "valid_object_id i" and k: "oid_key i = ru_id me" and ne: "i \<noteq> ru_id me"
    and u: "db_users db (ru_id me) = Some u" and nf: "\<not> isFollowing i u"
  shows "fst (snd (followUser me i db)) = 200
    \<and> (\<exists>u'. db_users (fst (followUser me i db)) (ru_id me) = Some u'
            \<and> ru_id me \<in> set (u_following u') \<and> ru_id me \<in> set (u_followers u'))"
proof -
  have me: "oid_key (ru_id me) = ru_id me" using k by (metis oid_key_idem)
  have fi: "find_by_id (db_users db) i = Inr (Some u)" using v k u by (simp add: find_by_id_Inr)
  have fm: "find_by_id (db_users db) (ru_id me) = Inr (Some u)"
    using v k u me by (metis find_by_id_Inr oid_key_idem valid_oid_key)
  show ?thesis
    using fi fm ne nf k me u
    by (simp add: followUser_def follow_def addFollower_def Let_def save_following_def save_followers_def)
qed

theorem followUser_self_by_case_variant_witness:
  "fst (snd (followUser fx_ralice ''65A1B2C3D4E5F60718293A01'' fx_db)) = 200
    \<and> (\<exists>u'. db_users (fst (followUser fx_ralice ''65A1B2C3D4E5F60718293A01'' fx_db)) fx_alice = Some u'
            \<and> fx_alice \<in> set (u_following u') \<and> fx_alice \<in> set (u_followers u'))"
  using followUser_self_by_case_variant [of "''65A1B2C3D4E5F60718293A01''" fx_ralice fx_db "fx_user ''alice''"]
  by (simp add: valid_object_id_def is_hex_def oid_key_def hex_lower_def isFollowing_def)

text \<open>C20. updateProfile answers the saved document with its password hash, while getUserProfile answers the same document with the password removed.\<close>

theorem updateProfile_answers_password_hash:
  assumes u: "db_users db (oid_key (ru_id me)) = Some u"
    and ok: "snd (updateProfile errs me f db) = (200, Data v)"
  shows "u_password v = u_password u
    \<and> getUserProfile (ru_id me) db = (200, Data (u\<lparr>u_password := []\<rparr>))"
proof -
  have e: "errs = []" and fm: "find_by_id (db_users db) (ru_id me) = Inr (Some u)"
    using ok u by (auto simp: updateProfile_def find_by_id_def validation_failed_def server_error_def
                        Let_def split: if_splits sum.splits)
  show ?thesis
    using ok fm e by (auto simp: updateProfile_def getUserProfile_def without_password_def Let_def server_error_def
                        split: sum.split_asm)
qed

theorem updateProfile_answers_password_hash_witness:
  "snd (updateProfile [] fx_ralice \<lparr>pf_fullName = None, pf_bio = Some ''hi'', pf_skills = None, pf_avatar = None\<rparr>
      \<lparr>db_streams = Map.empty, db_sessions = Map.empty,
       db_users = [fx_alice \<mapsto> (fx_user ''alice'')\<lparr>u_password := ''$2a$10$h''\<rparr>]\<rparr>)
     = (200, Data ((fx_user ''alice'')\<lparr>u_password := ''$2a$10$h'', u_bio := ''hi''\<rparr>))
   \<and> u_password ((fx_user ''alice'')\<lparr>u_password := ''$2a$10$h'', u_bio := ''hi''\<rparr>) = ''$2a$10$h''"
  using updateProfile_answers_password_hash [of
     "\<lparr>db_streams = Map.empty, db_sessions = Map.empty,
       db_users = [fx_alice \<mapsto> (fx_user ''alice'')\<lparr>u_password := ''$2a$10$h''\<rparr>]\<rparr>" fx_ralice
     "(fx_user ''alice'')\<lparr>u_password := ''$2a$10$h''\<rparr>" "[]"
     "\<lparr>pf_fullName = None, pf_bio = Some ''hi'', pf_skills = None, pf_avatar = None\<rparr>"
     "(fx_user ''alice'')\<lparr>u_password := ''$2a$10$h'', u_bio := ''hi''\<rparr>"]
  by (simp add: updateProfile_def find_by_id_def valid_object_id_def is_hex_def oid_key_def hex_lower_def
        save_user_def user_valid_def str_truthy_def js_trim_def Let_def)

end
