(* ===== verification/Auth.thy ===== *)
theory Auth
  imports Users Routes
begin

text \<open>
  The controller controllers/auth.controller.js. Passwords are hashed and compared by
  bcryptjs and tokens signed by jsonwebtoken, libraries the sources only call: the model
  takes them as parameters, \<open>hash\<close> (\<open>bcrypt.hash(password, salt)\<close>, the salt
  included), \<open>check\<close> (\<open>bcrypt.compare\<close>) and \<open>sign\<close> (\<open>jwt.sign\<close> of the
  payload \<open>{user: {id}}\<close>). The id of a new document is drawn by Mongoose; it is the
  parameter \<open>nid\<close>. A query on a field declared \<open>trim\<close> or \<open>lowercase\<close> runs the
  field's setters on the value first, as an assignment does, so \<open>findOne({ email })\<close>
  looks for the trimmed, lower-cased address. \<open>findOne\<close> answers the first match in the
  collection's order.
\<close>

section \<open>The setters of UserSchema\<close>

definition set_username :: "string \<Rightarrow> string" where
  "set_username s = js_trim s"

definition set_email :: "string \<Rightarrow> string" where
  "set_email s = str_lower (js_trim s)"

definition set_fullName :: "string \<Rightarrow> string" where
  "set_fullName s = js_trim s"

definition find_one :: "(oid \<rightharpoonup> 'a) \<Rightarrow> ('a \<Rightarrow> bool) \<Rightarrow> (oid \<times> 'a) option" where
  "find_one coll P = (case find_where coll P of [] \<Rightarrow> None | x # _ \<Rightarrow> Some x)"

section \<open>The controller\<close>

record register_form =
  rf_username :: string
  rf_email :: string
  rf_password :: string
  rf_fullName :: string

text \<open>The user object of the answers of \<open>register\<close> and \<open>login\<close> (\<open>createdAt\<close>
  apart, which the model does not keep).\<close>

record auth_user =
  au_id :: oid
  au_username :: string
  au_email :: string
  au_fullName :: string
  au_avatar :: "string option"
  au_bio :: string
  au_skills :: "string list"
  au_points :: int

record auth_answer =
  aa_token :: string
  aa_user :: auth_user

definition auth_user_of :: "oid \<Rightarrow> user_doc \<Rightarrow> auth_user" where
  "auth_user_of i u = \<lparr>au_id = i, au_username = u_username u, au_email = u_email u,
     au_fullName = u_fullName u, au_avatar = u_avatar u, au_bio = u_bio u,
     au_skills = u_skills u, au_points = u_points u\<rparr>"

definition new_user :: "register_form \<Rightarrow> string \<Rightarrow> user_doc" where
  "new_user f h = \<lparr>u_username = set_username (rf_username f), u_email = set_email (rf_email f),
     u_password = h, u_fullName = set_fullName (rf_fullName f), u_bio = [], u_avatar = None,
     u_skills = [], u_points = 0, u_followers = [], u_following = [], u_badges = [],
     u_isActive = True\<rparr>"

definition register ::
  "(string \<Rightarrow> string) \<Rightarrow> (oid \<Rightarrow> string) \<Rightarrow> oid \<Rightarrow> string list \<Rightarrow> register_form \<Rightarrow> store
     \<Rightarrow> store \<times> auth_answer reply" where
  "register hash sign nid errs f db =
     (if errs \<noteq> [] then (db, validation_failed errs)
      else (case find_one (db_users db) (\<lambda>u. u_email u = set_email (rf_email f)
                                           \<or> u_username u = set_username (rf_username f)) of
        Some _ \<Rightarrow> (db, (400, Msg ''User already exists with this email or username''))
      | None \<Rightarrow>
          (case save_user nid (new_user f (hash (rf_password f))) db of
             Inl _ \<Rightarrow> (db, server_error)
           | Inr db2 \<Rightarrow>
               (db2, (201, Data \<lparr>aa_token = sign nid,
                                 aa_user = auth_user_of nid (new_user f (hash (rf_password f)))\<rparr>)))))"

definition login ::
  "(string \<Rightarrow> string \<Rightarrow> bool) \<Rightarrow> (oid \<Rightarrow> string) \<Rightarrow> string list \<Rightarrow> string \<Rightarrow> string \<Rightarrow> store
     \<Rightarrow> auth_answer reply" where
  "login check sign errs email password db =
     (if errs \<noteq> [] then validation_failed errs
      else (case find_one (db_users db) (\<lambda>u. u_email u = set_email email) of
        None \<Rightarrow> (400, Msg ''Invalid credentials'')
      | Some (i, u) \<Rightarrow>
          if \<not> check password (u_password u) then (400, Msg ''Invalid credentials'')
          else (200, Data \<lparr>aa_token = sign i, aa_user = auth_user_of i u\<rparr>)))"

definition getCurrentUser :: "req_user \<Rightarrow> store \<Rightarrow> user_doc reply" where
  "getCurrentUser me db =
     (case find_by_id (db_users db) (ru_id me) of
        Inl _ \<Rightarrow> server_error
      | Inr None \<Rightarrow> (404, Msg ''User not found'')
      | Inr (Some u) \<Rightarrow> (200, Data (without_password u)))"

text \<open>The body of a register request, \<open>req.body\<close>, as express-validator reads it.\<close>

definition form_body :: "register_form \<Rightarrow> string \<rightharpoonup> string" where
  "form_body f = [''username'' \<mapsto> rf_username f, ''email'' \<mapsto> rf_email f,
                  ''password'' \<mapsto> rf_password f, ''fullName'' \<mapsto> rf_fullName f]"

definition logout :: "unit reply" where
  "logout = (200, Msg ''Logged out successfully'')"

section \<open>Properties\<close>

lemma find_one_None:
  assumes "finite (dom m)"
  shows "find_one m P = None \<longleftrightarrow> (\<forall>i v. m i = Some v \<longrightarrow> \<not> P v)"
proof -
  have "find_one m P = None \<longleftrightarrow> set (find_where m P) = {}"
    by (simp add: find_one_def split: list.split)
  also have "\<dots> \<longleftrightarrow> (\<forall>i v. m i = Some v \<longrightarrow> \<not> P v)"
    using set_find_where [OF assms] by auto
  finally show ?thesis .
qed

lemma find_one_unique:
  assumes fin: "finite (dom m)" and k: "m k = Some v" and p: "P v"
    and u: "\<And>i w. m i = Some w \<Longrightarrow> P w \<Longrightarrow> i = k"
  shows "find_one m P = Some (k, v)"
proof -
  have "(i, d) \<in> set (find_where m P) \<longleftrightarrow> (i, d) = (k, v)" for i d
  proof
    assume "(i, d) \<in> set (find_where m P)"
    then have m: "m i = Some d" and "P d" using set_find_where [OF fin] by auto
    then have "i = k" by (rule u)
    then show "(i, d) = (k, v)" using m k by simp
  next
    assume "(i, d) = (k, v)"
    then show "(i, d) \<in> set (find_where m P)" using set_find_where [OF fin] k p by simp
  qed
  then have "set (find_where m P) = {(k, v)}" by auto
  then show ?thesis
    by (cases "find_where m P") (auto simp: find_one_def)
qed

lemma register_Created_raw:
  assumes reg: "register hash sign nid [] f db = (db', (201, Data a))"
  shows "find_one (db_users db) (\<lambda>u. u_email u = set_email (rf_email f) \<or> u_username u = set_username (rf_username f)) = None
         \<and> save_user nid (new_user f (hash (rf_password f))) db = Inr db'
         \<and> a = \<lparr>aa_token = sign nid, aa_user = auth_user_of nid (new_user f (hash (rf_password f)))\<rparr>"
  using reg unfolding register_def server_error_def
  by (simp split: option.split_asm sum.split_asm)

lemma register_Created:
  assumes fin: "finite (dom (db_users db))" and reg: "register hash sign nid [] f db = (db', (201, Data a))"
  shows "(\<forall>i v. db_users db i = Some v \<longrightarrow> u_email v \<noteq> set_email (rf_email f) \<and> u_username v \<noteq> set_username (rf_username f))
         \<and> user_valid (new_user f (hash (rf_password f)))
         \<and> db_users db' = (db_users db)(oid_key nid \<mapsto> new_user f (hash (rf_password f)))
         \<and> a = \<lparr>aa_token = sign nid, aa_user = auth_user_of nid (new_user f (hash (rf_password f)))\<rparr>"
proof -
  note r = register_Created_raw [OF reg]
  have "\<forall>i v. db_users db i = Some v \<longrightarrow> \<not> (u_email v = set_email (rf_email f) \<or> u_username v = set_username (rf_username f))"
    using find_one_None [OF fin, THEN iffD1, OF conjunct1 [OF r]] by simp
  moreover have "user_valid (new_user f (hash (rf_password f)))
      \<and> db' = db\<lparr>db_users := (db_users db)(oid_key nid \<mapsto> new_user f (hash (rf_password f)))\<rparr>"
    using save_user_Inr [THEN iffD1, OF conjunct1 [OF conjunct2 [OF r]]] .
  ultimately show ?thesis using r by simp
qed



lemma new_user_invalid:
  "length (set_username (rf_username f)) < 3 \<or> set_fullName (rf_fullName f) = [] \<Longrightarrow> \<not> user_valid (new_user f h)"
  by (auto simp: user_valid_def new_user_def)

text \<open>C22. The register route validates the raw fields, the schema the trimmed ones: a username that is long enough only with its surrounding spaces, or a full name of spaces, passes every check of the route and then fails the schema on save, and register answers 500 'Server error' instead of a validation error, storing nothing.\<close>

theorem register_trimmed_fields_server_error:
  assumes ok: "validation_errors is_email (form_body f) (rt_chain (hd auth_routes)) = []"
    and short: "length (set_username (rf_username f)) < 3 \<or> set_fullName (rf_fullName f) = []"
    and none: "find_one (db_users db) (\<lambda>u. u_email u = set_email (rf_email f) \<or> u_username u = set_username (rf_username f)) = None"
  shows "register hash sign nid (validation_errors is_email (form_body f) (rt_chain (hd auth_routes))) f db = (db, server_error)"
proof -
  have "save_user nid (new_user f (hash (rf_password f))) db = Inl (ValidationError ''User validation failed'')"
    using new_user_invalid [OF short] by (simp add: save_user_def)
  then show ?thesis using ok none by (simp add: register_def)
qed

theorem register_trimmed_fields_server_error_witness:
  "validation_errors (\<lambda>s. CHR ''@'' \<in> set s)
      (form_body \<lparr>rf_username = '' ab '', rf_email = ''ab@x.io'', rf_password = ''secret1'', rf_fullName = ''Ab''\<rparr>)
      (rt_chain (hd auth_routes)) = []
   \<and> register (\<lambda>p. ''h:'' @ p) (\<lambda>i. ''t:'' @ i) ''65a1b2c3d4e5f60718293a03''
       (validation_errors (\<lambda>s. CHR ''@'' \<in> set s)
          (form_body \<lparr>rf_username = '' ab '', rf_email = ''ab@x.io'', rf_password = ''secret1'', rf_fullName = ''Ab''\<rparr>)
          (rt_chain (hd auth_routes)))
       \<lparr>rf_username = '' ab '', rf_email = ''ab@x.io'', rf_password = ''secret1'', rf_fullName = ''Ab''\<rparr> fx_db
     = (fx_db, server_error)"
proof -
  have v: "validation_errors (\<lambda>s. CHR ''@'' \<in> set s)
      (form_body \<lparr>rf_username = '' ab '', rf_email = ''ab@x.io'', rf_password = ''secret1'', rf_fullName = ''Ab''\<rparr>)
      (rt_chain (hd auth_routes)) = []"
    by (simp add: validation_errors_def form_body_def auth_routes_def rt_def chk_def check_fails_def)
  show ?thesis
    using register_trimmed_fields_server_error [OF v] v
    by (simp add: set_username_def set_fullName_def js_trim_def js_space_def find_one_def find_where_def
                  set_email_def str_lower_def char_of_def bit_0)
qed

end
