(* ===== verification/Content.thy ===== *)
theory Content
  imports CodeController Complex_Main
begin

text \<open>
  The documents users publish: posts (models/post.model.js), comments
  (models/comment.model.js) and videos (models/video.model.js), with their methods and
  static queries. The store of the real-time layer is extended by their three
  collections (\<open>cstore\<close>, a record extension of \<open>store\<close>), so the controllers that
  read users or streams besides posts see one database. A \<open>save()\<close> runs the schema's
  validators and writes the document at its canonical id. \<open>createdAt\<close> is not a field:
  ObjectIds made by one server increase with time, so \<open>sort({ createdAt: -1 })\<close> is the
  reverse of the id order.
\<close>

section \<open>Documents\<close>

record post_doc =
  p_user :: oid
  p_content :: string
  p_mediaUrls :: "string list"
  p_likes :: "oid list"
  p_comments :: "oid list"
  p_tags :: "string list"
  p_isPinned :: bool

record comment_doc =
  c_user :: oid
  c_content :: string
  c_parentId :: "oid option"
  c_contentType :: string
  c_contentId :: oid
  c_contentModel :: string
  c_likes :: "oid list"
  c_replies :: "oid list"
  c_isEdited :: bool

text \<open>\<open>videoUrl\<close> is required and has no default: \<open>None\<close> when it was never set.\<close>

record video_doc =
  v_user :: oid
  v_title :: string
  v_description :: string
  v_videoUrl :: "string option"
  v_thumbnailUrl :: "string option"
  v_duration :: int
  v_views :: "oid list"
  v_likes :: "oid list"
  v_comments :: "oid list"
  v_tags :: "string list"
  v_isPublished :: bool

record cstore = store +
  db_posts :: "oid \<rightharpoonup> post_doc"
  db_comments :: "oid \<rightharpoonup> comment_doc"
  db_videos :: "oid \<rightharpoonup> video_doc"

section \<open>Schema validation\<close>

definition content_types :: "string list" where
  "content_types = [''post'', ''video'', ''stream'', ''code'']"

definition content_models :: "string list" where
  "content_models = [''Post'', ''Video'', ''Stream'', ''CodeSession'']"

definition post_valid :: "post_doc \<Rightarrow> bool" where
  "post_valid p = (p_user p \<noteq> [] \<and> p_content p \<noteq> [] \<and> length (p_content p) \<le> 1000)"

definition comment_valid :: "comment_doc \<Rightarrow> bool" where
  "comment_valid c = (c_user c \<noteq> [] \<and> c_content c \<noteq> [] \<and> length (c_content c) \<le> 500
     \<and> c_contentType c \<in> set content_types \<and> c_contentId c \<noteq> []
     \<and> c_contentModel c \<in> set content_models)"

definition video_valid :: "video_doc \<Rightarrow> bool" where
  "video_valid v = (v_user v \<noteq> [] \<and> v_title v \<noteq> [] \<and> length (v_title v) \<le> 100
     \<and> length (v_description v) \<le> 2000 \<and> v_videoUrl v \<noteq> None \<and> v_videoUrl v \<noteq> Some [])"

definition save_post :: "string \<Rightarrow> post_doc \<Rightarrow> cstore \<Rightarrow> js_exn + cstore" where
  "save_post i p db =
     (if post_valid p then Inr (db\<lparr>db_posts := (db_posts db)(oid_key i \<mapsto> p)\<rparr>)
      else Inl (ValidationError ''Post validation failed''))"

definition save_comment :: "string \<Rightarrow> comment_doc \<Rightarrow> cstore \<Rightarrow> js_exn + cstore" where
  "save_comment i c db =
     (if comment_valid c then Inr (db\<lparr>db_comments := (db_comments db)(oid_key i \<mapsto> c)\<rparr>)
      else Inl (ValidationError ''Comment validation failed''))"

definition save_video :: "string \<Rightarrow> video_doc \<Rightarrow> cstore \<Rightarrow> js_exn + cstore" where
  "save_video i v db =
     (if video_valid v then Inr (db\<lparr>db_videos := (db_videos db)(oid_key i \<mapsto> v)\<rparr>)
      else Inl (ValidationError ''Video validation failed''))"

section \<open>Listings\<close>

text \<open>The paginated answers \<open>{ items, currentPage, totalPages, total }\<close> of the list
  controllers: \<open>page = parseInt(req.query.page) || 1\<close>, \<open>limit = parseInt(req.query.limit)
  || 10\<close>, \<open>skip((page - 1) * limit).limit(limit)\<close> (MongoDB rejects a negative skip and
  reads a negative limit as its absolute value) and \<open>Math.ceil(total / limit)\<close>.\<close>

record 'a listing =
  ls_items :: "'a list"
  ls_currentPage :: int
  ls_totalPages :: int
  ls_total :: nat

definition paginate_by :: "int \<Rightarrow> string option \<Rightarrow> string option \<Rightarrow> 'a list \<Rightarrow> 'a listing option" where
  "paginate_by dl pq lq xs =
     (let page = or_int (Option.bind pq parse_int) 1;
          limit = or_int (Option.bind lq parse_int) dl;
          skip = (page - 1) * limit
      in if skip < 0 then None
         else Some \<lparr>ls_items = take (nat \<bar>limit\<bar>) (drop (nat skip) xs), ls_currentPage = page,
                    ls_totalPages = - ((- int (length xs)) div limit), ls_total = length xs\<rparr>)"

text \<open>The post, comment and video listings default to 10 items a page.\<close>

definition paginate :: "string option \<Rightarrow> string option \<Rightarrow> 'a list \<Rightarrow> 'a listing option" where
  "paginate = paginate_by 10"

section \<open>Post methods\<close>

definition likeCount :: "post_doc \<Rightarrow> nat" where
  "likeCount p = length (p_likes p)"

definition commentCount :: "post_doc \<Rightarrow> nat" where
  "commentCount p = length (p_comments p)"

definition post_addLike :: "string \<Rightarrow> post_doc \<Rightarrow> post_doc" where
  "post_addLike u p = p\<lparr>p_likes := push_unique (oid_key u) (p_likes p)\<rparr>"

definition post_removeLike :: "string \<Rightarrow> post_doc \<Rightarrow> post_doc" where
  "post_removeLike u p = p\<lparr>p_likes := pull_all u (p_likes p)\<rparr>"

definition post_addComment :: "oid \<Rightarrow> post_doc \<Rightarrow> post_doc" where
  "post_addComment c p = p\<lparr>p_comments := p_comments p @ [c]\<rparr>"

definition post_removeComment :: "oid \<Rightarrow> post_doc \<Rightarrow> post_doc" where
  "post_removeComment c p = p\<lparr>p_comments := pull_all c (p_comments p)\<rparr>"

definition post_addTag :: "string \<Rightarrow> post_doc \<Rightarrow> post_doc" where
  "post_addTag t p = p\<lparr>p_tags := push_unique (js_trim t) (p_tags p)\<rparr>"

text \<open>\<open>Post.findByTag(tag)\<close>: the posts whose tags contain the tag, newest first.\<close>

definition post_findByTag :: "string \<Rightarrow> cstore \<Rightarrow> (oid \<times> post_doc) list" where
  "post_findByTag t db = rev (find_where (db_posts db) (\<lambda>p. t \<in> set (p_tags p)))"

text \<open>\<open>Post.findTrending(limit)\<close>: score = likes + 2 comments, highest first, ties newest
  first (a stable sort of the newest-first list), then \<open>$limit\<close>, which rejects a
  limit that is not positive.\<close>

definition post_score :: "post_doc \<Rightarrow> nat" where
  "post_score p = likeCount p + 2 * commentCount p"

definition post_findTrending :: "int \<Rightarrow> cstore \<Rightarrow> js_exn + (oid \<times> post_doc) list" where
  "post_findTrending lmt db =
     (if lmt \<le> 0 then Inl (MongoError ''the limit must be positive'')
      else Inr (take (nat lmt) (sort_key (\<lambda>(i, p). - int (post_score p))
                                 (rev (find_where (db_posts db) (\<lambda>_. True))))))"

section \<open>Comment methods\<close>

definition comment_likeCount :: "comment_doc \<Rightarrow> nat" where
  "comment_likeCount c = length (c_likes c)"

definition replyCount :: "comment_doc \<Rightarrow> nat" where
  "replyCount c = length (c_replies c)"

definition comment_addLike :: "string \<Rightarrow> comment_doc \<Rightarrow> comment_doc" where
  "comment_addLike u c = c\<lparr>c_likes := push_unique (oid_key u) (c_likes c)\<rparr>"

definition comment_removeLike :: "string \<Rightarrow> comment_doc \<Rightarrow> comment_doc" where
  "comment_removeLike u c = c\<lparr>c_likes := pull_all u (c_likes c)\<rparr>"

definition addReply :: "oid \<Rightarrow> comment_doc \<Rightarrow> comment_doc" where
  "addReply r c = c\<lparr>c_replies := c_replies c @ [r]\<rparr>"

definition removeReply :: "oid \<Rightarrow> comment_doc \<Rightarrow> comment_doc" where
  "removeReply r c = c\<lparr>c_replies := pull_all r (c_replies c)\<rparr>"

section \<open>Video methods\<close>

definition viewCount :: "video_doc \<Rightarrow> nat" where
  "viewCount v = length (v_views v)"

definition video_addView :: "string \<Rightarrow> video_doc \<Rightarrow> video_doc" where
  "video_addView u v = v\<lparr>v_views := push_unique (oid_key u) (v_views v)\<rparr>"

definition video_addLike :: "string \<Rightarrow> video_doc \<Rightarrow> video_doc" where
  "video_addLike u v = v\<lparr>v_likes := push_unique (oid_key u) (v_likes v)\<rparr>"

definition video_removeLike :: "string \<Rightarrow> video_doc \<Rightarrow> video_doc" where
  "video_removeLike u v = v\<lparr>v_likes := pull_all u (v_likes v)\<rparr>"

definition video_addComment :: "oid \<Rightarrow> video_doc \<Rightarrow> video_doc" where
  "video_addComment c v = v\<lparr>v_comments := v_comments v @ [c]\<rparr>"

definition video_removeComment :: "oid \<Rightarrow> video_doc \<Rightarrow> video_doc" where
  "video_removeComment c v = v\<lparr>v_comments := pull_all c (v_comments v)\<rparr>"

definition video_addTag :: "string \<Rightarrow> video_doc \<Rightarrow> video_doc" where
  "video_addTag t v = v\<lparr>v_tags := push_unique (js_trim t) (v_tags v)\<rparr>"

definition video_findByTag :: "string \<Rightarrow> cstore \<Rightarrow> (oid \<times> video_doc) list" where
  "video_findByTag t db =
     rev (find_where (db_videos db) (\<lambda>v. t \<in> set (v_tags v) \<and> v_isPublished v))"

text \<open>\<open>Video.findTrending\<close> scores 0.5 views + likes + 2 comments. The model sorts by
  twice the score, a natural number, which orders the videos the same way
  (\<open>video_trending_equiv\<close>).\<close>

definition video_score2 :: "video_doc \<Rightarrow> nat" where
  "video_score2 v = viewCount v + 2 * length (v_likes v) + 4 * length (v_comments v)"

text \<open>The score as the aggregation writes it, \<open>0.5 * viewCount + likeCount + 2 * commentCount\<close>,
  and the query sorted by it.\<close>

definition video_score :: "video_doc \<Rightarrow> real" where
  "video_score v = 0.5 * real (viewCount v) + real (length (v_likes v)) + 2 * real (length (v_comments v))"

definition video_findTrending_ref :: "int \<Rightarrow> cstore \<Rightarrow> js_exn + (oid \<times> video_doc) list" where
  "video_findTrending_ref lmt db =
     (if lmt \<le> 0 then Inl (MongoError ''the limit must be positive'')
      else Inr (take (nat lmt) (sort_key (\<lambda>(i, v). - video_score v)
                                 (rev (find_where (db_videos db) v_isPublished)))))"

definition video_findTrending :: "int \<Rightarrow> cstore \<Rightarrow> js_exn + (oid \<times> video_doc) list" where
  "video_findTrending lmt db =
     (if lmt \<le> 0 then Inl (MongoError ''the limit must be positive'')
      else Inr (take (nat lmt) (sort_key (\<lambda>(i, v). - int (video_score2 v))
                                 (rev (find_where (db_videos db) v_isPublished)))))"

section \<open>Fixtures\<close>

text \<open>A post with a comment and its reply, and a video, for the witnesses.\<close>

abbreviation fx_post :: oid where "fx_post \<equiv> ''65a1b2c3d4e5f60718293b01''"

abbreviation fx_cm1 :: oid where "fx_cm1 \<equiv> ''65a1b2c3d4e5f60718293b11''"

abbreviation fx_cm2 :: oid where "fx_cm2 \<equiv> ''65a1b2c3d4e5f60718293b12''"

abbreviation fx_vid :: oid where "fx_vid \<equiv> ''65a1b2c3d4e5f60718293b21''"

abbreviation fx_post_doc :: post_doc where
  "fx_post_doc \<equiv> \<lparr>p_user = fx_alice, p_content = ''hello'', p_mediaUrls = [], p_likes = [],
     p_comments = [fx_cm1, fx_cm2], p_tags = [''rust''], p_isPinned = False\<rparr>"

abbreviation fx_comment1 :: comment_doc where
  "fx_comment1 \<equiv> \<lparr>c_user = fx_alice, c_content = ''nice'', c_parentId = None, c_contentType = ''post'',
     c_contentId = fx_post, c_contentModel = ''Post'', c_likes = [], c_replies = [fx_cm2], c_isEdited = False\<rparr>"

abbreviation fx_comment2 :: comment_doc where
  "fx_comment2 \<equiv> \<lparr>c_user = fx_bob, c_content = ''thanks'', c_parentId = Some fx_cm1, c_contentType = ''post'',
     c_contentId = fx_post, c_contentModel = ''Post'', c_likes = [], c_replies = [], c_isEdited = False\<rparr>"

abbreviation fx_video :: video_doc where
  "fx_video \<equiv> \<lparr>v_user = fx_alice, v_title = ''Intro'', v_description = [], v_videoUrl = Some ''v.mp4'',
     v_thumbnailUrl = None, v_duration = 60, v_views = [fx_bob], v_likes = [], v_comments = [],
     v_tags = [], v_isPublished = True\<rparr>"

abbreviation fx_cdb :: cstore where
  "fx_cdb \<equiv> \<lparr>db_streams = [fx_sid \<mapsto> fx_stream], db_sessions = [fx_sess \<mapsto> fx_session],
     db_users = [fx_alice \<mapsto> fx_user ''alice'', fx_bob \<mapsto> (fx_user ''bob'')\<lparr>u_following := [fx_alice]\<rparr>],
     db_posts = [fx_post \<mapsto> fx_post_doc], db_comments = [fx_cm1 \<mapsto> fx_comment1, fx_cm2 \<mapsto> fx_comment2],
     db_videos = [fx_vid \<mapsto> fx_video]\<rparr>"

section \<open>Properties\<close>

lemma post_valid_likes [simp]: "post_valid (p\<lparr>p_likes := l\<rparr>) = post_valid p"
  by (simp add: post_valid_def)

lemma post_valid_comments [simp]: "post_valid (p\<lparr>p_comments := l\<rparr>) = post_valid p"
  by (simp add: post_valid_def)

lemma save_post_Inr: "post_valid p \<Longrightarrow> save_post i p db = Inr (db\<lparr>db_posts := (db_posts db)(oid_key i \<mapsto> p)\<rparr>)"
  by (simp add: save_post_def)

lemma paginate_by_items: "paginate_by d pq lq xs = Some l \<Longrightarrow> set (ls_items l) \<subseteq> set xs"
  by (auto simp: paginate_by_def Let_def split: if_splits) (meson in_set_dropD in_set_takeD)

lemma paginate_items: "paginate pq lq xs = Some l \<Longrightarrow> set (ls_items l) \<subseteq> set xs"
  unfolding paginate_def by (rule paginate_by_items)

lemma video_score_twice: "video_score v = real (video_score2 v) / 2"
  by (simp add: video_score_def video_score2_def viewCount_def)


text \<open>C25. Post.findTrending answers at most limit stored posts, each once, ordered by score (likes plus twice the comments), highest first.\<close>

theorem post_trending_ranked:
  assumes r: "post_findTrending lmt db = Inr ps" and fin: "finite (dom (db_posts db))"
  shows "length ps \<le> nat lmt \<and> sorted (map (\<lambda>(i, p). - int (post_score p)) ps)
         \<and> distinct (map fst ps) \<and> (\<forall>(k, p) \<in> set ps. db_posts db k = Some p)"
proof -
  let ?xs = "rev (find_where (db_posts db) (\<lambda>_. True))"
  let ?f = "\<lambda>(i, p). - int (post_score p)"
  have ps: "ps = take (nat lmt) (sort_key ?f ?xs)"
    using r by (simp add: post_findTrending_def split: if_splits)
  have s: "sorted (map ?f (sort_key ?f ?xs))" by (rule sorted_sort_key)
  have d: "distinct (map fst (sort_key ?f ?xs))"
    using distinct_find_where [of "db_posts db" "\<lambda>_. True"]
    by (simp add: distinct_map rev_map [symmetric])
  have "set (sort_key ?f ?xs) = set ?xs" by simp
  then show ?thesis
    using ps s d set_find_where [OF fin]
    by (auto simp: sorted_wrt_take take_map [symmetric] distinct_take dest: in_set_takeD)
qed

theorem post_trending_ranked_witness:
  "post_findTrending 10 fx_cdb = Inr [(fx_post, fx_post_doc)] \<and> finite (dom (db_posts fx_cdb))
   \<and> length [(fx_post, fx_post_doc)] \<le> nat 10
   \<and> sorted (map (\<lambda>(i, p). - int (post_score p)) [(fx_post, fx_post_doc)])
   \<and> distinct (map fst [(fx_post, fx_post_doc)])
   \<and> list_all (\<lambda>(k, p). db_posts fx_cdb k = Some p) [(fx_post, fx_post_doc)]"
proof -
  have t: "post_findTrending 10 fx_cdb = Inr [(fx_post, fx_post_doc)]"
    by (simp add: post_findTrending_def find_where_def)
  have f: "finite (dom (db_posts fx_cdb))" by simp
  show ?thesis using post_trending_ranked [OF t f] t f by (simp add: list_all_iff)
qed

end
