(* ===== verification/Posts.thy ===== *)
theory Posts
  imports Content
begin

text \<open>
  The controller controllers/post.controller.js. Every handler but the list handlers
  loads the post by \<open>findById\<close>; a malformed id is a CastError, answered 404 by the
  handlers whose \<open>catch\<close> tests \<open>err.kind === 'ObjectId'\<close> and 500 by the others.
  \<open>populate\<close> only shapes the answers. The id of a new post is the parameter \<open>nid\<close>.
\<close>

record post_form =
  po_content :: "string option"
  po_mediaUrls :: "string list option"
  po_tags :: "string list option"

definition new_post :: "req_user \<Rightarrow> post_form \<Rightarrow> post_doc" where
  "new_post me f = \<lparr>p_user = ru_id me, p_content = (case po_content f of None \<Rightarrow> [] | Some c \<Rightarrow> c),
     p_mediaUrls = (case po_mediaUrls f of None \<Rightarrow> [] | Some m \<Rightarrow> m), p_likes = [], p_comments = [],
     p_tags = map js_trim (case po_tags f of None \<Rightarrow> [] | Some t \<Rightarrow> t), p_isPinned = False\<rparr>"

definition createPost :: "oid \<Rightarrow> string list \<Rightarrow> req_user \<Rightarrow> post_form \<Rightarrow> cstore \<Rightarrow> cstore \<times> (oid \<times> post_doc) reply" where
  "createPost nid errs me f db =
     (if errs \<noteq> [] then (db, validation_failed errs)
      else (case save_post nid (new_post me f) db of
              Inl _ \<Rightarrow> (db, server_error)
            | Inr db' \<Rightarrow> (db', (201, Data (oid_key nid, new_post me f)))))"

definition list_reply :: "'a listing option \<Rightarrow> 'a listing reply" where
  "list_reply l = (case l of None \<Rightarrow> server_error | Some x \<Rightarrow> (200, Data x))"

definition getPosts :: "string option \<Rightarrow> string option \<Rightarrow> cstore \<Rightarrow> (oid \<times> post_doc) listing reply" where
  "getPosts pq lq db = list_reply (paginate pq lq (rev (find_where (db_posts db) (\<lambda>_. True))))"

definition getPostsByTag :: "string \<Rightarrow> string option \<Rightarrow> string option \<Rightarrow> cstore \<Rightarrow> (oid \<times> post_doc) listing reply" where
  "getPostsByTag t pq lq db =
     list_reply (paginate pq lq (rev (find_where (db_posts db) (\<lambda>p. t \<in> set (p_tags p)))))"

definition getTrendingPosts :: "string option \<Rightarrow> cstore \<Rightarrow> (oid \<times> post_doc) list reply" where
  "getTrendingPosts lq db =
     (case post_findTrending (or_int (Option.bind lq parse_int) 10) db of
        Inl _ \<Rightarrow> server_error
      | Inr ps \<Rightarrow> (200, Data ps))"

definition getPostById :: "string \<Rightarrow> cstore \<Rightarrow> (oid \<times> post_doc) reply" where
  "getPostById i db =
     (case find_by_id (db_posts db) i of
        Inl e \<Rightarrow> catch_reply ''Post not found'' e
      | Inr None \<Rightarrow> (404, Msg ''Post not found'')
      | Inr (Some p) \<Rightarrow> (200, Data (oid_key i, p)))"

text \<open>The owner check shared by updatePost and deletePost:
  \<open>if (post.user.toString() !== req.user.id) return 401\<close>.\<close>

definition find_own_post :: "req_user \<Rightarrow> string \<Rightarrow> cstore \<Rightarrow> 'd reply + post_doc" where
  "find_own_post me i db =
     (case find_by_id (db_posts db) i of
        Inl e \<Rightarrow> Inl (catch_reply ''Post not found'' e)
      | Inr None \<Rightarrow> Inl (404, Msg ''Post not found'')
      | Inr (Some p) \<Rightarrow> if p_user p \<noteq> ru_id me then Inl (401, Msg ''User not authorized'') else Inr p)"

definition updatePost :: "string list \<Rightarrow> req_user \<Rightarrow> string \<Rightarrow> post_form \<Rightarrow> cstore \<Rightarrow> cstore \<times> (oid \<times> post_doc) reply" where
  "updatePost errs me i f db =
     (if errs \<noteq> [] then (db, validation_failed errs)
      else (case find_own_post me i db of
        Inl r \<Rightarrow> (db, r)
      | Inr p \<Rightarrow>
          (let p' = p\<lparr>p_content := (if str_truthy (po_content f) then the (po_content f) else p_content p),
                      p_mediaUrls := (case po_mediaUrls f of None \<Rightarrow> p_mediaUrls p | Some m \<Rightarrow> m),
                      p_tags := (case po_tags f of None \<Rightarrow> p_tags p | Some t \<Rightarrow> map js_trim t)\<rparr>
           in case save_post i p' db of
                Inl e \<Rightarrow> (db, catch_reply ''Post not found'' e)
              | Inr db' \<Rightarrow> (db', (200, Data (oid_key i, p'))))))"

definition deletePost :: "req_user \<Rightarrow> string \<Rightarrow> cstore \<Rightarrow> cstore \<times> unit reply" where
  "deletePost me i db =
     (case find_own_post me i db of
        Inl r \<Rightarrow> (db, r)
      | Inr p \<Rightarrow> (db\<lparr>db_posts := (db_posts db)(oid_key i := None)\<rparr>, (200, Msg ''Post removed'')))"

definition likePost :: "req_user \<Rightarrow> string \<Rightarrow> cstore \<Rightarrow> cstore \<times> oid list reply" where
  "likePost me i db =
     (case find_by_id (db_posts db) i of
        Inl e \<Rightarrow> (db, catch_reply ''Post not found'' e)
      | Inr None \<Rightarrow> (db, (404, Msg ''Post not found''))
      | Inr (Some p) \<Rightarrow>
          if list_ex (\<lambda>l. l = ru_id me) (p_likes p) then (db, (400, Msg ''Post already liked''))
          else (case save_post i (post_addLike (ru_id me) p) db of
                  Inl e \<Rightarrow> (db, catch_reply ''Post not found'' e)
                | Inr db' \<Rightarrow> (db', (200, Data (p_likes (post_addLike (ru_id me) p))))))"

definition unlikePost :: "req_user \<Rightarrow> string \<Rightarrow> cstore \<Rightarrow> cstore \<times> oid list reply" where
  "unlikePost me i db =
     (case find_by_id (db_posts db) i of
        Inl e \<Rightarrow> (db, catch_reply ''Post not found'' e)
      | Inr None \<Rightarrow> (db, (404, Msg ''Post not found''))
      | Inr (Some p) \<Rightarrow>
          if \<not> list_ex (\<lambda>l. l = ru_id me) (p_likes p) then (db, (400, Msg ''Post has not yet been liked''))
          else (case save_post i (post_removeLike (ru_id me) p) db of
                  Inl e \<Rightarrow> (db, catch_reply ''Post not found'' e)
                | Inr db' \<Rightarrow> (db', (200, Data (p_likes (post_removeLike (ru_id me) p))))))"

text \<open>The feed: posts whose author the user follows, or the user (\<open>following.push(user._id)\<close>).\<close>

definition getFeed :: "string option \<Rightarrow> string option \<Rightarrow> req_user \<Rightarrow> cstore \<Rightarrow> (oid \<times> post_doc) listing reply" where
  "getFeed pq lq me db =
     (case find_by_id (db_users db) (ru_id me) of
        Inl _ \<Rightarrow> server_error
      | Inr None \<Rightarrow> (404, Msg ''User not found'')
      | Inr (Some u) \<Rightarrow>
          list_reply (paginate pq lq (rev (find_where (db_posts db)
             (\<lambda>p. p_user p \<in> set (u_following u @ [oid_key (ru_id me)]))))))"

section \<open>Properties\<close>

lemma list_reply_Data: "list_reply x = (200, Data l) \<Longrightarrow> x = Some l"
  by (cases x) (simp_all add: list_reply_def server_error_def)

text \<open>C23. Liking and then unliking a post is a round trip: when the user has not liked the post, likePost followed by unlikePost leaves the whole store as it was and answers the post's original likes.\<close>

theorem like_unlike_roundtrip:
  assumes v: "valid_object_id i" and p: "db_posts db (oid_key i) = Some p" and ok: "post_valid p"
    and me: "oid_key (ru_id me) = ru_id me" and nl: "ru_id me \<notin> set (p_likes p)"
  shows "unlikePost me i (fst (likePost me i db)) = (db, (200, Data (p_likes p)))"
proof -
  let ?p1 = "post_addLike (ru_id me) p"
  have f: "find_by_id (db_posts db) i = Inr (Some p)" using v p by (simp add: find_by_id_Inr)
  have l: "likePost me i db = (db\<lparr>db_posts := (db_posts db)(oid_key i \<mapsto> ?p1)\<rparr>, (200, Data (p_likes ?p1)))"
    using f nl ok by (simp add: likePost_def list_ex_iff save_post_Inr post_addLike_def)
  have r: "post_removeLike (ru_id me) ?p1 = p"
    using nl me by (simp add: post_removeLike_def post_addLike_def pull_push_unique)
  have f1: "find_by_id (db_posts (db\<lparr>db_posts := (db_posts db)(oid_key i \<mapsto> ?p1)\<rparr>)) i = Inr (Some ?p1)"
    using v by (simp add: find_by_id_Inr)
  have "ru_id me \<in> set (p_likes ?p1)" using me by (simp add: post_addLike_def)
  then show ?thesis
    using l f1 r ok p
    by (simp add: unlikePost_def list_ex_iff save_post_Inr fun_upd_idem)
qed

theorem like_unlike_roundtrip_witness:
  "unlikePost fx_rbob fx_post (fst (likePost fx_rbob fx_post fx_cdb)) = (fx_cdb, (200, Data []))"
  using like_unlike_roundtrip [of fx_post fx_cdb fx_post_doc fx_rbob]
  by (simp add: valid_object_id_def is_hex_def oid_key_def hex_lower_def post_valid_def)

text \<open>C24. The feed holds only stored posts whose author the user follows or is the user.\<close>

theorem feed_only_followed:
  assumes r: "getFeed pq lq me db = (200, Data l)" and fin: "finite (dom (db_posts db))"
  shows "\<exists>u. db_users db (oid_key (ru_id me)) = Some u \<and>
           (\<forall>(k, p) \<in> set (ls_items l). db_posts db k = Some p
              \<and> (p_user p \<in> set (u_following u) \<or> p_user p = oid_key (ru_id me)))"
proof (cases "find_by_id (db_users db) (ru_id me)")
  case (Inr x)
  then obtain u where x: "x = Some u"
    using r by (cases x) (auto simp: getFeed_def)
  then have pg: "paginate pq lq (rev (find_where (db_posts db)
      (\<lambda>p. p_user p \<in> set (u_following u @ [oid_key (ru_id me)])))) = Some l"
    using r Inr by (simp add: getFeed_def list_reply_Data)
  have "db_users db (oid_key (ru_id me)) = Some u" using Inr x by (simp add: find_by_id_Inr)
  then show ?thesis
    using paginate_items [OF pg] set_find_where [OF fin] by auto
qed (use r in \<open>simp add: getFeed_def server_error_def\<close>)

theorem feed_only_followed_witness:
  "getFeed None None fx_rbob fx_cdb = (200, Data \<lparr>ls_items = [(fx_post, fx_post_doc)], ls_currentPage = 1, ls_totalPages = 1, ls_total = 1\<rparr>)
   \<and> (\<exists>u. db_users fx_cdb (oid_key fx_bob) = Some u \<and>
         list_all (\<lambda>(k, p). db_posts fx_cdb k = Some p \<and> (p_user p \<in> set (u_following u) \<or> p_user p = oid_key fx_bob))
           [(fx_post, fx_post_doc)])"
proof -
  have g: "getFeed None None fx_rbob fx_cdb = (200, Data \<lparr>ls_items = [(fx_post, fx_post_doc)], ls_currentPage = 1, ls_totalPages = 1, ls_total = 1\<rparr>)"
    by (simp add: getFeed_def find_by_id_def valid_object_id_def is_hex_def oid_key_def hex_lower_def
                  list_reply_def paginate_def paginate_by_def find_where_def or_int_def)
  show ?thesis
    using feed_only_followed [OF g] g by (simp add: list_all_iff)
qed

end
