(* ===== verification/Comments.thy ===== *)
theory Comments
  imports Posts
begin

text \<open>
  The controller controllers/comment.controller.js. A comment belongs to a post, a
  video, a stream or a code session (\<open>contentType\<close>), and may answer another comment
  (\<open>parentId\<close>). Creating a comment saves it, appends it to its parent's replies, then
  calls \<open>addComment\<close> on the content; deleting one removes it from its parent's
  replies, calls \<open>removeComment\<close> on the content, deletes its direct replies and
  itself. The content is loaded from its collection: \<open>content_obj\<close> says which. The
  models define \<open>addComment\<close> for posts, videos and streams and \<open>removeComment\<close> for
  posts and videos only; calling a missing method is a TypeError, caught by the handler
  after the earlier writes took effect.
\<close>

datatype content_obj = CPost post_doc | CVideo video_doc | CStream stream_doc | CCode code_session_doc

text \<open>The \<open>switch (contentType)\<close>: \<open>None\<close> is its \<open>default\<close> branch.\<close>

definition find_content :: "string \<Rightarrow> string \<Rightarrow> cstore \<Rightarrow> (js_exn + content_obj option) option" where
  "find_content ty cid db =
     (if ty = ''post'' then Some (map_sum id (map_option CPost) (find_by_id (db_posts db) cid))
      else if ty = ''video'' then Some (map_sum id (map_option CVideo) (find_by_id (db_videos db) cid))
      else if ty = ''stream'' then Some (map_sum id (map_option CStream) (find_by_id (db_streams db) cid))
      else if ty = ''code'' then Some (map_sum id (map_option CCode) (find_by_id (db_sessions db) cid))
      else None)"

definition content_model :: "string \<Rightarrow> string" where
  "content_model ty =
     (if ty = ''post'' then ''Post'' else if ty = ''video'' then ''Video''
      else if ty = ''stream'' then ''Stream'' else ''CodeSession'')"

definition save_stream_doc :: "string \<Rightarrow> stream_doc \<Rightarrow> cstore \<Rightarrow> js_exn + cstore" where
  "save_stream_doc i s db =
     (if stream_valid s then Inr (db\<lparr>db_streams := (db_streams db)(oid_key i \<mapsto> s)\<rparr>)
      else Inl (ValidationError ''Stream validation failed''))"

text \<open>\<open>await contentObj.addComment(comment._id)\<close>\<close>

definition content_addComment :: "string \<Rightarrow> content_obj \<Rightarrow> oid \<Rightarrow> cstore \<Rightarrow> js_exn + cstore" where
  "content_addComment cid obj c db =
     (case obj of
        CPost p \<Rightarrow> save_post cid (post_addComment c p) db
      | CVideo v \<Rightarrow> save_video cid (video_addComment c v) db
      | CStream s \<Rightarrow> save_stream_doc cid (stream_addComment c s) db
      | CCode _ \<Rightarrow> Inl (TypeError ''contentObj.addComment is not a function''))"

text \<open>\<open>await contentObj.removeComment(comment._id)\<close>\<close>

definition content_removeComment :: "string \<Rightarrow> content_obj \<Rightarrow> oid \<Rightarrow> cstore \<Rightarrow> js_exn + cstore" where
  "content_removeComment cid obj c db =
     (case obj of
        CPost p \<Rightarrow> save_post cid (post_removeComment c p) db
      | CVideo v \<Rightarrow> save_video cid (video_removeComment c v) db
      | _ \<Rightarrow> Inl (TypeError ''contentObj.removeComment is not a function''))"

record comment_form =
  cf_content :: "string option"
  cf_contentType :: "string option"
  cf_contentId :: "string option"
  cf_parentId :: "string option"

definition opt_str :: "string option \<Rightarrow> string" where
  "opt_str s = (case s of None \<Rightarrow> [] | Some x \<Rightarrow> x)"

text \<open>\<open>parentId: parentId || null\<close>; a parent id that is not an ObjectId fails the cast
  when the comment is saved.\<close>

definition new_comment :: "req_user \<Rightarrow> comment_form \<Rightarrow> comment_doc" where
  "new_comment me f =
     \<lparr>c_user = ru_id me, c_content = opt_str (cf_content f),
      c_parentId = (if str_truthy (cf_parentId f) then Some (oid_key (the (cf_parentId f))) else None),
      c_contentType = opt_str (cf_contentType f), c_contentId = oid_key (opt_str (cf_contentId f)),
      c_contentModel = content_model (opt_str (cf_contentType f)), c_likes = [], c_replies = [],
      c_isEdited = False\<rparr>"

definition parent_castable :: "comment_form \<Rightarrow> bool" where
  "parent_castable f = (\<not> str_truthy (cf_parentId f) \<or> valid_object_id (the (cf_parentId f)))"

text \<open>\<open>if (parentId) { parentComment = await Comment.findById(parentId); if (parentComment)
  await parentComment.addReply(comment._id) }\<close>\<close>

definition attach_reply :: "string option \<Rightarrow> oid \<Rightarrow> cstore \<Rightarrow> js_exn + cstore" where
  "attach_reply pid c db =
     (if \<not> str_truthy pid then Inr db
      else (case db_comments db (oid_key (the pid)) of
              None \<Rightarrow> Inr db
            | Some pc \<Rightarrow> save_comment (the pid) (addReply c pc) db))"

definition createComment ::
  "oid \<Rightarrow> string list \<Rightarrow> req_user \<Rightarrow> comment_form \<Rightarrow> cstore \<Rightarrow> cstore \<times> (oid \<times> comment_doc) reply" where
  "createComment nid errs me f db =
     (if errs \<noteq> [] then (db, validation_failed errs)
      else (case find_content (opt_str (cf_contentType f)) (opt_str (cf_contentId f)) db of
        None \<Rightarrow> (db, (400, Msg ''Invalid content type''))
      | Some (Inl _) \<Rightarrow> (db, server_error)
      | Some (Inr None) \<Rightarrow> (db, (404, Msg (opt_str (cf_contentType f) @ '' not found'')))
      | Some (Inr (Some obj)) \<Rightarrow>
          (if \<not> parent_castable f then (db, server_error)
           else (case save_comment nid (new_comment me f) db of
             Inl _ \<Rightarrow> (db, server_error)
           | Inr db1 \<Rightarrow>
               (case attach_reply (cf_parentId f) (oid_key nid) db1 of
                  Inl _ \<Rightarrow> (db1, server_error)
                | Inr db2 \<Rightarrow>
                    (case content_addComment (opt_str (cf_contentId f)) obj (oid_key nid) db2 of
                       Inl _ \<Rightarrow> (db2, server_error)
                     | Inr db3 \<Rightarrow> (db3, (201, Data (oid_key nid, new_comment me f)))))))))"

definition getComments ::
  "string \<Rightarrow> string \<Rightarrow> string option \<Rightarrow> string option \<Rightarrow> cstore \<Rightarrow> (oid \<times> comment_doc) listing reply" where
  "getComments ty cid pq lq db =
     (if ty \<notin> set content_types then (400, Msg ''Invalid content type'')
      else if \<not> valid_object_id cid then server_error
      else list_reply (paginate pq lq (rev (find_where (db_comments db)
             (\<lambda>c. c_contentType c = ty \<and> c_contentId c = oid_key cid \<and> c_parentId c = None)))))"

definition getReplies ::
  "string \<Rightarrow> string option \<Rightarrow> string option \<Rightarrow> cstore \<Rightarrow> (oid \<times> comment_doc) listing reply" where
  "getReplies i pq lq db =
     (case find_by_id (db_comments db) i of
        Inl e \<Rightarrow> catch_reply ''Comment not found'' e
      | Inr None \<Rightarrow> (404, Msg ''Comment not found'')
      | Inr (Some _) \<Rightarrow>
          list_reply (paginate pq lq (rev (find_where (db_comments db) (\<lambda>c. c_parentId c = Some (oid_key i))))))"

definition find_own_comment :: "req_user \<Rightarrow> string \<Rightarrow> cstore \<Rightarrow> 'd reply + comment_doc" where
  "find_own_comment me i db =
     (case find_by_id (db_comments db) i of
        Inl e \<Rightarrow> Inl (catch_reply ''Comment not found'' e)
      | Inr None \<Rightarrow> Inl (404, Msg ''Comment not found'')
      | Inr (Some c) \<Rightarrow> if c_user c \<noteq> ru_id me then Inl (401, Msg ''User not authorized'') else Inr c)"

definition updateComment ::
  "string list \<Rightarrow> req_user \<Rightarrow> string \<Rightarrow> string option \<Rightarrow> cstore \<Rightarrow> cstore \<times> (oid \<times> comment_doc) reply" where
  "updateComment errs me i content db =
     (if errs \<noteq> [] then (db, validation_failed errs)
      else (case find_own_comment me i db of
        Inl r \<Rightarrow> (db, r)
      | Inr c \<Rightarrow>
          (case save_comment i (c\<lparr>c_content := opt_str content, c_isEdited := True\<rparr>) db of
             Inl e \<Rightarrow> (db, catch_reply ''Comment not found'' e)
           | Inr db' \<Rightarrow> (db', (200, Data (oid_key i, c\<lparr>c_content := opt_str content, c_isEdited := True\<rparr>))))))"

text \<open>\<open>if (comment.parentId) { parent = await Comment.findById(comment.parentId); if (parent)
  await parent.removeReply(comment._id) }\<close>\<close>

definition detach_reply :: "comment_doc \<Rightarrow> oid \<Rightarrow> cstore \<Rightarrow> js_exn + cstore" where
  "detach_reply c k db =
     (case c_parentId c of
        None \<Rightarrow> Inr db
      | Some pid \<Rightarrow> (case db_comments db pid of
                       None \<Rightarrow> Inr db
                     | Some pc \<Rightarrow> save_comment pid (removeReply k pc) db))"

text \<open>The \<open>switch (comment.contentType)\<close> of deleteComment (no default branch), then
  \<open>if (contentObj) await contentObj.removeComment(comment._id)\<close>.\<close>

definition detach_content :: "comment_doc \<Rightarrow> oid \<Rightarrow> cstore \<Rightarrow> js_exn + cstore" where
  "detach_content c k db =
     (case find_content (c_contentType c) (c_contentId c) db of
        None \<Rightarrow> Inr db
      | Some (Inl e) \<Rightarrow> Inl e
      | Some (Inr None) \<Rightarrow> Inr db
      | Some (Inr (Some obj)) \<Rightarrow> content_removeComment (c_contentId c) obj k db)"

text \<open>\<open>if (comment.replies.length > 0) await Comment.deleteMany({ parentId: comment._id })\<close>\<close>

definition delete_replies :: "comment_doc \<Rightarrow> oid \<Rightarrow> cstore \<Rightarrow> cstore" where
  "delete_replies c k db =
     (if c_replies c = [] then db
      else db\<lparr>db_comments := (\<lambda>j. case db_comments db j of
                                    None \<Rightarrow> None
                                  | Some d \<Rightarrow> if c_parentId d = Some k then None else Some d)\<rparr>)"

definition deleteComment :: "req_user \<Rightarrow> string \<Rightarrow> cstore \<Rightarrow> cstore \<times> unit reply" where
  "deleteComment me i db =
     (case find_own_comment me i db of
        Inl r \<Rightarrow> (db, r)
      | Inr c \<Rightarrow>
          (case detach_reply c (oid_key i) db of
             Inl e \<Rightarrow> (db, catch_reply ''Comment not found'' e)
           | Inr db1 \<Rightarrow>
               (case detach_content c (oid_key i) db1 of
                  Inl e \<Rightarrow> (db1, catch_reply ''Comment not found'' e)
                | Inr db2 \<Rightarrow>
                    (let db3 = delete_replies c (oid_key i) db2
                     in (db3\<lparr>db_comments := (db_comments db3)(oid_key i := None)\<rparr>,
                         (200, Msg ''Comment removed''))))))"

definition likeComment :: "req_user \<Rightarrow> string \<Rightarrow> cstore \<Rightarrow> cstore \<times> oid list reply" where
  "likeComment me i db =
     (case find_by_id (db_comments db) i of
        Inl e \<Rightarrow> (db, catch_reply ''Comment not found'' e)
      | Inr None \<Rightarrow> (db, (404, Msg ''Comment not found''))
      | Inr (Some c) \<Rightarrow>
          if list_ex (\<lambda>l. l = ru_id me) (c_likes c) then (db, (400, Msg ''Comment already liked''))
          else (case save_comment i (comment_addLike (ru_id me) c) db of
                  Inl e \<Rightarrow> (db, catch_reply ''Comment not found'' e)
                | Inr db' \<Rightarrow> (db', (200, Data (c_likes (comment_addLike (ru_id me) c))))))"

definition unlikeComment :: "req_user \<Rightarrow> string \<Rightarrow> cstore \<Rightarrow> cstore \<times> oid list reply" where
  "unlikeComment me i db =
     (case find_by_id (db_comments db) i of
        Inl e \<Rightarrow> (db, catch_reply ''Comment not found'' e)
      | Inr None \<Rightarrow> (db, (404, Msg ''Comment not found''))
      | Inr (Some c) \<Rightarrow>
          if \<not> list_ex (\<lambda>l. l = ru_id me) (c_likes c) then (db, (400, Msg ''Comment has not yet been liked''))
          else (case save_comment i (comment_removeLike (ru_id me) c) db of
                  Inl e \<Rightarrow> (db, catch_reply ''Comment not found'' e)
                | Inr db' \<Rightarrow> (db', (200, Data (c_likes (comment_removeLike (ru_id me) c))))))"

section \<open>Properties\<close>

text \<open>C26. Deleting a comment that has replies deletes the replies but leaves their ids in the post's comments list, which then names comments that no longer exist.\<close>

theorem delete_parent_keeps_reply_ids:
  assumes v: "valid_object_id i" and c: "db_comments db (oid_key i) = Some c" and own: "c_user c = ru_id me"
    and np: "c_parentId c = None" and ty: "c_contentType c = ''post''"
    and vc: "valid_object_id (c_contentId c)" and kc: "oid_key (c_contentId c) = c_contentId c"
    and p: "db_posts db (c_contentId c) = Some p" and pv: "post_valid p"
    and r: "r \<in> set (c_replies c)" and rc: "db_comments db r = Some d" and dp: "c_parentId d = Some (oid_key i)"
    and rp: "r \<in> set (p_comments p)" and rne: "r \<noteq> oid_key i"
  shows "snd (deleteComment me i db) = (200, Msg ''Comment removed'')
    \<and> db_comments (fst (deleteComment me i db)) r = None
    \<and> (\<exists>p'. db_posts (fst (deleteComment me i db)) (c_contentId c) = Some p' \<and> r \<in> set (p_comments p'))"
proof -
  have own': "(find_own_comment me i db :: unit reply + comment_doc) = Inr c"
    using v c own by (simp add: find_own_comment_def find_by_id_def)
  have d1: "detach_reply c (oid_key i) db = Inr db" using np by (simp add: detach_reply_def)
  have fc: "find_content (c_contentType c) (c_contentId c) db = Some (Inr (Some (CPost p)))"
    using ty vc kc p by (simp add: find_content_def find_by_id_def)
  let ?db2 = "db\<lparr>db_posts := (db_posts db)(c_contentId c \<mapsto> post_removeComment (oid_key i) p)\<rparr>"
  have d2: "detach_content c (oid_key i) db = Inr ?db2"
    using fc pv kc by (simp add: detach_content_def content_removeComment_def save_post_def post_removeComment_def)
  have ne: "c_replies c \<noteq> []" using r by auto
  show ?thesis
    using own' d1 d2 ne rc dp rne rp
    by (simp add: deleteComment_def delete_replies_def post_removeComment_def)
qed

theorem delete_parent_keeps_reply_ids_witness:
  "snd (deleteComment fx_ralice fx_cm1 fx_cdb) = (200, Msg ''Comment removed'')
   \<and> db_comments (fst (deleteComment fx_ralice fx_cm1 fx_cdb)) fx_cm2 = None
   \<and> (\<exists>p'. db_posts (fst (deleteComment fx_ralice fx_cm1 fx_cdb)) fx_post = Some p' \<and> fx_cm2 \<in> set (p_comments p'))"
  using delete_parent_keeps_reply_ids [of fx_cm1 fx_cdb fx_comment1 fx_ralice fx_post_doc fx_cm2 fx_comment2]
  by (simp add: valid_object_id_def is_hex_def oid_key_def hex_lower_def post_valid_def)

text \<open>C27. A comment on a code session is saved and then the handler fails on contentObj.addComment, which CodeSession does not define: it answers 500 and the comment stays stored.\<close>

theorem code_comment_stored_but_500:
  assumes t: "cf_contentType f = Some ''code''" and k: "cf_contentId f = Some cid" and v: "valid_object_id cid"
    and s: "db_sessions db (oid_key cid) = Some cs" and np: "cf_parentId f = None"
    and ok: "comment_valid (new_comment me f)"
  shows "createComment nid [] me f db
           = (db\<lparr>db_comments := (db_comments db)(oid_key nid \<mapsto> new_comment me f)\<rparr>, server_error)"
proof -
  have fc: "find_content (opt_str (cf_contentType f)) (opt_str (cf_contentId f)) db = Some (Inr (Some (CCode cs)))"
    using t k v s by (simp add: find_content_def opt_str_def find_by_id_def)
  show ?thesis
    using fc np ok
    by (simp add: createComment_def parent_castable_def str_truthy_def save_comment_def attach_reply_def
                  content_addComment_def)
qed

theorem code_comment_stored_but_500_witness:
  "createComment ''65a1b2c3d4e5f60718293b13'' [] fx_ralice
      \<lparr>cf_content = Some ''hi'', cf_contentType = Some ''code'', cf_contentId = Some fx_sess, cf_parentId = None\<rparr> fx_cdb
   = (fx_cdb\<lparr>db_comments := (db_comments fx_cdb)(''65a1b2c3d4e5f60718293b13'' \<mapsto>
        new_comment fx_ralice \<lparr>cf_content = Some ''hi'', cf_contentType = Some ''code'', cf_contentId = Some fx_sess, cf_parentId = None\<rparr>)\<rparr>,
      server_error)"
  using code_comment_stored_but_500 [of "\<lparr>cf_content = Some ''hi'', cf_contentType = Some ''code'', cf_contentId = Some fx_sess, cf_parentId = None\<rparr>"
          fx_sess fx_cdb fx_session fx_ralice "''65a1b2c3d4e5f60718293b13''"]
  by (simp add: valid_object_id_def is_hex_def oid_key_def hex_lower_def comment_valid_def new_comment_def
                opt_str_def str_truthy_def content_types_def content_models_def content_model_def)

end
