(* ===== verification/Videos.thy ===== *)
theory Videos
  imports Comments "HOL-Library.Option_ord"
begin

text \<open>
  The controller controllers/video.controller.js. It was written against a different
  video schema than models/video.model.js: it sets \<open>url\<close>, \<open>thumbnail\<close> and
  \<open>category\<close>, which the strict schema drops, and never \<open>videoUrl\<close>, which it
  requires; it adds 1 to the \<open>views\<close> array; it reads \<open>like.user\<close> of the ObjectIds in
  \<open>likes\<close> and an \<open>unlikes\<close> array the schema does not have; and its comments carry
  \<open>text\<close> and \<open>video\<close>, which CommentSchema does not declare. The model follows the
  code and the schema as they are. Every \<open>catch\<close> answers 500. The
  \<open>findByIdAndUpdate\<close> calls on users push to and pull from a \<open>videos\<close> path that
  UserSchema does not declare, so they change nothing. \<open>getRecommendedVideos\<close> is not
  modelled (its query reads three user fields that do not exist).
\<close>

record video_form =
  vf_title :: "string option"
  vf_description :: "string option"
  vf_url :: "string option"
  vf_thumbnail :: "string option"
  vf_tags :: jsval
  vf_category :: "string option"

text \<open>\<open>tags.split(',').map(tag => tag.trim())\<close>\<close>

definition split_tags :: "jsval \<Rightarrow> js_exn + string list" where
  "split_tags t =
     (case t of
        JStr s \<Rightarrow> Inr (map js_trim (js_split CHR '','' s))
      | JUndef \<Rightarrow> Inl js_member_error
      | JNull \<Rightarrow> Inl js_member_error
      | _ \<Rightarrow> Inl (TypeError ''tags.split is not a function''))"

text \<open>\<open>new Video({ title, description, url, thumbnail, tags, category, user })\<close>: only
  the declared paths are kept.\<close>

definition new_video :: "req_user \<Rightarrow> video_form \<Rightarrow> string list \<Rightarrow> video_doc" where
  "new_video me f ts =
     \<lparr>v_user = ru_id me, v_title = js_trim (opt_str (vf_title f)),
      v_description = opt_str (vf_description f), v_videoUrl = None, v_thumbnailUrl = None,
      v_duration = 0, v_views = [], v_likes = [], v_comments = [], v_tags = ts, v_isPublished = True\<rparr>"

definition createVideo :: "oid \<Rightarrow> req_user \<Rightarrow> video_form \<Rightarrow> cstore \<Rightarrow> cstore \<times> (oid \<times> video_doc) reply" where
  "createVideo nid me f db =
     (case split_tags (vf_tags f) of
        Inl _ \<Rightarrow> (db, server_error)
      | Inr ts \<Rightarrow>
          (case save_video nid (new_video me f ts) db of
             Inl _ \<Rightarrow> (db, server_error)
           | Inr db' \<Rightarrow> (db', (201, Data (oid_key nid, new_video me f ts)))))"

record video_page =
  vp_videos :: "(oid \<times> video_doc) list"
  vp_totalPages :: int
  vp_currentPage :: int

definition getAllVideos :: "string option \<Rightarrow> string option \<Rightarrow> cstore \<Rightarrow> video_page reply" where
  "getAllVideos pq lq db =
     (case paginate pq lq (rev (find_where (db_videos db) (\<lambda>_. True))) of
        None \<Rightarrow> server_error
      | Some l \<Rightarrow> (200, Data \<lparr>vp_videos = ls_items l, vp_totalPages = ls_totalPages l,
                              vp_currentPage = ls_currentPage l\<rparr>))"

text \<open>\<open>video.views += 1\<close>: the array becomes the string of its elements joined by
  commas followed by \<open>1\<close>, which Mongoose casts to an array of one ObjectId, or fails
  to cast; a failed cast makes \<open>save()\<close> reject.\<close>

definition views_plus_one :: "video_doc \<Rightarrow> string" where
  "views_plus_one v = js_join (v_views v) @ ''1''"

definition getVideoById :: "string \<Rightarrow> cstore \<Rightarrow> cstore \<times> (oid \<times> video_doc) reply" where
  "getVideoById i db =
     (case find_by_id (db_videos db) i of
        Inl _ \<Rightarrow> (db, server_error)
      | Inr None \<Rightarrow> (db, (404, Msg ''Video not found''))
      | Inr (Some v) \<Rightarrow>
          if \<not> valid_object_id (views_plus_one v) then (db, server_error)
          else (case save_video i (v\<lparr>v_views := [oid_key (views_plus_one v)]\<rparr>) db of
                  Inl _ \<Rightarrow> (db, server_error)
                | Inr db' \<Rightarrow> (db', (200, Data (oid_key i, v\<lparr>v_views := [oid_key (views_plus_one v)]\<rparr>)))))"

definition find_own_video :: "req_user \<Rightarrow> string \<Rightarrow> string \<Rightarrow> cstore \<Rightarrow> 'd reply + video_doc" where
  "find_own_video me what i db =
     (case find_by_id (db_videos db) i of
        Inl _ \<Rightarrow> Inl server_error
      | Inr None \<Rightarrow> Inl (404, Msg ''Video not found'')
      | Inr (Some v) \<Rightarrow>
          if v_user v \<noteq> ru_id me then Inl (401, Msg (''Not authorized to '' @ what @ '' this video''))
          else Inr v)"

text \<open>\<open>findByIdAndUpdate(id, { $set: updatedVideo }, { new: true })\<close>: the update runs the
  \<open>trim\<close> setter of the title but not the validators.\<close>

definition updateVideo :: "req_user \<Rightarrow> string \<Rightarrow> video_form \<Rightarrow> cstore \<Rightarrow> cstore \<times> (oid \<times> video_doc) reply" where
  "updateVideo me i f db =
     (case find_own_video me ''update'' i db of
        Inl r \<Rightarrow> (db, r)
      | Inr v \<Rightarrow>
          (case (if js_truthy (vf_tags f) then split_tags (vf_tags f) else Inr (v_tags v)) of
             Inl _ \<Rightarrow> (db, server_error)
           | Inr ts \<Rightarrow>
               (let v' = v\<lparr>v_title := js_trim (or_default (vf_title f) (v_title v)),
                           v_description := or_default (vf_description f) (v_description v),
                           v_tags := ts\<rparr>
                in (db\<lparr>db_videos := (db_videos db)(oid_key i \<mapsto> v')\<rparr>, (200, Data (oid_key i, v'))))))"

definition deleteVideo :: "req_user \<Rightarrow> string \<Rightarrow> cstore \<Rightarrow> cstore \<times> unit reply" where
  "deleteVideo me i db =
     (case find_own_video me ''delete'' i db of
        Inl r \<Rightarrow> (db, r)
      | Inr v \<Rightarrow> (db\<lparr>db_videos := (db_videos db)(oid_key i := None)\<rparr>, (200, Msg ''Video removed'')))"

text \<open>\<open>video.likes.some(like => like.user.toString() === req.user.id)\<close> reads \<open>user\<close> of
  an ObjectId, which is undefined, as soon as there is a like; with no likes the next
  line reads \<open>video.unlikes.some\<close>, and \<open>unlikes\<close> is undefined (the last branch).\<close>

definition like_user_of :: "oid \<Rightarrow> jsval" where
  "like_user_of l = JUndef"

definition liked_by :: "req_user \<Rightarrow> video_doc \<Rightarrow> js_exn + bool" where
  "liked_by me v =
     (case v_likes v of
        [] \<Rightarrow> Inr False
      | l # _ \<Rightarrow> map_sum id (\<lambda>s. s = ru_id me) (js_to_string (like_user_of l)))"

definition likeVideo :: "req_user \<Rightarrow> string \<Rightarrow> cstore \<Rightarrow> cstore \<times> oid list reply" where
  "likeVideo me i db =
     (case find_by_id (db_videos db) i of
        Inl _ \<Rightarrow> (db, server_error)
      | Inr None \<Rightarrow> (db, (404, Msg ''Video not found''))
      | Inr (Some v) \<Rightarrow>
          (case liked_by me v of
             Inl _ \<Rightarrow> (db, server_error)
           | Inr True \<Rightarrow> (db, (400, Msg ''Video already liked''))
           | Inr False \<Rightarrow> (db, server_error)))"

text \<open>\<open>unlikeVideo\<close> starts with \<open>video.unlikes.some(...)\<close>.\<close>

definition unlikeVideo :: "req_user \<Rightarrow> string \<Rightarrow> cstore \<Rightarrow> cstore \<times> oid list reply" where
  "unlikeVideo me i db =
     (case find_by_id (db_videos db) i of
        Inl _ \<Rightarrow> (db, server_error)
      | Inr None \<Rightarrow> (db, (404, Msg ''Video not found''))
      | Inr (Some v) \<Rightarrow> (db, server_error))"

text \<open>\<open>new Comment({ text, user, video })\<close>: of the three, CommentSchema declares only
  \<open>user\<close>.\<close>

definition video_comment :: "req_user \<Rightarrow> comment_doc" where
  "video_comment me = \<lparr>c_user = ru_id me, c_content = [], c_parentId = None, c_contentType = [],
     c_contentId = [], c_contentModel = [], c_likes = [], c_replies = [], c_isEdited = False\<rparr>"

definition video_addComment_ctl :: "oid \<Rightarrow> req_user \<Rightarrow> string \<Rightarrow> cstore \<Rightarrow> cstore \<times> (oid \<times> comment_doc) reply" where
  "video_addComment_ctl nid me i db =
     (case find_by_id (db_videos db) i of
        Inl _ \<Rightarrow> (db, server_error)
      | Inr None \<Rightarrow> (db, (404, Msg ''Video not found''))
      | Inr (Some v) \<Rightarrow>
          (case save_comment nid (video_comment me) db of
             Inl _ \<Rightarrow> (db, server_error)
           | Inr db1 \<Rightarrow>
               (case save_video i (v\<lparr>v_comments := oid_key nid # v_comments v\<rparr>) db1 of
                  Inl _ \<Rightarrow> (db1, server_error)
                | Inr db2 \<Rightarrow> (db2, (201, Data (oid_key nid, video_comment me))))))"

text \<open>\<open>Comment.find({ video: id })\<close> filters on a path CommentSchema does not declare:
  with Mongoose's \<open>strictQuery\<close> the filter is dropped and every comment matches,
  without it no stored comment has the path. The option is the parameter \<open>strict_query\<close>.\<close>

definition getVideoComments :: "bool \<Rightarrow> string \<Rightarrow> cstore \<Rightarrow> (oid \<times> comment_doc) list reply" where
  "getVideoComments strict_query i db =
     (200, Data (if strict_query then rev (find_where (db_comments db) (\<lambda>_. True)) else []))"

text \<open>\<open>Video.find().sort({ views: -1, likes: -1 }).limit(10)\<close>: MongoDB sorts a document by
  an array field on its largest element in a descending sort, an empty array lowest.\<close>

definition max_elem :: "oid list \<Rightarrow> oid option" where
  "max_elem xs = (if xs = [] then None else Some (Max (set xs)))"

definition getTrendingVideos :: "cstore \<Rightarrow> (oid \<times> video_doc) list reply" where
  "getTrendingVideos db =
     (200, Data (take 10 (rev (sort_key (\<lambda>(i, v). (max_elem (v_views v), max_elem (v_likes v)))
                                       (find_where (db_videos db) (\<lambda>_. True))))))"

section \<open>Properties\<close>

text \<open>C28. createVideo never succeeds: whatever the request, it answers 500 and stores nothing, because the video it builds never has the required videoUrl.\<close>

theorem createVideo_always_fails: "createVideo nid me f db = (db, server_error)"
  by (simp add: createVideo_def save_video_def video_valid_def new_video_def split: sum.split)

lemma length_js_join:
  "xs \<noteq> [] \<Longrightarrow> list_all (\<lambda>x. length x = n) xs \<Longrightarrow> length (js_join xs) = n * length xs + (length xs - 1)"
  by (induction xs rule: js_join.induct) auto

lemma views_plus_one_not_oid:
  assumes "list_all (\<lambda>x. length x = 24) (v_views v)"
  shows "\<not> valid_object_id (views_plus_one v)"
proof (cases "v_views v = []")
  case True
  then show ?thesis by (simp add: views_plus_one_def valid_object_id_def)
next
  case False
  then have "length (views_plus_one v) = 25 * length (v_views v)"
    using length_js_join [OF False assms] by (simp add: views_plus_one_def)
  then have "length (views_plus_one v) \<noteq> 24" by arith
  then show ?thesis by (simp add: valid_object_id_def)
qed

text \<open>C29. Reading an existing video always fails: video.views += 1 turns the array of ObjectIds into a string that is never an ObjectId, the save rejects it and the handler answers 500 without changing the store.\<close>

theorem getVideoById_always_fails:
  assumes "db_videos db (oid_key i) = Some v" and "list_all (\<lambda>x. length x = 24) (v_views v)"
  shows "getVideoById i db = (db, server_error)"
  using assms views_plus_one_not_oid [OF assms(2)]
  by (auto simp: getVideoById_def find_by_id_def)

theorem getVideoById_always_fails_witness:
  "getVideoById fx_vid fx_cdb = (fx_cdb, server_error)"
  using getVideoById_always_fails [of fx_cdb fx_vid fx_video]
  by (simp add: oid_key_def hex_lower_def)

text \<open>C30. updateVideo writes through findByIdAndUpdate without validators, so the owner can store a video whose title exceeds the schema's 100 characters.\<close>

theorem updateVideo_breaks_title_limit:
  assumes v: "valid_object_id i" and d: "db_videos db (oid_key i) = Some vd" and own: "v_user vd = ru_id me"
    and tg: "vf_tags f = JUndef" and t: "vf_title f = Some t" and long: "100 < length (js_trim t)"
  shows "fst (snd (updateVideo me i f db)) = 200
    \<and> (\<exists>v'. db_videos (fst (updateVideo me i f db)) (oid_key i) = Some v' \<and> \<not> video_valid v')"
proof -
  have "(find_own_video me ''update'' i db :: (oid \<times> video_doc) reply + video_doc) = Inr vd"
    using v d own by (simp add: find_own_video_def find_by_id_def)
  moreover have "t \<noteq> []" using long by (auto simp: js_trim_def)
  ultimately show ?thesis
    using tg t long by (simp add: updateVideo_def or_default_def str_truthy_def video_valid_def Let_def)
qed

theorem updateVideo_breaks_title_limit_witness:
  "fst (snd (updateVideo fx_ralice fx_vid
       \<lparr>vf_title = Some (replicate 101 CHR ''a''), vf_description = None, vf_url = None, vf_thumbnail = None,
        vf_tags = JUndef, vf_category = None\<rparr> fx_cdb)) = 200
   \<and> (\<exists>v'. db_videos (fst (updateVideo fx_ralice fx_vid
       \<lparr>vf_title = Some (replicate 101 CHR ''a''), vf_description = None, vf_url = None, vf_thumbnail = None,
        vf_tags = JUndef, vf_category = None\<rparr> fx_cdb)) (oid_key fx_vid) = Some v' \<and> \<not> video_valid v')"
  using updateVideo_breaks_title_limit [of fx_vid fx_cdb fx_video fx_ralice
     "\<lparr>vf_title = Some (replicate 101 CHR ''a''), vf_description = None, vf_url = None, vf_thumbnail = None,
        vf_tags = JUndef, vf_category = None\<rparr>" "replicate 101 CHR ''a''"]
  by (simp add: valid_object_id_def is_hex_def oid_key_def hex_lower_def js_trim_def js_space_def)

end
