(* ===== verification/Gamification.thy ===== *)
theory Gamification
  imports Videos Users
begin

text \<open>
  The documents of the engagement features: notifications
  (models/notification.model.js), badges (models/badge.model.js) and leaderboards
  (models/leaderboard.model.js). The store of the content theories is extended by their
  three collections (\<open>gstore\<close>). A \<open>save()\<close> runs the schema's validators, casts the
  ObjectId paths (a string that is not an ObjectId fails the cast) and, for badges,
  the unique index on \<open>name\<close>.
\<close>

section \<open>Documents\<close>

record notification_doc =
  n_recipient :: oid
  n_sender :: "oid option"
  n_type :: string
  n_contentType :: string
  n_contentId :: oid
  n_contentModel :: string
  n_message :: string
  n_isRead :: bool
  n_url :: "string option"

text \<open>\<open>requirements\<close> is a plain object (\<open>type: Object\<close>): its properties as an
  association list, \<open>None\<close> when the path is unset.\<close>

record badge_doc =
  b_name :: string
  b_description :: string
  b_icon :: string
  b_category :: string
  b_pointsAwarded :: int
  b_requirements :: "(string \<times> jsval) list option"
  b_level :: int
  b_isHidden :: bool

record lb_entry =
  le_user :: oid
  le_score :: int
  le_rank :: int

record leaderboard_doc =
  lb_type :: string
  lb_timeframe :: string
  lb_entries :: "lb_entry list"
  lb_lastUpdated :: millis

record gstore = cstore +
  db_notifications :: "oid \<rightharpoonup> notification_doc"
  db_badges :: "oid \<rightharpoonup> badge_doc"
  db_leaderboards :: "oid \<rightharpoonup> leaderboard_doc"

section \<open>Schema validation\<close>

definition notification_types :: "string list" where
  "notification_types = [''follow'', ''like'', ''comment'', ''mention'', ''stream'', ''system'']"

definition notification_content_types :: "string list" where
  "notification_content_types = [''post'', ''video'', ''stream'', ''code'', ''comment'', ''user'', ''system'']"

definition notification_models :: "string list" where
  "notification_models = [''Post'', ''Video'', ''Stream'', ''CodeSession'', ''Comment'', ''User'', ''System'']"

definition notification_valid :: "notification_doc \<Rightarrow> bool" where
  "notification_valid n = (valid_object_id (n_recipient n)
     \<and> (case n_sender n of None \<Rightarrow> True | Some s \<Rightarrow> valid_object_id s)
     \<and> n_type n \<in> set notification_types \<and> n_contentType n \<in> set notification_content_types
     \<and> valid_object_id (n_contentId n) \<and> n_contentModel n \<in> set notification_models
     \<and> n_message n \<noteq> [])"

definition badge_categories :: "string list" where
  "badge_categories = [''content'', ''social'', ''coding'', ''streaming'', ''general'']"

definition badge_valid :: "badge_doc \<Rightarrow> bool" where
  "badge_valid b = (b_name b \<noteq> [] \<and> b_description b \<noteq> [] \<and> b_icon b \<noteq> []
     \<and> b_category b \<in> set badge_categories \<and> b_requirements b \<noteq> None)"

definition leaderboard_types :: "string list" where
  "leaderboard_types = [''points'', ''content'', ''streams'', ''coding'']"

definition timeframes :: "string list" where
  "timeframes = [''daily'', ''weekly'', ''monthly'', ''alltime'']"

definition leaderboard_valid :: "leaderboard_doc \<Rightarrow> bool" where
  "leaderboard_valid l = (lb_type l \<in> set leaderboard_types \<and> lb_timeframe l \<in> set timeframes
     \<and> list_all (\<lambda>e. valid_object_id (le_user e)) (lb_entries l))"

definition save_notification :: "string \<Rightarrow> notification_doc \<Rightarrow> gstore \<Rightarrow> js_exn + gstore" where
  "save_notification i n db =
     (if notification_valid n then Inr (db\<lparr>db_notifications := (db_notifications db)(oid_key i \<mapsto> n)\<rparr>)
      else Inl (ValidationError ''Notification validation failed''))"

text \<open>The unique index on \<open>name\<close>: a save that would give a second badge the same name
  fails with MongoDB's duplicate key error.\<close>

definition name_taken :: "string \<Rightarrow> string \<Rightarrow> gstore \<Rightarrow> bool" where
  "name_taken i nm db = (\<exists>k \<in> dom (db_badges db). k \<noteq> oid_key i \<and> b_name (the (db_badges db k)) = nm)"

definition save_badge :: "string \<Rightarrow> badge_doc \<Rightarrow> gstore \<Rightarrow> js_exn + gstore" where
  "save_badge i b db =
     (if \<not> badge_valid b then Inl (ValidationError ''Badge validation failed'')
      else if name_taken i (b_name b) db then Inl (MongoError ''E11000 duplicate key error'')
      else Inr (db\<lparr>db_badges := (db_badges db)(oid_key i \<mapsto> b)\<rparr>))"

definition save_leaderboard :: "string \<Rightarrow> leaderboard_doc \<Rightarrow> gstore \<Rightarrow> js_exn + gstore" where
  "save_leaderboard i l db =
     (if leaderboard_valid l then Inr (db\<lparr>db_leaderboards := (db_leaderboards db)(oid_key i \<mapsto> l)\<rparr>)
      else Inl (ValidationError ''Leaderboard validation failed''))"

text \<open>\<open>err.message\<close>, which the share routes answer.\<close>

fun exn_message :: "js_exn \<Rightarrow> string" where
  "exn_message (TypeError m) = m"
| "exn_message (CastError m) = m"
| "exn_message (ValidationError m) = m"
| "exn_message (MongoError m) = m"
| "exn_message (JsError m) = m"

section \<open>Fixtures\<close>

text \<open>A member with a post, two badges and otherwise empty collections, for the witnesses.\<close>

abbreviation fx_b1 :: oid where "fx_b1 \<equiv> ''65a1b2c3d4e5f60718293c01''"

abbreviation fx_b2 :: oid where "fx_b2 \<equiv> ''65a1b2c3d4e5f60718293c02''"

abbreviation fx_n1 :: oid where "fx_n1 \<equiv> ''65a1b2c3d4e5f60718293d01''"

abbreviation fx_member :: user_doc where "fx_member \<equiv> fx_user ''alice1''"

abbreviation fx_veteran :: badge_doc where
  "fx_veteran \<equiv> \<lparr>b_name = ''Veteran'', b_description = ''ten points'', b_icon = ''v.png'',
     b_category = ''general'', b_pointsAwarded = 0, b_requirements = Some [(''points'', JNum 10)],
     b_level = 1, b_isHidden = False\<rparr>"

abbreviation fx_author :: badge_doc where
  "fx_author \<equiv> \<lparr>b_name = ''Author'', b_description = ''one post'', b_icon = ''a.png'',
     b_category = ''content'', b_pointsAwarded = 10, b_requirements = Some [(''postCount'', JNum 1)],
     b_level = 1, b_isHidden = False\<rparr>"

abbreviation fx_gdb :: gstore where
  "fx_gdb \<equiv> \<lparr>db_streams = Map.empty, db_sessions = Map.empty, db_users = [fx_alice \<mapsto> fx_member],
     db_posts = [fx_post \<mapsto> fx_post_doc], db_comments = Map.empty, db_videos = Map.empty,
     db_notifications = Map.empty, db_badges = [fx_b1 \<mapsto> fx_veteran, fx_b2 \<mapsto> fx_author],
     db_leaderboards = Map.empty\<rparr>"

abbreviation fx_ids :: "nat \<Rightarrow> oid" where
  "fx_ids n \<equiv> (if n = 0 then ''65a1b2c3d4e5f60718293d01'' else ''65a1b2c3d4e5f60718293d02'')"

end
