(* ===== verification/Notifications.thy ===== *)
theory Notifications
  imports Gamification
begin

text \<open>
  The methods of models/notification.model.js and the controller
  controllers/notification.controller.js. \<open>createNotification\<close> builds a document from
  the fields it is given and saves it, so a notification whose type or content type is
  outside the schema's enums is rejected. \<open>markAsRead\<close> saves the document;
  \<open>markAllAsRead\<close> is one \<open>updateMany\<close>, which runs no validators. The invariant
  \<open>notifs_wf\<close> says every stored notification satisfies the schema.
\<close>

section \<open>Model\<close>

definition notif_markAsRead :: "notification_doc \<Rightarrow> notification_doc" where
  "notif_markAsRead n = n\<lparr>n_isRead := True\<rparr>"

text \<open>The \<open>data\<close> argument of \<open>createNotification\<close>: ids as the caller passes them.\<close>

record notification_data =
  nd_recipient :: string
  nd_sender :: "string option"
  nd_type :: string
  nd_contentType :: string
  nd_contentId :: string
  nd_contentModel :: string
  nd_message :: string
  nd_url :: "string option"

definition new_notification :: "notification_data \<Rightarrow> notification_doc" where
  "new_notification d =
     \<lparr>n_recipient = oid_key (nd_recipient d),
      n_sender = (if str_truthy (nd_sender d) then Some (oid_key (the (nd_sender d))) else None),
      n_type = nd_type d, n_contentType = nd_contentType d, n_contentId = oid_key (nd_contentId d),
      n_contentModel = nd_contentModel d, n_message = nd_message d, n_isRead = False,
      n_url = (if str_truthy (nd_url d) then nd_url d else None)\<rparr>"

definition createNotification :: "oid \<Rightarrow> notification_data \<Rightarrow> gstore \<Rightarrow> js_exn + gstore" where
  "createNotification nid d db = save_notification nid (new_notification d) db"

text \<open>\<open>countDocuments({ recipient: userId, isRead: false })\<close>; the filter casts the id.\<close>

definition unread_of :: "oid \<Rightarrow> gstore \<Rightarrow> (oid \<times> notification_doc) list" where
  "unread_of u db = find_where (db_notifications db) (\<lambda>n. n_recipient n = u \<and> \<not> n_isRead n)"

definition getUnreadCount :: "string \<Rightarrow> gstore \<Rightarrow> js_exn + nat" where
  "getUnreadCount u db =
     (if valid_object_id u then Inr (length (unread_of (oid_key u) db))
      else Inl (CastError ''Cast to ObjectId failed''))"

section \<open>Controller\<close>

record notification_page =
  np_page :: "(oid \<times> notification_doc) listing"
  np_unreadCount :: nat

definition getNotifications ::
  "string option \<Rightarrow> string option \<Rightarrow> req_user \<Rightarrow> gstore \<Rightarrow> notification_page reply" where
  "getNotifications pq lq me db =
     (if \<not> valid_object_id (ru_id me) then server_error
      else (case paginate_by 20 pq lq (rev (find_where (db_notifications db)
                     (\<lambda>n. n_recipient n = oid_key (ru_id me)))) of
              None \<Rightarrow> server_error
            | Some l \<Rightarrow> (case getUnreadCount (ru_id me) db of
                 Inl _ \<Rightarrow> server_error
               | Inr c \<Rightarrow> (200, Data \<lparr>np_page = l, np_unreadCount = c\<rparr>))))"

definition find_own_notification :: "req_user \<Rightarrow> string \<Rightarrow> gstore \<Rightarrow> 'd reply + notification_doc" where
  "find_own_notification me i db =
     (case find_by_id (db_notifications db) i of
        Inl e \<Rightarrow> Inl (catch_reply ''Notification not found'' e)
      | Inr None \<Rightarrow> Inl (404, Msg ''Notification not found'')
      | Inr (Some n) \<Rightarrow> if n_recipient n \<noteq> ru_id me then Inl (401, Msg ''Not authorized'') else Inr n)"

definition markAsRead :: "req_user \<Rightarrow> string \<Rightarrow> gstore \<Rightarrow> gstore \<times> bool reply" where
  "markAsRead me i db =
     (case find_own_notification me i db of
        Inl r \<Rightarrow> (db, r)
      | Inr n \<Rightarrow> (case save_notification i (notif_markAsRead n) db of
           Inl e \<Rightarrow> (db, catch_reply ''Notification not found'' e)
         | Inr db' \<Rightarrow> (db', (200, Data True))))"

definition markAllAsRead :: "req_user \<Rightarrow> gstore \<Rightarrow> gstore \<times> bool reply" where
  "markAllAsRead me db =
     (if \<not> valid_object_id (ru_id me) then (db, server_error)
      else (db\<lparr>db_notifications := (\<lambda>k. map_option
              (\<lambda>n. if n_recipient n = oid_key (ru_id me) \<and> \<not> n_isRead n then notif_markAsRead n else n)
              (db_notifications db k))\<rparr>, (200, Data True)))"

definition deleteNotification :: "req_user \<Rightarrow> string \<Rightarrow> gstore \<Rightarrow> gstore \<times> unit reply" where
  "deleteNotification me i db =
     (case find_own_notification me i db of
        Inl r \<Rightarrow> (db, r)
      | Inr _ \<Rightarrow> (db\<lparr>db_notifications := (db_notifications db)(oid_key i := None)\<rparr>,
                  (200, Msg ''Notification removed'')))"

definition getUnreadCount_ctl :: "req_user \<Rightarrow> gstore \<Rightarrow> nat reply" where
  "getUnreadCount_ctl me db =
     (case getUnreadCount (ru_id me) db of Inl _ \<Rightarrow> server_error | Inr c \<Rightarrow> (200, Data c))"

section \<open>Invariant\<close>

definition notifs_wf :: "gstore \<Rightarrow> bool" where
  "notifs_wf db = (\<forall>n \<in> ran (db_notifications db). notification_valid n)"

section \<open>Properties\<close>

lemma ran_upd_subset: "ran (m(k \<mapsto> v)) \<subseteq> insert v (ran m)"
  by (auto simp: ran_def)

lemma ran_delete_subset: "ran (m(k := None)) \<subseteq> ran m"
  by (auto simp: ran_def)

lemma notification_valid_read [simp]: "notification_valid (notif_markAsRead n) = notification_valid n"
  by (simp add: notif_markAsRead_def notification_valid_def)

lemma notifs_wf_save:
  assumes "notifs_wf db" and "save_notification i n db = Inr db'"
  shows "notifs_wf db'"
proof -
  have v: "notification_valid n" and d: "db' = db\<lparr>db_notifications := (db_notifications db)(oid_key i \<mapsto> n)\<rparr>"
    using assms(2) by (simp_all add: save_notification_def split: if_splits)
  show ?thesis using assms(1) v ran_upd_subset [of "db_notifications db" "oid_key i" n]
    unfolding d notifs_wf_def by auto
qed

lemma notifs_wf_markAsRead: "notifs_wf db \<Longrightarrow> notifs_wf (fst (markAsRead me i db))"
  by (auto simp: markAsRead_def intro: notifs_wf_save split: sum.split)

lemma notifs_wf_markAllAsRead: "notifs_wf db \<Longrightarrow> notifs_wf (fst (markAllAsRead me db))"
  by (auto simp: markAllAsRead_def notifs_wf_def ran_def split: if_splits)

lemma notifs_wf_delete: "notifs_wf db \<Longrightarrow> notifs_wf (fst (deleteNotification me i db))"
  using ran_delete_subset [of "db_notifications db" "oid_key i"]
  by (auto simp: deleteNotification_def notifs_wf_def split: sum.split)

lemma notifs_wf_create: "notifs_wf db \<Longrightarrow> createNotification nid d db = Inr db' \<Longrightarrow> notifs_wf db'"
  unfolding createNotification_def by (rule notifs_wf_save)

lemmas notifs_wf_intros [inv_intros] =
  notifs_wf_markAsRead notifs_wf_markAllAsRead notifs_wf_delete notifs_wf_create

end
