(* ===== verification/Badges.thy ===== *)
theory Badges
  imports Notifications "HOL-Library.List_Lexorder" "HOL-Library.Char_ord" "HOL-Library.Product_Lexorder"
    "HOL-Library.While_Combinator"
begin

text \<open>
  The static \<open>Badge.checkQualification\<close> of models/badge.model.js and the controller
  controllers/badge.controller.js. A badge's \<open>requirements\<close> is a plain object whose
  properties are compared with the user's counts the way JavaScript compares a number
  with any value: the value is converted by \<open>ToNumber\<close>, and a comparison with NaN is
  false. \<open>awardBadge\<close> and \<open>checkAllBadges\<close> save the user after \<open>addBadge\<close>, again
  after \<open>addPoints\<close>, and then create a notification, each write taking effect before
  the next may fail. The loop of \<open>checkAllBadges\<close> is kept as a loop
  (\<open>while_option\<close> over the index of the \<open>for ... of\<close> iterator), and
  \<open>checkQualification\<close> reads the user afresh on every iteration.
\<close>

section \<open>JavaScript numbers from values\<close>

text \<open>\<open>ToNumber\<close> of a string: surrounding white space ignored, the empty string is 0, an
  optional sign and decimal digits give an integer; anything else is NaN (\<open>None\<close>).
  Fractions, exponents, hexadecimal literals and \<open>Infinity\<close> are outside the model's
  integers and read as NaN.\<close>

definition str_to_number :: "string \<Rightarrow> int option" where
  "str_to_number s =
     (let t = js_trim s
      in if t = [] then Some 0
         else (case t of
                 c # r \<Rightarrow>
                   (let (sg, ds) = (if c = CHR ''-'' then (-1, r) else if c = CHR ''+'' then (1, r) else (1, t))
                    in if ds \<noteq> [] \<and> list_all is_digit ds then Some (sg * int (digits_value 0 ds)) else None)
               | [] \<Rightarrow> Some 0))"

fun js_to_number :: "jsval \<Rightarrow> int option" where
  "js_to_number JUndef = None"
| "js_to_number JNull = Some 0"
| "js_to_number (JBool b) = Some (if b then 1 else 0)"
| "js_to_number (JNum n) = Some n"
| "js_to_number (JStr s) = str_to_number s"
| "js_to_number (JArr xs) = str_to_number (js_str (JArr xs))"
| "js_to_number JObj = None"

text \<open>\<open>x >= v\<close> for a number \<open>x\<close>.\<close>

definition js_ge :: "int \<Rightarrow> jsval \<Rightarrow> bool" where
  "js_ge x v = (case js_to_number v of None \<Rightarrow> False | Some m \<Rightarrow> m \<le> x)"

definition req_get :: "(string \<times> jsval) list \<Rightarrow> string \<Rightarrow> jsval" where
  "req_get r k = (case map_of r k of None \<Rightarrow> JUndef | Some v \<Rightarrow> v)"

text \<open>\<open>if (badge.requirements.k && count >= badge.requirements.k) qualified = true\<close>\<close>

definition meets :: "(string \<times> jsval) list \<Rightarrow> string \<Rightarrow> int \<Rightarrow> bool" where
  "meets r k n = (js_truthy (req_get r k) \<and> js_ge n (req_get r k))"

section \<open>Badge.checkQualification\<close>

record qual_result =
  q_qualified :: bool
  q_reason :: "string option"
  q_stats :: "(string \<times> int) list"

definition count_posts :: "oid \<Rightarrow> gstore \<Rightarrow> int" where
  "count_posts u db = int (length (find_where (db_posts db) (\<lambda>p. p_user p = u)))"

definition count_videos :: "oid \<Rightarrow> gstore \<Rightarrow> int" where
  "count_videos u db = int (length (find_where (db_videos db) (\<lambda>v. v_user v = u)))"

definition count_sessions :: "oid \<Rightarrow> gstore \<Rightarrow> int" where
  "count_sessions u db = int (length (find_where (db_sessions db) (\<lambda>c. cs_owner c = u)))"

definition count_streams :: "oid \<Rightarrow> gstore \<Rightarrow> int" where
  "count_streams u db = int (length (find_where (db_streams db) (\<lambda>s. st_user s = u)))"

text \<open>The \<open>switch (badge.category)\<close>; a category outside the cases leaves
  \<open>qualified = false\<close> and \<open>stats = {}\<close>.\<close>

definition qualify :: "oid \<Rightarrow> user_doc \<Rightarrow> badge_doc \<Rightarrow> (string \<times> jsval) list \<Rightarrow> gstore \<Rightarrow> qual_result" where
  "qualify u ud b r db =
     (if b_category b = ''content'' then
        \<lparr>q_qualified = meets r ''postCount'' (count_posts u db) \<or> meets r ''videoCount'' (count_videos u db),
         q_reason = None, q_stats = [(''postCount'', count_posts u db), (''videoCount'', count_videos u db)]\<rparr>
      else if b_category b = ''social'' then
        \<lparr>q_qualified = meets r ''followerCount'' (int (length (u_followers ud)))
                      \<or> meets r ''followingCount'' (int (length (u_following ud))),
         q_reason = None, q_stats = [(''followerCount'', int (length (u_followers ud))),
                                     (''followingCount'', int (length (u_following ud)))]\<rparr>
      else if b_category b = ''coding'' then
        \<lparr>q_qualified = meets r ''codeSessionCount'' (count_sessions u db),
         q_reason = None, q_stats = [(''codeSessionCount'', count_sessions u db)]\<rparr>
      else if b_category b = ''streaming'' then
        \<lparr>q_qualified = meets r ''streamCount'' (count_streams u db),
         q_reason = None, q_stats = [(''streamCount'', count_streams u db)]\<rparr>
      else if b_category b = ''general'' then
        \<lparr>q_qualified = js_ge (u_points ud) (if js_truthy (req_get r ''points'') then req_get r ''points'' else JNum 0),
         q_reason = None, q_stats = [(''points'', u_points ud)]\<rparr>
      else \<lparr>q_qualified = False, q_reason = None, q_stats = []\<rparr>)"

definition checkQualification :: "string \<Rightarrow> string \<Rightarrow> gstore \<Rightarrow> js_exn + qual_result" where
  "checkQualification uid bid db =
     (case find_by_id (db_users db) uid of
        Inl e \<Rightarrow> Inl e
      | Inr None \<Rightarrow> Inl (JsError ''User not found'')
      | Inr (Some ud) \<Rightarrow>
          (case find_by_id (db_badges db) bid of
             Inl e \<Rightarrow> Inl e
           | Inr None \<Rightarrow> Inl (JsError ''Badge not found'')
           | Inr (Some b) \<Rightarrow>
               if oid_key bid \<in> set (u_badges ud)
               then Inr \<lparr>q_qualified = False, q_reason = Some ''User already has this badge'', q_stats = []\<rparr>
               else (case b_requirements b of
                       None \<Rightarrow> Inl (TypeError ''Cannot read properties of undefined'')
                     | Some r \<Rightarrow> Inr (qualify (oid_key uid) ud b r db))))"

section \<open>Controller\<close>

record badge_form =
  bf_name :: "string option"
  bf_description :: "string option"
  bf_icon :: "string option"
  bf_category :: "string option"
  bf_pointsAwarded :: "int option"
  bf_requirements :: "(string \<times> jsval) list option"
  bf_level :: "int option"
  bf_isHidden :: "bool option"

text \<open>\<open>new Badge({ ..., pointsAwarded: pointsAwarded || 0, level: level || 1,
  isHidden: isHidden || false })\<close>; the schema trims the name.\<close>

definition new_badge :: "badge_form \<Rightarrow> badge_doc" where
  "new_badge f =
     \<lparr>b_name = js_trim (opt_str (bf_name f)), b_description = opt_str (bf_description f),
      b_icon = opt_str (bf_icon f), b_category = opt_str (bf_category f),
      b_pointsAwarded = or_int (bf_pointsAwarded f) 0, b_requirements = bf_requirements f,
      b_level = or_int (bf_level f) 1, b_isHidden = (bf_isHidden f = Some True)\<rparr>"

definition createBadge ::
  "oid \<Rightarrow> string list \<Rightarrow> badge_form \<Rightarrow> gstore \<Rightarrow> gstore \<times> (oid \<times> badge_doc) reply" where
  "createBadge nid errs f db =
     (if errs \<noteq> [] then (db, validation_failed errs)
      else (case save_badge nid (new_badge f) db of
              Inl _ \<Rightarrow> (db, server_error)
            | Inr db' \<Rightarrow> (db', (201, Data (oid_key nid, new_badge f)))))"

text \<open>\<open>Badge.find({ isHidden: false }).sort({ level: 1, category: 1 })\<close>: a stable sort of
  the natural order; strings compare by their character codes.\<close>

definition getBadges :: "gstore \<Rightarrow> (oid \<times> badge_doc) list reply" where
  "getBadges db =
     (200, Data (sort_key (\<lambda>(i, b). (b_level b, b_category b))
                  (find_where (db_badges db) (\<lambda>b. \<not> b_isHidden b))))"

definition getBadgeById :: "string \<Rightarrow> gstore \<Rightarrow> badge_doc reply" where
  "getBadgeById i db =
     (case find_by_id (db_badges db) i of
        Inl e \<Rightarrow> catch_reply ''Badge not found'' e
      | Inr None \<Rightarrow> (404, Msg ''Badge not found'')
      | Inr (Some b) \<Rightarrow> (200, Data b))"

text \<open>\<open>if (name) badge.name = name; ...; if (pointsAwarded !== undefined) ...\<close>\<close>

definition update_badge_fields :: "badge_form \<Rightarrow> badge_doc \<Rightarrow> badge_doc" where
  "update_badge_fields f b =
     b\<lparr>b_name := (if str_truthy (bf_name f) then js_trim (the (bf_name f)) else b_name b),
       b_description := (if str_truthy (bf_description f) then the (bf_description f) else b_description b),
       b_icon := (if str_truthy (bf_icon f) then the (bf_icon f) else b_icon b),
       b_category := (if str_truthy (bf_category f) then the (bf_category f) else b_category b),
       b_pointsAwarded := (case bf_pointsAwarded f of None \<Rightarrow> b_pointsAwarded b | Some n \<Rightarrow> n),
       b_requirements := (case bf_requirements f of None \<Rightarrow> b_requirements b | Some r \<Rightarrow> Some r),
       b_level := or_int (bf_level f) (b_level b),
       b_isHidden := (case bf_isHidden f of None \<Rightarrow> b_isHidden b | Some h \<Rightarrow> h)\<rparr>"

definition updateBadge ::
  "string list \<Rightarrow> string \<Rightarrow> badge_form \<Rightarrow> gstore \<Rightarrow> gstore \<times> badge_doc reply" where
  "updateBadge errs i f db =
     (if errs \<noteq> [] then (db, validation_failed errs)
      else (case find_by_id (db_badges db) i of
              Inl e \<Rightarrow> (db, catch_reply ''Badge not found'' e)
            | Inr None \<Rightarrow> (db, (404, Msg ''Badge not found''))
            | Inr (Some b) \<Rightarrow>
                (case save_badge i (update_badge_fields f b) db of
                   Inl e \<Rightarrow> (db, catch_reply ''Badge not found'' e)
                 | Inr db' \<Rightarrow> (db', (200, Data (update_badge_fields f b))))))"

definition deleteBadge :: "string \<Rightarrow> gstore \<Rightarrow> gstore \<times> unit reply" where
  "deleteBadge i db =
     (case find_by_id (db_badges db) i of
        Inl e \<Rightarrow> (db, catch_reply ''Badge not found'' e)
      | Inr None \<Rightarrow> (db, (404, Msg ''Badge not found''))
      | Inr (Some _) \<Rightarrow> (db\<lparr>db_badges := (db_badges db)(oid_key i := None)\<rparr>, (200, Msg ''Badge removed'')))"

definition checkBadgeQualification :: "req_user \<Rightarrow> string \<Rightarrow> gstore \<Rightarrow> qual_result reply" where
  "checkBadgeQualification me i db =
     (case checkQualification (ru_id me) i db of
        Inl e \<Rightarrow> catch_reply ''Badge or user not found'' e
      | Inr r \<Rightarrow> (200, Data r))"

text \<open>The notification of an award.\<close>

definition award_data :: "oid \<Rightarrow> badge_doc \<Rightarrow> notification_data" where
  "award_data u b =
     \<lparr>nd_recipient = u, nd_sender = None, nd_type = ''system'', nd_contentType = ''user'',
      nd_contentId = u, nd_contentModel = ''User'',
      nd_message = ''Congratulations! You've earned the \"'' @ b_name b @ ''\" badge and ''
                   @ int_to_js_string (b_pointsAwarded b) @ '' points!'',
      nd_url = Some (''/profile/'' @ u)\<rparr>"

text \<open>\<open>await user.addBadge(id); if (badge.pointsAwarded > 0) await user.addPoints(...);
  await Notification.createNotification(...)\<close>: three writes in turn; the answer is the
  store after the writes that took effect and the error of the one that failed.\<close>

definition grant ::
  "oid \<Rightarrow> string \<Rightarrow> string \<Rightarrow> badge_doc \<Rightarrow> user_doc \<Rightarrow> gstore \<Rightarrow> gstore \<times> (js_exn + user_doc)" where
  "grant nid uid bid b ud db =
     (case save_user uid (addBadge bid ud) db of
        Inl e \<Rightarrow> (db, Inl e)
      | Inr db1 \<Rightarrow>
          (case (if 0 < b_pointsAwarded b then save_user uid (addPoints (b_pointsAwarded b) (addBadge bid ud)) db1
                 else Inr db1) of
             Inl e \<Rightarrow> (db1, Inl e)
           | Inr db2 \<Rightarrow>
               (case createNotification nid (award_data (oid_key uid) b) db2 of
                  Inl e \<Rightarrow> (db2, Inl e)
                | Inr db3 \<Rightarrow> (db3, Inr (if 0 < b_pointsAwarded b
                                        then addPoints (b_pointsAwarded b) (addBadge bid ud)
                                        else addBadge bid ud)))))"

definition awardBadge :: "oid \<Rightarrow> string \<Rightarrow> string \<Rightarrow> gstore \<Rightarrow> gstore \<times> user_doc reply" where
  "awardBadge nid i uid db =
     (case find_by_id (db_badges db) i of
        Inl e \<Rightarrow> (db, catch_reply ''Badge or user not found'' e)
      | Inr None \<Rightarrow> (db, (404, Msg ''Badge not found''))
      | Inr (Some b) \<Rightarrow>
          (case find_by_id (db_users db) uid of
             Inl e \<Rightarrow> (db, catch_reply ''Badge or user not found'' e)
           | Inr None \<Rightarrow> (db, (404, Msg ''User not found''))
           | Inr (Some ud) \<Rightarrow>
               if oid_key i \<in> set (u_badges ud) then (db, (400, Msg ''User already has this badge''))
               else (case grant nid uid i b ud db of
                       (db', Inl e) \<Rightarrow> (db', catch_reply ''Badge or user not found'' e)
                     | (db', Inr ud') \<Rightarrow> (db', (200, Data ud')))))"

subsection \<open>checkAllBadges\<close>

record award_state =
  as_i :: nat
  as_db :: gstore
  as_user :: user_doc
  as_results :: "(oid \<times> badge_doc \<times> qual_result) list"
  as_newly :: "(oid \<times> badge_doc) list"
  as_err :: "js_exn option"

text \<open>One iteration of \<open>for (const badge of badges)\<close>: skip a badge the user holds,
  otherwise check it (reading the user from the store), and on success grant it.
  \<open>nids n\<close> is the id of the notification created in iteration \<open>n\<close>.\<close>

definition award_step ::
  "string \<Rightarrow> (nat \<Rightarrow> oid) \<Rightarrow> (oid \<times> badge_doc) list \<Rightarrow> award_state \<Rightarrow> award_state" where
  "award_step uid nids bs s =
     (case bs ! as_i s of (k, b) \<Rightarrow>
        if k \<in> set (u_badges (as_user s)) then s\<lparr>as_i := Suc (as_i s)\<rparr>
        else (case checkQualification uid k (as_db s) of
                Inl e \<Rightarrow> s\<lparr>as_err := Some e\<rparr>
              | Inr r \<Rightarrow>
                  if \<not> q_qualified r
                  then s\<lparr>as_i := Suc (as_i s), as_results := as_results s @ [(k, b, r)]\<rparr>
                  else (case grant (nids (as_i s)) uid k b (as_user s) (as_db s) of
                          (db', Inl e) \<Rightarrow> s\<lparr>as_db := db', as_err := Some e\<rparr>
                        | (db', Inr ud') \<Rightarrow>
                            s\<lparr>as_i := Suc (as_i s), as_db := db', as_user := ud',
                              as_results := as_results s @ [(k, b, r)],
                              as_newly := as_newly s @ [(k, b)]\<rparr>)))"

definition award_loop ::
  "string \<Rightarrow> (nat \<Rightarrow> oid) \<Rightarrow> (oid \<times> badge_doc) list \<Rightarrow> award_state \<Rightarrow> award_state option" where
  "award_loop uid nids bs =
     while_option (\<lambda>s. as_err s = None \<and> as_i s < length bs) (award_step uid nids bs)"

record check_all_result =
  ca_results :: "(oid \<times> badge_doc \<times> qual_result) list"
  ca_newly :: "(oid \<times> badge_doc) list"
  ca_user :: user_doc

definition checkAllBadges ::
  "req_user \<Rightarrow> (nat \<Rightarrow> oid) \<Rightarrow> gstore \<Rightarrow> gstore \<times> check_all_result reply" where
  "checkAllBadges me nids db =
     (case find_by_id (db_users db) (ru_id me) of
        Inl _ \<Rightarrow> (db, server_error)
      | Inr None \<Rightarrow> (db, (404, Msg ''User not found''))
      | Inr (Some ud) \<Rightarrow>
          (case award_loop (ru_id me) nids (find_where (db_badges db) (\<lambda>_. True))
                  \<lparr>as_i = 0, as_db = db, as_user = ud, as_results = [], as_newly = [], as_err = None\<rparr> of
             None \<Rightarrow> (db, server_error)
           | Some s \<Rightarrow>
               (case as_err s of
                  Some _ \<Rightarrow> (as_db s, server_error)
                | None \<Rightarrow> (as_db s, (200, Data \<lparr>ca_results = as_results s, ca_newly = as_newly s,
                                                ca_user = as_user s\<rparr>)))))"


section \<open>Properties\<close>

lemma award_step_progress:
  assumes "as_err (s :: award_state) = None" and "as_i s < length bs"
  shows "as_err (award_step uid nids bs s) \<noteq> None
         \<or> (as_err (award_step uid nids bs s) = None \<and> as_i (award_step uid nids bs s) = Suc (as_i s))"
  using assms unfolding award_step_def
  by (auto split: prod.split sum.split if_splits)


lemma grant_Inr:
  assumes "grant nid uid bid b ud db = (db', Inr ud')"
  shows "db_users db' (oid_key uid) = Some ud' \<and> db_badges db' = db_badges db
         \<and> ud' = (if 0 < b_pointsAwarded b then addPoints (b_pointsAwarded b) (addBadge bid ud) else addBadge bid ud)"
  using assms unfolding grant_def createNotification_def save_notification_def
  by (auto simp: save_user_Inr split: sum.splits if_splits)

lemma addPoints_badges [simp]: "u_badges (addPoints n u) = u_badges u"
  by (simp add: addPoints_def)

lemma addBadge_member [simp]: "oid_key b \<in> set (u_badges (addBadge b u))"
  by (simp add: addBadge_def)

text \<open>C35. A badge is awarded at most once: after awardBadge answers 200 the user has gained the badge's points once (none if they are not positive), and a second award of the same badge answers 400 and changes nothing.\<close>

theorem award_badge_once:
  assumes r: "awardBadge nid i uid db = (db', (200, Data ud'))"
  shows "\<exists>b ud. db_badges db (oid_key i) = Some b \<and> db_users db (oid_key uid) = Some ud
           \<and> u_points ud' = u_points ud + max 0 (b_pointsAwarded b)
           \<and> awardBadge nid' i uid db' = (db', (400, Msg ''User already has this badge''))"
proof -
  obtain b where vi: "valid_object_id i" and b: "db_badges db (oid_key i) = Some b"
    using r by (auto simp: awardBadge_def find_by_id_def catch_reply_def server_error_def split: if_splits option.splits)
  obtain ud where vu: "valid_object_id uid" and ud: "db_users db (oid_key uid) = Some ud"
    using r b vi by (auto simp: awardBadge_def find_by_id_def catch_reply_def server_error_def split: if_splits option.splits)
  have nb: "oid_key i \<notin> set (u_badges ud)"
    using r b vi ud vu by (auto simp: awardBadge_def find_by_id_def split: if_splits)
  obtain dbx where g: "grant nid uid i b ud db = (dbx, Inr ud')" and dbx: "dbx = db'"
    using r b vi ud vu nb
    by (auto simp: awardBadge_def find_by_id_def catch_reply_def server_error_def split: prod.splits sum.splits js_exn.splits)
  note gi = grant_Inr [OF g]
  have pts: "u_points ud' = u_points ud + max 0 (b_pointsAwarded b)"
    using gi by (simp add: addPoints_def addBadge_def)
  have mem: "oid_key i \<in> set (u_badges ud')" using gi by simp
  have "awardBadge nid' i uid db' = (db', (400, Msg ''User already has this badge''))"
    using gi dbx b vi vu mem by (simp add: awardBadge_def find_by_id_def)
  with b ud pts show ?thesis by blast
qed

theorem award_badge_once_witness:
  "\<exists>db' ud'. awardBadge fx_n1 fx_b2 fx_alice fx_gdb = (db', (200, Data ud'))
     \<and> (\<exists>b ud. db_badges fx_gdb (oid_key fx_b2) = Some b \<and> db_users fx_gdb (oid_key fx_alice) = Some ud
           \<and> u_points ud' = u_points ud + max 0 (b_pointsAwarded b)
           \<and> awardBadge fx_n1 fx_b2 fx_alice db' = (db', (400, Msg ''User already has this badge'')))"
proof -
  obtain db' ud' where r: "awardBadge fx_n1 fx_b2 fx_alice fx_gdb = (db', (200, Data ud'))"
    by (simp add: oid_eval awardBadge_def find_by_id_def grant_def save_user_def user_valid_def addBadge_def
                  addPoints_def createNotification_def save_notification_def new_notification_def
                  notification_valid_def award_data_def notification_types_def
                  notification_content_types_def notification_models_def str_truthy_def)
  show ?thesis using r award_badge_once [OF r, of fx_n1] by blast
qed


lemma notifs_wf_save_user: "save_user i u db = Inr db' \<Longrightarrow> notifs_wf db' = notifs_wf db"
  by (auto simp: save_user_def notifs_wf_def split: if_splits)

lemma grant_notifs_wf: "notifs_wf db \<Longrightarrow> grant nid uid bid b ud db = (db', r) \<Longrightarrow> notifs_wf db'"
  unfolding grant_def
  by (auto split: sum.splits if_splits) (metis notifs_wf_create notifs_wf_save_user)+

lemma award_step_notifs_wf: "notifs_wf (as_db s) \<Longrightarrow> notifs_wf (as_db (award_step uid nids bs s))"
  unfolding award_step_def
  by (auto dest: grant_notifs_wf split: prod.splits sum.splits if_splits)

lemma awardBadge_notifs_wf: "notifs_wf db \<Longrightarrow> notifs_wf (fst (awardBadge nid i uid db))"
  unfolding awardBadge_def
  by (auto dest: grant_notifs_wf split: sum.splits option.splits prod.splits)

lemma checkAllBadges_notifs_wf: "notifs_wf db \<Longrightarrow> notifs_wf (fst (checkAllBadges me nids db))"
proof -
  assume w: "notifs_wf db"
  have loop: "notifs_wf (as_db t)" if "award_loop uid nids bs s = Some t" and "notifs_wf (as_db s)" for uid bs s t
    using while_option_rule [where P = "\<lambda>s. notifs_wf (as_db s)"] award_step_notifs_wf that
    unfolding award_loop_def by blast
  show ?thesis using w
    by (auto simp: checkAllBadges_def dest: loop split: sum.splits option.splits)
qed

end
