(* ===== verification/Leaderboards.thy ===== *)
theory Leaderboards
  imports Gamification
begin

text \<open>
  The static \<open>Leaderboard.updateLeaderboard\<close> of models/leaderboard.model.js and the
  controller controllers/leaderboard.controller.js. A leaderboard of a type and a
  timeframe ranks users by a score: their points, or the number of posts and videos,
  streams or code sessions they created within the timeframe. The start of the day,
  week and month are computed from the clock in local time (\<open>period_starts\<close>, an
  input), and \<open>createdAt\<close> of a document is the input \<open>ct\<close>. MongoDB's \<open>$group\<close>
  returns its groups in no specified order; the model takes the order in which the
  users first appear in the collection. The sorts of the code are stable
  (\<open>Array.prototype.sort\<close> is stable since ES2019).
\<close>

section \<open>updateLeaderboard\<close>

record period_starts =
  ps_day :: millis
  ps_week :: millis
  ps_month :: millis

text \<open>\<open>dateFilter\<close>: \<open>{ createdAt: { $gte: start } }\<close> for daily, weekly and monthly
  leaderboards, \<open>{}\<close> otherwise.\<close>

definition date_filter :: "string \<Rightarrow> period_starts \<Rightarrow> millis \<Rightarrow> bool" where
  "date_filter tf ps t =
     (if tf = ''daily'' then ps_day ps \<le> t
      else if tf = ''weekly'' then ps_week ps \<le> t
      else if tf = ''monthly'' then ps_month ps \<le> t
      else True)"

text \<open>\<open>[{ $match: dateFilter }, { $group: { _id: '$user', count: { $sum: 1 } } }]\<close>\<close>

definition group_count :: "oid list \<Rightarrow> (oid \<times> nat) list" where
  "group_count us = map (\<lambda>u. (u, count_list us u)) (remdups us)"

definition matched_owners ::
  "(oid \<rightharpoonup> 'a) \<Rightarrow> ('a \<Rightarrow> oid) \<Rightarrow> string \<Rightarrow> period_starts \<Rightarrow> (oid \<Rightarrow> millis) \<Rightarrow> oid list" where
  "matched_owners coll owner tf ps ct =
     map (\<lambda>(k, d). owner d) (filter (\<lambda>(k, d). date_filter tf ps (ct k)) (find_where coll (\<lambda>_. True)))"

text \<open>\<open>.sort((a, b) => b.score - a.score).map((entry, index) => ({ ...entry, rank: index + 1 }))
  .slice(0, 100)\<close>\<close>

definition ranked :: "(oid \<times> int) list \<Rightarrow> lb_entry list" where
  "ranked xs =
     take 100 (map (\<lambda>(i, (u, s)). \<lparr>le_user = u, le_score = s, le_rank = int i + 1\<rparr>)
                   (enumerate 0 (sort_key (\<lambda>(u, s). - s) xs)))"

text \<open>\<open>User.find().sort({ points: -1 }).limit(100)\<close>, ranked in that order.\<close>

definition points_scores :: "gstore \<Rightarrow> lb_entry list" where
  "points_scores db =
     map (\<lambda>(i, (k, u)). \<lparr>le_user = k, le_score = u_points u, le_rank = int i + 1\<rparr>)
         (enumerate 0 (take 100 (sort_key (\<lambda>(k, u). - u_points u) (find_where (db_users db) (\<lambda>_. True)))))"

text \<open>\<open>contentMap.set(id, (contentMap.get(id) || 0) + item.count)\<close> over the post groups,
  then over the video groups; a Map keeps the order in which keys were first set.\<close>

definition add_counts :: "(oid \<times> nat) list \<Rightarrow> (oid \<times> nat) list \<Rightarrow> (oid \<times> nat) list" where
  "add_counts m gs =
     fold (\<lambda>(u, c) m. jsmap_set u ((case map_of m u of None \<Rightarrow> 0 | Some x \<Rightarrow> x) + c) m) gs m"

definition int_scores :: "(oid \<times> nat) list \<Rightarrow> (oid \<times> int) list" where
  "int_scores gs = map (\<lambda>(u, c). (u, int c)) gs"

definition user_scores ::
  "string \<Rightarrow> string \<Rightarrow> period_starts \<Rightarrow> (oid \<Rightarrow> millis) \<Rightarrow> gstore \<Rightarrow> lb_entry list" where
  "user_scores ty tf ps ct db =
     (if ty = ''points'' then points_scores db
      else if ty = ''content'' then
        ranked (int_scores (add_counts (add_counts [] (group_count (matched_owners (db_posts db) p_user tf ps ct)))
                                       (group_count (matched_owners (db_videos db) v_user tf ps ct))))
      else if ty = ''streams'' then
        ranked (int_scores (group_count (matched_owners (db_streams db) st_user tf ps ct)))
      else if ty = ''coding'' then
        ranked (int_scores (group_count (matched_owners (db_sessions db) cs_owner tf ps ct)))
      else [])"

text \<open>\<open>this.findOne({ type, timeframe })\<close>: the first match in natural order.\<close>

definition find_board :: "string \<Rightarrow> string \<Rightarrow> gstore \<Rightarrow> (oid \<times> leaderboard_doc) option" where
  "find_board ty tf db =
     (case find_where (db_leaderboards db) (\<lambda>l. lb_type l = ty \<and> lb_timeframe l = tf) of
        [] \<Rightarrow> None
      | x # _ \<Rightarrow> Some x)"

definition updateLeaderboard ::
  "string \<Rightarrow> string \<Rightarrow> millis \<Rightarrow> period_starts \<Rightarrow> (oid \<Rightarrow> millis) \<Rightarrow> oid \<Rightarrow> gstore
   \<Rightarrow> js_exn + gstore \<times> oid \<times> leaderboard_doc" where
  "updateLeaderboard ty tf now ps ct nid db =
     (case (case find_board ty tf db of
              None \<Rightarrow> (nid, \<lparr>lb_type = ty, lb_timeframe = tf, lb_entries = [], lb_lastUpdated = now\<rparr>)
            | Some x \<Rightarrow> x) of
        (k, l) \<Rightarrow>
          (case save_leaderboard k (l\<lparr>lb_entries := user_scores ty tf ps ct db, lb_lastUpdated := now\<rparr>) db of
             Inl e \<Rightarrow> Inl e
           | Inr db' \<Rightarrow> Inr (db', oid_key k, l\<lparr>lb_entries := user_scores ty tf ps ct db, lb_lastUpdated := now\<rparr>)))"

section \<open>Controller\<close>

text \<open>\<open>hoursSinceUpdate = (now - lastUpdated) / (1000 * 60 * 60)\<close> and the thresholds of
  each timeframe.\<close>

definition hours_since :: "millis \<Rightarrow> millis \<Rightarrow> real" where
  "hours_since now lu = real_of_int (int now - int lu) / (1000 * 60 * 60)"

definition outdated :: "string \<Rightarrow> millis \<Rightarrow> millis \<Rightarrow> bool" where
  "outdated tf now lu =
     ((tf = ''daily'' \<and> hours_since now lu > 1) \<or> (tf = ''weekly'' \<and> hours_since now lu > 6)
      \<or> (tf = ''monthly'' \<and> hours_since now lu > 12) \<or> (tf = ''alltime'' \<and> hours_since now lu > 24))"

definition getLeaderboard ::
  "string \<Rightarrow> string \<Rightarrow> millis \<Rightarrow> period_starts \<Rightarrow> (oid \<Rightarrow> millis) \<Rightarrow> oid \<Rightarrow> gstore
   \<Rightarrow> gstore \<times> leaderboard_doc reply" where
  "getLeaderboard ty tf now ps ct nid db =
     (if ty \<notin> set leaderboard_types then (db, (400, Msg ''Invalid leaderboard type''))
      else if tf \<notin> set timeframes then (db, (400, Msg ''Invalid timeframe''))
      else (case find_board ty tf db of
              Some (k, l) \<Rightarrow>
                if \<not> outdated tf now (lb_lastUpdated l) then (db, (200, Data l))
                else (case updateLeaderboard ty tf now ps ct nid db of
                        Inl _ \<Rightarrow> (db, server_error)
                      | Inr (db', k', l') \<Rightarrow> (db', (200, Data l')))
            | None \<Rightarrow>
                (case updateLeaderboard ty tf now ps ct nid db of
                   Inl _ \<Rightarrow> (db, server_error)
                 | Inr (db', k', l') \<Rightarrow> (db', (200, Data l')))))"

record board_summary =
  bs_type :: string
  bs_timeframe :: string
  bs_entriesCount :: nat
  bs_lastUpdated :: millis

text \<open>The nested \<open>for ... of\<close> loops of \<open>updateAllLeaderboards\<close>, over every type and
  every timeframe in turn; \<open>nids\<close> gives the id a new leaderboard would get.\<close>

fun update_all ::
  "millis \<Rightarrow> period_starts \<Rightarrow> (oid \<Rightarrow> millis) \<Rightarrow> (string \<Rightarrow> string \<Rightarrow> oid) \<Rightarrow> (string \<times> string) list
   \<Rightarrow> gstore \<Rightarrow> gstore \<times> (js_exn + board_summary list)" where
  "update_all now ps ct nids [] db = (db, Inr [])"
| "update_all now ps ct nids ((ty, tf) # rest) db =
     (case updateLeaderboard ty tf now ps ct (nids ty tf) db of
        Inl e \<Rightarrow> (db, Inl e)
      | Inr (db', k, l) \<Rightarrow>
          (case update_all now ps ct nids rest db' of
             (db'', Inl e) \<Rightarrow> (db'', Inl e)
           | (db'', Inr rs) \<Rightarrow>
               (db'', Inr (\<lparr>bs_type = ty, bs_timeframe = tf, bs_entriesCount = length (lb_entries l),
                            bs_lastUpdated = lb_lastUpdated l\<rparr> # rs))))"

definition updateAllLeaderboards ::
  "millis \<Rightarrow> period_starts \<Rightarrow> (oid \<Rightarrow> millis) \<Rightarrow> (string \<Rightarrow> string \<Rightarrow> oid) \<Rightarrow> gstore
   \<Rightarrow> gstore \<times> board_summary list reply" where
  "updateAllLeaderboards now ps ct nids db =
     (case update_all now ps ct nids (List.product leaderboard_types timeframes) db of
        (db', Inl _) \<Rightarrow> (db', server_error)
      | (db', Inr rs) \<Rightarrow> (db', (200, Data rs)))"

record user_ranks =
  ur_userId :: string
  ur_username :: string
  ur_ranks :: "((string \<times> string) \<times> (int \<times> int) option) list"

text \<open>\<open>leaderboard.entries.find(entry => entry.user.toString() === userId)\<close>: the
  stored id against the id as the request spells it.\<close>

definition rank_in :: "string \<Rightarrow> string \<Rightarrow> string \<Rightarrow> gstore \<Rightarrow> (int \<times> int) option" where
  "rank_in uid ty tf db =
     (case find_board ty tf db of
        None \<Rightarrow> None
      | Some (k, l) \<Rightarrow> map_option (\<lambda>e. (le_rank e, le_score e)) (find (\<lambda>e. le_user e = uid) (lb_entries l)))"

definition getUserRanks :: "string \<Rightarrow> gstore \<Rightarrow> user_ranks reply" where
  "getUserRanks uid db =
     (case find_by_id (db_users db) uid of
        Inl e \<Rightarrow> catch_reply ''User not found'' e
      | Inr None \<Rightarrow> (404, Msg ''User not found'')
      | Inr (Some u) \<Rightarrow>
          (200, Data \<lparr>ur_userId = uid, ur_username = u_username u,
                      ur_ranks = map (\<lambda>(ty, tf). ((ty, tf), rank_in uid ty tf db))
                                     (List.product leaderboard_types timeframes)\<rparr>))"


section \<open>Rankings\<close>

text \<open>An entry of a ranking from its index, user and score, and the shape every stored
  ranking has: ranks 1, 2, ..., scores from highest to lowest, at most 100 entries, each
  user once.\<close>

definition rank_entry :: "nat \<times> oid \<times> int \<Rightarrow> lb_entry" where
  "rank_entry x = (case x of (i, u, s) \<Rightarrow> \<lparr>le_user = u, le_score = s, le_rank = int i + 1\<rparr>)"

definition ranking_wf :: "lb_entry list \<Rightarrow> bool" where
  "ranking_wf es = (map le_rank es = map (\<lambda>i. int i + 1) [0..<length es]
     \<and> sorted (map (\<lambda>e. - le_score e) es) \<and> length es \<le> 100 \<and> distinct (map le_user es))"

section \<open>Properties\<close>

lemma ranked_alt: "ranked xs = map rank_entry (enumerate 0 (take 100 (sort_key (\<lambda>(u, s). - s) xs)))"
  by (simp add: ranked_def take_map take_enumerate rank_entry_def case_prod_beta')

lemma rank_entry_fields:
  "map le_rank (map rank_entry (enumerate k ys)) = map (\<lambda>i. int i + 1) [k..<k + length ys]"
  "map le_score (map rank_entry (enumerate k ys)) = map snd ys"
  "map le_user (map rank_entry (enumerate k ys)) = map fst ys"
  by (induction ys arbitrary: k) (auto simp: rank_entry_def upt_rec)

lemma ranked_props:
  "map le_rank (ranked xs) = map (\<lambda>i. int i + 1) [0..<length (ranked xs)]"
  "sorted (map (\<lambda>e. - le_score e) (ranked xs))"
  "length (ranked xs) \<le> 100"
  "distinct (map fst xs) \<Longrightarrow> distinct (map le_user (ranked xs))"
proof -
  let ?S = "sort_key (\<lambda>(u, s). - s) xs"
  show "map le_rank (ranked xs) = map (\<lambda>i. int i + 1) [0..<length (ranked xs)]"
    unfolding ranked_alt using rank_entry_fields(1) [of 0 "take 100 ?S"] by (simp del: map_map)
  have "map (\<lambda>e. - le_score e) (ranked xs) = take 100 (map (\<lambda>(u, s). - s) ?S)"
  proof -
    have "map (\<lambda>e. - le_score e) (ranked xs) = map uminus (map le_score (ranked xs))" by simp
    also have "\<dots> = map uminus (map snd (take 100 ?S))"
      unfolding ranked_alt using rank_entry_fields(2) [of 0 "take 100 ?S"] by (simp del: map_map)
    also have "\<dots> = take 100 (map (\<lambda>(u, s). - s) ?S)" by (simp add: take_map case_prod_beta')
    finally show ?thesis .
  qed
  then show "sorted (map (\<lambda>e. - le_score e) (ranked xs))"
    using sorted_sort_key [of "\<lambda>(u, s). - s" xs] by (simp add: sorted_wrt_take)
  show "length (ranked xs) \<le> 100" by (simp add: ranked_alt)
  assume d: "distinct (map fst xs)"
  have "distinct (map fst ?S)" using d by (simp add: distinct_map)
  then show "distinct (map le_user (ranked xs))"
    unfolding ranked_alt using rank_entry_fields(3) [of 0 "take 100 ?S"]
    by (simp add: take_map [symmetric] distinct_take del: map_map)
qed

lemma points_scores_ranked:
  "points_scores db = ranked (map (\<lambda>(k, u). (k, u_points u)) (find_where (db_users db) (\<lambda>_. True)))"
proof -
  have k: "(\<lambda>(u, s). - s) \<circ> (\<lambda>(k, u). (k, u_points u)) = (\<lambda>(k, u :: user_doc). - u_points u)"
    by (auto simp: fun_eq_iff)
  have s: "sort_key (\<lambda>(u, s). - s) (map (\<lambda>(k, u). (k, u_points u)) us)
           = map (\<lambda>(k, u). (k, u_points u)) (sort_key (\<lambda>(k, u :: user_doc). - u_points u) us)" for us
    by (simp only: sort_key_map k)
  show ?thesis
    unfolding points_scores_def ranked_alt s
    by (simp add: take_map enumerate_map rank_entry_def case_prod_beta' comp_def)
qed

lemma add_counts_distinct: "distinct (map fst m) \<Longrightarrow> distinct (map fst (add_counts m gs))"
  by (induction gs arbitrary: m) (auto simp: add_counts_def)

lemma int_scores_keys [simp]: "map fst (int_scores gs) = map fst gs"
  by (simp add: int_scores_def case_prod_beta')

lemma group_count_keys [simp]: "map fst (group_count us) = remdups us"
  by (simp add: group_count_def comp_def)

lemma ranked_wf: "distinct (map fst xs) \<Longrightarrow> ranking_wf (ranked xs)"
  by (simp add: ranking_wf_def ranked_props)

lemma ranking_wf_Nil: "ranking_wf []"
  by (simp add: ranking_wf_def)

lemma user_scores_wf: "ranking_wf (user_scores ty tf ps ct db)"
proof -
  have p: "distinct (map fst (map (\<lambda>(k, u). (k, u_points u)) (find_where (db_users db) (\<lambda>_. True))))"
    using distinct_find_where [of "db_users db" "\<lambda>_. True"] by (simp add: comp_def case_prod_beta')
  have c: "distinct (map fst (int_scores (add_counts (add_counts [] xs) ys)))" for xs ys
    by simp (intro add_counts_distinct, simp)
  have g: "distinct (map fst (int_scores (group_count us)))" for us
    by simp
  show ?thesis
    unfolding user_scores_def points_scores_ranked
    using ranked_wf [OF p] ranked_wf [OF c] ranked_wf [OF g] ranking_wf_Nil by simp
qed

lemma find_board_Some:
  assumes "find_board ty tf db = Some (k, l)"
  shows "db_leaderboards db k = Some l \<and> lb_type l = ty \<and> lb_timeframe l = tf"
proof -
  have "(k, l) \<in> set (find_where (db_leaderboards db) (\<lambda>l. lb_type l = ty \<and> lb_timeframe l = tf))"
    using assms by (auto simp: find_board_def split: list.splits)
  then show ?thesis by (auto dest: in_find_where)
qed

lemma updateLeaderboard_Inr:
  assumes r: "updateLeaderboard ty tf now ps ct nid db = Inr (db', k, l)"
  shows "db_leaderboards db' k = Some l \<and> lb_type l = ty \<and> lb_timeframe l = tf \<and> lb_lastUpdated l = now
         \<and> lb_entries l = user_scores ty tf ps ct db"
proof (cases "find_board ty tf db")
  case None
  then show ?thesis using r by (auto simp: updateLeaderboard_def save_leaderboard_def split: if_splits)
next
  case (Some x)
  then obtain k0 l0 where f: "find_board ty tf db = Some (k0, l0)" by (cases x) auto
  then show ?thesis using r find_board_Some [OF f]
    by (auto simp: updateLeaderboard_def save_leaderboard_def split: if_splits)
qed

text \<open>C37. A leaderboard that updateLeaderboard saves is stored under its id with the requested type and timeframe, and its entries rank their users 1, 2, ... by non-increasing score, at most 100 of them, each user once.\<close>

theorem leaderboard_entries_ranked:
  assumes "updateLeaderboard ty tf now ps ct nid db = Inr (db', k, l)"
  shows "db_leaderboards db' k = Some l \<and> lb_type l = ty \<and> lb_timeframe l = tf \<and> ranking_wf (lb_entries l)"
  using updateLeaderboard_Inr [OF assms] user_scores_wf by simp

theorem leaderboard_entries_ranked_witness:
  "\<exists>db' k l. updateLeaderboard ''content'' ''alltime'' 1000 \<lparr>ps_day = 0, ps_week = 0, ps_month = 0\<rparr> (\<lambda>_. 0) fx_n1 fx_gdb
               = Inr (db', k, l)
     \<and> db_leaderboards db' k = Some l \<and> lb_type l = ''content'' \<and> lb_timeframe l = ''alltime''
     \<and> ranking_wf (lb_entries l)"
proof -
  obtain db' k l where r: "updateLeaderboard ''content'' ''alltime'' 1000 \<lparr>ps_day = 0, ps_week = 0, ps_month = 0\<rparr> (\<lambda>_. 0) fx_n1 fx_gdb
               = Inr (db', k, l)"
    by (simp add: updateLeaderboard_def find_board_def find_where_def save_leaderboard_def leaderboard_valid_def
                  leaderboard_types_def timeframes_def user_scores_def ranked_def group_count_def matched_owners_def
                  add_counts_def int_scores_def date_filter_def oid_eval)
  show ?thesis using r leaderboard_entries_ranked [OF r] by blast
qed

lemma timeframe_cases: "tf \<in> set timeframes \<Longrightarrow> tf = ''daily'' \<or> tf = ''weekly'' \<or> tf = ''monthly'' \<or> tf = ''alltime''"
  by (simp add: timeframes_def)

text \<open>C38. A leaderboard that getLeaderboard answers has the requested type and timeframe and was updated at most 1, 6, 12 or 24 hours before the request, for a daily, weekly, monthly or all-time board.\<close>

theorem leaderboard_served_fresh:
  assumes r: "getLeaderboard ty tf now ps ct nid db = (db', (200, Data l))"
  shows "lb_type l = ty \<and> lb_timeframe l = tf
         \<and> hours_since now (lb_lastUpdated l)
             \<le> (if tf = ''daily'' then 1 else if tf = ''weekly'' then 6 else if tf = ''monthly'' then 12 else 24)"
proof -
  have tf: "tf \<in> set timeframes" using r by (auto simp: getLeaderboard_def split: if_splits)
  show ?thesis
  proof (cases "find_board ty tf db")
    case None
    then obtain k where "updateLeaderboard ty tf now ps ct nid db = Inr (db', k, l)"
      using r by (auto simp: getLeaderboard_def server_error_def split: if_splits sum.splits prod.splits)
    then show ?thesis using updateLeaderboard_Inr by (auto simp: hours_since_def)
  next
    case (Some x)
    then obtain k0 l0 where f: "find_board ty tf db = Some (k0, l0)" by (cases x) auto
    show ?thesis
    proof (cases "outdated tf now (lb_lastUpdated l0)")
      case True
      then obtain k where "updateLeaderboard ty tf now ps ct nid db = Inr (db', k, l)"
        using r f by (auto simp: getLeaderboard_def server_error_def split: if_splits sum.splits prod.splits)
      then show ?thesis using updateLeaderboard_Inr by (auto simp: hours_since_def)
    next
      case False
      then have "l = l0" using r f by (auto simp: getLeaderboard_def split: if_splits)
      then show ?thesis using False find_board_Some [OF f] timeframe_cases [OF tf]
        by (auto simp: outdated_def)
    qed
  qed
qed

theorem leaderboard_served_fresh_witness:
  "\<exists>db' l. getLeaderboard ''content'' ''alltime'' 1000 \<lparr>ps_day = 0, ps_week = 0, ps_month = 0\<rparr> (\<lambda>_. 0) fx_n1 fx_gdb
               = (db', (200, Data l))
     \<and> lb_type l = ''content'' \<and> lb_timeframe l = ''alltime'' \<and> hours_since 1000 (lb_lastUpdated l) \<le> 24"
proof -
  obtain db' l where r: "getLeaderboard ''content'' ''alltime'' 1000 \<lparr>ps_day = 0, ps_week = 0, ps_month = 0\<rparr> (\<lambda>_. 0) fx_n1 fx_gdb
               = (db', (200, Data l))"
    by (simp add: getLeaderboard_def updateLeaderboard_def find_board_def find_where_def save_leaderboard_def
                  leaderboard_valid_def leaderboard_types_def timeframes_def user_scores_def ranked_def
                  group_count_def matched_owners_def add_counts_def int_scores_def date_filter_def oid_eval)
  note f = leaderboard_served_fresh [OF r]
  have h: "hours_since 1000 (lb_lastUpdated l) \<le> 24" using conjunct2 [OF conjunct2 [OF f]] by simp
  show ?thesis using r f h by blast
qed

end
