(* ===== verification/Sharing.thy ===== *)
theory Sharing
  imports Notifications
begin

text \<open>
  The sharing service services/sharing.service.js and its router routes/share.routes.js.
  \<open>generateSharingLinks\<close> builds the content's URL and a sentence naming its title and
  author, and one link per platform with both percent-encoded by
  \<open>encodeURIComponent\<close>. \<open>recordShare\<close> notifies the owner of the content when someone
  else shares it. \<open>encodeURIComponent\<close> and \<open>decodeURIComponent\<close> are modelled from
  ECMAScript on the model's 8-bit characters: a character outside the unreserved set is
  written as the \<open>%XX\<close> escapes of its UTF-8 bytes, one byte below 128 and two from
  128 on; the decoder accepts both letter cases and rejects a malformed escape and a
  character beyond the model's range.
\<close>

section \<open>Percent-encoding\<close>

definition uri_unreserved :: "char \<Rightarrow> bool" where
  "uri_unreserved c = (c \<in> set ''ABCDEFGHIJKLMNOPQRSTUVWXYZabcdefghijklmnopqrstuvwxyz0123456789-_.!~*'()'')"

definition hex_upper :: string where
  "hex_upper = ''0123456789ABCDEF''"

definition hex_digit :: "nat \<Rightarrow> char" where
  "hex_digit d = hex_upper ! d"

definition pct :: "nat \<Rightarrow> string" where
  "pct b = [CHR ''%'', hex_digit (b div 16), hex_digit (b mod 16)]"

definition uri_encode_char :: "char \<Rightarrow> string" where
  "uri_encode_char c =
     (if uri_unreserved c then [c]
      else if of_char c < (128::nat) then pct (of_char c)
      else pct (192 + of_char c div 64) @ pct (128 + of_char c mod 64))"

definition uri_encode :: "string \<Rightarrow> string" where
  "uri_encode s = concat (map uri_encode_char s)"

definition hex_val :: "char \<Rightarrow> nat option" where
  "hex_val c = map_of (zip hex_upper [0..<16] @ zip ''abcdef'' [10..<16]) c"

definition hex_byte :: "char \<Rightarrow> char \<Rightarrow> nat option" where
  "hex_byte h1 h2 = (case (hex_val h1, hex_val h2) of (Some x, Some y) \<Rightarrow> Some (16 * x + y) | _ \<Rightarrow> None)"

text \<open>\<open>decodeURIComponent\<close>: \<open>None\<close> is the URIError.\<close>

function uri_decode :: "string \<Rightarrow> string option" where
  "uri_decode [] = Some []"
| "uri_decode (c # cs) =
     (if c \<noteq> CHR ''%'' then map_option (Cons c) (uri_decode cs)
      else (case cs of
              h1 # h2 # r \<Rightarrow>
                (case hex_byte h1 h2 of
                   None \<Rightarrow> None
                 | Some b \<Rightarrow>
                     if b < 128 then map_option (Cons (char_of b)) (uri_decode r)
                     else if 194 \<le> b \<and> b \<le> 223 then
                       (case r of
                          p # h3 # h4 # r' \<Rightarrow>
                            (case hex_byte h3 h4 of
                               Some b2 \<Rightarrow>
                                 if p = CHR ''%'' \<and> 128 \<le> b2 \<and> b2 < 192 \<and> (b - 192) * 64 + (b2 - 128) < 256
                                 then map_option (Cons (char_of ((b - 192) * 64 + (b2 - 128)))) (uri_decode r')
                                 else None
                             | None \<Rightarrow> None)
                        | _ \<Rightarrow> None)
                     else None)
            | _ \<Rightarrow> None))"
  by pat_completeness auto
termination
  by (relation "measure length") auto

section \<open>Links\<close>

definition share_platforms :: "string list" where
  "share_platforms = [''twitter'', ''facebook'', ''linkedin'', ''reddit'', ''email'']"

definition share_content_types :: "string list" where
  "share_content_types = [''post'', ''video'', ''stream'', ''code'']"

text \<open>\<open>this.baseUrl = process.env.CLIENT_URL || 'https://hybrid-platform.example.com'\<close>\<close>

definition base_url :: "string option \<Rightarrow> string" where
  "base_url env = or_default env ''https://hybrid-platform.example.com''"

text \<open>The \<open>switch (contentType)\<close>; a type outside the cases leaves \<open>path\<close> undefined,
  which the template literal prints as \<open>undefined\<close>.\<close>

definition share_path :: "string \<Rightarrow> string" where
  "share_path ct =
     (if ct = ''post'' then ''posts'' else if ct = ''video'' then ''videos''
      else if ct = ''stream'' then ''streams'' else if ct = ''code'' then ''code'' else ''undefined'')"

definition generateSharingUrl :: "string \<Rightarrow> string \<Rightarrow> string \<Rightarrow> js_exn + string" where
  "generateSharingUrl base ct cid =
     (if ct \<notin> set share_content_types then Inl (JsError ''Invalid content type'')
      else Inr (base @ ''/'' @ share_path ct @ ''/'' @ cid))"

text \<open>\<open>X.findById(contentId).populate('user', 'username')\<close>, then \<open>content.title\<close> (a post:
  its first 50 characters and an ellipsis) and \<open>content.user.username\<close>. A missing
  document is \<open>null\<close> and a missing author is a populated \<open>null\<close>: reading their
  properties throws before the \<open>if (!content)\<close> check. A code session has no
  \<open>user\<close> path.\<close>

definition author_name :: "gstore \<Rightarrow> oid \<Rightarrow> js_exn + string" where
  "author_name db u =
     (case db_users db u of
        None \<Rightarrow> Inl (TypeError ''Cannot read properties of null (reading 'username')'')
      | Some ud \<Rightarrow> Inr (u_username ud))"

definition null_read :: "string \<Rightarrow> js_exn" where
  "null_read p = TypeError (''Cannot read properties of null (reading '' @ [CHR 0x27] @ p @ [CHR 0x27] @ '')'')"

definition title_and_author :: "string \<Rightarrow> string \<Rightarrow> gstore \<Rightarrow> js_exn + string \<times> string" where
  "title_and_author ct cid db =
     (if ct = ''post'' then
        (case find_by_id (db_posts db) cid of
           Inl e \<Rightarrow> Inl e
         | Inr None \<Rightarrow> Inl (null_read ''content'')
         | Inr (Some p) \<Rightarrow>
             (case author_name db (p_user p) of
                Inl e \<Rightarrow> Inl e
              | Inr n \<Rightarrow> Inr (take 50 (p_content p) @ (if 50 < length (p_content p) then ''...'' else []), n)))
      else if ct = ''video'' then
        (case find_by_id (db_videos db) cid of
           Inl e \<Rightarrow> Inl e
         | Inr None \<Rightarrow> Inl (null_read ''title'')
         | Inr (Some v) \<Rightarrow> map_sum id (Pair (v_title v)) (author_name db (v_user v)))
      else if ct = ''stream'' then
        (case find_by_id (db_streams db) cid of
           Inl e \<Rightarrow> Inl e
         | Inr None \<Rightarrow> Inl (null_read ''title'')
         | Inr (Some s) \<Rightarrow> map_sum id (Pair (st_title s)) (author_name db (st_user s)))
      else
        (case find_by_id (db_sessions db) cid of
           Inl e \<Rightarrow> Inl e
         | Inr None \<Rightarrow> Inl (null_read ''title'')
         | Inr (Some _) \<Rightarrow> Inl (TypeError ''Cannot read properties of undefined (reading 'username')'')))"

definition generateSharingText :: "string \<Rightarrow> string \<Rightarrow> gstore \<Rightarrow> js_exn + string" where
  "generateSharingText ct cid db =
     (if ct \<notin> set share_content_types then Inl (JsError ''Invalid content type'')
      else map_sum id (\<lambda>(t, n). ''Check out \"'' @ t @ ''\" by @'' @ n @ '' on Hybrid Platform'')
             (title_and_author ct cid db))"

record share_links =
  sl_url :: string
  sl_text :: string
  sl_twitter :: string
  sl_facebook :: string
  sl_linkedin :: string
  sl_reddit :: string
  sl_email :: string

definition facebook_prefix :: string where
  "facebook_prefix = ''https://www.facebook.com/sharer/sharer.php?u=''"

definition links_of :: "string \<Rightarrow> string \<Rightarrow> share_links" where
  "links_of url text =
     \<lparr>sl_url = url, sl_text = text,
      sl_twitter = ''https://twitter.com/intent/tweet?text='' @ uri_encode text @ ''&url='' @ uri_encode url,
      sl_facebook = facebook_prefix @ uri_encode url,
      sl_linkedin = ''https://www.linkedin.com/sharing/share-offsite/?url='' @ uri_encode url,
      sl_reddit = ''https://www.reddit.com/submit?url='' @ uri_encode url @ ''&title='' @ uri_encode text,
      sl_email = ''mailto:?subject='' @ uri_encode text @ ''&body='' @ uri_encode text @ ''%0A%0A'' @ uri_encode url\<rparr>"

definition generateSharingLinks :: "string \<Rightarrow> string \<Rightarrow> string \<Rightarrow> gstore \<Rightarrow> js_exn + share_links" where
  "generateSharingLinks base ct cid db =
     (case generateSharingUrl base ct cid of
        Inl e \<Rightarrow> Inl e
      | Inr url \<Rightarrow> map_sum id (links_of url) (generateSharingText ct cid db))"

section \<open>Recording a share\<close>

text \<open>\<open>contentOwner = content.user.toString()\<close>\<close>

definition content_owner :: "string \<Rightarrow> string \<Rightarrow> gstore \<Rightarrow> js_exn + oid" where
  "content_owner ct cid db =
     (if ct = ''post'' then
        (case find_by_id (db_posts db) cid of
           Inl e \<Rightarrow> Inl e | Inr None \<Rightarrow> Inl (JsError ''Content not found'') | Inr (Some p) \<Rightarrow> Inr (p_user p))
      else if ct = ''video'' then
        (case find_by_id (db_videos db) cid of
           Inl e \<Rightarrow> Inl e | Inr None \<Rightarrow> Inl (JsError ''Content not found'') | Inr (Some v) \<Rightarrow> Inr (v_user v))
      else if ct = ''stream'' then
        (case find_by_id (db_streams db) cid of
           Inl e \<Rightarrow> Inl e | Inr None \<Rightarrow> Inl (JsError ''Content not found'') | Inr (Some s) \<Rightarrow> Inr (st_user s))
      else
        (case find_by_id (db_sessions db) cid of
           Inl e \<Rightarrow> Inl e
         | Inr None \<Rightarrow> Inl (JsError ''Content not found'')
         | Inr (Some _) \<Rightarrow> Inl (TypeError ''Cannot read properties of undefined (reading 'toString')'')))"

definition share_data :: "string \<Rightarrow> oid \<Rightarrow> string \<Rightarrow> string \<Rightarrow> string \<Rightarrow> string \<Rightarrow> notification_data" where
  "share_data base owner uid ct cid pf =
     \<lparr>nd_recipient = owner, nd_sender = Some uid, nd_type = ''share'', nd_contentType = ct,
      nd_contentId = cid, nd_contentModel = content_model ct,
      nd_message = ''Someone shared your '' @ ct @ '' on '' @ pf,
      nd_url = Some (base @ ''/'' @ share_path ct @ ''/'' @ cid)\<rparr>"

definition recordShare ::
  "string \<Rightarrow> oid \<Rightarrow> string \<Rightarrow> string \<Rightarrow> string \<Rightarrow> string \<Rightarrow> gstore \<Rightarrow> js_exn + gstore" where
  "recordShare base nid uid ct cid pf db =
     (if ct \<notin> set share_content_types then Inl (JsError ''Invalid content type'')
      else if pf \<notin> set share_platforms then Inl (JsError ''Invalid platform'')
      else (case content_owner ct cid db of
              Inl e \<Rightarrow> Inl e
            | Inr owner \<Rightarrow>
                if uid \<noteq> owner then createNotification nid (share_data base owner uid ct cid pf) db
                else Inr db))"

section \<open>Routes\<close>

text \<open>\<open>res.status(500).json({ message: err.message || 'Server error' })\<close>\<close>

definition error_reply :: "js_exn \<Rightarrow> 'd reply" where
  "error_reply e = (500, Msg (if exn_message e = [] then ''Server error'' else exn_message e))"

definition share_links_route :: "string \<Rightarrow> string \<Rightarrow> string \<Rightarrow> gstore \<Rightarrow> share_links reply" where
  "share_links_route base ct cid db =
     (case generateSharingLinks base ct cid db of Inl e \<Rightarrow> error_reply e | Inr l \<Rightarrow> (200, Data l))"

definition share_record_route ::
  "string \<Rightarrow> oid \<Rightarrow> req_user \<Rightarrow> string \<Rightarrow> string \<Rightarrow> string \<Rightarrow> gstore \<Rightarrow> gstore \<times> bool reply" where
  "share_record_route base nid me ct cid pf db =
     (case recordShare base nid (ru_id me) ct cid pf db of
        Inl e \<Rightarrow> (db, error_reply e)
      | Inr db' \<Rightarrow> (db', (200, Data True)))"


section \<open>Properties\<close>

lemma hex_val_digit: "d < 16 \<Longrightarrow> hex_val (hex_digit d) = Some d"
  by (auto simp: hex_digit_def hex_upper_def hex_val_def less_Suc_eq numeral_eq_Suc)

lemma hex_byte_pct: "b < 256 \<Longrightarrow> hex_byte (hex_digit (b div 16)) (hex_digit (b mod 16)) = Some b"
proof -
  assume "b < 256"
  then have "b div 16 < 16" by auto
  then show ?thesis by (simp add: hex_byte_def hex_val_digit)
qed

lemma pct_percent: "pct b = CHR ''%'' # hex_digit (b div 16) # hex_digit (b mod 16) # []"
  by (simp add: pct_def)

lemma uri_decode_encode_char: "uri_decode (uri_encode_char c @ rest) = map_option (Cons c) (uri_decode rest)"
proof -
  let ?n = "of_char c :: nat"
  have n: "?n < 256" by (rule nat_of_char_less_256)
  show ?thesis
  proof (cases "uri_unreserved c")
    case True
    then have "c \<noteq> CHR ''%''" by (auto simp: uri_unreserved_def)
    with True show ?thesis by (simp add: uri_encode_char_def)
  next
    case u: False
    show ?thesis
    proof (cases "?n < 128")
      case True
      then show ?thesis using u hex_byte_pct [OF n] by (simp add: uri_encode_char_def pct_percent)
    next
      case False
      have n': "?n \<le> 255" using n by linarith
      have hi: "?n div 64 \<le> 255 div 64" using n' by (rule div_le_mono)
      have "128 \<le> ?n" using False by linarith
      then have lo: "128 div 64 \<le> ?n div 64" by (rule div_le_mono)
      have lead: "192 + ?n div 64 < 256" and cont: "128 + ?n mod 64 < 256" using hi by auto
      have l2: "194 \<le> 192 + ?n div 64 \<and> 192 + ?n div 64 \<le> 223" using hi lo by auto
      have c2: "128 \<le> 128 + ?n mod 64 \<and> 128 + ?n mod 64 < 192" by auto
      have sum: "(192 + ?n div 64 - 192) * 64 + (128 + ?n mod 64 - 128) = ?n" by simp
      show ?thesis
        using u False hex_byte_pct [OF lead] hex_byte_pct [OF cont] l2 c2 sum n
        by (simp add: uri_encode_char_def pct_percent)
    qed
  qed
qed

theorem uri_roundtrip: "uri_decode (uri_encode s) = Some s"
  by (induction s) (simp_all add: uri_encode_def uri_decode_encode_char [where rest = "concat _", simplified])



lemma share_notification_invalid: "\<not> notification_valid (new_notification (share_data base owner uid ct cid pf))"
  by (simp add: notification_valid_def new_notification_def share_data_def notification_types_def)

text \<open>C40. Recording a share of someone else's post, video or stream always fails: the notification it creates has type share, which the Notification schema does not allow, so the route answers 500 with the validation message and stores nothing.\<close>

theorem share_notification_rejected:
  assumes ct: "ct \<in> set [''post'', ''video'', ''stream'']" and pf: "pf \<in> set share_platforms"
    and o: "content_owner ct cid db = Inr owner" and ne: "ru_id me \<noteq> owner"
  shows "share_record_route base nid me ct cid pf db = (db, (500, Msg ''Notification validation failed''))"
proof -
  have "recordShare base nid (ru_id me) ct cid pf db = Inl (ValidationError ''Notification validation failed'')"
    using ct pf o ne share_notification_invalid [of base owner "ru_id me" ct cid pf]
    by (auto simp: recordShare_def share_content_types_def createNotification_def save_notification_def)
  then show ?thesis by (simp add: share_record_route_def error_reply_def)
qed

theorem share_notification_rejected_witness:
  "''post'' \<in> set [''post'', ''video'', ''stream''] \<and> ''twitter'' \<in> set share_platforms
   \<and> content_owner ''post'' fx_post fx_gdb = Inr fx_alice \<and> ru_id fx_rbob \<noteq> fx_alice
   \<and> share_record_route (base_url None) fx_n1 fx_rbob ''post'' fx_post ''twitter'' fx_gdb
       = (fx_gdb, (500, Msg ''Notification validation failed''))"
proof -
  have o: "content_owner ''post'' fx_post fx_gdb = Inr fx_alice"
    by (simp add: content_owner_def oid_eval find_by_id_def)
  have p: "''twitter'' \<in> set share_platforms" by (simp add: share_platforms_def)
  show ?thesis using o p share_notification_rejected [OF _ p o, of fx_rbob] by simp
qed

lemma share_record_notifs_wf: "notifs_wf db \<Longrightarrow> notifs_wf (fst (share_record_route base nid me ct cid pf db))"
  unfolding share_record_route_def recordShare_def
  by (auto dest: notifs_wf_create split: sum.splits if_splits)

end
