(* ===== verification/Spec2Isabelle.thy ===== *)
theory Spec2Isabelle
  imports Scenarios Timers StreamApi CodeController Auth Videos Badges Leaderboards Sharing
begin

text \<open>
  \<^bold>\<open>A verification model of hybrid-platform's backend.\<close>

  \<^medskip>\<^bold>\<open>The program.\<close> The backend (src/hybrid-platform/backend/src) is an Express and
  Mongoose server with a Socket.IO layer. Two services share one Socket.IO server:
  services/socket.service.js authenticates every connection (a JWT in the handshake) and
  handles stream rooms, chat, collaborative code editing and polls;
  services/webrtc.service.js keeps an in-memory registry of stream broadcasters
  (\<open>this.streams\<close>, a Map) and relays WebRTC signalling. Beside it, Express routers
  (routes/*.routes.js) send REST requests through the \<open>auth\<close> middleware and
  express-validator checks to the controllers (controllers/*.controller.js), which read
  and write the Mongoose models (models/*.model.js). The socket handlers and the
  controllers share the Stream and CodeSession collections.

  \<^medskip>\<^bold>\<open>The theories.\<close>
  \<^item> \<open>Prelude\<close>: ids as strings, the array idioms of the models
    (\<open>push_unique\<close>, \<open>pull_all\<close>) and a JavaScript Map as an association list
    (\<open>jsmap_set\<close>, \<open>jsmap_delete\<close>), with their lemmas and the collections
    \<open>model_defs\<close> and \<open>inv_intros\<close>.
  \<^item> \<open>JsCore\<close>: JavaScript values, truthiness, \<open>trim\<close>, \<open>split\<close>, \<open>parseInt\<close>, number
    printing, and the member calls (\<open>toString\<close>, \<open>toLowerCase\<close>, \<open>includes\<close>,
    \<open>some\<close>) that throw on \<open>undefined\<close>.
  \<^item> \<open>Documents\<close>: the Stream, CodeSession and User schemas as records and their
    instance methods (\<open>addViewer\<close>, \<open>startStream\<close>, \<open>endStream\<close>, \<open>updateCode\<close> with
    its version bump, ...), stream well-formedness, and \<open>cs_field\<close>, a stored session
    read as a JavaScript object under a strict schema.
  \<^item> \<open>Store\<close>: the collections, \<open>findById\<close> (a malformed id is a CastError before any
    query) and \<open>db_wf\<close>, every stored stream well-formed.
  \<^item> \<open>Rooms\<close>, \<open>Registry\<close>, \<open>AuthGate\<close>, \<open>Server\<close>: Socket.IO's rooms and emits
    (modelled from the library's documented behaviour), the broadcaster registry with its
    abstract specification (a partial map), the connection middleware over any JWT
    verifier, and the shared state \<open>sys\<close> (store, transport, registry, pending timers,
    clock) with \<open>run_guarded\<close> for each handler's try/catch and Node's timers, whose
    delay is clamped to \<open>[1, 2^31 - 1]\<close> ms.
  \<^item> \<open>SocketService\<close> and \<open>WebRTCService\<close>: one definition per socket handler, named
    after its event (\<open>on_stream_join\<close> for \<open>'stream:join'\<close>, ...), its guards in the
    source's order; \<open>Router\<close>: \<open>dispatch\<close> and the server as the step relation
    \<open>server_step\<close> (connect, one event of a live socket, time passing) with its
    reachable states.
  \<^item> \<open>Invariants\<close>: \<open>sys_inv\<close> (live rooms, socket-id rooms private, code rooms empty,
    registry entries valid, well-formed streams) proved for every reachable state by
    rule induction, one preservation lemma per handler; \<open>Timers\<close>: events never move
    the clock or cancel a timer, and a tick past the due time fires it.
  \<^item> \<open>Http\<close>: replies, the controllers' try/catch, schema validation on save, queries;
    \<open>StreamController\<close> and \<open>CodeController\<close>: one definition per exported controller of
    stream.controller.js and code.controller.js.
  \<^item> \<open>Routes\<close>: the eleven routers as data, Express's first-match selection, the
    validators, and which routes can ever be selected; \<open>StreamApi\<close>: a request to
    \<open>/api/streams\<close> end to end (router, \<open>auth\<close>, validation, controller).
  \<^item> \<open>Users\<close> and \<open>Auth\<close>: user.controller.js (follow, unfollow, the follower
    lists, profiles, search) over the User methods with their delta saves, the relation
    \<open>users_wf\<close> (following and followers mirror each other), and auth.controller.js
    (register, login, current user, logout) with the schema's trim and lowercase
    setters; bcrypt, jwt and new document ids are parameters.
  \<^item> \<open>Content\<close>: the Post, Comment and Video schemas as records of the extended store
    \<open>cstore\<close>, their validators, virtuals, instance methods and statics
    (\<open>findByTag\<close>, \<open>findTrending\<close>), and \<open>paginate\<close>, the page/limit/skip answer of the
    list controllers. \<open>Posts\<close>, \<open>Comments\<close>, \<open>Videos\<close>: one definition per exported
    controller of post.controller.js, comment.controller.js and video.controller.js,
    the content object of a comment being a Post, Video, Stream or CodeSession
    (\<open>content_obj\<close>), a missing model method a caught TypeError.
  \<^item> \<open>Gamification\<close>: the Notification, Badge and Leaderboard schemas as records of
    the store \<open>gstore\<close> (a further extension), their validators and saves, the unique
    badge name included. \<open>Notifications\<close>: models/notification.model.js and
    notification.controller.js, with \<open>notifs_wf\<close>, every stored notification valid.
    \<open>Badges\<close>: \<open>Badge.checkQualification\<close> with JavaScript's \<open>ToNumber\<close> comparison
    and badge.controller.js; the \<open>for ... of\<close> loop of \<open>checkAllBadges\<close> is a
    \<open>while_option\<close> over the iterator index (\<open>award_loop\<close>). \<open>Leaderboards\<close>:
    \<open>Leaderboard.updateLeaderboard\<close> for the four types and leaderboard.controller.js.
    \<open>Sharing\<close>: services/sharing.service.js and routes/share.routes.js, with
    \<open>encodeURIComponent\<close> and \<open>decodeURIComponent\<close> modelled from ECMAScript.
  \<^item> \<open>Fixtures\<close> and \<open>Scenarios\<close>: concrete ids, documents and reachable states used
    by the witnesses.

  \<^medskip>\<^bold>\<open>What the lemmas show.\<close> For the socket layer: at most one registry entry per
  stream, entries name live sockets and existing streams, last start wins, a
  broadcaster's disconnect ends its broadcasts once each, signals reach only their
  target, code changes reach nobody but their sender (no handler joins a code room),
  invalid chat, unauthorised code changes and joins without a broadcaster only answer
  the sender, a poll's end is delivered after its duration whatever happens meanwhile,
  and the poll timer's clamp. For the REST layer: the stream controllers keep streams
  well-formed and only the owner changes a stream, the listings' contents and order,
  an ended stream can be restarted, a blank title gets a 500, code sessions are linked
  to their stream, six routes are shadowed, writes through \<open>/api/streams\<close> need an
  authenticated owner, the code-session API fails on every stored session, and
  \<open>executeCode\<close> leaks its temporary directory on an early return. The registry
  refines its abstract map along any sequence of register and remove operations. For
  users and auth: follow keeps followers and following mirrored, a case variant of the
  caller's own id lets a user follow itself, updateProfile answers the password hash,
  register then login answers the same token, and trimmed fields turn a 400 into a
  500. For posts, comments and videos: like then unlike restores the store, the feed
  holds only followed authors, trending posts are ranked and bounded, the integer
  video score orders like the aggregation's, deleting a parent comment leaves dangling
  reply ids, a comment on a code session is stored and answered 500, and createVideo,
  getVideoById and updateVideo break on fields the Video schema does not declare. For
  the engagement features: every operation that writes notifications keeps them valid,
  the loop of \<open>checkAllBadges\<close> terminates, a badge is awarded once with its points
  once, \<open>checkAllBadges\<close> is not idempotent (a concrete run), leaderboards rank their
  entries 1, 2, ... by non-increasing score with at most 100 entries, a served
  leaderboard is at most 1, 6, 12 or 24 hours old, the Facebook link decodes back to
  the content URL (percent-encoding round trip), and recording a share of another
  user's content always fails on the notification's type.

  \<^medskip>\<^bold>\<open>Bounds and choices.\<close> \<open>Math.random()\<close> draws are a function \<open>rnd\<close> with
  values below 1000 (the handlers floor \<open>random() * 1000\<close>); the clock is a natural
  number of milliseconds; no loop of the modelled code is unbounded, so no fuel is
  needed (the disconnect loop is structural recursion on the registry). The loop of
  \<open>checkAllBadges\<close> is kept as \<open>while_option\<close> and proved to stop (the iterator index
  grows or an error ends it); \<open>uri_decode\<close> is a \<open>function\<close> whose termination is by
  the length of its input. The start of the day, week and month and each document's
  \<open>createdAt\<close> are inputs of the leaderboard model (Date arithmetic in local time).

  \<^medskip>\<^bold>\<open>What is not modelled.\<close> A handler runs as one atomic step: the interleaving of
  handlers at their \<open>await\<close> points is not modelled yet. Writes of the socket layer
  succeed; REST writes run the schema validators. The auth and admin middleware files
  are not in the repository; the authenticated user is an input. \<open>populate\<close> only
  shapes answers. getTemplates answers a constant; getRecommendedVideos queries watch
  history fields no schema declares. MongoDB's \<open>$group\<close> returns groups in an
  unspecified order; the model takes first appearance. The media service (file
  system and uploads), the seeding script and the React frontend (UI and browser
  APIs) are not modelled (see PROJECT.json). MongoDB's sort on an array field is modelled by its largest
  element, and \<open>strictQuery\<close> is a parameter of getVideoComments. Numbers are integers; strings are byte
  strings; request body fields are strings or absent.
\<close>

section \<open>Properties of the whole server\<close>





text \<open>C4. Disconnecting a broadcaster ends its broadcasts: in a reachable state, when the
  socket registered as broadcaster of stream \<open>k\<close> disconnects, the registry no longer
  has an entry for \<open>k\<close>, and exactly one \<open>webrtc:broadcast_ended\<close> for \<open>k\<close> is
  emitted (spec section 8, fifth property).\<close>

theorem disconnect_ends_broadcast:
  assumes "db_wf db0" and "reachable verify db0 t0 s"
    and "io_conns (sys_io s) c = Some (u, ud)"
    and "lookup_broadcaster k (sys_reg s) = Some i" and "bi_socketId i = c"
  shows "lookup_broadcaster k (sys_reg (dispatch rnd c InDisconnect s)) = None
       \<and> length (filter (\<lambda>d. snd d = EvBroadcastEnded k)
            (drop (length (io_outbox (sys_io s))) (io_outbox (sys_io (dispatch rnd c InDisconnect s))))) = 1"
proof -
  have inv: "sys_inv s" using assms(1,2) by (rule reachable_sys_inv)
  let ?ks = "streams_of_socket c (sys_reg s)"
  have eff: "sys_reg (dispatch rnd c InDisconnect s) = filter (\<lambda>e. fst e \<notin> set ?ks) (sys_reg s)
         \<and> io_outbox (sys_io (dispatch rnd c InDisconnect s)) =
           io_outbox (sys_io s) @
             map (\<lambda>k. (io_rooms (sys_io s) (stream_room k) - {c}, EvBroadcastEnded k)) ?ks"
    using inv assms(3) by (rule dispatch_disconnect)
  have "(k, i) \<in> set (sys_reg s)"
    using assms(4) by (simp add: lookup_broadcaster_def map_of_SomeD)
  then have kin: "k \<in> set ?ks"
    using assms(5) by (force simp: streams_of_socket_def)
  have "registry_wf (sys_reg s)" using inv by (simp add: sys_inv_def)
  then have dks: "distinct ?ks"
    by (simp add: registry_wf_def streams_of_socket_def distinct_map_filter)
  have "lookup_broadcaster k (filter (\<lambda>e. fst e \<notin> set ?ks) (sys_reg s)) = None"
    using kin by (auto simp: lookup_broadcaster_def map_of_eq_None_iff)
  moreover have "length (filter (\<lambda>d. snd d = EvBroadcastEnded k)
      (map (\<lambda>k. (io_rooms (sys_io s) (stream_room k) - {c}, EvBroadcastEnded k)) ?ks)) = 1"
    using dks kin by (simp add: filter_map comp_def distinct_filter_eq_length)
  ultimately show ?thesis using eff by simp
qed

theorem disconnect_ends_broadcast_witness:
  "db_wf fx_db \<and> reachable fx_verify fx_db 1000 fx_S2
   \<and> io_conns (sys_io fx_S2) fx_c1 = Some (fx_alice, fx_user ''alice'')
   \<and> lookup_broadcaster fx_sid (sys_reg fx_S2) = Some \<lparr>bi_broadcasterId = fx_alice, bi_socketId = fx_c1\<rparr>
   \<and> bi_socketId \<lparr>bi_broadcasterId = fx_alice, bi_socketId = fx_c1\<rparr> = fx_c1
   \<and> lookup_broadcaster fx_sid (sys_reg (dispatch fx_rnd fx_c1 InDisconnect fx_S2)) = None
   \<and> length (filter (\<lambda>d. snd d = EvBroadcastEnded fx_sid)
        (drop (length (io_outbox (sys_io fx_S2)))
          (io_outbox (sys_io (dispatch fx_rnd fx_c1 InDisconnect fx_S2))))) = 1"
proof -
  have l: "lookup_broadcaster fx_sid (sys_reg fx_S2) = Some \<lparr>bi_broadcasterId = fx_alice, bi_socketId = fx_c1\<rparr>"
    by (simp add: fx_S2_reg lookup_broadcaster_def)
  show ?thesis
    using disconnect_ends_broadcast [OF fx_db_wf fx_reach_S2 fx_S2_conns l, of fx_rnd] fx_db_wf
      fx_reach_S2 fx_S2_conns l
    by simp
qed

text \<open>C5. Signalling reaches exactly its target: in a reachable state, a
  \<open>webrtc:signal\<close> addressed to a socket id is delivered to that socket alone when it
  is connected, and to nobody otherwise; the sender gets no notice (spec section 4.4,
  and section 8, sixth property).\<close>

theorem signal_reaches_only_target:
  assumes "db_wf db0" and "reachable verify db0 t0 s"
    and "io_conns (sys_io s) c = Some (u, ud)" and "sock_id_ok target"
  shows "io_outbox (sys_io (dispatch rnd c (InSignal sv sig target) s)) =
           io_outbox (sys_io s) @
             [(if target \<in> dom (io_conns (sys_io s)) then {target} else {}, EvSignal sv sig c u)]"
proof -
  have inv: "sys_inv s" using assms(1,2) by (rule reachable_sys_inv)
  have sub: "io_rooms (sys_io s) target \<subseteq> dom (io_conns (sys_io s)) \<inter> {target}"
    using inv assms(4) by (auto simp: sys_inv_def io_wf_def)
  have "target \<in> dom (io_conns (sys_io s)) \<Longrightarrow> target \<in> io_rooms (sys_io s) target"
    using inv by (auto simp: sys_inv_def)
  with sub have "io_rooms (sys_io s) target = (if target \<in> dom (io_conns (sys_io s)) then {target} else {})"
    by auto
  with assms(3) show ?thesis
    by (simp add: dispatch_def on_signal_def)
qed

theorem signal_reaches_only_target_witness:
  "db_wf fx_db \<and> reachable fx_verify fx_db 1000 fx_S2
   \<and> io_conns (sys_io fx_S2) fx_c1 = Some (fx_alice, fx_user ''alice'') \<and> sock_id_ok fx_c2
   \<and> io_outbox (sys_io (dispatch fx_rnd fx_c1 (InSignal (JStr fx_sid) JObj fx_c2) fx_S2)) =
        io_outbox (sys_io fx_S2) @
          [(if fx_c2 \<in> dom (io_conns (sys_io fx_S2)) then {fx_c2} else {},
            EvSignal (JStr fx_sid) JObj fx_c1 fx_alice)]"
  using signal_reaches_only_target [OF fx_db_wf fx_reach_S2 fx_S2_conns fx_sock_ids(2)]
    fx_db_wf fx_reach_S2 fx_S2_conns fx_sock_ids(2)
  by simp

text \<open>C6. Code changes reach no collaborator: no handler ever joins a socket to a
  \<open>code:\<close> room, so in a reachable state the \<open>code:change\<close> broadcast of
  socket.service.js reaches nobody; every delivery a code change causes is an error
  message to its own sender (spec section 4.2 says collaborators in the session's room
  receive it).\<close>

theorem code_change_reaches_only_sender:
  assumes "db_wf db0" and "reachable verify db0 t0 s"
    and "io_conns (sys_io s) c = Some (u, ud)"
    and "(r, e) \<in> set (drop (length (io_outbox (sys_io s)))
                    (io_outbox (sys_io (dispatch rnd c (InCodeChange sess code pos save) s))))"
    and "x \<in> r"
  shows "x = c \<and> (\<exists>m. e = EvError m)"
proof -
  have inv: "sys_inv s" using assms(1,2) by (rule reachable_sys_inv)
  then have empty: "io_rooms (sys_io s) (code_room sess) = {}" by (simp add: sys_inv_def)
  show ?thesis
    using assms(3-5) empty
    by (auto simp: dispatch_def on_code_change_def run_guarded_def code_change_body_def Let_def
        split: sum.splits option.splits failure.splits if_splits)
qed

theorem code_change_reaches_only_sender_witness:
  "db_wf fx_db \<and> reachable fx_verify fx_db 1000 fx_S3
   \<and> io_conns (sys_io fx_S3) fx_c2 = Some (fx_bob, fx_user ''bob'')
   \<and> ({fx_c2}, EvError ''Not authorized to edit this code session'')
        \<in> set (drop (length (io_outbox (sys_io fx_S3)))
          (io_outbox (sys_io (dispatch fx_rnd fx_c2 (InCodeChange fx_sess ''x = 1'' JNull (JBool True)) fx_S3))))
   \<and> fx_c2 \<in> {fx_c2}
   \<and> fx_c2 = fx_c2 \<and> (\<exists>m. EvError ''Not authorized to edit this code session'' = EvError m)"
proof -
  have d: "({fx_c2}, EvError ''Not authorized to edit this code session'')
        \<in> set (drop (length (io_outbox (sys_io fx_S3)))
          (io_outbox (sys_io (dispatch fx_rnd fx_c2 (InCodeChange fx_sess ''x = 1'' JNull (JBool True)) fx_S3))))"
    using fx_S3_conns fx_S3_db
    by (simp add: dispatch_def on_code_change_def run_guarded_def code_change_body_def
        find_by_id_def valid_object_id_def is_hex_def may_edit_def)
  show ?thesis
    using code_change_reaches_only_sender [OF fx_db_wf fx_reach_S3 fx_S3_conns d] fx_db_wf fx_reach_S3
      fx_S3_conns d
    by blast
qed

text \<open>C9. A poll's end reaches its room whatever happens in between: when the owner of a
  stream creates a poll with a duration of \<open>d\<close> seconds (within Node's timer range),
  then after any sequence of events of any sockets, the creator's disconnect included,
  advancing the clock by \<open>d\<close> seconds delivers \<open>stream:poll_ended\<close> with the poll's id to
  every socket then in the stream's room (spec section 8, seventh property; section 5:
  the timer is never cancelled).\<close>

theorem poll_end_delivered:
  assumes "io_conns (sys_io s) c = Some (u, ud)"
    and "find_by_id (db_streams (sys_db s)) sid = Inr (Some st)" and "st_user st = u"
    and "js_truthy q" and "xs \<noteq> []" and "0 < d" and "d * 1000 \<le> 2 ^ 31 - 1"
  shows "(io_rooms (sys_io (run_events evs (dispatch rnd c (InPollCreate sid q (JArr xs) (Some d)) s)))
            (stream_room sid), EvPollEnded (nat_digits (sys_clock s)))
         \<in> set (io_outbox (sys_io (advance_clock (nat (d * 1000))
                (run_events evs (dispatch rnd c (InPollCreate sid q (JArr xs) (Some d)) s)))))"
proof -
  let ?s1 = "dispatch rnd c (InPollCreate sid q (JArr xs) (Some d)) s"
  let ?t = "\<lparr>tm_due = sys_clock s + nat (d * 1000), tm_room = stream_room sid,
             tm_event = EvPollEnded (nat_digits (sys_clock s))\<rparr>"
  have "node_delay (d * 1000) = nat (d * 1000)"
    using assms(6,7) by (simp add: node_delay_def timeout_max_def)
  then have "?t \<in> set (sys_timers ?s1) \<and> sys_clock ?s1 = sys_clock s"
    using poll_create_timer [OF assms(2-5), of d rnd c ud] assms(1,6) by (simp add: dispatch_def)
  then have "?t \<in> set (sys_timers (run_events evs ?s1)) \<and> sys_clock (run_events evs ?s1) = sys_clock s"
    using timer_pending [OF timers_grow_run_events] by metis
  then show ?thesis
    using advance_clock_fires [of ?t "run_events evs ?s1" "nat (d * 1000)"] by simp
qed

theorem poll_end_delivered_witness:
  "io_conns (sys_io fx_S2) fx_c1 = Some (fx_alice, fx_user ''alice'')
   \<and> find_by_id (db_streams (sys_db fx_S2)) fx_sid = Inr (Some fx_stream) \<and> st_user fx_stream = fx_alice
   \<and> js_truthy (JStr ''Tabs?'') \<and> [JStr ''yes''] \<noteq> [] \<and> (0::int) < 2 \<and> (2::int) * 1000 \<le> 2 ^ 31 - 1
   \<and> (io_rooms (sys_io (run_events [(fx_rnd, fx_c1, InDisconnect)]
          (dispatch fx_rnd fx_c1 (InPollCreate fx_sid (JStr ''Tabs?'') (JArr [JStr ''yes'']) (Some 2)) fx_S2)))
            (stream_room fx_sid), EvPollEnded (nat_digits (sys_clock fx_S2)))
       \<in> set (io_outbox (sys_io (advance_clock (nat (2 * 1000))
            (run_events [(fx_rnd, fx_c1, InDisconnect)]
              (dispatch fx_rnd fx_c1 (InPollCreate fx_sid (JStr ''Tabs?'') (JArr [JStr ''yes'']) (Some 2)) fx_S2)))))"
proof -
  have f: "find_by_id (db_streams (sys_db fx_S2)) fx_sid = Inr (Some fx_stream)"
    by (simp add: fx_S2_db find_by_id_def valid_object_id_def is_hex_def)
  have o: "st_user fx_stream = fx_alice" by (simp add: new_stream_def)
  have q: "js_truthy (JStr ''Tabs?'')" by simp
  show ?thesis
    using poll_end_delivered [OF fx_S2_conns f o q, of "[JStr ''yes'']" 2 "[(fx_rnd, fx_c1, InDisconnect)]" fx_rnd]
      fx_S2_conns f o
    by simp
qed




end
